(* ===== verification/Prelude.thy ===== *)
theory Prelude
  imports "HOL-Library.Word" "HOL-Library.Monad_Syntax"
begin

text \<open>
  Shared vocabulary of the development: the C and OCaml integer types as words, the
  collections of rewrite rules the components fill, the outcome of a C stub that may leave
  through an OCaml exception, and the scan for a free slot that every fixed slot table of
  the C code performs. Undefined behaviour of C (and a loop that does not return) is the
  value \<open>None\<close> of an option; the \<open>do\<close> notation of the option monad sequences
  reads that may be undefined.
\<close>

unbundle bit_operations_syntax

named_theorems stub_simps "definitions of stubs, unfolded together"
named_theorems table_simps "laws of slot tables"

type_synonym u8 = "8 word"
type_synonym u16 = "16 word"
type_synonym u32 = "32 word"
type_synonym u64 = "64 word"
type_synonym i32 = "32 word"   \<comment> \<open>int32_t: the same bits, read with sint\<close>
type_synonym i64 = "64 word"
type_synonym ptr = "64 word"   \<comment> \<open>uintptr_t and opaque native pointers; NULL is 0\<close>
type_synonym handle = "32 word" \<comment> \<open>opentui_native_handle; 0 is invalid\<close>
type_synonym bytes = "8 word list"

abbreviation NULL :: ptr where "NULL \<equiv> 0"
abbreviation UINT8_MAX :: int where "UINT8_MAX \<equiv> 255"
abbreviation UINT16_MAX :: u16 where "UINT16_MAX \<equiv> 65535"
abbreviation UINT32_MAX :: nat where "UINT32_MAX \<equiv> 4294967295"

definition neg32 :: "i32 \<Rightarrow> bool" where
  "neg32 x \<longleftrightarrow> sint x < 0"

definition nonpos32 :: "i32 \<Rightarrow> bool" where
  "nonpos32 x \<longleftrightarrow> sint x \<le> 0"

text \<open>
  A stub of the C code returns a value to OCaml, or leaves through the exception
  \<open>Out_of_memory\<close> raised by an OCaml allocation. State changes made before the
  exception persist, so the state is returned beside the outcome.
\<close>

datatype 'a outcome = Returns 'a | Out_of_memory

fun is_return :: "'a outcome \<Rightarrow> bool" where
  "is_return (Returns _) = True"
| "is_return Out_of_memory = False"

definition allocating :: "bool \<Rightarrow> 'a \<Rightarrow> 'a outcome" where
  "allocating oom r = (if oom then Out_of_memory else Returns r)"

lemma allocating_simps [simp]:
  "allocating True r = Out_of_memory"
  "allocating False r = Returns r"
  by (simp_all add: allocating_def)

text \<open>
  The allocation loop of the slot tables:
  \<open>for (index = i; index < cap; index++) if (!slots[index].alive) ...\<close>.
\<close>

function scan_free :: "(nat \<Rightarrow> bool) \<Rightarrow> nat \<Rightarrow> nat \<Rightarrow> nat option" where
  "scan_free busy i cap =
     (if i < cap then (if \<not> busy i then Some i else scan_free busy (Suc i) cap) else None)"
  by pat_completeness auto
termination
  by (relation "measure (\<lambda>(busy, i, cap). cap - i)") auto

declare scan_free.simps [simp del]

lemma scan_free_Some:
  "scan_free busy i cap = Some k \<Longrightarrow>
     i \<le> k \<and> k < cap \<and> \<not> busy k \<and> (\<forall>j. i \<le> j \<and> j < k \<longrightarrow> busy j)"
proof (induction busy i cap rule: scan_free.induct)
  case (1 busy i cap)
  show ?case
  proof (cases "i < cap \<and> busy i")
    case True
    with "1.prems" have "scan_free busy (Suc i) cap = Some k"
      by (simp add: scan_free.simps [of busy i cap])
    with "1.IH" True have IH: "Suc i \<le> k \<and> k < cap \<and> \<not> busy k \<and> (\<forall>j. Suc i \<le> j \<and> j < k \<longrightarrow> busy j)"
      by simp
    show ?thesis
    proof (intro conjI allI impI)
      fix j assume "i \<le> j \<and> j < k"
      with IH True show "busy j" by (cases "j = i") auto
    qed (use IH in auto)
  next
    case False
    with "1.prems" show ?thesis
      by (auto simp: scan_free.simps [of busy i cap] split: if_splits)
  qed
qed

lemma scan_free_None:
  "scan_free busy i cap = None \<longleftrightarrow> (\<forall>j. i \<le> j \<and> j < cap \<longrightarrow> busy j)"
proof (induction busy i cap rule: scan_free.induct)
  case (1 busy i cap)
  show ?case
  proof (cases "i < cap \<and> busy i")
    case True
    then have "scan_free busy i cap = scan_free busy (Suc i) cap"
      by (simp add: scan_free.simps [of busy i cap])
    moreover have "(\<forall>j. i \<le> j \<and> j < cap \<longrightarrow> busy j) \<longleftrightarrow> (\<forall>j. Suc i \<le> j \<and> j < cap \<longrightarrow> busy j)"
      using True by (metis Suc_leD Suc_leI le_neq_implies_less)
    ultimately show ?thesis using "1.IH" True by simp
  next
    case False
    then show ?thesis by (auto simp: scan_free.simps [of busy i cap])
  qed
qed

lemma scan_free_first: "i < cap \<Longrightarrow> \<not> busy i \<Longrightarrow> scan_free busy i cap = Some i"
  by (simp add: scan_free.simps)

lemma scan_free_found:
  assumes "0 < i" "i < cap" "\<not> busy i"
  obtains k where "scan_free busy 1 cap = Some k" "0 < k" "k \<le> i" "k < cap" "\<not> busy k"
proof (cases "scan_free busy 1 cap")
  case None
  with assms show ?thesis by (auto simp: scan_free_None)
next
  case (Some k)
  have k: "1 \<le> k \<and> k < cap \<and> \<not> busy k \<and> (\<forall>j. 1 \<le> j \<and> j < k \<longrightarrow> busy j)"
    using scan_free_Some [OF Some] .
  have "k \<le> i"
  proof (rule ccontr)
    assume "\<not> k \<le> i"
    with assms k show False by auto
  qed
  with Some k show ?thesis by (intro that) auto
qed

section \<open>Words\<close>

lemma unat_of_nat_32: "n < 4294967296 \<Longrightarrow> unat (of_nat n :: 32 word) = n"
  by (simp add: unat_of_nat)

lemma unat_32_less: "unat (x :: 32 word) < 4294967296"
  using unsigned_less [of x, where ?'a = nat] by simp

lemma unat_16_less: "unat (x :: 16 word) < 65536"
  using unsigned_less [of x, where ?'a = nat] by simp

lemma unat_8_less: "unat (x :: 8 word) < 256"
  using unsigned_less [of x, where ?'a = nat] by simp

lemma unat_ucast_32_64 [simp]: "unat (ucast (x :: 32 word) :: 64 word) = unat x"
  using unat_32_less [of x] by (simp add: unsigned_ucast_eq take_bit_nat_eq_self)

lemma unat_nonneg: "\<not> neg32 x \<Longrightarrow> int (unat x) = sint x"
proof -
  assume "\<not> neg32 x"
  then have *: "\<not> sint x < 0" by (simp add: neg32_def)
  have 0: "sint x = (uint x + 2147483648) mod 4294967296 - 2147483648"
    by (simp add: sint_uint signed_take_bit_eq_take_bit_shift take_bit_eq_mod)
  have b: "0 \<le> uint x" "uint x < 4294967296" using unsigned_less [of x, where ?'a = int] by simp_all
  have "uint x = sint x"
  proof (cases "uint x < 2147483648")
    case True
    then have "(uint x + 2147483648) mod 4294967296 = uint x + 2147483648" using b by (intro mod_pos_pos_trivial) auto
    then show ?thesis using 0 by simp
  next
    case False
    then have "(uint x + 2147483648 - 4294967296) mod 4294967296 = uint x + 2147483648 - 4294967296"
      using b by (intro mod_pos_pos_trivial) auto
    then have "(uint x + 2147483648) mod 4294967296 = uint x - 2147483648"
      by (simp only: minus_mod_self2)
    then show ?thesis using 0 * b by simp
  qed
  then show ?thesis by simp
qed

lemma unat_small: "\<not> sint x < 0 \<Longrightarrow> \<not> int n < sint x \<Longrightarrow> unat (x :: i32) \<le> n"
  using unat_nonneg [of x] unfolding neg32_def by linarith

lemma case_sum_eq_Some:
  "(case x of Inl a \<Rightarrow> f a | Inr b \<Rightarrow> g b) = Some y \<longleftrightarrow>
     (\<exists>a. x = Inl a \<and> f a = Some y) \<or> (\<exists>b. x = Inr b \<and> g b = Some y)"
  by (cases x) auto

lemma case_option_eq_Some:
  "(case x of None \<Rightarrow> a | Some y \<Rightarrow> f y) = Some z \<longleftrightarrow>
     (x = None \<and> a = Some z) \<or> (\<exists>y. x = Some y \<and> f y = Some z)"
  by (cases x) auto

lemma case_outcome_eq_Some:
  "(case x of Returns y \<Rightarrow> f y | Out_of_memory \<Rightarrow> a) = Some z \<longleftrightarrow>
     (x = Out_of_memory \<and> a = Some z) \<or> (\<exists>y. x = Returns y \<and> f y = Some z)"
  by (cases x) auto

section \<open>Loops over a table\<close>

text \<open>A loop that visits each slot once and rewrites the slots that satisfy a test.\<close>

lemma fold_pointwise:
  assumes "distinct xs"
  shows "fold (\<lambda>i t. if P (t i) then t(i := g (t i)) else t) xs t j =
    (if j \<in> set xs \<and> P (t j) then g (t j) else t j)"
  using assms by (induction xs arbitrary: t) auto

end
