(* ===== verification/Slot_Table.thy ===== *)
theory Slot_Table
  imports Prelude
begin

text \<open>
  Generation-checked tokens. The C files keep native pointers in static tables of slots and
  hand OCaml a 32-bit token: the slot's index in the low 16 bits and the slot's generation
  in the high 16 bits (\<open>make_token\<close> and its readers in span_feed_stubs.c; the copies in
  yoga_stubs.c are modelled in the theory of the Yoga nodes). The locale \<open>slot_table\<close>
  is the contract of such a table; its lemmas are the facts the components need about
  fresh, live and stale tokens.
\<close>

section \<open>Tokens\<close>

definition make_token :: "u32 \<Rightarrow> u16 \<Rightarrow> u32" where
  "make_token index generation = push_bit 16 (ucast generation) OR index"

definition token_index :: "u32 \<Rightarrow> u32" where
  "token_index token = token AND 0xffff"

definition token_generation :: "u32 \<Rightarrow> u16" where
  "token_generation token = ucast (drop_bit 16 token)"

definition next_generation :: "u16 \<Rightarrow> u16" where
  "next_generation generation = (if generation = UINT16_MAX then 1 else generation + 1)"

text \<open>The generation an allocation gives a slot:
  \<open>slot->generation == 0 ? 1 : next_generation(slot->generation)\<close>.\<close>

definition fresh_generation :: "u16 \<Rightarrow> u16" where
  "fresh_generation generation = (if generation = 0 then 1 else next_generation generation)"

lemma mask16: "(0xffff :: 32 word) = mask 16"
  by (simp add: mask_eq_exp_minus_1)

lemma token_index_make:
  assumes "i < 0x10000" shows "token_index (make_token i g) = i"
proof -
  have "i AND mask 16 = i" using assms by (simp add: less_mask_eq)
  then show ?thesis
    unfolding token_index_def make_token_def mask16
    by (simp add: bit.conj_disj_distrib2) (auto intro!: bit_word_eqI simp: bit_simps)
qed

lemma token_generation_make:
  assumes "i < 0x10000" shows "token_generation (make_token i g) = g"
proof -
  have "i AND mask 16 = i" using assms by (simp add: less_mask_eq)
  then have b: "\<And>n. bit i n \<Longrightarrow> n < 16" by (metis bit_and_iff bit_mask_iff)
  show ?thesis unfolding token_generation_def make_token_def
    by (rule bit_word_eqI) (auto simp: bit_simps dest: b)
qed

lemma make_token_parts: "make_token (token_index t) (token_generation t) = t"
  unfolding token_generation_def token_index_def make_token_def mask16
  by (rule bit_word_eqI) (auto simp: bit_simps)

lemma token_index_less: "token_index t < 0x10000"
  unfolding token_index_def mask16 using and_mask_less' [of 16 t] by simp

lemma unat_token_index: "unat (token_index t) < 65536"
  using token_index_less [of t] by (simp add: word_less_nat_alt)

text \<open>The slot index of a token as an array index.\<close>

abbreviation slot_of :: "u32 \<Rightarrow> nat" where
  "slot_of token \<equiv> unat (token_index token)"

lemma slot_of_make: "k < 65536 \<Longrightarrow> slot_of (make_token (of_nat k) g) = k"
  by (subst token_index_make) (simp_all add: word_less_nat_alt unat_of_nat_32)

lemma generation_of_make: "k < 65536 \<Longrightarrow> token_generation (make_token (of_nat k) g) = g"
  by (rule token_generation_make) (simp add: word_less_nat_alt unat_of_nat_32)

lemma make_token_slot_of: "make_token (of_nat (slot_of t)) (token_generation t) = t"
  by (simp add: make_token_parts)

lemma token_eqI:
  "slot_of t = slot_of t' \<Longrightarrow> token_generation t = token_generation t' \<Longrightarrow> t = t'"
  by (metis make_token_slot_of)

lemma slot_of_0 [simp]: "slot_of 0 = 0"
  by (simp add: token_index_def)

lemma slot_nonzero_token: "slot_of t \<noteq> 0 \<Longrightarrow> t \<noteq> 0"
  by auto

section \<open>Generations\<close>

lemma fresh_generation_unat:
  "g \<noteq> 0 \<Longrightarrow> unat (fresh_generation g) = unat g mod 65535 + 1"
proof (cases "g = UINT16_MAX")
  case True
  then show ?thesis by (simp add: fresh_generation_def next_generation_def)
next
  case False
  assume "g \<noteq> 0"
  from False have "unat g \<noteq> 65535"
    using word_unat_eq_iff [of g 65535] by simp
  with unat_16_less [of g] have "unat g < 65535" by simp
  then show ?thesis using False \<open>g \<noteq> 0\<close>
    by (simp add: fresh_generation_def next_generation_def unat_word_ariths)
qed

lemma fresh_generation_nonzero [simp]: "fresh_generation g \<noteq> 0"
proof (cases "g = 0")
  case False
  then have "unat (fresh_generation g) \<noteq> 0" by (simp add: fresh_generation_unat)
  then show ?thesis by auto
qed (simp add: fresh_generation_def)

lemma fresh_generation_iter:
  assumes "g \<noteq> 0"
  shows "unat ((fresh_generation ^^ n) g) = (unat g - 1 + n) mod 65535 + 1"
proof (induction n)
  case 0
  have "unat g < 65536" by (rule unat_16_less)
  moreover have "0 < unat g" using assms by (simp add: unat_gt_0)
  ultimately show ?case by simp
next
  case (Suc n)
  let ?h = "(fresh_generation ^^ n) g"
  have "?h \<noteq> 0" using Suc.IH by auto
  then have "unat (fresh_generation ?h) = unat ?h mod 65535 + 1"
    by (rule fresh_generation_unat)
  then show ?case using Suc.IH by (simp add: mod_Suc_eq)
qed

text \<open>A slot's generation comes back after exactly 65535 allocations and not earlier.\<close>

lemma fresh_generation_period:
  assumes "g \<noteq> 0"
  shows "(fresh_generation ^^ n) g = g \<longleftrightarrow> 65535 dvd n"
proof -
  have g: "0 < unat g" "unat g < 65536"
    using assms unat_16_less [of g] by (simp_all add: unat_gt_0)
  have "(fresh_generation ^^ n) g = g \<longleftrightarrow> (unat g - 1 + n) mod 65535 + 1 = unat g"
    using fresh_generation_iter [OF assms, of n] by (metis word_unat_eq_iff)
  also have "\<dots> \<longleftrightarrow> (unat g - 1 + n) mod 65535 = (unat g - 1) mod 65535"
    using g by auto
  also have "\<dots> \<longleftrightarrow> 65535 dvd n"
    using mod_eq_dvd_iff_nat [of "unat g - 1" "unat g - 1 + n" 65535] by auto
  finally show ?thesis .
qed

section \<open>The contract of a slot table\<close>

text \<open>
  A table is a function from slot indices; \<open>cap\<close> is the length of the C array, whose
  slot 0 is never used. \<open>resolve\<close> is the lookup by token (the index of the slot, or
  None for the NULL of the C code), \<open>alloc\<close> returns the token (0 when every slot is
  live), the slot it wrote and the new table, \<open>release\<close> frees a slot.
\<close>

locale slot_table =
  fixes cap :: nat
    and alive :: "'s \<Rightarrow> bool"
    and gen :: "'s \<Rightarrow> u16"
    and resolve :: "(nat \<Rightarrow> 's) \<Rightarrow> u32 \<Rightarrow> nat option"
    and alloc :: "'i \<Rightarrow> (nat \<Rightarrow> 's) \<Rightarrow> u32 \<times> nat \<times> (nat \<Rightarrow> 's)"
    and release :: "nat \<Rightarrow> (nat \<Rightarrow> 's) \<Rightarrow> (nat \<Rightarrow> 's)"
  assumes cap_le: "cap \<le> 65536"
    and resolve_iff: "resolve t tok = Some i \<longleftrightarrow>
      i = slot_of tok \<and> i \<noteq> 0 \<and> i < cap \<and> alive (t i) \<and> gen (t i) = token_generation tok"
    and alloc_full: "(\<And>i. 0 < i \<Longrightarrow> i < cap \<Longrightarrow> alive (t i)) \<Longrightarrow> alloc x t = (0, 0, t)"
    and alloc_free: "0 < i \<Longrightarrow> i < cap \<Longrightarrow> \<not> alive (t i) \<Longrightarrow>
      \<exists>k s. 0 < k \<and> k \<le> i \<and> \<not> alive (t k) \<and> alive s \<and> gen s = fresh_generation (gen (t k))
        \<and> alloc x t = (make_token (of_nat k) (gen s), k, t(k := s))"
    and release_dead: "\<not> alive (release i t i)"
    and release_gen: "gen (release i t i) = gen (t i)"
    and release_other: "j \<noteq> i \<Longrightarrow> release i t j = t j"
begin

lemma resolve_slot: "resolve t tok = Some i \<Longrightarrow> i = slot_of tok \<and> 0 < i \<and> i < cap"
  by (simp add: resolve_iff)

lemma resolve_inj: "resolve t tok = Some i \<Longrightarrow> resolve t tok' = Some i \<Longrightarrow> tok = tok'"
  by (auto simp: resolve_iff intro: token_eqI)

lemma resolve_nonzero: "resolve t tok = Some i \<Longrightarrow> tok \<noteq> 0"
  by (auto simp: resolve_iff)

lemma resolve_alive:
  assumes "0 < i" "i < cap" "alive (t i)"
  shows "resolve t (make_token (of_nat i) (gen (t i))) = Some i"
  using assms cap_le by (simp add: resolve_iff slot_of_make generation_of_make)

lemma resolve_cong:
  "t (slot_of tok) = t' (slot_of tok) \<Longrightarrow> resolve t tok = resolve t' tok"
proof -
  assume eq: "t (slot_of tok) = t' (slot_of tok)"
  have "resolve t tok = Some i \<longleftrightarrow> resolve t' tok = Some i" for i
    using eq by (auto simp: resolve_iff)
  then show ?thesis by (metis option.exhaust)
qed

lemma resolve_None:
  "resolve t tok = None \<longleftrightarrow> slot_of tok = 0 \<or> cap \<le> slot_of tok
     \<or> \<not> alive (t (slot_of tok)) \<or> gen (t (slot_of tok)) \<noteq> token_generation tok"
proof -
  have "resolve t tok \<noteq> None \<longleftrightarrow> resolve t tok = Some (slot_of tok)"
    by (auto simp: resolve_iff)
  also have "\<dots> \<longleftrightarrow> slot_of tok \<noteq> 0 \<and> slot_of tok < cap
      \<and> alive (t (slot_of tok)) \<and> gen (t (slot_of tok)) = token_generation tok"
    by (simp add: resolve_iff)
  finally show ?thesis by auto
qed

text \<open>An allocation fails only when every usable slot is live, and then changes nothing.\<close>

lemma alloc_cases [consumes 1, case_names full fresh]:
  assumes "alloc x t = (tok, k, t')"
  obtains "tok = 0" "t' = t" "\<forall>i. 0 < i \<and> i < cap \<longrightarrow> alive (t i)"
  | s where "0 < k" "k < cap" "\<not> alive (t k)" "alive s"
      "gen s = fresh_generation (gen (t k))" "tok = make_token (of_nat k) (gen s)" "t' = t(k := s)"
proof (cases "\<exists>i. 0 < i \<and> i < cap \<and> \<not> alive (t i)")
  case True
  then obtain i where i: "0 < i" "i < cap" "\<not> alive (t i)" by blast
  from alloc_free [of i t x, OF i] obtain k' s where
    "0 < k'" "k' \<le> i" "\<not> alive (t k')" "alive s" "gen s = fresh_generation (gen (t k'))"
    "alloc x t = (make_token (of_nat k') (gen s), k', t(k' := s))" by blast
  with assms i show ?thesis by (intro that(2) [of s]) auto
next
  case False
  then have "alloc x t = (0, 0, t)" by (intro alloc_full) blast
  with assms False show ?thesis by (intro that(1)) auto
qed

lemma alloc_token_slot:
  assumes "alloc x t = (tok, k, t')" "tok \<noteq> 0"
  shows "slot_of tok = k \<and> 0 < k \<and> k < cap \<and> \<not> alive (t k)
    \<and> token_generation tok = fresh_generation (gen (t k))"
  using assms(1)
proof (cases rule: alloc_cases)
  case (fresh s)
  with cap_le show ?thesis by (simp add: slot_of_make generation_of_make)
qed (use assms(2) in simp)

lemma alloc_zero_iff:
  assumes "alloc x t = (tok, k, t')"
  shows "tok = 0 \<longleftrightarrow> (\<forall>i. 0 < i \<and> i < cap \<longrightarrow> alive (t i))"
  using assms
proof (cases rule: alloc_cases)
  case (fresh s)
  then have "tok \<noteq> 0" using cap_le slot_of_make [of k "gen s"] slot_of_0 by auto
  with fresh show ?thesis by blast
qed simp

lemma alloc_resolves:
  assumes "alloc x t = (tok, k, t')" "tok \<noteq> 0"
  shows "resolve t' tok = Some k"
  using assms(1)
proof (cases rule: alloc_cases)
  case (fresh s)
  with cap_le show ?thesis by (simp add: resolve_iff slot_of_make generation_of_make)
qed (use assms(2) in simp)

text \<open>A fresh token was stale before, and every other token keeps its meaning.\<close>

lemma alloc_was_stale:
  assumes "alloc x t = (tok, k, t')" "tok \<noteq> 0"
  shows "resolve t tok = None"
  using alloc_token_slot [OF assms] by (auto simp: resolve_None)

lemma alloc_other:
  assumes "alloc x t = (tok, k, t')" "tok' \<noteq> tok"
  shows "resolve t' tok' = resolve t tok'"
  using assms(1)
proof (cases rule: alloc_cases)
  case (fresh s)
  show ?thesis
  proof (cases "slot_of tok' = k")
    case True
    have "token_generation tok' \<noteq> gen s"
    proof
      assume "token_generation tok' = gen s"
      then have "tok' = make_token (of_nat k) (gen s)"
        using make_token_slot_of [of tok'] True by simp
      with assms(2) fresh show False by simp
    qed
    with True fresh have "resolve t' tok' = None" by (simp add: resolve_None)
    moreover have "resolve t tok' = None" using True fresh by (simp add: resolve_None)
    ultimately show ?thesis by simp
  next
    case False
    with fresh show ?thesis by (intro resolve_cong) simp
  qed
qed simp

lemma alloc_keeps:
  assumes "alloc x t = (tok, k, t')" "resolve t tok' = Some i"
  shows "resolve t' tok' = Some i \<and> t' i = t i"
  using assms(1)
proof (cases rule: alloc_cases)
  case (fresh s)
  from assms(2) have "i = slot_of tok'" "alive (t i)" by (auto simp: resolve_iff)
  with fresh have "i \<noteq> k" by auto
  with fresh assms(2) show ?thesis
    using resolve_cong [of t tok' t'] \<open>i = slot_of tok'\<close> by simp
qed (use assms(2) in simp)

lemma release_stale: "slot_of tok = i \<Longrightarrow> resolve (release i t) tok = None"
  using release_dead by (auto simp: resolve_None)

lemma release_keeps: "slot_of tok \<noteq> i \<Longrightarrow> resolve (release i t) tok = resolve t tok"
  by (intro resolve_cong) (simp add: release_other)

lemma release_resolve:
  assumes "resolve t tok = Some i"
  shows "resolve (release i t) tok' = (if tok' = tok then None else resolve t tok')"
proof (cases "slot_of tok' = i")
  case True
  have "resolve t tok' = None" if "tok' \<noteq> tok"
  proof (rule ccontr)
    assume "resolve t tok' \<noteq> None"
    then obtain j where "resolve t tok' = Some j" by blast
    moreover from this have "j = i" using True by (simp add: resolve_iff)
    ultimately show False using resolve_inj [OF assms] that by blast
  qed
  with True show ?thesis by (simp add: release_stale)
next
  case False
  with assms have "tok' \<noteq> tok" by (auto simp: resolve_iff)
  with False show ?thesis by (simp add: release_keeps)
qed

lemmas token_laws = resolve_iff resolve_None release_resolve

end

end
