(* ===== verification/Fp.thy ===== *)
theory Fp
  imports Prelude Complex_Main
begin

text \<open>
  Floating-point values as the C stubs see them: an OCaml \<open>double\<close> is read, tested with
  isfinite, isnan and comparisons, and cast to \<open>float\<close>. A finite value is the rational
  it denotes (the sign of zero is not distinguished, no stub looks at it); the cast is
  round-to-nearest, ties to even, on the binary32 grid, with overflow to infinity as on
  every IEC 60559 target of the library.
\<close>

datatype fp = NaN | Inf bool | Fin rat \<comment> \<open>\<open>Inf True\<close> is minus infinity\<close>

fun isfinite :: "fp \<Rightarrow> bool" where
  "isfinite (Fin _) = True"
| "isfinite _ = False"

fun isnan :: "fp \<Rightarrow> bool" where
  "isnan NaN = True"
| "isnan _ = False"

definition FLT_MAX :: rat where
  "FLT_MAX = (2 ^ 24 - 1) * 2 ^ 104"

text \<open>Nearest integer, ties to even.\<close>

definition round_even :: "rat \<Rightarrow> int" where
  "round_even r =
     (let f = \<lfloor>r\<rfloor>; d = r - of_int f in
      if d < 1 / 2 then f else if 1 / 2 < d then f + 1 else if even f then f else f + 1)"

text \<open>
  The distance between neighbouring binary32 numbers at \<open>r\<close>: the least power of two
  from \<open>2^-149\<close> on that covers \<open>r\<close> with a 24-bit significand. 253 doublings reach
  \<open>2^104\<close>, the spacing of the largest binade.
\<close>

fun f32_quantum :: "nat \<Rightarrow> rat \<Rightarrow> rat \<Rightarrow> rat" where
  "f32_quantum 0 q r = q"
| "f32_quantum (Suc n) q r = (if \<bar>r\<bar> < 2 ^ 24 * q then q else f32_quantum n (2 * q) r)"

definition round_f32 :: "rat \<Rightarrow> rat" where
  "round_f32 r = (let q = f32_quantum 253 (1 / 2 ^ 149) r in of_int (round_even (r / q)) * q)"

text \<open>The cast \<open>(float)x\<close>.\<close>

fun to_float :: "fp \<Rightarrow> fp" where
  "to_float (Fin r) =
     (let m = round_f32 r in if FLT_MAX < \<bar>m\<bar> then Inf (m < 0) else Fin m)"
| "to_float x = x"

lemma round_even_bounds: "of_int (round_even r) \<le> r + 1 / 2 \<and> r - 1 / 2 \<le> of_int (round_even r)"
proof -
  define f where "f = \<lfloor>r\<rfloor>"
  have "of_int f \<le> r" "r < of_int f + 1" using floor_correct [of r] by (simp_all add: f_def)
  then show ?thesis unfolding round_even_def Let_def f_def [symmetric] by auto
qed

lemma round_even_mono_int:
  assumes "r \<le> of_int k" shows "round_even r \<le> k"
proof -
  have "of_int (round_even r) \<le> r + 1 / 2" using round_even_bounds by blast
  with assms have "of_int (round_even r) < (of_int (k + 1) :: rat)" by simp
  then show ?thesis by (simp only: of_int_less_iff)
qed

lemma round_even_ge_int:
  assumes "of_int k \<le> r" shows "k \<le> round_even r"
proof -
  have "r - 1 / 2 \<le> of_int (round_even r)" using round_even_bounds by blast
  with assms have "of_int (k - 1) < (of_int (round_even r) :: rat)" by simp
  then show ?thesis by (simp only: of_int_less_iff)
qed

lemma round_even_int [simp]: "round_even (of_int k) = k"
  by (simp add: round_even_def)

lemma f32_quantum_pow2:
  "\<exists>k \<le> n. f32_quantum n q r = 2 ^ k * q"
proof (induction n arbitrary: q)
  case (Suc n)
  obtain k where "k \<le> n" "f32_quantum n (2 * q) r = 2 ^ k * (2 * q)" using Suc by blast
  then show ?case
    by (cases "\<bar>r\<bar> < 2 ^ 24 * q")
      (auto intro: exI [of _ 0] exI [of _ "Suc k"])
qed simp

lemma f32_quantum_covers:
  "\<bar>r\<bar> < 2 ^ 24 * (2 ^ n * q) \<Longrightarrow> \<bar>r\<bar> < 2 ^ 24 * f32_quantum n q r"
proof (induction n arbitrary: q)
  case (Suc n)
  then show ?case by (simp add: algebra_simps)
qed simp

text \<open>A value in the range of binary32 never rounds to an infinity.\<close>

lemma round_f32_bounded:
  assumes "\<bar>r\<bar> \<le> FLT_MAX" shows "\<bar>round_f32 r\<bar> \<le> FLT_MAX"
proof -
  let ?q0 = "1 / 2 ^ 149 :: rat"
  obtain k where k: "k \<le> 253" and q: "f32_quantum 253 ?q0 r = 2 ^ k * ?q0"
    using f32_quantum_pow2 by blast
  let ?q = "2 ^ k * ?q0"
  have qpos: "0 < ?q" by simp
  define K :: int where "K = (2 ^ 24 - 1) * 2 ^ (253 - k)"
  have "(2 :: rat) ^ 253 = 2 ^ (253 - k) * 2 ^ k" using k by (simp flip: power_add)
  then have K: "FLT_MAX = of_int K * ?q"
    by (simp add: FLT_MAX_def K_def field_simps)
  from assms have "- of_int K * ?q \<le> r" "r \<le> of_int K * ?q" unfolding K by auto
  with qpos have "of_int (- K) \<le> r / ?q" "r / ?q \<le> of_int K"
    by (simp_all only: of_int_minus pos_le_divide_eq pos_divide_le_eq)
  then have "- K \<le> round_even (r / ?q)" "round_even (r / ?q) \<le> K"
    by (blast intro: round_even_ge_int round_even_mono_int)+
  then have "\<bar>round_even (r / ?q)\<bar> \<le> K" by simp
  then have "of_int \<bar>round_even (r / ?q)\<bar> \<le> (of_int K :: rat)" by (simp only: of_int_le_iff)
  then have "of_int \<bar>round_even (r / ?q)\<bar> * ?q \<le> of_int K * ?q"
    using qpos by (intro mult_right_mono) auto
  moreover have "\<bar>round_f32 r\<bar> = of_int \<bar>round_even (r / ?q)\<bar> * ?q"
    unfolding round_f32_def Let_def q using qpos by (simp add: abs_mult)
  ultimately show ?thesis by (simp only: K)
qed

lemma to_float_in_range: "\<bar>r\<bar> \<le> FLT_MAX \<Longrightarrow> to_float (Fin r) = Fin (round_f32 r)"
  using round_f32_bounded [of r] by (simp add: Let_def)

lemma to_float_finite_in_range: "\<bar>r\<bar> \<le> FLT_MAX \<Longrightarrow> isfinite (to_float (Fin r))"
  by (simp only: to_float_in_range isfinite.simps)

text \<open>Integers of at most 24 bits are exact, and from \<open>2^128\<close> on the cast overflows.\<close>

lemma f32_quantum_le:
  "n' \<le> n \<Longrightarrow> \<bar>r\<bar> < 2 ^ 24 * (2 ^ n' * q) \<Longrightarrow> \<exists>k \<le> n'. f32_quantum n q r = 2 ^ k * q"
proof (induction n arbitrary: q n')
  case (Suc n)
  show ?case
  proof (cases "\<bar>r\<bar> < 2 ^ 24 * q")
    case True
    then show ?thesis by (intro exI [of _ 0]) simp
  next
    case False
    with Suc.prems obtain m where n': "n' = Suc m" by (cases n') auto
    with Suc.prems have "m \<le> n" "\<bar>r\<bar> < 2 ^ 24 * (2 ^ m * (2 * q))" by (simp_all add: algebra_simps)
    then obtain k where "k \<le> m" "f32_quantum n (2 * q) r = 2 ^ k * (2 * q)" using Suc.IH by blast
    with False n' show ?thesis by (intro exI [of _ "Suc k"]) simp
  qed
qed simp

lemma round_f32_int:
  assumes "\<bar>m\<bar> < 2 ^ 24" shows "round_f32 (of_int m) = of_int m"
proof -
  let ?q0 = "1 / 2 ^ 149 :: rat"
  have "\<bar>of_int m :: rat\<bar> < 2 ^ 24 * (2 ^ 149 * ?q0)"
    using assms by (simp flip: of_int_abs)
  then obtain k where k: "k \<le> 149" and q: "f32_quantum 253 ?q0 (of_int m) = 2 ^ k * ?q0"
    using f32_quantum_le [of 149 253 "of_int m" ?q0] by auto
  have "(2 :: rat) ^ 149 = 2 ^ (149 - k) * 2 ^ k" using k by (simp flip: power_add)
  then have e: "of_int m / (2 ^ k * ?q0) = of_int (m * 2 ^ (149 - k))" by (simp add: field_simps)
  show ?thesis
    unfolding round_f32_def Let_def q e round_even_int using e by (simp add: field_simps)
qed

lemma to_float_int:
  assumes "\<bar>m\<bar> < 2 ^ 24" shows "to_float (Fin (of_int m)) = Fin (of_int m)"
proof -
  have "\<bar>of_int m :: rat\<bar> \<le> of_int (2 ^ 24)" using assms by (simp only: of_int_abs [symmetric] of_int_le_iff)
  then have "\<bar>of_int m :: rat\<bar> \<le> FLT_MAX" by (simp add: FLT_MAX_def)
  then show ?thesis using assms by (simp only: to_float_in_range round_f32_int)
qed

lemma to_float_overflow:
  assumes "2 ^ 128 \<le> r" shows "to_float (Fin r) = Inf False"
proof -
  let ?q0 = "1 / 2 ^ 149 :: rat"
  obtain k where k: "k \<le> 253" and q: "f32_quantum 253 ?q0 r = 2 ^ k * ?q0"
    using f32_quantum_pow2 by blast
  let ?q = "2 ^ k * ?q0"
  have qpos: "0 < ?q" by simp
  define K :: int where "K = 2 ^ 24 * 2 ^ (253 - k)"
  have "(2 :: rat) ^ 253 = 2 ^ (253 - k) * 2 ^ k" using k by (simp flip: power_add)
  then have K: "2 ^ 128 = of_int K * ?q" by (simp add: K_def field_simps)
  with assms qpos have "of_int K \<le> r / ?q" by (simp only: pos_le_divide_eq)
  then have "K \<le> round_even (r / ?q)" by (rule round_even_ge_int)
  then have "of_int K * ?q \<le> of_int (round_even (r / ?q)) * ?q"
    using qpos by (intro mult_right_mono) auto
  then have "2 ^ 128 \<le> round_f32 r" unfolding K round_f32_def Let_def q .
  moreover have "FLT_MAX < 2 ^ 128" by (simp add: FLT_MAX_def)
  ultimately show ?thesis by (simp add: Let_def)
qed

end
