(* ===== verification/Values.thy ===== *)
theory Values
  imports Fp
begin

text \<open>
  OCaml values as the stubs inspect them (the macros Is_block, Tag_val, Wosize_val, Field,
  Long_val, Int_val, Int32_val, ... of the OCaml runtime), the statuses of raw_status.h, and
  the readers of raw_stubs.c that decode structured arguments. A reader has type
  \<open>'a option option\<close>: the outer \<open>None\<close> is undefined behaviour (a field read outside
  the block, a custom block of the wrong kind), \<open>Some None\<close> is the C result false and
  \<open>Some (Some x)\<close> is true with output \<open>x\<close>.
\<close>

section \<open>The OCaml heap representation\<close>

datatype "value" =
    Long int                  \<comment> \<open>an immediate integer (63 bits)\<close>
  | Block nat "value list"    \<comment> \<open>a tuple, record, array, cons cell or Some, with its tag\<close>
  | Str bytes                 \<comment> \<open>String_tag: string or bytes\<close>
  | Int32 i32                 \<comment> \<open>Custom_tag\<close>
  | Int64 i64                 \<comment> \<open>Custom_tag\<close>
  | Nativeint i64           \<comment> \<open>Custom_tag\<close>
  | Double fp                 \<comment> \<open>Double_tag\<close>
  | Double_array "fp list"    \<comment> \<open>Double_array_tag; never empty, an empty array is Atom(0)\<close>

definition Val_unit :: "value" where "Val_unit = Long 0"
definition Val_none :: "value" where "Val_none = Long 0"
definition Val_emptylist :: "value" where "Val_emptylist = Long 0"
definition Val_some :: "value \<Rightarrow> value" where "Val_some v = Block 0 [v]"
definition Val_bool :: "bool \<Rightarrow> value" where "Val_bool b = Long (if b then 1 else 0)"

fun is_long :: "value \<Rightarrow> bool" where
  "is_long (Long _) = True"
| "is_long _ = False"

abbreviation is_block :: "value \<Rightarrow> bool" where "is_block v \<equiv> \<not> is_long v"

abbreviation String_tag :: nat where "String_tag \<equiv> 252"
abbreviation Double_tag :: nat where "Double_tag \<equiv> 253"
abbreviation Double_array_tag :: nat where "Double_array_tag \<equiv> 254"
abbreviation Custom_tag :: nat where "Custom_tag \<equiv> 255"

text \<open>The header of a block; the stubs read it only after Is_block.\<close>

fun tag_val :: "value \<Rightarrow> nat" where
  "tag_val (Block t _) = t"
| "tag_val (Str _) = String_tag"
| "tag_val (Int32 _) = Custom_tag"
| "tag_val (Int64 _) = Custom_tag"
| "tag_val (Nativeint _) = Custom_tag"
| "tag_val (Double _) = Double_tag"
| "tag_val (Double_array _) = Double_array_tag"
| "tag_val (Long _) = 0"

fun wosize_val :: "value \<Rightarrow> nat" where
  "wosize_val (Block _ vs) = length vs"
| "wosize_val (Str bs) = length bs div 8 + 1"
| "wosize_val (Int32 _) = 2"
| "wosize_val (Int64 _) = 2"
| "wosize_val (Nativeint _) = 2"
| "wosize_val (Double _) = 1"
| "wosize_val (Double_array xs) = length xs"
| "wosize_val (Long _) = 0"

text \<open>What the OCaml runtime guarantees of a value (64 bits): a structured block has a tag below
  No_scan_tag's special tags, a float array is not empty, sizes fit the header.\<close>

fun wf_value :: "value \<Rightarrow> bool" where
  "wf_value (Block t vs) \<longleftrightarrow> t < 246 \<and> length vs < 2 ^ 54 \<and> (\<forall>v \<in> set vs. wf_value v)"
| "wf_value (Double_array xs) \<longleftrightarrow> xs \<noteq> [] \<and> length xs < 2 ^ 54"
| "wf_value _ \<longleftrightarrow> True"

definition has_tag :: "nat \<Rightarrow> value \<Rightarrow> bool" where
  "has_tag t v \<longleftrightarrow> is_block v \<and> tag_val v = t"

definition has_size :: "nat \<Rightarrow> value \<Rightarrow> bool" where
  "has_size n v \<longleftrightarrow> is_block v \<and> wosize_val v = n"

text \<open>Field(v, i): undefined outside a structured block.\<close>

fun field :: "value \<Rightarrow> nat \<Rightarrow> value option" where
  "field (Block t vs) i = (if i < length vs then Some (vs ! i) else None)"
| "field _ i = None"

fun long_val :: "value \<Rightarrow> int option" where
  "long_val (Long n) = Some n"
| "long_val _ = None"

text \<open>The C conversion to int (32 bits): Int_val is \<open>(int)Long_val\<close>.\<close>

definition to_int :: "int \<Rightarrow> int" where
  "to_int n = sint (word_of_int n :: 32 word)"

definition int_val :: "value \<Rightarrow> int option" where
  "int_val v = map_option to_int (long_val v)"

definition bool_val :: "value \<Rightarrow> bool option" where
  "bool_val v = map_option (\<lambda>n. n \<noteq> 0) (int_val v)"

fun int32_val :: "value \<Rightarrow> i32 option" where
  "int32_val (Int32 x) = Some x"
| "int32_val _ = None"

fun int64_val :: "value \<Rightarrow> i64 option" where
  "int64_val (Int64 x) = Some x"
| "int64_val _ = None"

fun double_val :: "value \<Rightarrow> fp option" where
  "double_val (Double x) = Some x"
| "double_val _ = None"

fun string_val :: "value \<Rightarrow> bytes option" where
  "string_val (Str bs) = Some bs"
| "string_val _ = None"

definition int32_field :: "value \<Rightarrow> nat \<Rightarrow> i32 option" where
  "int32_field v i = Option.bind (field v i) int32_val"

lemmas value_simps [simp] =
  Val_none_def Val_unit_def Val_emptylist_def Val_some_def Val_bool_def has_tag_def
  has_size_def int32_field_def

lemma to_int_small: "- (2 ^ 31) \<le> n \<Longrightarrow> n < 2 ^ 31 \<Longrightarrow> to_int n = n"
  unfolding to_int_def by (simp add: signed_of_int signed_take_bit_int_eq_self)

lemma bool_val_Val_bool [simp]: "bool_val (Val_bool b) = Some b"
  by (simp add: bool_val_def int_val_def to_int_small)

text \<open>\<open>if (!read(...)) return fail;\<close> followed by the rest of the stub.\<close>

fun require :: "'a option option \<Rightarrow> 'b option \<Rightarrow> ('a \<Rightarrow> 'b option) \<Rightarrow> 'b option" where
  "require None fail k = None"
| "require (Some None) fail k = fail"
| "require (Some (Some x)) fail k = k x"

lemma require_split:
  "P (require r fail k) \<longleftrightarrow>
     (r = None \<longrightarrow> P None) \<and> (r = Some None \<longrightarrow> P fail) \<and> (\<forall>x. r = Some (Some x) \<longrightarrow> P (k x))"
  by (cases r; cases "the r") auto

lemma require_eq_Some:
  "require r fail k = Some y \<longleftrightarrow>
     (r = Some None \<and> fail = Some y) \<or> (\<exists>x. r = Some (Some x) \<and> k x = Some y)"
  by (cases r; cases "the r") auto

section \<open>Bigarrays\<close>

text \<open>struct caml_ba_array of a byte bigarray: dimensions and data.\<close>

record byte_bigarray =
  num_dims :: nat
  dim :: "i64 list"
  ba_data :: bytes

text \<open>What OCaml guarantees of a byte bigarray.\<close>

definition wf_bigarray :: "byte_bigarray \<Rightarrow> bool" where
  "wf_bigarray a \<longleftrightarrow> num_dims a = length (dim a) \<and> (\<forall>d \<in> set (dim a). 0 \<le> sint d)
     \<and> (num_dims a = 1 \<longrightarrow> unat (dim a ! 0) = length (ba_data a))"

section \<open>Statuses (raw_status.h)\<close>

datatype raw_status =
    Ok | Invalid_argument | Stale_handle | Native_failure | Output_too_small
  | Queue_overflow | No_space | Max_bytes | Busy

fun status_code :: "raw_status \<Rightarrow> int" where
  "status_code Ok = 0"
| "status_code Invalid_argument = 1"
| "status_code Stale_handle = 2"
| "status_code Native_failure = 3"
| "status_code Output_too_small = 4"
| "status_code Queue_overflow = 5"
| "status_code No_space = 6"
| "status_code Max_bytes = 7"
| "status_code Busy = 8"

text \<open>What OCaml makes of a status (error.ml, \<open>Private.of_native_status\<close>).\<close>

definition of_native_status :: "int \<Rightarrow> raw_status option" where
  "of_native_status status =
     (if status = 0 then None
      else if status = 1 then Some Invalid_argument
      else if status = 2 then Some Stale_handle
      else if status = 3 then Some Native_failure
      else if status = 4 then Some Output_too_small
      else if status = 5 then Some Queue_overflow
      else if status = 6 then Some No_space
      else if status = 7 then Some Max_bytes
      else if status = 8 then Some Busy
      else Some Native_failure)"

lemma of_native_status_code:
  "of_native_status (status_code s) = (if s = Ok then None else Some s)"
  by (cases s) (simp_all add: of_native_status_def)

instantiation raw_status :: linorder
begin

definition less_eq_raw_status :: "raw_status \<Rightarrow> raw_status \<Rightarrow> bool" where
  "less_eq_raw_status s t \<longleftrightarrow> status_code s \<le> status_code t"

definition less_raw_status :: "raw_status \<Rightarrow> raw_status \<Rightarrow> bool" where
  "less_raw_status s t \<longleftrightarrow> status_code s < status_code t"

instance
proof
  fix s t u :: raw_status
  show "s < t \<longleftrightarrow> s \<le> t \<and> \<not> t \<le> s"
    by (auto simp: less_eq_raw_status_def less_raw_status_def)
  show "s \<le> s" by (simp add: less_eq_raw_status_def)
  show "s \<le> t \<Longrightarrow> t \<le> u \<Longrightarrow> s \<le> u" by (simp add: less_eq_raw_status_def)
  show "s \<le> t \<Longrightarrow> t \<le> s \<Longrightarrow> s = t"
    by (cases s; cases t) (simp_all add: less_eq_raw_status_def)
  show "s \<le> t \<or> t \<le> s" by (auto simp: less_eq_raw_status_def)
qed

end

section \<open>Readers of raw_stubs.c\<close>

type_synonym color = "u16 list" \<comment> \<open>uint16_t output[4]\<close>

text \<open>The loop of read_color over the remaining \<open>n\<close> channels, from \<open>index\<close>.\<close>

fun read_channels :: "value \<Rightarrow> nat \<Rightarrow> nat \<Rightarrow> color option option" where
  "read_channels color index 0 = Some (Some [])"
| "read_channels color index (Suc n) = do {
     channel \<leftarrow> field color index;
     if \<not> is_long channel then Some None
     else do {
       channel_value \<leftarrow> long_val channel;
       if channel_value < 0 \<or> channel_value > UINT8_MAX then Some None
       else do {
         rest \<leftarrow> read_channels color (Suc index) n;
         Some (map_option (\<lambda>cs. word_of_int channel_value # cs) rest)
       }
     }
   }"

definition read_color :: "value \<Rightarrow> color option option" where
  "read_color color = (if \<not> has_size 4 color then Some None else read_channels color 0 4)"

definition read_optional_code :: "value \<Rightarrow> int \<Rightarrow> u8 \<Rightarrow> u8 option option" where
  "read_optional_code optional maximum sentinel =
     (if is_long optional then do {
        n \<leftarrow> long_val optional;
        Some (if n \<noteq> 0 then None else Some sentinel)
      }
      else if wosize_val optional \<noteq> 1 then Some None
      else do {
        code \<leftarrow> field optional 0;
        if \<not> is_long code then Some None
        else do {
          code_value \<leftarrow> long_val code;
          Some (if code_value < 0 \<or> code_value > maximum then None
                else Some (word_of_int code_value))
        }
      })"

definition read_optional_bool :: "value \<Rightarrow> u8 option option" where
  "read_optional_bool optional = read_optional_code optional 1 255"

text \<open>The pointer output: None for NULL.\<close>

definition read_optional_color :: "value \<Rightarrow> color option option option" where
  "read_optional_color optional =
     (if is_long optional then do {
        n \<leftarrow> long_val optional;
        Some (if n \<noteq> 0 then None else Some None)
      }
      else if wosize_val optional \<noteq> 1 then Some None
      else do {
        inner \<leftarrow> field optional 0;
        c \<leftarrow> read_color inner;
        Some (map_option Some c)
      })"

definition read_text_length :: "bytes \<Rightarrow> u32 option" where
  "read_text_length text =
     (if length text > UINT32_MAX then None else Some (of_nat (length text)))"

fun read_codepoints :: "value \<Rightarrow> nat \<Rightarrow> nat \<Rightarrow> u32 list option option" where
  "read_codepoints chars index 0 = Some (Some [])"
| "read_codepoints chars index (Suc n) = do {
     codepoint \<leftarrow> field chars index;
     if \<not> has_tag Custom_tag codepoint then Some None
     else do {
       codepoint_value \<leftarrow> int32_val codepoint;
       if neg32 codepoint_value then Some None
       else do {
         rest \<leftarrow> read_codepoints chars (Suc index) n;
         Some (map_option (\<lambda>cs. codepoint_value # cs) rest)
       }
     }
   }"

definition read_border_chars :: "value \<Rightarrow> u32 list option option" where
  "read_border_chars chars =
     (if \<not> has_size 11 chars then Some None else read_codepoints chars 0 11)"

text \<open>Data pointer and length; None is the NULL pointer with length 0.\<close>

definition read_optional_text :: "value \<Rightarrow> bytes option option option" where
  "read_optional_text optional_text =
     (if is_long optional_text then do {
        n \<leftarrow> long_val optional_text;
        Some (if n \<noteq> 0 then None else Some None)
      }
      else if wosize_val optional_text \<noteq> 1 then Some None
      else do {
        text \<leftarrow> field optional_text 0;
        if \<not> has_tag String_tag text then Some None
        else do {
          s \<leftarrow> string_val text;
          Some (case read_text_length s of None \<Rightarrow> None | Some _ \<Rightarrow> Some (Some s))
        }
      })"

end
