(* ===== verification/Span_Feed.thy ===== *)
theory Span_Feed
  imports Slot_Table Values
begin

text \<open>
  span_feed_stubs.c: the output feed. Three static slot tables (feeds, drained spans,
  reservations) translate OCaml tokens to native objects. A feed records the span or the
  reservation whose OCaml result is still being allocated (\<open>pending\<close>): if that
  allocation raises, the next call on the feed gives the object back to the native stream.
  The native stream (native-span-feed.zig) is the parameter \<open>N\<close>, a record of the ABI
  functions over a native world \<open>'w\<close>.
\<close>

section \<open>Data\<close>

definition FEED_CAPACITY :: nat where "FEED_CAPACITY = 64"
definition SPAN_CAPACITY :: nat where "SPAN_CAPACITY = 4096"
definition RESERVATION_CAPACITY :: nat where "RESERVATION_CAPACITY = 64"

record span_feed_options =
  chunk_size :: u32
  initial_chunks :: u32
  max_bytes :: u64
  growth_policy :: u8
  auto_commit_on_full :: u8
  span_queue_capacity :: u32

record span_feed_stats =
  bytes_written :: u64
  spans_committed :: u64
  chunks :: u32
  pending_spans :: u32

record span_info =
  chunk_ptr :: ptr
  offset :: u32
  len :: u32
  chunk_index :: u32
  si_reserved :: u32

record reserve_info =
  r_ptr :: ptr
  r_len :: u32
  r_reserved :: u32

record feed_slot =
  f_generation :: u16
  f_alive :: bool
  f_stream :: ptr
  f_pending_span :: bool
  f_pending_span_handle :: u32
  f_pending_info :: span_info
  f_pending_reservation :: bool
  f_pending_reservation_handle :: u32

record span_slot =
  s_generation :: u16
  s_alive :: bool
  s_feed_handle :: u32
  s_info :: span_info

record reservation_slot =
  v_generation :: u16
  v_alive :: bool
  v_feed_handle :: u32
  v_info :: reserve_info

text \<open>The ABI functions of the stream. Structs filled through an output pointer are
  results; \<open>load\<close> and \<open>store\<close> are memcpy from and to native memory.\<close>

record 'w stream_api =
  createNativeSpanFeed :: "span_feed_options \<Rightarrow> 'w \<Rightarrow> ptr \<times> 'w"
  attachNativeSpanFeed :: "ptr \<Rightarrow> 'w \<Rightarrow> i32 \<times> 'w"
  destroyNativeSpanFeed :: "ptr \<Rightarrow> 'w \<Rightarrow> 'w"
  streamWrite :: "ptr \<Rightarrow> bytes \<Rightarrow> 'w \<Rightarrow> i32 \<times> 'w"
  streamCommit :: "ptr \<Rightarrow> 'w \<Rightarrow> i32 \<times> 'w"
  streamClose :: "ptr \<Rightarrow> 'w \<Rightarrow> i32 \<times> 'w"
  streamReserve :: "ptr \<Rightarrow> u32 \<Rightarrow> 'w \<Rightarrow> i32 \<times> reserve_info \<times> 'w"
  streamCommitReserved :: "ptr \<Rightarrow> u32 \<Rightarrow> 'w \<Rightarrow> i32 \<times> 'w"
  streamCancelReserved :: "ptr \<Rightarrow> 'w \<Rightarrow> i32 \<times> 'w"
  streamGetStats :: "ptr \<Rightarrow> 'w \<Rightarrow> i32 \<times> span_feed_stats \<times> 'w"
  streamDrainSpans :: "ptr \<Rightarrow> u32 \<Rightarrow> 'w \<Rightarrow> u32 \<times> span_info \<times> 'w"
  streamMarkSpanConsumed :: "ptr \<Rightarrow> span_info \<Rightarrow> 'w \<Rightarrow> i32 \<times> 'w"
  load :: "ptr \<Rightarrow> nat \<Rightarrow> 'w \<Rightarrow> bytes"
  store :: "ptr \<Rightarrow> bytes \<Rightarrow> 'w \<Rightarrow> 'w"

text \<open>The static variables and the native world. Static storage starts as zeros.\<close>

record 'w feed_state =
  feeds :: "nat \<Rightarrow> feed_slot"
  spans :: "nat \<Rightarrow> span_slot"
  reservations :: "nat \<Rightarrow> reservation_slot"
  world :: 'w

definition zero_span_info :: span_info where
  "zero_span_info = \<lparr>chunk_ptr = 0, offset = 0, len = 0, chunk_index = 0, si_reserved = 0\<rparr>"

definition zero_feed_slot :: feed_slot where
  "zero_feed_slot = \<lparr>f_generation = 0, f_alive = False, f_stream = NULL,
     f_pending_span = False, f_pending_span_handle = 0, f_pending_info = zero_span_info,
     f_pending_reservation = False, f_pending_reservation_handle = 0\<rparr>"

definition zero_span_slot :: span_slot where
  "zero_span_slot = \<lparr>s_generation = 0, s_alive = False, s_feed_handle = 0, s_info = zero_span_info\<rparr>"

definition zero_reservation_slot :: reservation_slot where
  "zero_reservation_slot = \<lparr>v_generation = 0, v_alive = False, v_feed_handle = 0,
     v_info = \<lparr>r_ptr = 0, r_len = 0, r_reserved = 0\<rparr>\<rparr>"

definition init_feed_state :: "'w \<Rightarrow> 'w feed_state" where
  "init_feed_state w = \<lparr>feeds = (\<lambda>_. zero_feed_slot), spans = (\<lambda>_. zero_span_slot),
     reservations = (\<lambda>_. zero_reservation_slot), world = w\<rparr>"

section \<open>The slot tables\<close>

definition map_native_status :: "i32 \<Rightarrow> raw_status" where
  "map_native_status status =
     (if sint status = 0 then Ok
      else if sint status = -1 then No_space
      else if sint status = -2 then Max_bytes
      else if sint status = -3 then Invalid_argument
      else if sint status = -4 then Native_failure
      else if sint status = -5 then Busy
      else Native_failure)"

text \<open>A pointer to a slot of a static array is its index; None is NULL.\<close>

definition span_feed_from_token :: "(nat \<Rightarrow> feed_slot) \<Rightarrow> u32 \<Rightarrow> nat option" where
  "span_feed_from_token t token =
     (let index = slot_of token in
      if index = 0 \<or> index \<ge> FEED_CAPACITY then None
      else if \<not> f_alive (t index) \<or> f_generation (t index) \<noteq> token_generation token then None
      else Some index)"

definition opentui_raw_span_feed_pointer :: "(nat \<Rightarrow> feed_slot) \<Rightarrow> u32 \<Rightarrow> ptr" where
  "opentui_raw_span_feed_pointer t token =
     (case span_feed_from_token t token of None \<Rightarrow> NULL | Some slot \<Rightarrow> f_stream (t slot))"

definition span_feed_allocate ::
  "unit \<Rightarrow> (nat \<Rightarrow> feed_slot) \<Rightarrow> u32 \<times> nat \<times> (nat \<Rightarrow> feed_slot)" where
  "span_feed_allocate _ t =
     (case scan_free (\<lambda>i. f_alive (t i)) 1 FEED_CAPACITY of
        None \<Rightarrow> (0, 0, t)
      | Some index \<Rightarrow>
          let g = fresh_generation (f_generation (t index));
              slot = (t index)\<lparr>f_generation := g, f_alive := True, f_stream := NULL,
                f_pending_span := False, f_pending_span_handle := 0,
                f_pending_reservation := False, f_pending_reservation_handle := 0\<rparr>
          in (make_token (of_nat index) g, index, t(index := slot)))"

text \<open>\<open>slot->alive = false; slot->stream = NULL;\<close>\<close>

definition span_feed_release_slot :: "nat \<Rightarrow> (nat \<Rightarrow> feed_slot) \<Rightarrow> (nat \<Rightarrow> feed_slot)" where
  "span_feed_release_slot slot t = t(slot := (t slot)\<lparr>f_alive := False, f_stream := NULL\<rparr>)"

definition span_from_token :: "(nat \<Rightarrow> span_slot) \<Rightarrow> u32 \<Rightarrow> nat option" where
  "span_from_token t token =
     (let index = slot_of token in
      if index = 0 \<or> index \<ge> SPAN_CAPACITY then None
      else if \<not> s_alive (t index) \<or> s_generation (t index) \<noteq> token_generation token then None
      else Some index)"

definition span_allocate ::
  "u32 \<times> span_info \<Rightarrow> (nat \<Rightarrow> span_slot) \<Rightarrow> u32 \<times> nat \<times> (nat \<Rightarrow> span_slot)" where
  "span_allocate = (\<lambda>(feed_handle, info) t.
     (case scan_free (\<lambda>i. s_alive (t i)) 1 SPAN_CAPACITY of
        None \<Rightarrow> (0, 0, t)
      | Some index \<Rightarrow>
          let g = fresh_generation (s_generation (t index))
          in (make_token (of_nat index) g, index,
              t(index := \<lparr>s_generation = g, s_alive = True, s_feed_handle = feed_handle,
                          s_info = info\<rparr>))))"

definition span_release_slot :: "nat \<Rightarrow> (nat \<Rightarrow> span_slot) \<Rightarrow> (nat \<Rightarrow> span_slot)" where
  "span_release_slot slot t = t(slot := (t slot)\<lparr>s_alive := False, s_feed_handle := 0\<rparr>)"

definition reservation_from_token :: "(nat \<Rightarrow> reservation_slot) \<Rightarrow> u32 \<Rightarrow> nat option" where
  "reservation_from_token t token =
     (let index = slot_of token in
      if index = 0 \<or> index \<ge> RESERVATION_CAPACITY then None
      else if \<not> v_alive (t index) \<or> v_generation (t index) \<noteq> token_generation token then None
      else Some index)"

definition reservation_allocate ::
  "u32 \<times> reserve_info \<Rightarrow> (nat \<Rightarrow> reservation_slot) \<Rightarrow> u32 \<times> nat \<times> (nat \<Rightarrow> reservation_slot)" where
  "reservation_allocate = (\<lambda>(feed_handle, info) t.
     (case scan_free (\<lambda>i. v_alive (t i)) 1 RESERVATION_CAPACITY of
        None \<Rightarrow> (0, 0, t)
      | Some index \<Rightarrow>
          let g = fresh_generation (v_generation (t index))
          in (make_token (of_nat index) g, index,
              t(index := \<lparr>v_generation = g, v_alive = True, v_feed_handle = feed_handle,
                          v_info = info\<rparr>))))"

definition reservation_release_slot ::
  "nat \<Rightarrow> (nat \<Rightarrow> reservation_slot) \<Rightarrow> (nat \<Rightarrow> reservation_slot)" where
  "reservation_release_slot slot t = t(slot := (t slot)\<lparr>v_alive := False, v_feed_handle := 0\<rparr>)"

section \<open>Pending objects\<close>

text \<open>The two halves of cleanup_feed_pending; \<open>i\<close> is the feed's slot.\<close>

definition cleanup_pending_span :: "'w stream_api \<Rightarrow> nat \<Rightarrow> 'w feed_state \<Rightarrow> 'w feed_state" where
  "cleanup_pending_span N i s =
     (let feed = feeds s i in
      if f_pending_span feed then
        s\<lparr>world := snd (streamMarkSpanConsumed N (f_stream feed) (f_pending_info feed) (world s)),
          spans := (if f_pending_span_handle feed \<noteq> 0 then
                      (case span_from_token (spans s) (f_pending_span_handle feed) of
                         None \<Rightarrow> spans s
                       | Some sp \<Rightarrow> span_release_slot sp (spans s))
                    else spans s),
          feeds := (feeds s)(i := feed\<lparr>f_pending_span := False, f_pending_span_handle := 0\<rparr>)\<rparr>
      else s)"

definition cleanup_pending_reservation ::
  "'w stream_api \<Rightarrow> nat \<Rightarrow> 'w feed_state \<Rightarrow> 'w feed_state" where
  "cleanup_pending_reservation N i s =
     (let feed = feeds s i in
      if f_pending_reservation feed then
        s\<lparr>world := snd (streamCancelReserved N (f_stream feed) (world s)),
          reservations := (if f_pending_reservation_handle feed \<noteq> 0 then
                      (case reservation_from_token (reservations s) (f_pending_reservation_handle feed) of
                         None \<Rightarrow> reservations s
                       | Some reservation \<Rightarrow> reservation_release_slot reservation (reservations s))
                    else reservations s),
          feeds := (feeds s)(i := feed\<lparr>f_pending_reservation := False,
                                       f_pending_reservation_handle := 0\<rparr>)\<rparr>
      else s)"

definition cleanup_feed_pending :: "'w stream_api \<Rightarrow> nat \<Rightarrow> 'w feed_state \<Rightarrow> 'w feed_state" where
  "cleanup_feed_pending N i s = cleanup_pending_reservation N i (cleanup_pending_span N i s)"

definition clear_feed_pending_span :: "nat \<Rightarrow> 'w feed_state \<Rightarrow> 'w feed_state" where
  "clear_feed_pending_span i s =
     s\<lparr>feeds := (feeds s)(i := (feeds s i)\<lparr>f_pending_span := False, f_pending_span_handle := 0\<rparr>)\<rparr>"

definition clear_feed_pending_reservation :: "nat \<Rightarrow> 'w feed_state \<Rightarrow> 'w feed_state" where
  "clear_feed_pending_reservation i s =
     s\<lparr>feeds := (feeds s)(i := (feeds s i)\<lparr>f_pending_reservation := False,
                                          f_pending_reservation_handle := 0\<rparr>)\<rparr>"

section \<open>Decoding and copying\<close>

definition read_options :: "value \<Rightarrow> span_feed_options option option" where
  "read_options options_value =
     (if \<not> has_size 6 options_value then Some None
      else do {
        chunk \<leftarrow> int32_field options_value 0;
        initial \<leftarrow> int32_field options_value 1;
        max_value \<leftarrow> field options_value 2;
        max \<leftarrow> int64_val max_value;
        growth_value \<leftarrow> field options_value 3;
        growth \<leftarrow> int_val growth_value;
        queue \<leftarrow> int32_field options_value 5;
        if neg32 chunk \<or> neg32 initial \<or> sint max < 0 \<or> neg32 queue
           \<or> (growth \<noteq> 0 \<and> growth \<noteq> 1) then Some None
        else do {
          auto_value \<leftarrow> field options_value 4;
          auto \<leftarrow> int_val auto_value;
          Some (Some \<lparr>chunk_size = chunk, initial_chunks = initial, max_bytes = max,
                      growth_policy = word_of_int growth,
                      auto_commit_on_full = word_of_int auto,
                      span_queue_capacity = queue\<rparr>)
        }
      })"

text \<open>The address of a drained span's bytes; None when the address range would wrap.\<close>

definition span_source :: "span_info \<Rightarrow> ptr option" where
  "span_source info =
     (if len info = 0 then Some NULL
      else if chunk_ptr info = 0 \<or> ucast (offset info) > (- 1 :: ptr) - chunk_ptr info then None
      else
        let start = chunk_ptr info + ucast (offset info) in
        if ucast (len info) > (- 1 :: ptr) - start then None else Some start)"

definition invalidate_feed_spans :: "u32 \<Rightarrow> (nat \<Rightarrow> span_slot) \<Rightarrow> (nat \<Rightarrow> span_slot)" where
  "invalidate_feed_spans feed_handle t =
     fold (\<lambda>index t. if s_alive (t index) \<and> s_feed_handle (t index) = feed_handle
                     then span_release_slot index t else t) [1..<SPAN_CAPACITY] t"

definition release_feed_reservations ::
  "u32 \<Rightarrow> (nat \<Rightarrow> reservation_slot) \<Rightarrow> (nat \<Rightarrow> reservation_slot)" where
  "release_feed_reservations feed_handle t =
     fold (\<lambda>index t. if v_alive (t index) \<and> v_feed_handle (t index) = feed_handle
                     then reservation_release_slot index t else t) [1..<RESERVATION_CAPACITY] t"

section \<open>The stubs\<close>

text \<open>
  Each stub takes the state and returns its result beside the new state. The arguments whose
  OCaml type fixes their shape (a token, a byte string) are taken unboxed; \<open>oom\<close> says
  whether an OCaml allocation of the stub raises. A failed \<open>caml_alloc\<close> after the state
  changed leaves the changed state behind.
\<close>

definition opentui_raw_span_feed_create ::
  "'w stream_api \<Rightarrow> bool \<Rightarrow> value \<Rightarrow> 'w feed_state
     \<Rightarrow> ((raw_status \<times> u32) outcome \<times> 'w feed_state) option" where
  "opentui_raw_span_feed_create N oom options_value s =
     require (read_options options_value)
       (Some (allocating oom (Invalid_argument, 0), s))
       (\<lambda>options.
         let (stream, w1) = createNativeSpanFeed N options (world s) in
         if stream = NULL then Some (allocating oom (Native_failure, 0), s\<lparr>world := w1\<rparr>)
         else
           let (handle, slot, t) = span_feed_allocate () (feeds s) in
           if handle = 0 then
             Some (allocating oom (Native_failure, 0),
                   s\<lparr>world := destroyNativeSpanFeed N stream w1\<rparr>)
           else
             let t' = t(slot := (t slot)\<lparr>f_stream := stream\<rparr>);
                 (st, w2) = attachNativeSpanFeed N stream w1;
                 status = map_native_status st in
             if status \<noteq> Ok then
               Some (allocating oom (status, 0),
                     s\<lparr>feeds := span_feed_release_slot slot t',
                       world := destroyNativeSpanFeed N stream w2\<rparr>)
             else Some (allocating oom (Ok, handle), s\<lparr>feeds := t', world := w2\<rparr>))"

definition opentui_raw_span_feed_close ::
  "'w stream_api \<Rightarrow> u32 \<Rightarrow> 'w feed_state \<Rightarrow> raw_status \<times> 'w feed_state" where
  "opentui_raw_span_feed_close N feed_value s =
     (case span_feed_from_token (feeds s) feed_value of
        None \<Rightarrow> (Stale_handle, s)
      | Some slot \<Rightarrow>
          let s1 = cleanup_feed_pending N slot s;
              (st, w) = streamClose N (f_stream (feeds s1 slot)) (world s1);
              status = map_native_status st in
          if status \<noteq> Ok then (status, s1\<lparr>world := w\<rparr>)
          else (Ok, s1\<lparr>spans := invalidate_feed_spans feed_value (spans s1),
                      reservations := release_feed_reservations feed_value (reservations s1),
                      world := destroyNativeSpanFeed N (f_stream (feeds s1 slot)) w,
                      feeds := span_feed_release_slot slot (feeds s1)\<rparr>))"

definition opentui_raw_span_feed_write ::
  "'w stream_api \<Rightarrow> u32 \<Rightarrow> bytes \<Rightarrow> 'w feed_state \<Rightarrow> raw_status \<times> 'w feed_state" where
  "opentui_raw_span_feed_write N feed_value data s =
     (case span_feed_from_token (feeds s) feed_value of
        None \<Rightarrow> (Stale_handle, s)
      | Some slot \<Rightarrow>
          let s1 = cleanup_feed_pending N slot s in
          if length data > UINT32_MAX then (Invalid_argument, s1)
          else
            let (st, w) = streamWrite N (f_stream (feeds s1 slot)) data (world s1) in
            (map_native_status st, s1\<lparr>world := w\<rparr>))"

definition opentui_raw_span_feed_commit ::
  "'w stream_api \<Rightarrow> u32 \<Rightarrow> 'w feed_state \<Rightarrow> raw_status \<times> 'w feed_state" where
  "opentui_raw_span_feed_commit N feed_value s =
     (case span_feed_from_token (feeds s) feed_value of
        None \<Rightarrow> (Stale_handle, s)
      | Some slot \<Rightarrow>
          let s1 = cleanup_feed_pending N slot s;
              (st, w) = streamCommit N (f_stream (feeds s1 slot)) (world s1) in
          (map_native_status st, s1\<lparr>world := w\<rparr>))"

text \<open>The result carries the token, the capacity and the staging bytes, of which only the
  length is defined (caml_alloc_string does not initialise them).\<close>

definition opentui_raw_span_feed_reserve ::
  "'w stream_api \<Rightarrow> bool \<Rightarrow> u32 \<Rightarrow> i32 \<Rightarrow> 'w feed_state
     \<Rightarrow> (raw_status \<times> (u32 \<times> u32 \<times> nat) option) outcome \<times> 'w feed_state" where
  "opentui_raw_span_feed_reserve N oom feed_value minimum_length s =
     (if neg32 minimum_length then (allocating oom (Invalid_argument, None), s)
      else case span_feed_from_token (feeds s) feed_value of
        None \<Rightarrow> (allocating oom (Stale_handle, None), s)
      | Some feed \<Rightarrow>
          let s1 = cleanup_feed_pending N feed s;
              (st, info, w) = streamReserve N (f_stream (feeds s1 feed)) minimum_length (world s1);
              status = map_native_status st;
              s2 = s1\<lparr>world := w\<rparr> in
          if status \<noteq> Ok then (allocating oom (status, None), s2)
          else
            let s3 = s2\<lparr>feeds := (feeds s2)(feed := (feeds s2 feed)\<lparr>f_pending_reservation := True,
                            f_pending_reservation_handle := 0\<rparr>)\<rparr>;
                (handle, _, t) = reservation_allocate (feed_value, info) (reservations s3) in
            if handle = 0 then
              (allocating oom (Native_failure, None), cleanup_feed_pending N feed s3)
            else
              let s4 = s3\<lparr>reservations := t,
                          feeds := (feeds s3)(feed := (feeds s3 feed)\<lparr>
                            f_pending_reservation_handle := handle\<rparr>)\<rparr> in
              if oom then (Out_of_memory, s4)
              else (Returns (Ok, Some (handle, r_len info, unat (r_len info))),
                    clear_feed_pending_reservation feed s4))"

text \<open>The feed of a span or reservation, looked up through the recorded token
  (the guard repeated in the three stubs that start from a span or a reservation).\<close>

definition owning_feed :: "u32 \<Rightarrow> (nat \<Rightarrow> feed_slot) \<Rightarrow> nat option" where
  "owning_feed feed_handle t =
     (let feed_index = slot_of feed_handle in
      if feed_index = 0 \<or> feed_index \<ge> FEED_CAPACITY then None
      else if \<not> f_alive (t feed_index) \<or> f_generation (t feed_index) \<noteq> token_generation feed_handle
           then None
      else Some feed_index)"

definition opentui_raw_span_feed_reservation_commit ::
  "'w stream_api \<Rightarrow> u32 \<Rightarrow> bytes \<Rightarrow> i32 \<Rightarrow> 'w feed_state \<Rightarrow> raw_status \<times> 'w feed_state" where
  "opentui_raw_span_feed_reservation_commit N reservation_value data used s =
     (case reservation_from_token (reservations s) reservation_value of
        None \<Rightarrow> (Stale_handle, s)
      | Some reservation \<Rightarrow>
          let r = reservations s reservation in
          if neg32 used \<or> used > r_len (v_info r) \<or> length data < unat used
          then (Invalid_argument, s)
          else case owning_feed (v_feed_handle r) (feeds s) of
            None \<Rightarrow> (Stale_handle, s)
          | Some feed \<Rightarrow>
              let s1 = cleanup_feed_pending N feed s;
                  target = r_ptr (v_info (reservations s1 reservation)) in
              if used \<noteq> 0 \<and> target = 0 then (Native_failure, s1)
              else
                let w1 = (if used \<noteq> 0 then store N target (take (unat used) data) (world s1)
                          else world s1);
                    (st, w2) = streamCommitReserved N (f_stream (feeds s1 feed)) used w1;
                    status = map_native_status st;
                    s2 = s1\<lparr>world := w2\<rparr> in
                (status,
                 if status = Ok
                 then s2\<lparr>reservations := reservation_release_slot reservation (reservations s2)\<rparr>
                 else s2))"

definition opentui_raw_span_feed_reservation_cancel ::
  "'w stream_api \<Rightarrow> u32 \<Rightarrow> 'w feed_state \<Rightarrow> raw_status \<times> 'w feed_state" where
  "opentui_raw_span_feed_reservation_cancel N reservation_value s =
     (case reservation_from_token (reservations s) reservation_value of
        None \<Rightarrow> (Stale_handle, s)
      | Some reservation \<Rightarrow>
          (case owning_feed (v_feed_handle (reservations s reservation)) (feeds s) of
            None \<Rightarrow> (Stale_handle, s)
          | Some feed \<Rightarrow>
              let s1 = cleanup_feed_pending N feed s;
                  (st, w) = streamCancelReserved N (f_stream (feeds s1 feed)) (world s1);
                  status = map_native_status st;
                  s2 = s1\<lparr>world := w\<rparr> in
              (status,
               if status = Ok
               then s2\<lparr>reservations := reservation_release_slot reservation (reservations s2)\<rparr>
               else s2)))"

definition opentui_raw_span_feed_stats ::
  "'w stream_api \<Rightarrow> bool \<Rightarrow> u32 \<Rightarrow> 'w feed_state
     \<Rightarrow> (raw_status \<times> span_feed_stats option) outcome \<times> 'w feed_state" where
  "opentui_raw_span_feed_stats N oom feed_value s =
     (case span_feed_from_token (feeds s) feed_value of
        None \<Rightarrow> (allocating oom (Stale_handle, None), s)
      | Some feed \<Rightarrow>
          let s1 = cleanup_feed_pending N feed s;
              (st, stats, w) = streamGetStats N (f_stream (feeds s1 feed)) (world s1);
              status = map_native_status st in
          (allocating oom (status, if status = Ok then Some stats else None), s1\<lparr>world := w\<rparr>))"

definition opentui_raw_span_feed_drain ::
  "'w stream_api \<Rightarrow> bool \<Rightarrow> u32 \<Rightarrow> 'w feed_state
     \<Rightarrow> (raw_status \<times> (bytes \<times> u32) option) outcome \<times> 'w feed_state" where
  "opentui_raw_span_feed_drain N oom feed_value s =
     (case span_feed_from_token (feeds s) feed_value of
        None \<Rightarrow> (allocating oom (Stale_handle, None), s)
      | Some feed \<Rightarrow>
          let s1 = cleanup_feed_pending N feed s;
              (count, info, w) = streamDrainSpans N (f_stream (feeds s1 feed)) 1 (world s1);
              s2 = s1\<lparr>world := w\<rparr> in
          if count = 0 then (allocating oom (Ok, None), s2)
          else
            let s3 = s2\<lparr>feeds := (feeds s2)(feed := (feeds s2 feed)\<lparr>f_pending_span := True,
                            f_pending_span_handle := 0, f_pending_info := info\<rparr>)\<rparr> in
            (case span_source info of
               None \<Rightarrow> (allocating oom (Native_failure, None), cleanup_feed_pending N feed s3)
             | Some source \<Rightarrow>
                 let (span_handle, _, t) = span_allocate (feed_value, info) (spans s3) in
                 if span_handle = 0 then
                   (allocating oom (Native_failure, None), cleanup_feed_pending N feed s3)
                 else
                   let s4 = s3\<lparr>spans := t,
                               feeds := (feeds s3)(feed := (feeds s3 feed)\<lparr>
                                 f_pending_span_handle := span_handle\<rparr>)\<rparr> in
                   if oom then (Out_of_memory, s4)
                   else (Returns (Ok, Some (load N source (unat (len info)) (world s4), span_handle)),
                         clear_feed_pending_span feed s4)))"

definition opentui_raw_span_release ::
  "'w stream_api \<Rightarrow> u32 \<Rightarrow> 'w feed_state \<Rightarrow> raw_status \<times> 'w feed_state" where
  "opentui_raw_span_release N span_value s =
     (case span_from_token (spans s) span_value of
        None \<Rightarrow> (Stale_handle, s)
      | Some sp \<Rightarrow>
          (case owning_feed (s_feed_handle (spans s sp)) (feeds s) of
             None \<Rightarrow> (Stale_handle, s)
           | Some feed \<Rightarrow>
               let s1 = cleanup_feed_pending N feed s;
                   (st, w) = streamMarkSpanConsumed N (f_stream (feeds s1 feed))
                               (s_info (spans s1 sp)) (world s1);
                   status = map_native_status st;
                   s2 = s1\<lparr>world := w\<rparr> in
               (status,
                if status = Ok then s2\<lparr>spans := span_release_slot sp (spans s2)\<rparr> else s2)))"

section \<open>The tables satisfy the contract\<close>

lemma of_token_unfold:
  "(let index = slot_of tok in
      if index = 0 \<or> index \<ge> cap then None
      else if \<not> alive (t index) \<or> gen (t index) \<noteq> token_generation tok then None
      else Some index) = Some i
   \<longleftrightarrow> i = slot_of tok \<and> i \<noteq> 0 \<and> i < cap \<and> alive (t i) \<and> gen (t i) = token_generation tok"
  by (auto simp: Let_def)

interpretation fd: slot_table FEED_CAPACITY f_alive f_generation span_feed_from_token
  span_feed_allocate span_feed_release_slot
proof
  fix t tok i
  show "span_feed_from_token t tok = Some i \<longleftrightarrow> i = slot_of tok \<and> i \<noteq> 0 \<and> i < FEED_CAPACITY
      \<and> f_alive (t i) \<and> f_generation (t i) = token_generation tok"
    unfolding span_feed_from_token_def by (rule of_token_unfold)
next
  fix t :: "nat \<Rightarrow> feed_slot" and x
  assume "\<And>i. 0 < i \<Longrightarrow> i < FEED_CAPACITY \<Longrightarrow> f_alive (t i)"
  then have "scan_free (\<lambda>i. f_alive (t i)) 1 FEED_CAPACITY = None" by (simp add: scan_free_None)
  then show "span_feed_allocate x t = (0, 0, t)" by (simp add: span_feed_allocate_def)
next
  fix t :: "nat \<Rightarrow> feed_slot" and i x
  assume i: "0 < i" "i < FEED_CAPACITY" "\<not> f_alive (t i)"
  obtain k where "scan_free (\<lambda>i. f_alive (t i)) 1 FEED_CAPACITY = Some k" "0 < k" "k \<le> i"
    "\<not> f_alive (t k)" using scan_free_found [of i _ "\<lambda>i. f_alive (t i)", OF i] .
  then show "\<exists>k s. 0 < k \<and> k \<le> i \<and> \<not> f_alive (t k) \<and> f_alive s
      \<and> f_generation s = fresh_generation (f_generation (t k))
      \<and> span_feed_allocate x t = (make_token (of_nat k) (f_generation s), k, t(k := s))"
    by (intro exI [of _ k] exI) (auto simp: span_feed_allocate_def Let_def)
qed (simp_all add: FEED_CAPACITY_def span_feed_release_slot_def)

interpretation sn: slot_table SPAN_CAPACITY s_alive s_generation span_from_token
  span_allocate span_release_slot
proof
  fix t tok i
  show "span_from_token t tok = Some i \<longleftrightarrow> i = slot_of tok \<and> i \<noteq> 0 \<and> i < SPAN_CAPACITY
      \<and> s_alive (t i) \<and> s_generation (t i) = token_generation tok"
    unfolding span_from_token_def by (rule of_token_unfold)
next
  fix t :: "nat \<Rightarrow> span_slot" and x
  assume "\<And>i. 0 < i \<Longrightarrow> i < SPAN_CAPACITY \<Longrightarrow> s_alive (t i)"
  then have "scan_free (\<lambda>i. s_alive (t i)) 1 SPAN_CAPACITY = None" by (simp add: scan_free_None)
  then show "span_allocate x t = (0, 0, t)" by (simp add: span_allocate_def split: prod.splits)
next
  fix t :: "nat \<Rightarrow> span_slot" and i x
  assume i: "0 < i" "i < SPAN_CAPACITY" "\<not> s_alive (t i)"
  obtain k where "scan_free (\<lambda>i. s_alive (t i)) 1 SPAN_CAPACITY = Some k" "0 < k" "k \<le> i"
    "\<not> s_alive (t k)" using scan_free_found [of i _ "\<lambda>i. s_alive (t i)", OF i] .
  then show "\<exists>k s. 0 < k \<and> k \<le> i \<and> \<not> s_alive (t k) \<and> s_alive s
      \<and> s_generation s = fresh_generation (s_generation (t k))
      \<and> span_allocate x t = (make_token (of_nat k) (s_generation s), k, t(k := s))"
    by (cases x, intro exI [of _ k] exI) (auto simp: span_allocate_def Let_def)
qed (simp_all add: SPAN_CAPACITY_def span_release_slot_def)

interpretation rv: slot_table RESERVATION_CAPACITY v_alive v_generation reservation_from_token
  reservation_allocate reservation_release_slot
proof
  fix t tok i
  show "reservation_from_token t tok = Some i \<longleftrightarrow> i = slot_of tok \<and> i \<noteq> 0
      \<and> i < RESERVATION_CAPACITY \<and> v_alive (t i) \<and> v_generation (t i) = token_generation tok"
    unfolding reservation_from_token_def by (rule of_token_unfold)
next
  fix t :: "nat \<Rightarrow> reservation_slot" and x
  assume "\<And>i. 0 < i \<Longrightarrow> i < RESERVATION_CAPACITY \<Longrightarrow> v_alive (t i)"
  then have "scan_free (\<lambda>i. v_alive (t i)) 1 RESERVATION_CAPACITY = None"
    by (simp add: scan_free_None)
  then show "reservation_allocate x t = (0, 0, t)"
    by (simp add: reservation_allocate_def split: prod.splits)
next
  fix t :: "nat \<Rightarrow> reservation_slot" and i x
  assume i: "0 < i" "i < RESERVATION_CAPACITY" "\<not> v_alive (t i)"
  obtain k where "scan_free (\<lambda>i. v_alive (t i)) 1 RESERVATION_CAPACITY = Some k" "0 < k" "k \<le> i"
    "\<not> v_alive (t k)" using scan_free_found [of i _ "\<lambda>i. v_alive (t i)", OF i] .
  then show "\<exists>k s. 0 < k \<and> k \<le> i \<and> \<not> v_alive (t k) \<and> v_alive s
      \<and> v_generation s = fresh_generation (v_generation (t k))
      \<and> reservation_allocate x t = (make_token (of_nat k) (v_generation s), k, t(k := s))"
    by (cases x, intro exI [of _ k] exI) (auto simp: reservation_allocate_def Let_def)
qed (simp_all add: RESERVATION_CAPACITY_def reservation_release_slot_def)

end
