(* ===== verification/Span_Feed_Safety.thy ===== *)
theory Span_Feed_Safety
  imports Span_Feed
begin

text \<open>
  Safety of the output feed. The step relation runs the stubs in any order, with any
  arguments and any allocation failures. The invariant relates the three tables and the
  pending records; \<open>stream_protocol\<close> states what the native stream asks of its caller,
  and every reachable state satisfies it.
\<close>

section \<open>Reachable states\<close>

inductive feed_step :: "'w stream_api \<Rightarrow> 'w feed_state \<Rightarrow> 'w feed_state \<Rightarrow> bool" for N where
  create: "opentui_raw_span_feed_create N oom v s = Some (r, s') \<Longrightarrow> feed_step N s s'"
| close: "opentui_raw_span_feed_close N f s = (r, s') \<Longrightarrow> feed_step N s s'"
| "write": "opentui_raw_span_feed_write N f data s = (r, s') \<Longrightarrow> feed_step N s s'"
| commit: "opentui_raw_span_feed_commit N f s = (r, s') \<Longrightarrow> feed_step N s s'"
| reserve: "opentui_raw_span_feed_reserve N oom f m s = (r, s') \<Longrightarrow> feed_step N s s'"
| commit_reserved:
    "opentui_raw_span_feed_reservation_commit N v data used s = (r, s') \<Longrightarrow> feed_step N s s'"
| cancel: "opentui_raw_span_feed_reservation_cancel N v s = (r, s') \<Longrightarrow> feed_step N s s'"
| stats: "opentui_raw_span_feed_stats N oom f s = (r, s') \<Longrightarrow> feed_step N s s'"
| drain: "opentui_raw_span_feed_drain N oom f s = (r, s') \<Longrightarrow> feed_step N s s'"
| release: "opentui_raw_span_release N v s = (r, s') \<Longrightarrow> feed_step N s s'"

inductive feed_reachable :: "'w stream_api \<Rightarrow> 'w \<Rightarrow> 'w feed_state \<Rightarrow> bool" for N w0 where
  start: "feed_reachable N w0 (init_feed_state w0)"
| step: "feed_reachable N w0 s \<Longrightarrow> feed_step N s s' \<Longrightarrow> feed_reachable N w0 s'"

section \<open>The invariant\<close>

definition feed_token :: "(nat \<Rightarrow> feed_slot) \<Rightarrow> nat \<Rightarrow> u32" where
  "feed_token t i = make_token (of_nat i) (f_generation (t i))"

definition live_feeds :: "'w feed_state \<Rightarrow> nat set" where
  "live_feeds s = {i. f_alive (feeds s i)}"

definition live_streams :: "'w feed_state \<Rightarrow> ptr set" where
  "live_streams s = (\<lambda>i. f_stream (feeds s i)) ` live_feeds s"

definition tables_ok :: "'w feed_state \<Rightarrow> bool" where
  "tables_ok s \<longleftrightarrow>
     (\<forall>i. f_alive (feeds s i) \<longrightarrow> 0 < i \<and> i < FEED_CAPACITY \<and> f_stream (feeds s i) \<noteq> NULL) \<and>
     (\<forall>i. s_alive (spans s i) \<longrightarrow> 0 < i \<and> i < SPAN_CAPACITY) \<and>
     (\<forall>i. v_alive (reservations s i) \<longrightarrow> 0 < i \<and> i < RESERVATION_CAPACITY)"

definition owners_ok :: "'w feed_state \<Rightarrow> bool" where
  "owners_ok s \<longleftrightarrow>
     (\<forall>k. s_alive (spans s k) \<longrightarrow>
        span_feed_from_token (feeds s) (s_feed_handle (spans s k)) \<noteq> None) \<and>
     (\<forall>k. v_alive (reservations s k) \<longrightarrow>
        span_feed_from_token (feeds s) (v_feed_handle (reservations s k)) \<noteq> None)"

definition pending_ok :: "'w feed_state \<Rightarrow> bool" where
  "pending_ok s \<longleftrightarrow>
     (\<forall>i. f_alive (feeds s i) \<and> f_pending_span (feeds s i) \<and> f_pending_span_handle (feeds s i) \<noteq> 0 \<longrightarrow>
        (\<exists>k. span_from_token (spans s) (f_pending_span_handle (feeds s i)) = Some k \<and>
             s_feed_handle (spans s k) = feed_token (feeds s) i \<and>
             s_info (spans s k) = f_pending_info (feeds s i))) \<and>
     (\<forall>i. f_alive (feeds s i) \<and> f_pending_reservation (feeds s i)
          \<and> f_pending_reservation_handle (feeds s i) \<noteq> 0 \<longrightarrow>
        (\<exists>k. reservation_from_token (reservations s) (f_pending_reservation_handle (feeds s i)) = Some k \<and>
             v_feed_handle (reservations s k) = feed_token (feeds s) i))"

definition feed_inv :: "'w feed_state \<Rightarrow> bool" where
  "feed_inv s \<longleftrightarrow> tables_ok s \<and> owners_ok s \<and> pending_ok s"

text \<open>
  What the native stream asks of its caller: \<open>Q T w\<close> says that the world \<open>w\<close> is in
  order while exactly the streams in \<open>T\<close> exist. A function promises to keep the world in
  order only when it is called on an existing stream; a stream is created under an address
  no existing stream has, and is gone once destroyed.
\<close>

definition keeps :: "(ptr set \<Rightarrow> 'w \<Rightarrow> bool) \<Rightarrow> (ptr \<Rightarrow> 'w \<Rightarrow> 'w) \<Rightarrow> bool" where
  "keeps Q f \<longleftrightarrow> (\<forall>T w p. Q T w \<longrightarrow> p \<in> T \<longrightarrow> Q T (f p w))"

definition stream_protocol :: "'w stream_api \<Rightarrow> (ptr set \<Rightarrow> 'w \<Rightarrow> bool) \<Rightarrow> bool" where
  "stream_protocol N Q \<longleftrightarrow>
     (\<forall>T w p w' options. Q T w \<longrightarrow> createNativeSpanFeed N options w = (p, w') \<longrightarrow>
        (if p = NULL then Q T w' else p \<notin> T \<and> Q (insert p T) w')) \<and>
     (\<forall>T w p. Q T w \<longrightarrow> p \<in> T \<longrightarrow> Q (T - {p}) (destroyNativeSpanFeed N p w)) \<and>
     keeps Q (\<lambda>p w. snd (attachNativeSpanFeed N p w)) \<and>
     (\<forall>data. keeps Q (\<lambda>p w. snd (streamWrite N p data w))) \<and>
     keeps Q (\<lambda>p w. snd (streamCommit N p w)) \<and>
     keeps Q (\<lambda>p w. snd (streamClose N p w)) \<and>
     (\<forall>n. keeps Q (\<lambda>p w. snd (snd (streamReserve N p n w)))) \<and>
     (\<forall>n. keeps Q (\<lambda>p w. snd (streamCommitReserved N p n w))) \<and>
     keeps Q (\<lambda>p w. snd (streamCancelReserved N p w)) \<and>
     keeps Q (\<lambda>p w. snd (snd (streamGetStats N p w))) \<and>
     (\<forall>n. keeps Q (\<lambda>p w. snd (snd (streamDrainSpans N p n w)))) \<and>
     (\<forall>info. keeps Q (\<lambda>p w. snd (streamMarkSpanConsumed N p info w))) \<and>
     (\<forall>T w a bs. Q T w \<longrightarrow> Q T (store N a bs w))"

definition feed_good :: "(ptr set \<Rightarrow> 'w \<Rightarrow> bool) \<Rightarrow> 'w feed_state \<Rightarrow> bool" where
  "feed_good Q s \<longleftrightarrow> feed_inv s \<and> inj_on (\<lambda>i. f_stream (feeds s i)) (live_feeds s) \<and>
     Q (live_streams s) (world s)"

lemma feed_good_init: "Q {} w0 \<Longrightarrow> feed_good Q (init_feed_state w0)"
  by (simp add: feed_good_def feed_inv_def tables_ok_def owners_ok_def pending_ok_def
      init_feed_state_def live_feeds_def live_streams_def zero_feed_slot_def zero_span_slot_def
      zero_reservation_slot_def)

lemma feed_token_slot:
  "feed_inv s \<Longrightarrow> f_alive (feeds s i) \<Longrightarrow> span_feed_from_token (feeds s) (feed_token (feeds s) i) = Some i"
  unfolding feed_token_def feed_inv_def tables_ok_def by (blast intro: fd.resolve_alive)

lemma feed_token_of:
  "span_feed_from_token t tok = Some i \<Longrightarrow> feed_token t i = tok"
  unfolding feed_token_def fd.resolve_iff by (metis make_token_slot_of)

lemma live_stream:
  "span_feed_from_token (feeds s) tok = Some i \<Longrightarrow> f_stream (feeds s i) \<in> live_streams s"
  by (auto simp: fd.resolve_iff live_streams_def live_feeds_def)

text \<open>Updates that keep liveness, generation and stream of every feed keep all lookups.\<close>

definition same_feeds :: "(nat \<Rightarrow> feed_slot) \<Rightarrow> (nat \<Rightarrow> feed_slot) \<Rightarrow> bool" where
  "same_feeds t t' \<longleftrightarrow> (\<forall>i. f_alive (t' i) = f_alive (t i) \<and> f_generation (t' i) = f_generation (t i)
     \<and> f_stream (t' i) = f_stream (t i))"

lemma same_feeds_lookup: "same_feeds t t' \<Longrightarrow> span_feed_from_token t' tok = span_feed_from_token t tok"
  by (simp add: same_feeds_def span_feed_from_token_def Let_def)

lemma same_feeds_token: "same_feeds t t' \<Longrightarrow> feed_token t' i = feed_token t i"
  by (simp add: same_feeds_def feed_token_def)

lemma same_feeds_live:
  "same_feeds (feeds s) (feeds s') \<Longrightarrow> live_feeds s' = live_feeds s \<and> live_streams s' = live_streams s"
  by (simp add: same_feeds_def live_feeds_def live_streams_def)

lemma same_feeds_inj:
  "same_feeds (feeds s) (feeds s') \<Longrightarrow>
     inj_on (\<lambda>i. f_stream (feeds s' i)) (live_feeds s') = inj_on (\<lambda>i. f_stream (feeds s i)) (live_feeds s)"
  by (simp add: same_feeds_def live_feeds_def inj_on_def)

lemma same_feeds_refl [simp]: "same_feeds t t"
  by (simp add: same_feeds_def)

lemma same_feeds_trans: "same_feeds t u \<Longrightarrow> same_feeds u v \<Longrightarrow> same_feeds t v"
  by (simp add: same_feeds_def)

text \<open>The steps a stub is made of.\<close>

lemma good_world:
  "feed_good Q s \<Longrightarrow> Q (live_streams s) w \<Longrightarrow> feed_good Q (s\<lparr>world := w\<rparr>)"
  by (simp add: feed_good_def feed_inv_def tables_ok_def owners_ok_def pending_ok_def
      live_feeds_def live_streams_def)

lemma good_world_D: "feed_good Q s \<Longrightarrow> Q (live_streams s) (world s)"
  by (simp add: feed_good_def)

lemma live_streams_world [simp]: "live_streams (s\<lparr>world := w\<rparr>) = live_streams s"
  by (simp add: live_streams_def live_feeds_def)

lemma good_feeds:
  assumes "feed_good Q s" "same_feeds (feeds s) t" "pending_ok (s\<lparr>feeds := t\<rparr>)"
  shows "feed_good Q (s\<lparr>feeds := t\<rparr>)"
proof -
  from assms(1) have g: "tables_ok s" "owners_ok s" "inj_on (\<lambda>i. f_stream (feeds s i)) (live_feeds s)"
    "Q (live_streams s) (world s)" by (simp_all add: feed_good_def feed_inv_def)
  have "tables_ok (s\<lparr>feeds := t\<rparr>)" using g(1) assms(2) by (simp add: tables_ok_def same_feeds_def)
  moreover have "owners_ok (s\<lparr>feeds := t\<rparr>)"
    using g(2) by (simp add: owners_ok_def same_feeds_lookup [OF assms(2)])
  moreover have "live_streams (s\<lparr>feeds := t\<rparr>) = live_streams s"
    using same_feeds_live [of s "s\<lparr>feeds := t\<rparr>"] assms(2) by simp
  moreover have "inj_on (\<lambda>i. f_stream (t i)) (live_feeds (s\<lparr>feeds := t\<rparr>))"
    using same_feeds_inj [of s "s\<lparr>feeds := t\<rparr>"] assms(2) g(3) by simp
  ultimately show ?thesis using g(4) assms(3) by (simp add: feed_good_def feed_inv_def)
qed

definition span_unpended :: "'w feed_state \<Rightarrow> nat \<Rightarrow> bool" where
  "span_unpended s k \<longleftrightarrow> (\<forall>i. f_alive (feeds s i) \<and> f_pending_span (feeds s i)
     \<and> f_pending_span_handle (feeds s i) \<noteq> 0 \<longrightarrow> slot_of (f_pending_span_handle (feeds s i)) \<noteq> k)"

definition reservation_unpended :: "'w feed_state \<Rightarrow> nat \<Rightarrow> bool" where
  "reservation_unpended s k \<longleftrightarrow> (\<forall>i. f_alive (feeds s i) \<and> f_pending_reservation (feeds s i)
     \<and> f_pending_reservation_handle (feeds s i) \<noteq> 0 \<longrightarrow>
     slot_of (f_pending_reservation_handle (feeds s i)) \<noteq> k)"

lemma good_span_release:
  assumes "feed_good Q s" "span_unpended s k"
  shows "feed_good Q (s\<lparr>spans := span_release_slot k (spans s)\<rparr>)"
proof -
  let ?t = "span_release_slot k (spans s)"
  from assms(1) have g: "tables_ok s" "owners_ok s" "pending_ok s"
    by (simp_all add: feed_good_def feed_inv_def)
  have "tables_ok (s\<lparr>spans := ?t\<rparr>)" using g(1) by (auto simp: tables_ok_def span_release_slot_def)
  moreover have "owners_ok (s\<lparr>spans := ?t\<rparr>)" using g(2) by (auto simp: owners_ok_def span_release_slot_def)
  moreover have "pending_ok (s\<lparr>spans := ?t\<rparr>)"
    unfolding pending_ok_def
  proof (intro conjI allI impI)
    fix i assume p: "f_alive (feeds (s\<lparr>spans := ?t\<rparr>) i) \<and> f_pending_span (feeds (s\<lparr>spans := ?t\<rparr>) i)
      \<and> f_pending_span_handle (feeds (s\<lparr>spans := ?t\<rparr>) i) \<noteq> 0"
    then obtain j where j: "span_from_token (spans s) (f_pending_span_handle (feeds s i)) = Some j"
      "s_feed_handle (spans s j) = feed_token (feeds s) i" "s_info (spans s j) = f_pending_info (feeds s i)"
      using g(3) by (auto simp: pending_ok_def)
    have jk: "j \<noteq> k" using j(1) p assms(2) sn.resolve_slot by (fastforce simp: span_unpended_def)
    then have "?t j = spans s j" by (rule sn.release_other)
    moreover have "span_from_token ?t (f_pending_span_handle (feeds s i)) = Some j"
      using j(1) jk sn.resolve_slot [OF j(1)] by (simp add: sn.release_keeps)
    ultimately show "\<exists>k. span_from_token (spans (s\<lparr>spans := ?t\<rparr>)) (f_pending_span_handle (feeds (s\<lparr>spans := ?t\<rparr>) i)) = Some k \<and>
          s_feed_handle (spans (s\<lparr>spans := ?t\<rparr>) k) = feed_token (feeds (s\<lparr>spans := ?t\<rparr>)) i \<and>
          s_info (spans (s\<lparr>spans := ?t\<rparr>) k) = f_pending_info (feeds (s\<lparr>spans := ?t\<rparr>) i)"
      using j by auto
  qed (use g(3) in \<open>simp add: pending_ok_def\<close>)
  ultimately show ?thesis using assms(1)
    by (simp add: feed_good_def feed_inv_def live_feeds_def live_streams_def)
qed

lemma good_reservation_release:
  assumes "feed_good Q s" "reservation_unpended s k"
  shows "feed_good Q (s\<lparr>reservations := reservation_release_slot k (reservations s)\<rparr>)"
proof -
  let ?t = "reservation_release_slot k (reservations s)"
  from assms(1) have g: "tables_ok s" "owners_ok s" "pending_ok s"
    by (simp_all add: feed_good_def feed_inv_def)
  have "tables_ok (s\<lparr>reservations := ?t\<rparr>)"
    using g(1) by (auto simp: tables_ok_def reservation_release_slot_def)
  moreover have "owners_ok (s\<lparr>reservations := ?t\<rparr>)"
    using g(2) by (auto simp: owners_ok_def reservation_release_slot_def)
  moreover have "pending_ok (s\<lparr>reservations := ?t\<rparr>)"
    unfolding pending_ok_def
  proof (intro conjI allI impI)
    fix i assume p: "f_alive (feeds (s\<lparr>reservations := ?t\<rparr>) i)
      \<and> f_pending_reservation (feeds (s\<lparr>reservations := ?t\<rparr>) i)
      \<and> f_pending_reservation_handle (feeds (s\<lparr>reservations := ?t\<rparr>) i) \<noteq> 0"
    then obtain j where
      j: "reservation_from_token (reservations s) (f_pending_reservation_handle (feeds s i)) = Some j"
      "v_feed_handle (reservations s j) = feed_token (feeds s) i"
      using g(3) by (auto simp: pending_ok_def)
    have jk: "j \<noteq> k" using j(1) p assms(2) rv.resolve_slot by (fastforce simp: reservation_unpended_def)
    then have "?t j = reservations s j" by (rule rv.release_other)
    moreover have "reservation_from_token ?t (f_pending_reservation_handle (feeds s i)) = Some j"
      using j(1) jk rv.resolve_slot [OF j(1)] by (simp add: rv.release_keeps)
    ultimately show "\<exists>k. reservation_from_token (reservations (s\<lparr>reservations := ?t\<rparr>))
          (f_pending_reservation_handle (feeds (s\<lparr>reservations := ?t\<rparr>) i)) = Some k \<and>
          v_feed_handle (reservations (s\<lparr>reservations := ?t\<rparr>) k) = feed_token (feeds (s\<lparr>reservations := ?t\<rparr>)) i"
      using j by auto
  qed (use g(3) in \<open>simp add: pending_ok_def\<close>)
  ultimately show ?thesis using assms(1)
    by (simp add: feed_good_def feed_inv_def live_feeds_def live_streams_def)
qed

lemma good_span_alloc:
  assumes good: "feed_good Q s" and own: "span_feed_from_token (feeds s) f = Some j"
    and al: "span_allocate (f, info) (spans s) = (h, k, t)"
  shows "feed_good Q (s\<lparr>spans := t\<rparr>)"
proof -
  from good have g: "tables_ok s" "owners_ok s" "pending_ok s"
    by (simp_all add: feed_good_def feed_inv_def)
  have new: "t = spans s \<or> (\<exists>g. 0 < k \<and> k < SPAN_CAPACITY \<and>
      t = (spans s)(k := \<lparr>s_generation = g, s_alive = True, s_feed_handle = f, s_info = info\<rparr>))"
    using al scan_free_Some [of "\<lambda>i. s_alive (spans s i)" 1 SPAN_CAPACITY k]
    by (auto simp: span_allocate_def Let_def split: option.splits)
  have "tables_ok (s\<lparr>spans := t\<rparr>)" using g(1) new by (auto simp: tables_ok_def split: if_splits)
  moreover have "owners_ok (s\<lparr>spans := t\<rparr>)" using g(2) new own by (auto simp: owners_ok_def split: if_splits)
  moreover have "pending_ok (s\<lparr>spans := t\<rparr>)"
    using g(3) sn.alloc_keeps [OF al] unfolding pending_ok_def by simp metis
  ultimately show ?thesis using good
    by (simp add: feed_good_def feed_inv_def live_feeds_def live_streams_def)
qed

lemma span_alloc_slot:
  assumes "span_allocate (f, info) t0 = (h, k, t)" "h \<noteq> 0"
  shows "span_from_token t h = Some k \<and> s_feed_handle (t k) = f \<and> s_info (t k) = info"
  using sn.alloc_resolves [OF assms] assms
  by (auto simp: span_allocate_def Let_def split: option.splits)

lemma good_reservation_alloc:
  assumes good: "feed_good Q s" and own: "span_feed_from_token (feeds s) f = Some j"
    and al: "reservation_allocate (f, info) (reservations s) = (h, k, t)"
  shows "feed_good Q (s\<lparr>reservations := t\<rparr>)"
proof -
  from good have g: "tables_ok s" "owners_ok s" "pending_ok s"
    by (simp_all add: feed_good_def feed_inv_def)
  have new: "t = reservations s \<or> (\<exists>g. 0 < k \<and> k < RESERVATION_CAPACITY \<and>
      t = (reservations s)(k := \<lparr>v_generation = g, v_alive = True, v_feed_handle = f, v_info = info\<rparr>))"
    using al scan_free_Some [of "\<lambda>i. v_alive (reservations s i)" 1 RESERVATION_CAPACITY k]
    by (auto simp: reservation_allocate_def Let_def split: option.splits)
  have "tables_ok (s\<lparr>reservations := t\<rparr>)" using g(1) new by (auto simp: tables_ok_def split: if_splits)
  moreover have "owners_ok (s\<lparr>reservations := t\<rparr>)" using g(2) new own by (auto simp: owners_ok_def split: if_splits)
  moreover have "pending_ok (s\<lparr>reservations := t\<rparr>)"
    using g(3) rv.alloc_keeps [OF al] unfolding pending_ok_def by simp metis
  ultimately show ?thesis using good
    by (simp add: feed_good_def feed_inv_def live_feeds_def live_streams_def)
qed

lemma reservation_alloc_slot:
  assumes "reservation_allocate (f, info) t0 = (h, k, t)" "h \<noteq> 0"
  shows "reservation_from_token t h = Some k \<and> v_feed_handle (t k) = f \<and> v_info (t k) = info"
  using rv.alloc_resolves [OF assms] assms
  by (auto simp: reservation_allocate_def Let_def split: option.splits)

text \<open>Changes of one feed's pending records.\<close>

lemma same_feeds_pending:
  "same_feeds t (t(i := (t i)\<lparr>f_pending_span := b, f_pending_span_handle := h\<rparr>))"
  "same_feeds t (t(i := (t i)\<lparr>f_pending_span := b, f_pending_span_handle := h, f_pending_info := info\<rparr>))"
  "same_feeds t (t(i := (t i)\<lparr>f_pending_span_handle := h\<rparr>))"
  "same_feeds t (t(i := (t i)\<lparr>f_pending_reservation := b, f_pending_reservation_handle := h\<rparr>))"
  "same_feeds t (t(i := (t i)\<lparr>f_pending_reservation_handle := h\<rparr>))"
  by (simp_all add: same_feeds_def)

lemma pending_ok_feed:
  assumes "pending_ok s" "same_feeds (feeds s) t" "\<And>j. j \<noteq> i \<Longrightarrow> t j = feeds s j"
    and "f_alive (t i) \<Longrightarrow> f_pending_span (t i) \<Longrightarrow> f_pending_span_handle (t i) \<noteq> 0 \<Longrightarrow>
      \<exists>k. span_from_token (spans s) (f_pending_span_handle (t i)) = Some k \<and>
          s_feed_handle (spans s k) = feed_token (feeds s) i \<and> s_info (spans s k) = f_pending_info (t i)"
    and "f_alive (t i) \<Longrightarrow> f_pending_reservation (t i) \<Longrightarrow> f_pending_reservation_handle (t i) \<noteq> 0 \<Longrightarrow>
      \<exists>k. reservation_from_token (reservations s) (f_pending_reservation_handle (t i)) = Some k \<and>
          v_feed_handle (reservations s k) = feed_token (feeds s) i"
  shows "pending_ok (s\<lparr>feeds := t\<rparr>)"
  unfolding pending_ok_def
proof (intro conjI allI impI)
  fix j assume p: "f_alive (feeds (s\<lparr>feeds := t\<rparr>) j) \<and> f_pending_span (feeds (s\<lparr>feeds := t\<rparr>) j)
      \<and> f_pending_span_handle (feeds (s\<lparr>feeds := t\<rparr>) j) \<noteq> 0"
  show "\<exists>k. span_from_token (spans (s\<lparr>feeds := t\<rparr>)) (f_pending_span_handle (feeds (s\<lparr>feeds := t\<rparr>) j)) = Some k \<and>
      s_feed_handle (spans (s\<lparr>feeds := t\<rparr>) k) = feed_token (feeds (s\<lparr>feeds := t\<rparr>)) j \<and>
      s_info (spans (s\<lparr>feeds := t\<rparr>) k) = f_pending_info (feeds (s\<lparr>feeds := t\<rparr>) j)"
    using assms(1,3,4) p by (cases "j = i") (simp_all add: same_feeds_token [OF assms(2)] pending_ok_def)
next
  fix j assume p: "f_alive (feeds (s\<lparr>feeds := t\<rparr>) j) \<and> f_pending_reservation (feeds (s\<lparr>feeds := t\<rparr>) j)
      \<and> f_pending_reservation_handle (feeds (s\<lparr>feeds := t\<rparr>) j) \<noteq> 0"
  show "\<exists>k. reservation_from_token (reservations (s\<lparr>feeds := t\<rparr>))
        (f_pending_reservation_handle (feeds (s\<lparr>feeds := t\<rparr>) j)) = Some k \<and>
      v_feed_handle (reservations (s\<lparr>feeds := t\<rparr>) k) = feed_token (feeds (s\<lparr>feeds := t\<rparr>)) j"
    using assms(1,3,5) p by (cases "j = i") (simp_all add: same_feeds_token [OF assms(2)] pending_ok_def)
qed

lemma feed_good_pending: "feed_good Q s \<Longrightarrow> pending_ok s"
  by (simp add: feed_good_def feed_inv_def)

lemma feed_good_inv: "feed_good Q s \<Longrightarrow> feed_inv s"
  by (simp add: feed_good_def)

text \<open>Two live feeds have different tokens, so their pending objects are in different slots.\<close>

lemma span_of_other_unpended:
  assumes "feed_good Q s" "s_feed_handle (spans s k) = feed_token (feeds s) i" "f_alive (feeds s i)"
    and "\<not> (f_pending_span (feeds s i) \<and> f_pending_span_handle (feeds s i) \<noteq> 0)"
  shows "span_unpended s k"
  unfolding span_unpended_def
proof (intro allI impI notI)
  fix j assume j: "f_alive (feeds s j) \<and> f_pending_span (feeds s j) \<and> f_pending_span_handle (feeds s j) \<noteq> 0"
    and slot: "slot_of (f_pending_span_handle (feeds s j)) = k"
  then obtain m where m: "span_from_token (spans s) (f_pending_span_handle (feeds s j)) = Some m"
    "s_feed_handle (spans s m) = feed_token (feeds s) j"
    using feed_good_pending [OF assms(1)] by (auto simp: pending_ok_def)
  with slot have "feed_token (feeds s) i = feed_token (feeds s) j"
    using assms(2) sn.resolve_slot by fastforce
  then have "i = j" using feed_token_slot [OF feed_good_inv [OF assms(1)]] assms(3) j
    by (metis option.inject)
  with j assms(4) show False by simp
qed

lemma reservation_of_other_unpended:
  assumes "feed_good Q s" "v_feed_handle (reservations s k) = feed_token (feeds s) i" "f_alive (feeds s i)"
    and "\<not> (f_pending_reservation (feeds s i) \<and> f_pending_reservation_handle (feeds s i) \<noteq> 0)"
  shows "reservation_unpended s k"
  unfolding reservation_unpended_def
proof (intro allI impI notI)
  fix j assume j: "f_alive (feeds s j) \<and> f_pending_reservation (feeds s j)
      \<and> f_pending_reservation_handle (feeds s j) \<noteq> 0"
    and slot: "slot_of (f_pending_reservation_handle (feeds s j)) = k"
  then obtain m where m: "reservation_from_token (reservations s) (f_pending_reservation_handle (feeds s j)) = Some m"
    "v_feed_handle (reservations s m) = feed_token (feeds s) j"
    using feed_good_pending [OF assms(1)] by (auto simp: pending_ok_def)
  with slot have "feed_token (feeds s) i = feed_token (feeds s) j"
    using assms(2) rv.resolve_slot by fastforce
  then have "i = j" using feed_token_slot [OF feed_good_inv [OF assms(1)]] assms(3) j
    by (metis option.inject)
  with j assms(4) show False by simp
qed

section \<open>Every stub keeps the invariant\<close>

lemma protocol_keeps:
  assumes "stream_protocol N Q" "Q T w" "p \<in> T"
  shows "Q T (snd (attachNativeSpanFeed N p w))" "Q T (snd (streamWrite N p data w))"
    "Q T (snd (streamCommit N p w))" "Q T (snd (streamClose N p w))"
    "Q T (snd (snd (streamReserve N p n w)))" "Q T (snd (streamCommitReserved N p n w))"
    "Q T (snd (streamCancelReserved N p w))" "Q T (snd (snd (streamGetStats N p w)))"
    "Q T (snd (snd (streamDrainSpans N p n w)))" "Q T (snd (streamMarkSpanConsumed N p info w))"
    "Q T (store N a bs w)" "Q (T - {p}) (destroyNativeSpanFeed N p w)"
  using assms by (simp_all add: stream_protocol_def keeps_def)

lemma cleanup_same:
  "same_feeds (feeds s) (feeds (cleanup_pending_span N i s))"
  "same_feeds (feeds s) (feeds (cleanup_pending_reservation N i s))"
  "same_feeds (feeds s) (feeds (cleanup_feed_pending N i s))"
  by (auto simp: cleanup_feed_pending_def cleanup_pending_span_def cleanup_pending_reservation_def
      same_feeds_def Let_def)

lemma cleanup_lookup [simp]:
  "span_feed_from_token (feeds (cleanup_feed_pending N i s)) tok = span_feed_from_token (feeds s) tok"
  by (rule same_feeds_lookup [OF cleanup_same(3)])

lemma cleanup_not_pending:
  "\<not> f_pending_span (feeds (cleanup_feed_pending N i s) i)"
  "\<not> f_pending_reservation (feeds (cleanup_feed_pending N i s) i)"
  by (simp_all add: cleanup_feed_pending_def cleanup_pending_span_def
      cleanup_pending_reservation_def Let_def)

lemma cleanup_pending_span_good:
  assumes prot: "stream_protocol N Q" and good: "feed_good Q s" and live: "f_alive (feeds s i)"
  shows "feed_good Q (cleanup_pending_span N i s)"
proof (cases "f_pending_span (feeds s i)")
  case True
  define t where "t = (feeds s)(i := (feeds s i)\<lparr>f_pending_span := False, f_pending_span_handle := 0\<rparr>)"
  define s1 where "s1 = s\<lparr>feeds := t\<rparr>"
  have same: "same_feeds (feeds s) t" by (simp add: t_def same_feeds_pending)
  have pend: "pending_ok (s\<lparr>feeds := t\<rparr>)"
  proof (rule pending_ok_feed [OF feed_good_pending [OF good] same, of i])
    assume "f_alive (t i)" "f_pending_reservation (t i)" "f_pending_reservation_handle (t i) \<noteq> 0"
    then show "\<exists>k. reservation_from_token (reservations s) (f_pending_reservation_handle (t i)) = Some k
        \<and> v_feed_handle (reservations s k) = feed_token (feeds s) i"
      using feed_good_pending [OF good] by (simp add: t_def pending_ok_def)
  qed (simp_all add: t_def)
  have g1: "feed_good Q s1" unfolding s1_def by (rule good_feeds [OF good same pend])
  let ?h = "f_pending_span_handle (feeds s i)"
  define u where "u = (if ?h \<noteq> 0 then (case span_from_token (spans s) ?h of None \<Rightarrow> spans s
      | Some sp \<Rightarrow> span_release_slot sp (spans s)) else spans s)"
  have g2: "feed_good Q (s1\<lparr>spans := u\<rparr>)"
  proof (cases "?h = 0")
    case True
    then show ?thesis using g1 by (simp add: u_def s1_def)
  next
    case False
    then obtain k where k: "span_from_token (spans s) ?h = Some k"
      "s_feed_handle (spans s k) = feed_token (feeds s) i"
      using feed_good_pending [OF good] live True by (auto simp: pending_ok_def)
    have "span_unpended s1 k"
    proof (rule span_of_other_unpended [OF g1])
      show "s_feed_handle (spans s1 k) = feed_token (feeds s1) i"
        using k(2) same_feeds_token [OF same] by (simp add: s1_def)
      show "f_alive (feeds s1 i)" using live same by (simp add: s1_def same_feeds_def)
    qed (simp add: s1_def t_def)
    from good_span_release [OF g1 this] show ?thesis using False k(1) by (simp add: u_def s1_def)
  qed
  have eq: "cleanup_pending_span N i s = s1\<lparr>spans := u, world :=
      snd (streamMarkSpanConsumed N (f_stream (feeds s i)) (f_pending_info (feeds s i)) (world s))\<rparr>"
    using True by (simp add: cleanup_pending_span_def Let_def s1_def t_def u_def)
  have "f_stream (feeds s i) \<in> live_streams s" using live by (auto simp: live_streams_def live_feeds_def)
  moreover have "live_streams (s1\<lparr>spans := u\<rparr>) = live_streams s"
    using same_feeds_live [of s "s1\<lparr>spans := u\<rparr>"] same by (simp add: s1_def)
  ultimately show ?thesis
    unfolding eq using good_world [OF g2] protocol_keeps(10) [OF prot good_world_D [OF good]] by simp
qed (simp add: cleanup_pending_span_def good)

lemma cleanup_pending_reservation_good:
  assumes prot: "stream_protocol N Q" and good: "feed_good Q s" and live: "f_alive (feeds s i)"
  shows "feed_good Q (cleanup_pending_reservation N i s)"
proof (cases "f_pending_reservation (feeds s i)")
  case True
  define t where "t = (feeds s)(i := (feeds s i)\<lparr>f_pending_reservation := False,
    f_pending_reservation_handle := 0\<rparr>)"
  define s1 where "s1 = s\<lparr>feeds := t\<rparr>"
  have same: "same_feeds (feeds s) t" by (simp add: t_def same_feeds_pending)
  have pend: "pending_ok (s\<lparr>feeds := t\<rparr>)"
  proof (rule pending_ok_feed [OF feed_good_pending [OF good] same, of i])
    assume "f_alive (t i)" "f_pending_span (t i)" "f_pending_span_handle (t i) \<noteq> 0"
    then show "\<exists>k. span_from_token (spans s) (f_pending_span_handle (t i)) = Some k
        \<and> s_feed_handle (spans s k) = feed_token (feeds s) i \<and> s_info (spans s k) = f_pending_info (t i)"
      using feed_good_pending [OF good] by (simp add: t_def pending_ok_def)
  qed (simp_all add: t_def)
  have g1: "feed_good Q s1" unfolding s1_def by (rule good_feeds [OF good same pend])
  let ?h = "f_pending_reservation_handle (feeds s i)"
  define u where "u = (if ?h \<noteq> 0 then (case reservation_from_token (reservations s) ?h of
      None \<Rightarrow> reservations s | Some r \<Rightarrow> reservation_release_slot r (reservations s)) else reservations s)"
  have g2: "feed_good Q (s1\<lparr>reservations := u\<rparr>)"
  proof (cases "?h = 0")
    case True
    then show ?thesis using g1 by (simp add: u_def s1_def)
  next
    case False
    then obtain k where k: "reservation_from_token (reservations s) ?h = Some k"
      "v_feed_handle (reservations s k) = feed_token (feeds s) i"
      using feed_good_pending [OF good] live True by (auto simp: pending_ok_def)
    have "reservation_unpended s1 k"
    proof (rule reservation_of_other_unpended [OF g1])
      show "v_feed_handle (reservations s1 k) = feed_token (feeds s1) i"
        using k(2) same_feeds_token [OF same] by (simp add: s1_def)
      show "f_alive (feeds s1 i)" using live same by (simp add: s1_def same_feeds_def)
    qed (simp add: s1_def t_def)
    from good_reservation_release [OF g1 this] show ?thesis using False k(1) by (simp add: u_def s1_def)
  qed
  have eq: "cleanup_pending_reservation N i s = s1\<lparr>reservations := u, world :=
      snd (streamCancelReserved N (f_stream (feeds s i)) (world s))\<rparr>"
    using True by (simp add: cleanup_pending_reservation_def Let_def s1_def t_def u_def)
  have "f_stream (feeds s i) \<in> live_streams s" using live by (auto simp: live_streams_def live_feeds_def)
  moreover have "live_streams (s1\<lparr>reservations := u\<rparr>) = live_streams s"
    using same_feeds_live [of s "s1\<lparr>reservations := u\<rparr>"] same by (simp add: s1_def)
  ultimately show ?thesis
    unfolding eq using good_world [OF g2] protocol_keeps(7) [OF prot good_world_D [OF good]] by simp
qed (simp add: cleanup_pending_reservation_def good)

lemma cleanup_good:
  assumes "stream_protocol N Q" "feed_good Q s" "span_feed_from_token (feeds s) tok = Some i"
  shows "feed_good Q (cleanup_feed_pending N i s)"
proof -
  have live: "f_alive (feeds s i)" using assms(3) by (auto simp: fd.resolve_iff)
  with cleanup_same(1) [of s N i] have "f_alive (feeds (cleanup_pending_span N i s) i)"
    by (simp add: same_feeds_def)
  with assms live show ?thesis
    unfolding cleanup_feed_pending_def
    by (intro cleanup_pending_reservation_good cleanup_pending_span_good)
qed

text \<open>A call on the stream of the feed a token names, once the pending objects are given back.\<close>

lemma cleanup_live:
  assumes "span_feed_from_token (feeds s) tok = Some i"
  shows "f_stream (feeds (cleanup_feed_pending N i s) i) \<in> live_streams (cleanup_feed_pending N i s)"
  using assms by (intro live_stream [of _ tok]) simp

lemma call_good:
  assumes "stream_protocol N Q" "feed_good Q s" "span_feed_from_token (feeds s) tok = Some i"
    and "keeps Q g"
  shows "feed_good Q ((cleanup_feed_pending N i s)\<lparr>world :=
    g (f_stream (feeds (cleanup_feed_pending N i s) i)) (world (cleanup_feed_pending N i s))\<rparr>)"
proof (rule good_world)
  show good: "feed_good Q (cleanup_feed_pending N i s)" using assms(1,2,3) by (rule cleanup_good)
  show "Q (live_streams (cleanup_feed_pending N i s))
    (g (f_stream (feeds (cleanup_feed_pending N i s) i)) (world (cleanup_feed_pending N i s)))"
    using assms(4) good_world_D [OF good] cleanup_live [OF assms(3)] by (simp add: keeps_def)
qed

lemma write_good:
  assumes "stream_protocol N Q" "feed_good Q s"
  shows "feed_good Q (snd (opentui_raw_span_feed_write N f data s))"
proof (cases "span_feed_from_token (feeds s) f")
  case (Some i)
  have "keeps Q (\<lambda>p w. snd (streamWrite N p data w))" using assms(1) by (simp add: stream_protocol_def)
  from call_good [OF assms Some this] cleanup_good [OF assms Some] show ?thesis
    by (simp add: opentui_raw_span_feed_write_def Some Let_def case_prod_beta)
qed (simp add: opentui_raw_span_feed_write_def assms)

lemma commit_good:
  assumes "stream_protocol N Q" "feed_good Q s"
  shows "feed_good Q (snd (opentui_raw_span_feed_commit N f s))"
proof (cases "span_feed_from_token (feeds s) f")
  case (Some i)
  have "keeps Q (\<lambda>p w. snd (streamCommit N p w))" using assms(1) by (simp add: stream_protocol_def)
  from call_good [OF assms Some this] show ?thesis
    by (simp add: opentui_raw_span_feed_commit_def Some Let_def case_prod_beta)
qed (simp add: opentui_raw_span_feed_commit_def assms)

lemma stats_good:
  assumes "stream_protocol N Q" "feed_good Q s"
  shows "feed_good Q (snd (opentui_raw_span_feed_stats N oom f s))"
proof (cases "span_feed_from_token (feeds s) f")
  case (Some i)
  have "keeps Q (\<lambda>p w. snd (snd (streamGetStats N p w)))" using assms(1) by (simp add: stream_protocol_def)
  from call_good [OF assms Some this] show ?thesis
    by (simp add: opentui_raw_span_feed_stats_def Some Let_def case_prod_beta)
qed (simp add: opentui_raw_span_feed_stats_def assms)

text \<open>Releasing the span or reservation of a call: no pending record names its slot, because
  the feed's own pending records were given back first.\<close>

lemma cleanup_owner:
  assumes good: "feed_good Q s" and own: "span_feed_from_token (feeds s) tok = Some i"
  shows "feed_token (feeds (cleanup_feed_pending N i s)) i = tok"
  using own by (intro feed_token_of) simp

lemma cleanup_pending_span_spans:
  "spans (cleanup_feed_pending N i s) = spans (cleanup_pending_span N i s)"
  "reservations (cleanup_pending_span N i s) = reservations s"
  by (simp_all add: cleanup_feed_pending_def cleanup_pending_reservation_def
      cleanup_pending_span_def Let_def)

lemma cleanup_span_handle:
  "s_feed_handle (spans (cleanup_feed_pending N i s) k) = s_feed_handle (spans s k)
   \<or> \<not> s_alive (spans (cleanup_feed_pending N i s) k)"
  by (auto simp: cleanup_pending_span_spans cleanup_pending_span_def span_release_slot_def
      Let_def split: option.splits)

lemma cleanup_reservation_handle:
  "v_feed_handle (reservations (cleanup_feed_pending N i s) k) = v_feed_handle (reservations s k)
   \<or> \<not> v_alive (reservations (cleanup_feed_pending N i s) k)"
  by (auto simp: cleanup_feed_pending_def cleanup_pending_span_spans(2) cleanup_pending_reservation_def
      reservation_release_slot_def Let_def split: option.splits)

lemma dead_span_unpended:
  assumes "feed_good Q s" "\<not> s_alive (spans s k)" shows "span_unpended s k"
  unfolding span_unpended_def
proof (intro allI impI notI)
  fix i assume "f_alive (feeds s i) \<and> f_pending_span (feeds s i) \<and> f_pending_span_handle (feeds s i) \<noteq> 0"
    and k: "slot_of (f_pending_span_handle (feeds s i)) = k"
  then obtain m where "span_from_token (spans s) (f_pending_span_handle (feeds s i)) = Some m"
    using feed_good_pending [OF assms(1)] by (auto simp: pending_ok_def)
  with k assms(2) show False by (auto simp: sn.resolve_iff)
qed

lemma dead_reservation_unpended:
  assumes "feed_good Q s" "\<not> v_alive (reservations s k)" shows "reservation_unpended s k"
  unfolding reservation_unpended_def
proof (intro allI impI notI)
  fix i assume "f_alive (feeds s i) \<and> f_pending_reservation (feeds s i)
      \<and> f_pending_reservation_handle (feeds s i) \<noteq> 0"
    and k: "slot_of (f_pending_reservation_handle (feeds s i)) = k"
  then obtain m where "reservation_from_token (reservations s) (f_pending_reservation_handle (feeds s i)) = Some m"
    using feed_good_pending [OF assms(1)] by (auto simp: pending_ok_def)
  with k assms(2) show False by (auto simp: rv.resolve_iff)
qed

lemma cleanup_span_unpended:
  assumes "stream_protocol N Q" "feed_good Q s"
    and own: "span_feed_from_token (feeds s) (s_feed_handle (spans s k)) = Some i"
  shows "span_unpended (cleanup_feed_pending N i s) k"
proof -
  let ?s1 = "cleanup_feed_pending N i s"
  have good: "feed_good Q ?s1" using assms by (rule cleanup_good)
  show ?thesis
  proof (cases "s_alive (spans ?s1 k)")
    case True
    then have "s_feed_handle (spans ?s1 k) = feed_token (feeds ?s1) i"
      using cleanup_span_handle [of N i s k] cleanup_owner [OF assms(2) own] by simp
    moreover have "f_alive (feeds ?s1 i)"
      using own cleanup_lookup [of N i s "s_feed_handle (spans s k)"] fd.resolve_iff by metis
    ultimately show ?thesis
      by (rule span_of_other_unpended [OF good]) (simp add: cleanup_not_pending)
  qed (rule dead_span_unpended [OF good])
qed

lemma cleanup_reservation_unpended:
  assumes "stream_protocol N Q" "feed_good Q s"
    and own: "span_feed_from_token (feeds s) (v_feed_handle (reservations s k)) = Some i"
  shows "reservation_unpended (cleanup_feed_pending N i s) k"
proof -
  let ?s1 = "cleanup_feed_pending N i s"
  have good: "feed_good Q ?s1" using assms by (rule cleanup_good)
  show ?thesis
  proof (cases "v_alive (reservations ?s1 k)")
    case True
    then have "v_feed_handle (reservations ?s1 k) = feed_token (feeds ?s1) i"
      using cleanup_reservation_handle [of N i s k] cleanup_owner [OF assms(2) own] by simp
    moreover have "f_alive (feeds ?s1 i)"
      using own cleanup_lookup [of N i s "v_feed_handle (reservations s k)"] fd.resolve_iff by metis
    ultimately show ?thesis
      by (rule reservation_of_other_unpended [OF good]) (simp add: cleanup_not_pending)
  qed (rule dead_reservation_unpended [OF good])
qed

lemma owning_feed_eq: "owning_feed h t = span_feed_from_token t h"
  by (simp add: owning_feed_def span_feed_from_token_def)

lemma span_unpended_world [simp]: "span_unpended (s\<lparr>world := w\<rparr>) k = span_unpended s k"
  by (simp add: span_unpended_def)

lemma reservation_unpended_world [simp]:
  "reservation_unpended (s\<lparr>world := w\<rparr>) k = reservation_unpended s k"
  by (simp add: reservation_unpended_def)

lemma release_good:
  assumes "stream_protocol N Q" "feed_good Q s"
  shows "feed_good Q (snd (opentui_raw_span_release N v s))"
proof (cases "span_from_token (spans s) v")
  case sp: (Some k)
  show ?thesis
  proof (cases "owning_feed (s_feed_handle (spans s k)) (feeds s)")
    case (Some i)
    then have own: "span_feed_from_token (feeds s) (s_feed_handle (spans s k)) = Some i"
      by (simp add: owning_feed_eq)
    have keep: "keeps Q (\<lambda>p w. snd (streamMarkSpanConsumed N p info w))" for info
      using assms(1) by (simp add: stream_protocol_def)
    note good = call_good [OF assms own keep]
    show ?thesis
      using good good_span_release [OF good, where k = k] cleanup_span_unpended [OF assms own]
      by (simp add: opentui_raw_span_release_def sp Some Let_def case_prod_beta)
  qed (simp add: opentui_raw_span_release_def sp assms)
qed (simp add: opentui_raw_span_release_def assms)

lemma cancel_good:
  assumes "stream_protocol N Q" "feed_good Q s"
  shows "feed_good Q (snd (opentui_raw_span_feed_reservation_cancel N v s))"
proof (cases "reservation_from_token (reservations s) v")
  case sp: (Some k)
  show ?thesis
  proof (cases "owning_feed (v_feed_handle (reservations s k)) (feeds s)")
    case (Some i)
    then have own: "span_feed_from_token (feeds s) (v_feed_handle (reservations s k)) = Some i"
      by (simp add: owning_feed_eq)
    have keep: "keeps Q (\<lambda>p w. snd (streamCancelReserved N p w))"
      using assms(1) by (simp add: stream_protocol_def)
    note good = call_good [OF assms own keep]
    show ?thesis
      using good good_reservation_release [OF good, where k = k] cleanup_reservation_unpended [OF assms own]
      by (simp add: opentui_raw_span_feed_reservation_cancel_def sp Some Let_def case_prod_beta)
  qed (simp add: opentui_raw_span_feed_reservation_cancel_def sp assms)
qed (simp add: opentui_raw_span_feed_reservation_cancel_def assms)

lemma commit_reserved_good:
  assumes "stream_protocol N Q" "feed_good Q s"
  shows "feed_good Q (snd (opentui_raw_span_feed_reservation_commit N v data used s))"
proof (cases "reservation_from_token (reservations s) v")
  case sp: (Some k)
  show ?thesis
  proof (cases "owning_feed (v_feed_handle (reservations s k)) (feeds s)")
    case (Some i)
    then have own: "span_feed_from_token (feeds s) (v_feed_handle (reservations s k)) = Some i"
      by (simp add: owning_feed_eq)
    have keep: "keeps Q (\<lambda>p w. snd (streamCommitReserved N p used w))"
      "keeps Q (\<lambda>p w. snd (streamCommitReserved N p used (store N a bs w)))" for a bs
      using assms(1) by (simp_all add: stream_protocol_def keeps_def)
    note good = call_good [OF assms own keep(1)] call_good [OF assms own keep(2)]
    show ?thesis
      using cleanup_good [OF assms own] good good_reservation_release [OF good(1), where k = k]
        good_reservation_release [OF good(2), where k = k] cleanup_reservation_unpended [OF assms own]
      by (cases "used = 0") (simp_all add: opentui_raw_span_feed_reservation_commit_def sp Some
          Let_def assms(2) case_prod_beta)
  qed (simp add: opentui_raw_span_feed_reservation_commit_def sp assms Let_def)
qed (simp add: opentui_raw_span_feed_reservation_commit_def assms)

text \<open>Recording a pending object: its token is 0 until the slot is allocated.\<close>

lemma good_mark_span:
  assumes "feed_good Q s"
  shows "feed_good Q (s\<lparr>feeds := (feeds s)(i := (feeds s i)\<lparr>f_pending_span := True,
    f_pending_span_handle := 0, f_pending_info := info\<rparr>)\<rparr>)"
proof (rule good_feeds [OF assms same_feeds_pending(2)])
  have p: "pending_ok s" using assms by (rule feed_good_pending)
  show "pending_ok (s\<lparr>feeds := (feeds s)(i := (feeds s i)\<lparr>f_pending_span := True,
    f_pending_span_handle := 0, f_pending_info := info\<rparr>)\<rparr>)"
    by (rule pending_ok_feed [OF p same_feeds_pending(2), of i]) (use p in \<open>simp_all add: pending_ok_def\<close>)
qed

lemma good_mark_reservation:
  assumes "feed_good Q s"
  shows "feed_good Q (s\<lparr>feeds := (feeds s)(i := (feeds s i)\<lparr>f_pending_reservation := True,
    f_pending_reservation_handle := 0\<rparr>)\<rparr>)"
proof (rule good_feeds [OF assms same_feeds_pending(4)])
  have p: "pending_ok s" using assms by (rule feed_good_pending)
  show "pending_ok (s\<lparr>feeds := (feeds s)(i := (feeds s i)\<lparr>f_pending_reservation := True,
    f_pending_reservation_handle := 0\<rparr>)\<rparr>)"
    by (rule pending_ok_feed [OF p same_feeds_pending(4), of i]) (use p in \<open>simp_all add: pending_ok_def\<close>)
qed

lemma good_span_handle:
  assumes "feed_good Q s" "f_pending_info (feeds s i) = info"
    and "span_from_token (spans s) h = Some k" "s_feed_handle (spans s k) = feed_token (feeds s) i"
    "s_info (spans s k) = info"
  shows "feed_good Q (s\<lparr>feeds := (feeds s)(i := (feeds s i)\<lparr>f_pending_span_handle := h\<rparr>)\<rparr>)"
proof (rule good_feeds [OF assms(1) same_feeds_pending(3)])
  have p: "pending_ok s" using assms(1) by (rule feed_good_pending)
  show "pending_ok (s\<lparr>feeds := (feeds s)(i := (feeds s i)\<lparr>f_pending_span_handle := h\<rparr>)\<rparr>)"
    by (rule pending_ok_feed [OF p same_feeds_pending(3), of i])
      (use p assms in \<open>simp_all add: pending_ok_def\<close>)
qed

lemma good_reservation_handle:
  assumes "feed_good Q s"
    and "reservation_from_token (reservations s) h = Some k"
      "v_feed_handle (reservations s k) = feed_token (feeds s) i"
  shows "feed_good Q (s\<lparr>feeds := (feeds s)(i := (feeds s i)\<lparr>f_pending_reservation_handle := h\<rparr>)\<rparr>)"
proof (rule good_feeds [OF assms(1) same_feeds_pending(5)])
  have p: "pending_ok s" using assms(1) by (rule feed_good_pending)
  show "pending_ok (s\<lparr>feeds := (feeds s)(i := (feeds s i)\<lparr>f_pending_reservation_handle := h\<rparr>)\<rparr>)"
    by (rule pending_ok_feed [OF p same_feeds_pending(5), of i])
      (use p assms in \<open>simp_all add: pending_ok_def\<close>)
qed

lemma good_clear:
  assumes "feed_good Q s"
  shows "feed_good Q (clear_feed_pending_span i s)" "feed_good Q (clear_feed_pending_reservation i s)"
proof -
  have p: "pending_ok s" using assms by (rule feed_good_pending)
  show "feed_good Q (clear_feed_pending_span i s)" unfolding clear_feed_pending_span_def
    by (rule good_feeds [OF assms same_feeds_pending(1)],
        rule pending_ok_feed [OF p same_feeds_pending(1), of i])
      (use p in \<open>simp_all add: pending_ok_def\<close>)
  show "feed_good Q (clear_feed_pending_reservation i s)" unfolding clear_feed_pending_reservation_def
    by (rule good_feeds [OF assms same_feeds_pending(4)],
        rule pending_ok_feed [OF p same_feeds_pending(4), of i])
      (use p in \<open>simp_all add: pending_ok_def\<close>)
qed

lemma reserve_good:
  assumes prot: "stream_protocol N Q" and good: "feed_good Q s"
  shows "feed_good Q (snd (opentui_raw_span_feed_reserve N oom f m s))"
proof (cases "\<not> neg32 m \<and> span_feed_from_token (feeds s) f \<noteq> None")
  case True
  then obtain i where own: "span_feed_from_token (feeds s) f = Some i" and m: "\<not> neg32 m" by auto
  define s1 where "s1 = cleanup_feed_pending N i s"
  obtain st info w where call: "streamReserve N (f_stream (feeds s1 i)) m (world s1) = (st, info, w)"
    by (metis prod_cases3)
  define s2 where "s2 = s1\<lparr>world := w\<rparr>"
  define s3 where "s3 = s2\<lparr>feeds := (feeds s2)(i := (feeds s2 i)\<lparr>f_pending_reservation := True,
    f_pending_reservation_handle := 0\<rparr>)\<rparr>"
  obtain h k t where al: "reservation_allocate (f, info) (reservations s3) = (h, k, t)"
    by (metis prod_cases3)
  define s4 where "s4 = s3\<lparr>reservations := t\<rparr>"
  define s5 where "s5 = s4\<lparr>feeds := (feeds s4)(i := (feeds s4 i)\<lparr>f_pending_reservation_handle := h\<rparr>)\<rparr>"
  have "keeps Q (\<lambda>p w. snd (snd (streamReserve N p m w)))" using prot by (simp add: stream_protocol_def)
  from call_good [OF prot good own this] have g2: "feed_good Q s2" by (simp add: s1_def [symmetric] call s2_def)
  then have g3: "feed_good Q s3" unfolding s3_def by (rule good_mark_reservation)
  have own2: "span_feed_from_token (feeds s2) f = Some i" using own by (simp add: s2_def s1_def)
  have own3: "span_feed_from_token (feeds s3) f = Some i"
    using own2 same_feeds_lookup [OF same_feeds_pending(4)] by (simp add: s3_def)
  have g4: "feed_good Q s4" unfolding s4_def by (rule good_reservation_alloc [OF g3 own3 al])
  have g5: "feed_good Q s5" if "h \<noteq> 0"
    unfolding s5_def
    using reservation_alloc_slot [OF al that] feed_token_of [OF own3]
    by (intro good_reservation_handle [OF g4, of _ k]) (simp_all add: s4_def)
  have "opentui_raw_span_feed_reserve N oom f m s =
    (if map_native_status st \<noteq> Ok then (allocating oom (map_native_status st, None), s2)
     else if h = 0 then (allocating oom (Native_failure, None), cleanup_feed_pending N i s3)
     else if oom then (Out_of_memory, s5)
     else (Returns (Ok, Some (h, r_len info, unat (r_len info))), clear_feed_pending_reservation i s5))"
    using m by (simp add: opentui_raw_span_feed_reserve_def own s1_def [symmetric] call Let_def
      s2_def [symmetric] s3_def [symmetric] al) (simp add: s5_def s4_def)
  then show ?thesis using g2 cleanup_good [OF prot g3 own3] g5 good_clear(2) [OF g5] by simp
qed (auto simp: opentui_raw_span_feed_reserve_def good)

lemma drain_good:
  assumes prot: "stream_protocol N Q" and good: "feed_good Q s"
  shows "feed_good Q (snd (opentui_raw_span_feed_drain N oom f s))"
proof (cases "span_feed_from_token (feeds s) f")
  case own: (Some i)
  define s1 where "s1 = cleanup_feed_pending N i s"
  obtain count info w where call:
    "streamDrainSpans N (f_stream (feeds s1 i)) 1 (world s1) = (count, info, w)" by (metis prod_cases3)
  define s2 where "s2 = s1\<lparr>world := w\<rparr>"
  define s3 where "s3 = s2\<lparr>feeds := (feeds s2)(i := (feeds s2 i)\<lparr>f_pending_span := True,
    f_pending_span_handle := 0, f_pending_info := info\<rparr>)\<rparr>"
  obtain h k t where al: "span_allocate (f, info) (spans s3) = (h, k, t)" by (metis prod_cases3)
  define s4 where "s4 = s3\<lparr>spans := t\<rparr>"
  define s5 where "s5 = s4\<lparr>feeds := (feeds s4)(i := (feeds s4 i)\<lparr>f_pending_span_handle := h\<rparr>)\<rparr>"
  have "keeps Q (\<lambda>p w. snd (snd (streamDrainSpans N p 1 w)))" using prot by (simp add: stream_protocol_def)
  from call_good [OF prot good own this] have g2: "feed_good Q s2" by (simp add: s1_def [symmetric] call s2_def)
  then have g3: "feed_good Q s3" unfolding s3_def by (rule good_mark_span)
  have own2: "span_feed_from_token (feeds s2) f = Some i" using own by (simp add: s2_def s1_def)
  have own3: "span_feed_from_token (feeds s3) f = Some i"
    using own2 same_feeds_lookup [OF same_feeds_pending(2)] by (simp add: s3_def)
  have g4: "feed_good Q s4" unfolding s4_def by (rule good_span_alloc [OF g3 own3 al])
  have g5: "feed_good Q s5" if "h \<noteq> 0"
    unfolding s5_def
    using span_alloc_slot [OF al that] feed_token_of [OF own3]
    by (intro good_span_handle [OF g4, of _ info _ k]) (simp_all add: s4_def s3_def)
  have "opentui_raw_span_feed_drain N oom f s =
    (if count = 0 then (allocating oom (Ok, None), s2)
     else case span_source info of
       None \<Rightarrow> (allocating oom (Native_failure, None), cleanup_feed_pending N i s3)
     | Some source \<Rightarrow>
       if h = 0 then (allocating oom (Native_failure, None), cleanup_feed_pending N i s3)
       else if oom then (Out_of_memory, s5)
       else (Returns (Ok, Some (load N source (unat (len info)) (world s5), h)),
             clear_feed_pending_span i s5))"
    by (simp add: opentui_raw_span_feed_drain_def own s1_def [symmetric] call Let_def
      s2_def [symmetric] s3_def [symmetric] al split: option.split) (simp add: s5_def s4_def)
  then show ?thesis using g2 cleanup_good [OF prot g3 own3] g5 good_clear(1) [OF g5]
    by (simp split: option.split)
qed (simp add: opentui_raw_span_feed_drain_def good)

text \<open>Closing a feed frees the spans and reservations that carry its token.\<close>

lemma invalidate_feed_spans_at:
  "invalidate_feed_spans h t j =
     (if 0 < j \<and> j < SPAN_CAPACITY \<and> s_alive (t j) \<and> s_feed_handle (t j) = h
      then (t j)\<lparr>s_alive := False, s_feed_handle := 0\<rparr> else t j)"
  unfolding invalidate_feed_spans_def span_release_slot_def
  using fold_pointwise [of "[1..<SPAN_CAPACITY]" "\<lambda>x. s_alive x \<and> s_feed_handle x = h"
      "\<lambda>x. x\<lparr>s_alive := False, s_feed_handle := 0\<rparr>" t j] by simp

lemma release_feed_reservations_at:
  "release_feed_reservations h t j =
     (if 0 < j \<and> j < RESERVATION_CAPACITY \<and> v_alive (t j) \<and> v_feed_handle (t j) = h
      then (t j)\<lparr>v_alive := False, v_feed_handle := 0\<rparr> else t j)"
  unfolding release_feed_reservations_def reservation_release_slot_def
  using fold_pointwise [of "[1..<RESERVATION_CAPACITY]" "\<lambda>x. v_alive x \<and> v_feed_handle x = h"
      "\<lambda>x. x\<lparr>v_alive := False, v_feed_handle := 0\<rparr>" t j] by simp

lemma invalidate_keeps:
  assumes "span_from_token t tok = Some k" "s_feed_handle (t k) \<noteq> h"
  shows "span_from_token (invalidate_feed_spans h t) tok = Some k \<and> invalidate_feed_spans h t k = t k"
  using assms by (auto simp: sn.resolve_iff invalidate_feed_spans_at)

lemma release_reservations_keeps:
  assumes "reservation_from_token t tok = Some k" "v_feed_handle (t k) \<noteq> h"
  shows "reservation_from_token (release_feed_reservations h t) tok = Some k
    \<and> release_feed_reservations h t k = t k"
  using assms by (auto simp: rv.resolve_iff release_feed_reservations_at)

lemma good_feed_release:
  assumes good: "feed_good Q s" and own: "span_feed_from_token (feeds s) f = Some i"
    and w: "Q (live_streams s - {f_stream (feeds s i)}) w"
  shows "feed_good Q (s\<lparr>spans := invalidate_feed_spans f (spans s),
    reservations := release_feed_reservations f (reservations s), world := w,
    feeds := span_feed_release_slot i (feeds s)\<rparr>)" (is "feed_good Q ?s'")
proof -
  let ?t = "span_feed_release_slot i (feeds s)"
  have t: "?t j = (if j = i then (feeds s i)\<lparr>f_alive := False, f_stream := NULL\<rparr> else feeds s j)" for j
    by (simp add: span_feed_release_slot_def)
  from good have g: "tables_ok s" "owners_ok s" "pending_ok s" "inj_on (\<lambda>i. f_stream (feeds s i)) (live_feeds s)"
    by (simp_all add: feed_good_def feed_inv_def)
  have live: "f_alive (feeds s i)" using own by (auto simp: fd.resolve_iff)
  have other: "span_feed_from_token ?t tok = (if tok = f then None else span_feed_from_token (feeds s) tok)" for tok
    by (rule fd.release_resolve [OF own])
  have tok_other: "feed_token (feeds s) j \<noteq> f" if "f_alive (feeds s j)" "j \<noteq> i" for j
    using feed_token_slot [OF feed_good_inv [OF good] that(1)] own that(2) by auto
  have tok_t: "feed_token ?t j = feed_token (feeds s) j" for j by (simp add: feed_token_def t)
  have tables: "tables_ok ?s'"
    using g(1) unfolding tables_ok_def
    by (auto simp: t invalidate_feed_spans_at release_feed_reservations_at split: if_splits)
  have owners: "owners_ok ?s'"
    using g(1,2) unfolding owners_ok_def tables_ok_def
    by (auto simp: other invalidate_feed_spans_at release_feed_reservations_at split: if_splits)
  have pending: "pending_ok ?s'"
    unfolding pending_ok_def
  proof (intro conjI allI impI)
    fix j assume p: "f_alive (feeds ?s' j) \<and> f_pending_span (feeds ?s' j) \<and> f_pending_span_handle (feeds ?s' j) \<noteq> 0"
    then have j: "j \<noteq> i" "f_alive (feeds s j)" by (auto simp: t split: if_splits)
    with p obtain k where k: "span_from_token (spans s) (f_pending_span_handle (feeds s j)) = Some k"
      "s_feed_handle (spans s k) = feed_token (feeds s) j" "s_info (spans s k) = f_pending_info (feeds s j)"
      using g(3) by (auto simp: pending_ok_def t)
    then show "\<exists>k. span_from_token (spans ?s') (f_pending_span_handle (feeds ?s' j)) = Some k \<and>
        s_feed_handle (spans ?s' k) = feed_token (feeds ?s') j \<and> s_info (spans ?s' k) = f_pending_info (feeds ?s' j)"
      using invalidate_keeps [OF k(1), of f] tok_other [OF j(2,1)] j by (auto simp: t tok_t)
  next
    fix j assume p: "f_alive (feeds ?s' j) \<and> f_pending_reservation (feeds ?s' j)
      \<and> f_pending_reservation_handle (feeds ?s' j) \<noteq> 0"
    then have j: "j \<noteq> i" "f_alive (feeds s j)" by (auto simp: t split: if_splits)
    with p obtain k where
      k: "reservation_from_token (reservations s) (f_pending_reservation_handle (feeds s j)) = Some k"
      "v_feed_handle (reservations s k) = feed_token (feeds s) j"
      using g(3) by (auto simp: pending_ok_def t)
    then show "\<exists>k. reservation_from_token (reservations ?s') (f_pending_reservation_handle (feeds ?s' j)) = Some k \<and>
        v_feed_handle (reservations ?s' k) = feed_token (feeds ?s') j"
      using release_reservations_keeps [OF k(1), of f] tok_other [OF j(2,1)] j by (auto simp: t tok_t)
  qed
  have lf: "live_feeds ?s' = live_feeds s - {i}" by (auto simp: live_feeds_def t)
  have "live_streams ?s' = (\<lambda>j. f_stream (feeds s j)) ` (live_feeds s - {i})"
    unfolding live_streams_def lf by (rule image_cong) (simp_all add: t)
  also have "\<dots> = live_streams s - {f_stream (feeds s i)}"
    unfolding live_streams_def using g(4) live
    by (subst inj_on_image_set_diff [OF g(4)]) (auto simp: live_feeds_def)
  finally have ls: "live_streams ?s' = live_streams s - {f_stream (feeds s i)}" .
  have "inj_on (\<lambda>j. f_stream (feeds ?s' j)) (live_feeds ?s')"
    using g(4) unfolding lf inj_on_def by (simp add: t)
  with tables owners pending show ?thesis using w unfolding feed_good_def feed_inv_def ls by simp
qed

lemma close_good:
  assumes prot: "stream_protocol N Q" and good: "feed_good Q s"
  shows "feed_good Q (snd (opentui_raw_span_feed_close N f s))"
proof (cases "span_feed_from_token (feeds s) f")
  case own: (Some i)
  define s1 where "s1 = cleanup_feed_pending N i s"
  obtain st w where call: "streamClose N (f_stream (feeds s1 i)) (world s1) = (st, w)" by force
  define s2 where "s2 = s1\<lparr>world := w\<rparr>"
  have "keeps Q (\<lambda>p w. snd (streamClose N p w))" using prot by (simp add: stream_protocol_def)
  from call_good [OF prot good own this] have g2: "feed_good Q s2"
    by (simp add: s1_def [symmetric] call s2_def)
  have own2: "span_feed_from_token (feeds s2) f = Some i" using own by (simp add: s2_def s1_def)
  have w2: "Q (live_streams s2 - {f_stream (feeds s2 i)}) (destroyNativeSpanFeed N (f_stream (feeds s2 i)) w)"
    using protocol_keeps(12) [OF prot good_world_D [OF g2] live_stream [OF own2]] by (simp add: s2_def)
  have "snd (opentui_raw_span_feed_close N f s) =
    (if map_native_status st \<noteq> Ok then s2
     else s2\<lparr>spans := invalidate_feed_spans f (spans s2),
       reservations := release_feed_reservations f (reservations s2),
       world := destroyNativeSpanFeed N (f_stream (feeds s2 i)) w,
       feeds := span_feed_release_slot i (feeds s2)\<rparr>)"
    by (simp add: opentui_raw_span_feed_close_def own s1_def [symmetric] call Let_def s2_def)
  then show ?thesis using g2 good_feed_release [OF g2 own2 w2] by simp
qed (simp add: opentui_raw_span_feed_close_def good)

text \<open>Creating a feed.\<close>

lemma feed_alloc_slot:
  assumes "span_feed_allocate u t0 = (h, k, t)" "h \<noteq> 0"
  shows "0 < k \<and> k < FEED_CAPACITY \<and> \<not> f_alive (t0 k) \<and> f_alive (t k) \<and> \<not> f_pending_span (t k)
    \<and> \<not> f_pending_reservation (t k) \<and> (\<forall>j. j \<noteq> k \<longrightarrow> t j = t0 j)"
  using assms scan_free_Some [of "\<lambda>i. f_alive (t0 i)" 1 FEED_CAPACITY k]
  by (auto simp: span_feed_allocate_def Let_def split: option.splits)

lemma good_feed_alloc:
  assumes good: "feed_good Q s" and al: "span_feed_allocate () (feeds s) = (h, k, t)" "h \<noteq> 0"
    and p: "p \<noteq> NULL" "p \<notin> live_streams s" and w: "Q (insert p (live_streams s)) w"
  shows "feed_good Q (s\<lparr>feeds := t(k := (t k)\<lparr>f_stream := p\<rparr>), world := w\<rparr>)" (is "feed_good Q ?s'")
proof -
  let ?t = "t(k := (t k)\<lparr>f_stream := p\<rparr>)"
  note sl = feed_alloc_slot [OF al]
  have t: "?t j = (if j = k then (t k)\<lparr>f_stream := p\<rparr> else feeds s j)" for j using sl by simp
  have keep: "span_feed_from_token ?t tok \<noteq> None" if "span_feed_from_token (feeds s) tok \<noteq> None" for tok
  proof -
    from that obtain j where j: "span_feed_from_token (feeds s) tok = Some j" by blast
    from fd.alloc_keeps [OF al(1) j] have "span_feed_from_token t tok = Some j" by simp
    moreover have "span_feed_from_token ?t tok = span_feed_from_token t tok"
      by (auto simp: span_feed_from_token_def Let_def)
    ultimately show ?thesis by simp
  qed
  from good have g: "tables_ok s" "owners_ok s" "pending_ok s" "inj_on (\<lambda>i. f_stream (feeds s i)) (live_feeds s)"
    by (simp_all add: feed_good_def feed_inv_def)
  have "tables_ok ?s'" using g(1) sl p(1) unfolding tables_ok_def by (auto simp: t split: if_splits)
  moreover have "owners_ok ?s'" using g(2) keep by (simp add: owners_ok_def)
  moreover have "pending_ok ?s'"
  proof -
    have eq: "feed_token ?t j = feed_token (feeds s) j" if "j \<noteq> k" for j
      using that sl by (simp add: feed_token_def)
    show ?thesis unfolding pending_ok_def
      using g(3) sl eq unfolding pending_ok_def by (auto simp: t split: if_splits)
  qed
  moreover have lf: "live_feeds ?s' = insert k (live_feeds s)" using sl by (auto simp: live_feeds_def t)
  moreover have k: "k \<notin> live_feeds s" using sl by (simp add: live_feeds_def)
  have img: "(\<lambda>j. f_stream (?t j)) ` live_feeds s = live_streams s"
    unfolding live_streams_def using k sl by (intro image_cong) auto
  have "live_streams ?s' = insert p (live_streams s)"
    using img unfolding live_streams_def [of ?s'] lf by simp
  moreover have "inj_on (\<lambda>j. f_stream (feeds ?s' j)) (live_feeds ?s')"
  proof -
    have "inj_on (\<lambda>j. f_stream (?t j)) (live_feeds s)" using g(4) k sl unfolding inj_on_def by auto
    moreover have "p \<notin> (\<lambda>j. f_stream (?t j)) ` live_feeds s" using img p(2) by simp
    ultimately show ?thesis using k unfolding lf by simp
  qed
  ultimately show ?thesis using w by (simp add: feed_good_def feed_inv_def)
qed

lemma good_dead_feed:
  assumes good: "feed_good Q s" and "\<not> f_alive (feeds s k)" "\<not> f_alive x"
  shows "feed_good Q (s\<lparr>feeds := (feeds s)(k := x)\<rparr>)" (is "feed_good Q ?s'")
proof -
  from good have g: "tables_ok s" "owners_ok s" "pending_ok s" "inj_on (\<lambda>i. f_stream (feeds s i)) (live_feeds s)"
    by (simp_all add: feed_good_def feed_inv_def)
  have keep: "span_feed_from_token ((feeds s)(k := x)) tok = span_feed_from_token (feeds s) tok" for tok
    using assms(2,3) by (auto simp: span_feed_from_token_def Let_def)
  have "tables_ok ?s'" using g(1) assms(3) unfolding tables_ok_def by auto
  moreover have "owners_ok ?s'" using g(2) by (simp add: owners_ok_def keep)
  moreover have "pending_ok ?s'" using g(3) assms(2,3) unfolding pending_ok_def feed_token_def by auto
  moreover have lf: "live_feeds ?s' = live_feeds s" using assms(2,3) by (auto simp: live_feeds_def)
  moreover have ls: "live_streams ?s' = live_streams s"
    unfolding live_streams_def lf using assms(2) by (intro image_cong) (auto simp: live_feeds_def)
  moreover have "inj_on (\<lambda>j. f_stream (feeds ?s' j)) (live_feeds ?s')"
    using g(4) assms(2) unfolding lf inj_on_def by (auto simp: live_feeds_def)
  ultimately show ?thesis using good by (simp add: feed_good_def feed_inv_def)
qed

lemma create_good:
  assumes prot: "stream_protocol N Q" and good: "feed_good Q s"
    and run: "opentui_raw_span_feed_create N oom v s = Some (r, s')"
  shows "feed_good Q s'"
proof (cases "\<exists>options. read_options v = Some (Some options)")
  case False
  with run good show ?thesis
    by (cases "read_options v"; cases "the (read_options v)") (auto simp: opentui_raw_span_feed_create_def)
next
  case True
  then obtain options where opts: "read_options v = Some (Some options)" ..
  obtain p w1 where c: "createNativeSpanFeed N options (world s) = (p, w1)" by force
  obtain h k t where al: "span_feed_allocate () (feeds s) = (h, k, t)" by (metis prod_cases3)
  obtain st w2 where at: "attachNativeSpanFeed N p w1 = (st, w2)" by force
  have new: "if p = NULL then Q (live_streams s) w1
      else p \<notin> live_streams s \<and> Q (insert p (live_streams s)) w1"
    using prot good_world_D [OF good] c unfolding stream_protocol_def by blast
  have d: "Q (live_streams s) (destroyNativeSpanFeed N p w)"
    if "p \<noteq> NULL" "Q (insert p (live_streams s)) w" for w
    using protocol_keeps(12) [OF prot that(2) insertI1] new that(1) by simp
  have w2: "Q (insert p (live_streams s)) w2" if "p \<noteq> NULL"
    using protocol_keeps(1) [OF prot _ insertI1, of p "live_streams s" w1] new that at by simp
  have s': "s' = (if p = NULL then s\<lparr>world := w1\<rparr>
    else if h = 0 then s\<lparr>world := destroyNativeSpanFeed N p w1\<rparr>
    else if map_native_status st \<noteq> Ok then
      s\<lparr>feeds := span_feed_release_slot k (t(k := (t k)\<lparr>f_stream := p\<rparr>)),
        world := destroyNativeSpanFeed N p w2\<rparr>
    else s\<lparr>feeds := t(k := (t k)\<lparr>f_stream := p\<rparr>), world := w2\<rparr>)"
    using run by (simp add: opentui_raw_span_feed_create_def opts c al at Let_def split: if_splits)
  have rel: "feed_good Q (s\<lparr>feeds := span_feed_release_slot k (t(k := (t k)\<lparr>f_stream := p\<rparr>)),
      world := destroyNativeSpanFeed N p w2\<rparr>)" if "p \<noteq> NULL" "h \<noteq> 0"
  proof -
    note sl = feed_alloc_slot [OF al that(2)]
    have "t = (feeds s)(k := t k)" using sl by auto
    then have eq: "span_feed_release_slot k (t(k := (t k)\<lparr>f_stream := p\<rparr>))
        = (feeds s)(k := (t k)\<lparr>f_alive := False, f_stream := NULL\<rparr>)"
      unfolding span_feed_release_slot_def by (metis (no_types, lifting) fun_upd_same fun_upd_upd
        feed_slot.surjective feed_slot.update_convs(2,3))
    let ?s1 = "s\<lparr>feeds := (feeds s)(k := (t k)\<lparr>f_alive := False, f_stream := NULL\<rparr>)\<rparr>"
    have g1: "feed_good Q ?s1" using sl by (intro good_dead_feed [OF good]) simp_all
    have "live_feeds ?s1 = live_feeds s" using sl by (auto simp: live_feeds_def)
    then have "live_streams ?s1 = live_streams s"
      unfolding live_streams_def using sl by (intro image_cong) (auto simp: live_feeds_def)
    then show ?thesis using good_world [OF g1] d [OF that(1) w2 [OF that(1)]] by (simp add: eq)
  qed
  show ?thesis
    using new good_world [OF good] d [of w1] rel
      good_feed_alloc [OF good al, of p w2] w2 unfolding s' by auto
qed

section \<open>Reachable states\<close>

theorem step_good:
  assumes "stream_protocol N Q" "feed_step N s s'" "feed_good Q s" shows "feed_good Q s'"
  using assms(2)
proof cases
  case (create oom v r)
  then show ?thesis by (rule create_good [OF assms(1,3)])
qed (use assms(1,3) close_good write_good commit_good reserve_good commit_reserved_good cancel_good
    stats_good drain_good release_good in \<open>metis snd_conv\<close>)+

lemma reachable_good:
  assumes "stream_protocol N Q" "Q {} w0" "feed_reachable N w0 s"
  shows "feed_good Q s"
  using assms(3)
  by (induction rule: feed_reachable.induct)
    (auto intro: feed_good_init [of Q, OF assms(2)] step_good [OF assms(1)])

end
