(* ===== verification/Span_Feed_Props.thy ===== *)
theory Span_Feed_Props
  imports Span_Feed_Safety
begin

text \<open>
  What the output feed promises: no native call on a stream that does not exist and no
  leaked stream (an audited stream API records misuse), tokens that die with their feed,
  objects whose OCaml result could not be allocated are given back, and memory bounds.
\<close>

section \<open>The audited stream\<close>

text \<open>\<open>audited N\<close> behaves as \<open>N\<close> and records which streams exist and whether a
  function was ever called on one that does not.\<close>

record 'w audit =
  native :: 'w
  existing :: "ptr set"
  misuse :: bool

definition audit_call :: "('w \<Rightarrow> 'r \<times> 'w) \<Rightarrow> ptr \<Rightarrow> 'w audit \<Rightarrow> 'r \<times> 'w audit" where
  "audit_call f p a =
     (let (r, w) = f (native a)
      in (r, a\<lparr>native := w, misuse := misuse a \<or> p \<notin> existing a\<rparr>))"

definition audited :: "'w stream_api \<Rightarrow> 'w audit stream_api" where
  "audited N = \<lparr>
     createNativeSpanFeed = (\<lambda>options a. let (p, w) = createNativeSpanFeed N options (native a)
       in (p, a\<lparr>native := w, existing := (if p = NULL then existing a else insert p (existing a))\<rparr>)),
     attachNativeSpanFeed = (\<lambda>p. audit_call (attachNativeSpanFeed N p) p),
     destroyNativeSpanFeed = (\<lambda>p a. (snd (audit_call (\<lambda>w. ((), destroyNativeSpanFeed N p w)) p a))
       \<lparr>existing := existing a - {p}\<rparr>),
     streamWrite = (\<lambda>p data. audit_call (streamWrite N p data) p),
     streamCommit = (\<lambda>p. audit_call (streamCommit N p) p),
     streamClose = (\<lambda>p. audit_call (streamClose N p) p),
     streamReserve = (\<lambda>p n a. let ((st, info), a') = audit_call (\<lambda>w. let (st, info, w') = streamReserve N p n w
       in ((st, info), w')) p a in (st, info, a')),
     streamCommitReserved = (\<lambda>p n. audit_call (streamCommitReserved N p n) p),
     streamCancelReserved = (\<lambda>p. audit_call (streamCancelReserved N p) p),
     streamGetStats = (\<lambda>p a. let ((st, stats), a') = audit_call (\<lambda>w. let (st, stats, w') = streamGetStats N p w
       in ((st, stats), w')) p a in (st, stats, a')),
     streamDrainSpans = (\<lambda>p n a. let ((c, info), a') = audit_call (\<lambda>w. let (c, info, w') = streamDrainSpans N p n w
       in ((c, info), w')) p a in (c, info, a')),
     streamMarkSpanConsumed = (\<lambda>p info. audit_call (streamMarkSpanConsumed N p info) p),
     load = (\<lambda>p n a. load N p n (native a)),
     store = (\<lambda>p bs a. a\<lparr>native := store N p bs (native a)\<rparr>)\<rparr>"

definition audit_ok :: "(ptr set \<Rightarrow> 'w \<Rightarrow> bool) \<Rightarrow> ptr set \<Rightarrow> 'w audit \<Rightarrow> bool" where
  "audit_ok Q T a \<longleftrightarrow> Q T (native a) \<and> existing a = T \<and> \<not> misuse a"

lemma audit_keeps:
  "keeps Q (\<lambda>p w. snd (f p w)) \<Longrightarrow> keeps (audit_ok Q) (\<lambda>p a. snd (audit_call (f p) p a))"
  by (auto simp: keeps_def audit_ok_def audit_call_def case_prod_beta)

lemma audit_keeps3:
  assumes "keeps Q (\<lambda>p w. snd (snd (f p w)))"
  shows "keeps (audit_ok Q) (\<lambda>p a. snd (audit_call (\<lambda>w. ((fst (f p w), fst (snd (f p w))), snd (snd (f p w)))) p a))"
  using assms by (auto simp: keeps_def audit_ok_def audit_call_def case_prod_beta)

lemma audited_create:
  "createNativeSpanFeed (audited N) options a = (p, a') \<longleftrightarrow>
     (\<exists>w. createNativeSpanFeed N options (native a) = (p, w) \<and>
        a' = a\<lparr>native := w, existing := (if p = NULL then existing a else insert p (existing a))\<rparr>)"
  by (auto simp: audited_def split: prod.splits)

lemma protocol_create:
  "stream_protocol N Q \<Longrightarrow> Q T w \<Longrightarrow> createNativeSpanFeed N options w = (p, w') \<Longrightarrow>
     if p = NULL then Q T w' else p \<notin> T \<and> Q (insert p T) w'"
  unfolding stream_protocol_def by blast

lemma audited_protocol:
  assumes "stream_protocol N Q" shows "stream_protocol (audited N) (audit_ok Q)"
  unfolding stream_protocol_def
proof (intro conjI allI impI)
  fix T :: "ptr set" and a a' p options
  assume a: "audit_ok Q T a" and c: "createNativeSpanFeed (audited N) options a = (p, a')"
  from c obtain w where w: "createNativeSpanFeed N options (native a) = (p, w)"
    and a': "a' = a\<lparr>native := w, existing := (if p = NULL then existing a else insert p (existing a))\<rparr>"
    by (auto simp: audited_create)
  from a have "Q T (native a)" by (simp add: audit_ok_def)
  from protocol_create [OF assms this w] a
  show "if p = NULL then audit_ok Q T a' else p \<notin> T \<and> audit_ok Q (insert p T) a'"
    by (simp add: a' audit_ok_def split: if_splits)
next
  fix T :: "ptr set" and a p assume "audit_ok Q T a" "p \<in> T"
  then show "audit_ok Q (T - {p}) (destroyNativeSpanFeed (audited N) p a)"
    using protocol_keeps(12) [OF assms] by (simp add: audited_def audit_ok_def audit_call_def)
next
  fix T a p bs assume "audit_ok Q T a"
  then show "audit_ok Q T (store (audited N) p bs a)"
    using assms by (simp add: audited_def audit_ok_def stream_protocol_def)
qed (use assms in \<open>auto simp: audited_def stream_protocol_def case_prod_beta Let_def
    intro!: audit_keeps audit_keeps3\<close>)

section \<open>Facts about the helpers\<close>

lemma cleanup_stream [simp]:
  "f_stream (feeds (cleanup_feed_pending N i s) j) = f_stream (feeds s j)"
  using cleanup_same(3) [of s N i] by (simp add: same_feeds_def)

lemma cleanup_info [simp]:
  "s_info (spans (cleanup_feed_pending N i s) k) = s_info (spans s k)"
  "v_info (reservations (cleanup_feed_pending N i s) k) = v_info (reservations s k)"
  by (auto simp: cleanup_feed_pending_def cleanup_pending_span_def cleanup_pending_reservation_def
      span_release_slot_def reservation_release_slot_def Let_def split: option.splits)

lemma cleanup_idle:
  "\<not> f_pending_span (feeds s i) \<Longrightarrow> \<not> f_pending_reservation (feeds s i) \<Longrightarrow> cleanup_feed_pending N i s = s"
  by (simp add: cleanup_feed_pending_def cleanup_pending_span_def cleanup_pending_reservation_def)

lemma feed_inv_span_owner:
  assumes "feed_inv s" "span_from_token (spans s) v = Some k"
  obtains i where "span_feed_from_token (feeds s) (s_feed_handle (spans s k)) = Some i"
proof -
  have "s_alive (spans s k)" using assms(2) by (auto simp: sn.resolve_iff)
  with assms(1) that show ?thesis by (auto simp: feed_inv_def owners_ok_def)
qed

lemma cleanup_spans_at:
  assumes "feed_inv s" "span_feed_from_token (feeds s) f = Some i"
  shows "spans (cleanup_feed_pending N i s) k = spans s k
    \<or> (s_alive (spans s k) \<and> s_feed_handle (spans s k) = f
       \<and> \<not> s_alive (spans (cleanup_feed_pending N i s) k)
       \<and> s_generation (spans (cleanup_feed_pending N i s) k) = s_generation (spans s k))"
proof -
  have tok: "feed_token (feeds s) i = f" using assms(2) by (rule feed_token_of)
  have live: "f_alive (feeds s i)" using assms(2) by (auto simp: fd.resolve_iff)
  have "pending_ok s" using assms(1) by (simp add: feed_inv_def)
  with live tok have
    "f_pending_span (feeds s i) \<and> f_pending_span_handle (feeds s i) \<noteq> 0 \<Longrightarrow>
      \<exists>m. span_from_token (spans s) (f_pending_span_handle (feeds s i)) = Some m \<and>
          s_feed_handle (spans s m) = f"
    by (auto simp: pending_ok_def)
  then show ?thesis
    by (auto simp: cleanup_pending_span_spans cleanup_pending_span_def span_release_slot_def
        sn.resolve_iff Let_def split: option.splits)
qed

lemma cleanup_reservations_at:
  assumes "feed_inv s" "span_feed_from_token (feeds s) f = Some i"
  shows "reservations (cleanup_feed_pending N i s) k = reservations s k
    \<or> (v_alive (reservations s k) \<and> v_feed_handle (reservations s k) = f
       \<and> \<not> v_alive (reservations (cleanup_feed_pending N i s) k)
       \<and> v_generation (reservations (cleanup_feed_pending N i s) k) = v_generation (reservations s k))"
proof -
  have tok: "feed_token (feeds s) i = f" using assms(2) by (rule feed_token_of)
  have live: "f_alive (feeds s i)" using assms(2) by (auto simp: fd.resolve_iff)
  have "pending_ok s" using assms(1) by (simp add: feed_inv_def)
  with live tok have pend:
    "f_pending_reservation (feeds s i) \<and> f_pending_reservation_handle (feeds s i) \<noteq> 0 \<Longrightarrow>
      \<exists>m. reservation_from_token (reservations s) (f_pending_reservation_handle (feeds s i)) = Some m \<and>
          v_feed_handle (reservations s m) = f"
    by (auto simp: pending_ok_def)
  have eq: "feeds (cleanup_pending_span N i s) i = (feeds s i)\<lparr>f_pending_span := False, f_pending_span_handle := 0\<rparr>
     \<or> feeds (cleanup_pending_span N i s) i = feeds s i"
    by (simp add: cleanup_pending_span_def Let_def)
  show ?thesis unfolding cleanup_feed_pending_def cleanup_pending_reservation_def
    using eq pend by (auto simp: cleanup_pending_span_spans(2) reservation_release_slot_def
        rv.resolve_iff Let_def split: option.splits)
qed

lemma audited_reachable:
  assumes "stream_protocol N Q" "Q {} w0"
    and "feed_reachable (audited N) \<lparr>native = w0, existing = {}, misuse = False\<rparr> s"
  shows "\<not> misuse (world s) \<and> existing (world s) = live_streams s \<and> NULL \<notin> live_streams s"
proof -
  have "feed_good (audit_ok Q) s"
    by (rule reachable_good [OF audited_protocol [OF assms(1)] _ assms(3)]) (simp add: audit_ok_def assms(2))
  then show ?thesis
    by (auto simp: feed_good_def audit_ok_def feed_inv_def tables_ok_def live_streams_def live_feeds_def)
qed

section \<open>Properties\<close>

text \<open>(C1) In every state the stubs can reach, with any arguments, in any order and with any
  allocation failures, no function of the native stream has been called on a stream that did
  not exist, and exactly the streams of the live feeds exist: none is leaked or destroyed
  twice. \<open>stream_protocol\<close> is what the stream itself promises.\<close>

theorem feed_streams_safe:
  assumes "stream_protocol N Q" "Q {} w0"
    and "feed_reachable (audited N) \<lparr>native = w0, existing = {}, misuse = False\<rparr> s"
  shows "\<not> misuse (world s) \<and> existing (world s) = live_streams s \<and> NULL \<notin> live_streams s"
  using audited_reachable [OF assms] .

text \<open>(C16) In every reachable state the tables are consistent: live slots are inside their
  arrays, each live span and reservation carries the token of a live feed, two live feeds
  have different streams, and a recorded pending object is a live slot of that very feed.\<close>

theorem feed_tables_consistent:
  assumes "stream_protocol N Q" "Q {} w0" "feed_reachable N w0 s"
  shows "tables_ok s \<and> owners_ok s \<and> pending_ok s \<and> inj_on (\<lambda>i. f_stream (feeds s i)) (live_feeds s)"
  using reachable_good [OF assms] by (simp add: feed_good_def feed_inv_def)

text \<open>(C5) After a close that returns Ok, the feed's token is dead, and so are exactly the
  tokens of its spans and reservations; every other token still names what it named.\<close>

theorem close_kills_tokens:
  assumes "stream_protocol N Q" "Q {} w0" "feed_reachable N w0 s"
    and close: "opentui_raw_span_feed_close N f s = (Ok, s')"
  shows "span_feed_from_token (feeds s') tok =
      (if tok = f then None else span_feed_from_token (feeds s) tok)
    \<and> (span_from_token (spans s') tok = Some k \<longleftrightarrow>
      span_from_token (spans s) tok = Some k \<and> s_feed_handle (spans s k) \<noteq> f)
    \<and> (reservation_from_token (reservations s') tok = Some k \<longleftrightarrow>
      reservation_from_token (reservations s) tok = Some k \<and> v_feed_handle (reservations s k) \<noteq> f)"
proof -
  have inv: "feed_inv s" using reachable_good [OF assms(1-3)] by (simp add: feed_good_def)
  from close obtain i where own: "span_feed_from_token (feeds s) f = Some i"
    by (auto simp: opentui_raw_span_feed_close_def split: option.splits)
  let ?s1 = "cleanup_feed_pending N i s"
  from close own have s': "feeds s' = span_feed_release_slot i (feeds ?s1)"
    "spans s' = invalidate_feed_spans f (spans ?s1)"
    "reservations s' = release_feed_reservations f (reservations ?s1)"
    by (auto simp: opentui_raw_span_feed_close_def Let_def split: prod.splits if_splits)
  have own1: "span_feed_from_token (feeds ?s1) f = Some i" using own by simp
  have "span_feed_from_token (feeds s') tok = (if tok = f then None else span_feed_from_token (feeds s) tok)"
    unfolding s' using fd.release_resolve [OF own1] by simp
  moreover have "span_from_token (spans s') tok = Some k \<longleftrightarrow>
      span_from_token (spans s) tok = Some k \<and> s_feed_handle (spans s k) \<noteq> f"
    using cleanup_spans_at [OF inv own, of N k] unfolding s' sn.resolve_iff
    by (auto simp: invalidate_feed_spans_at)
  moreover have "reservation_from_token (reservations s') tok = Some k \<longleftrightarrow>
      reservation_from_token (reservations s) tok = Some k \<and> v_feed_handle (reservations s k) \<noteq> f"
    using cleanup_reservations_at [OF inv own, of N k] unfolding s' rv.resolve_iff
    by (auto simp: release_feed_reservations_at)
  ultimately show ?thesis by blast
qed

text \<open>(C6) When the OCaml result of a drained span cannot be allocated, the span is not lost: once
  the clean-up that starts the feed's next operation has run, the stream has been told exactly
  once that this span is consumed, nothing is pending, and every span token and reservation
  means what it meant before the drain. A span without a source or a free slot is given back by
  the drain itself; every other one stays recorded on its feed until that clean-up.\<close>

theorem drain_failure_recovers:
  assumes "span_feed_from_token (feeds s) f = Some i"
    and "streamDrainSpans N (f_stream (feeds s i)) 1 (world (cleanup_feed_pending N i s)) = (count, info, w)"
    and "count \<noteq> 0"
  defines "before \<equiv> cleanup_feed_pending N i s"
    and "s' \<equiv> snd (opentui_raw_span_feed_drain N True f s)"
  defines "after \<equiv> cleanup_feed_pending N i s'"
  shows "fst (opentui_raw_span_feed_drain N True f s) = Out_of_memory
    \<and> (if span_source info = None \<or> fst (span_allocate (f, info) (spans before)) = 0 then after = s'
       else world s' = w \<and> f_pending_span (feeds s' i))
    \<and> world after = snd (streamMarkSpanConsumed N (f_stream (feeds s i)) info w)
    \<and> \<not> f_pending_span (feeds after i)
    \<and> span_from_token (spans after) tok = span_from_token (spans before) tok
    \<and> reservations after = reservations before"
proof -
  define s3 where "s3 = before\<lparr>world := w, feeds := (feeds before)(i := (feeds before i)\<lparr>f_pending_span := True,
    f_pending_span_handle := 0, f_pending_info := info\<rparr>)\<rparr>"
  obtain h k t where al: "span_allocate (f, info) (spans before) = (h, k, t)" by (metis prod_cases3)
  define s4 where "s4 = s3\<lparr>spans := t, feeds := (feeds s3)(i := (feeds s3 i)\<lparr>f_pending_span_handle := h\<rparr>)\<rparr>"
  have idle: "\<not> f_pending_span (feeds before i)" "\<not> f_pending_reservation (feeds before i)"
    by (simp_all add: before_def cleanup_not_pending)
  have run: "opentui_raw_span_feed_drain N True f s = (Out_of_memory,
      if span_source info = None \<or> h = 0 then cleanup_feed_pending N i s3 else s4)"
    using assms(1-3) al
    by (cases "span_source info") (simp_all add: opentui_raw_span_feed_drain_def before_def Let_def s3_def s4_def)
  show ?thesis
  proof (cases "span_source info = None \<or> h = 0")
    case True
    then have s': "s' = cleanup_feed_pending N i s3" using run by (simp add: s'_def)
    have "after = s'" unfolding after_def s' by (intro cleanup_idle) (rule cleanup_not_pending)+
    moreover have "s' = s3\<lparr>world := snd (streamMarkSpanConsumed N (f_stream (feeds s i)) info w),
        feeds := (feeds s3)(i := (feeds s3 i)\<lparr>f_pending_span := False, f_pending_span_handle := 0\<rparr>)\<rparr>"
      using idle(2) by (simp add: s' cleanup_feed_pending_def cleanup_pending_span_def
          cleanup_pending_reservation_def Let_def s3_def before_def)
    ultimately show ?thesis using True run al by (simp add: s3_def)
  next
    case False
    then have h: "h \<noteq> 0" and s': "s' = s4" using run by (auto simp: s'_def)
    note sl = span_alloc_slot [OF al h]
    have tok: "span_from_token (span_release_slot k t) tok = span_from_token (spans before) tok" for tok
      using sn.release_resolve [of t h k tok] sl sn.alloc_was_stale [OF al h] sn.alloc_other [OF al, of tok] by auto
    have "after = s4\<lparr>world := snd (streamMarkSpanConsumed N (f_stream (feeds s i)) info w),
        spans := span_release_slot k t,
        feeds := (feeds s4)(i := (feeds s4 i)\<lparr>f_pending_span := False, f_pending_span_handle := 0\<rparr>)\<rparr>"
      unfolding after_def s' using h sl idle(2)
      by (simp add: cleanup_feed_pending_def cleanup_pending_span_def cleanup_pending_reservation_def
          Let_def s4_def s3_def before_def)
    then show ?thesis using tok False run al by (auto simp: s' s4_def s3_def)
  qed
qed


text \<open>(C15) In a reachable state the stale answer of span_release for an orphaned span is
  never taken: a live span token is given back to the stream of the live feed that drained
  it, with the recorded span, and its slot is freed exactly when the stream accepts it.\<close>

theorem span_release_exact:
  assumes "stream_protocol N Q" "Q {} w0" "feed_reachable N w0 s"
    and "span_from_token (spans s) v = Some k"
  shows "\<exists>i. span_feed_from_token (feeds s) (s_feed_handle (spans s k)) = Some i \<and>
    (let s1 = cleanup_feed_pending N i s;
         (st, w) = streamMarkSpanConsumed N (f_stream (feeds s i)) (s_info (spans s k)) (world s1)
     in fst (opentui_raw_span_release N v s) = map_native_status st
      \<and> world (snd (opentui_raw_span_release N v s)) = w
      \<and> span_from_token (spans (snd (opentui_raw_span_release N v s))) v =
          (if st = 0 then None else span_from_token (spans s1) v))"
proof -
  have "feed_inv s" using reachable_good [OF assms(1-3)] by (simp add: feed_good_def)
  from feed_inv_span_owner [OF this assms(4)]
  obtain i where own: "span_feed_from_token (feeds s) (s_feed_handle (spans s k)) = Some i" .
  have k: "k = slot_of v" using assms(4) by (auto simp: sn.resolve_iff)
  have st: "map_native_status st = Ok \<longleftrightarrow> st = 0" for st :: i32
    using signed_eq_0_iff [of st] by (auto simp: map_native_status_def)
  show ?thesis
    using own assms(4) sn.release_stale [of v k] k
    by (intro exI [of _ i]) (auto simp: opentui_raw_span_release_def owning_feed_eq Let_def st
        split: prod.splits)
qed

text \<open>(C21) Committing a reservation copies at most the reserved length and at most the data
  that was passed: the only store is the first \<open>used\<close> bytes at the reservation's own
  address, and only when the arguments fit.\<close>

theorem reservation_commit_bounds:
  assumes "opentui_raw_span_feed_reservation_commit N v data used s = (status, s')"
    and "reservation_from_token (reservations s) v = Some k"
    and "owning_feed (v_feed_handle (reservations s k)) (feeds s) = Some i"
  defines "s1 \<equiv> cleanup_feed_pending N i s" and "info \<equiv> v_info (reservations s k)"
  shows "(sint used < 0 \<or> r_len info < used \<or> length data < unat used \<longrightarrow>
      status = Invalid_argument \<and> s' = s)
    \<and> (status = Ok \<longrightarrow> 0 \<le> sint used \<and> unat used \<le> unat (r_len info) \<and> unat used \<le> length data
      \<and> world s' = snd (streamCommitReserved N (f_stream (feeds s i)) used
          (if used = 0 then world s1 else store N (r_ptr info) (take (unat used) data) (world s1)))
      \<and> reservation_from_token (reservations s') v = None)"
proof -
  have k: "k = slot_of v" using assms(2) by (auto simp: rv.resolve_iff)
  show ?thesis
    using assms(1,2,3) rv.release_stale [of v k] k
    by (auto simp: opentui_raw_span_feed_reservation_commit_def s1_def info_def neg32_def Let_def
        word_le_nat_alt word_less_nat_alt split: prod.splits if_splits)
qed

text \<open>(C25) The address a drained span is read from: NULL for an empty span, otherwise exactly
  chunk plus offset, and only when the whole range fits below the end of the address space.\<close>

theorem span_source_exact:
  "span_source info = Some a \<longleftrightarrow>
     (len info = 0 \<and> a = NULL) \<or>
     (len info \<noteq> 0 \<and> chunk_ptr info \<noteq> NULL
      \<and> unat a = unat (chunk_ptr info) + unat (offset info)
      \<and> unat (chunk_ptr info) + unat (offset info) + unat (len info) < 2 ^ 64)"
proof -
  let ?c = "chunk_ptr info" and ?o = "ucast (offset info) :: ptr" and ?l = "ucast (len info) :: ptr"
  have u: "unat ?o = unat (offset info)" "unat ?l = unat (len info)"
    by simp_all
  have room: "unat ((- 1 :: ptr) - x) = 2 ^ 64 - 1 - unat x" for x :: ptr
    by (simp add: unat_sub unsigned_minus_1_eq_mask mask_eq_exp_minus_1)
  have nw: "\<not> ?o > - 1 - ?c \<longleftrightarrow> unat ?c + unat (offset info) < 2 ^ 64"
    using unsigned_less [of ?c, where ?'a = nat] by (simp add: word_less_nat_alt room u) linarith
  show ?thesis
  proof (cases "len info = 0 \<or> ?c = 0 \<or> ?o > - 1 - ?c")
    case True
    then show ?thesis using nw by (auto simp: span_source_def)
  next
    case False
    with nw have lt: "unat ?c + unat (offset info) < 2 ^ 64" by blast
    then have sum: "unat (?c + ?o) = unat ?c + unat (offset info)"
      by (subst unat_add_lem [THEN iffD1]) (simp_all add: u)
    have "\<not> ?l > - 1 - (?c + ?o) \<longleftrightarrow> unat ?c + unat (offset info) + unat (len info) < 2 ^ 64"
      using lt by (simp add: word_less_nat_alt room u sum) linarith
    with False sum show ?thesis
      by (auto simp: span_source_def Let_def word_unat_eq_iff)
  qed
qed

text \<open>The options record decodes to exactly its fields: a record is accepted when no
  count is negative and the growth policy is one of the two constructors.\<close>

theorem read_options_record:
  "read_options (Block 0 [Int32 chunk, Int32 initial, Int64 limit, Long growth, Val_bool auto, Int32 queue]) =
     Some (if 0 \<le> sint chunk \<and> 0 \<le> sint initial \<and> 0 \<le> sint limit \<and> 0 \<le> sint queue
              \<and> (to_int growth = 0 \<or> to_int growth = 1)
           then Some \<lparr>chunk_size = chunk, initial_chunks = initial, max_bytes = limit,
             growth_policy = word_of_int (to_int growth), auto_commit_on_full = (if auto then 1 else 0),
             span_queue_capacity = queue\<rparr>
           else None)"
  by (auto simp: read_options_def int_val_def neg32_def to_int_small)

text \<open>A token of a slot comes back only after the slot has been allocated a multiple of
  65535 more times; until then every token made for the slot is a different one.\<close>

theorem token_reuse_distance:
  assumes "0 < i" "i < 65536" "g \<noteq> 0"
  shows "make_token (of_nat i) ((fresh_generation ^^ n) g) = make_token (of_nat i) g \<longleftrightarrow> 65535 dvd n"
  using fresh_generation_period [OF assms(3), of n] generation_of_make [OF assms(2)] by metis

section \<open>Witnesses\<close>

text \<open>A stream that meets the protocol: the world is True while its only stream, at
  address 8, exists. Every call succeeds, a reservation has 16 bytes, a drained span has 3.\<close>

definition toy_stream :: "bool stream_api" where
  "toy_stream = \<lparr>
     createNativeSpanFeed = (\<lambda>_ w. if w then (NULL, w) else (8, True)),
     attachNativeSpanFeed = (\<lambda>_ w. (0, w)),
     destroyNativeSpanFeed = (\<lambda>_ _. False),
     streamWrite = (\<lambda>_ _ w. (0, w)),
     streamCommit = (\<lambda>_ w. (0, w)),
     streamClose = (\<lambda>_ w. (0, w)),
     streamReserve = (\<lambda>_ _ w. (0, \<lparr>r_ptr = 100, r_len = 16, r_reserved = 0\<rparr>, w)),
     streamCommitReserved = (\<lambda>_ _ w. (0, w)),
     streamCancelReserved = (\<lambda>_ w. (0, w)),
     streamGetStats = (\<lambda>_ w. (0, \<lparr>bytes_written = 0, spans_committed = 0, chunks = 1, pending_spans = 0\<rparr>, w)),
     streamDrainSpans = (\<lambda>_ _ w. (1, \<lparr>chunk_ptr = 64, offset = 0, len = 3, chunk_index = 0, si_reserved = 0\<rparr>, w)),
     streamMarkSpanConsumed = (\<lambda>_ _ w. (0, w)),
     load = (\<lambda>_ n _. replicate n 7),
     store = (\<lambda>_ _ w. w)\<rparr>"

lemma toy_calls [simp]:
  "attachNativeSpanFeed toy_stream p w = (0, w)"
  "streamClose toy_stream p w = (0, w)"
  "streamDrainSpans toy_stream p n w = (1, \<lparr>chunk_ptr = 64, offset = 0, len = 3, chunk_index = 0, si_reserved = 0\<rparr>, w)"
  "streamMarkSpanConsumed toy_stream p info w = (0, w)"
  "streamCommitReserved toy_stream p n w = (0, w)"
  "load toy_stream p m w = replicate m 7"
  "store toy_stream p bs w = w"
  by (simp_all add: toy_stream_def)

definition toy_order :: "ptr set \<Rightarrow> bool \<Rightarrow> bool" where
  "toy_order T w \<longleftrightarrow> T = (if w then {8} else {})"

lemma toy_protocol: "stream_protocol toy_stream toy_order"
  by (auto simp: stream_protocol_def keeps_def toy_stream_def toy_order_def split: if_splits)

definition toy_options :: "value" where
  "toy_options = Block 0 [Int32 64, Int32 1, Int64 0, Long 0, Long 0, Int32 8]"

lemma toy_read_options: "read_options toy_options = Some (Some \<lparr>chunk_size = 64, initial_chunks = 1,
    max_bytes = 0, growth_policy = 0, auto_commit_on_full = 0, span_queue_capacity = 8\<rparr>)"
  by (simp add: toy_options_def read_options_def int_val_def neg32_def to_int_small)

definition toy_feed :: feed_slot where
  "toy_feed = \<lparr>f_generation = 1, f_alive = True, f_stream = 8,
     f_pending_span = False, f_pending_span_handle = 0, f_pending_info = zero_span_info,
     f_pending_reservation = False, f_pending_reservation_handle = 0\<rparr>"

definition toy_state :: "'w \<Rightarrow> 'w feed_state" where
  "toy_state w = \<lparr>feeds = (\<lambda>_. zero_feed_slot)(1 := toy_feed), spans = (\<lambda>_. zero_span_slot),
     reservations = (\<lambda>_. zero_reservation_slot), world = w\<rparr>"

lemma token_1_1: "make_token 1 1 = 65537" "token_index 65537 = 1" "token_generation 65537 = 1"
  by (simp_all add: make_token_def token_index_def token_generation_def)

lemma toy_scan: "1 < cap \<Longrightarrow> scan_free (\<lambda>i. False) (Suc 0) cap = Some (Suc 0)"
  using scan_free_first [of 1 cap "\<lambda>i. False"] by simp

lemma toy_feed_allocate:
  "span_feed_allocate () (\<lambda>_. zero_feed_slot) =
     (65537, 1, (\<lambda>_. zero_feed_slot)(1 := toy_feed\<lparr>f_stream := NULL\<rparr>))"
  by (simp add: span_feed_allocate_def toy_scan FEED_CAPACITY_def zero_feed_slot_def Let_def token_1_1
      fresh_generation_def toy_feed_def)

lemma toy_create:
  assumes "createNativeSpanFeed N \<lparr>chunk_size = 64, initial_chunks = 1,
      max_bytes = 0, growth_policy = 0, auto_commit_on_full = 0, span_queue_capacity = 8\<rparr> w = (8, w1)"
    and "attachNativeSpanFeed N 8 w1 = (0, w2)"
  shows "opentui_raw_span_feed_create N False toy_options (init_feed_state w) =
    Some (Returns (Ok, 65537), toy_state w2)"
  using assms by (simp add: opentui_raw_span_feed_create_def toy_read_options init_feed_state_def
      toy_state_def toy_feed_allocate map_native_status_def toy_feed_def)

lemma toy_state_sel [simp]:
  "spans (toy_state w) = (\<lambda>_. zero_span_slot)" "reservations (toy_state w) = (\<lambda>_. zero_reservation_slot)"
  "feeds (toy_state w) = (\<lambda>_. zero_feed_slot)(1 := toy_feed)" "world (toy_state w) = w"
  by (simp_all add: toy_state_def)

lemma toy_reachable: "feed_reachable toy_stream False (toy_state True)"
  by (rule feed_reachable.step [OF feed_reachable.start feed_step.create [OF toy_create]])
    (simp_all add: toy_stream_def)

lemma toy_audit_reachable:
  "feed_reachable (audited toy_stream) \<lparr>native = False, existing = {}, misuse = False\<rparr>
     (toy_state \<lparr>native = True, existing = {8}, misuse = False\<rparr>)"
  by (rule feed_reachable.step [OF feed_reachable.start feed_step.create
        [OF toy_create [where ?w1.0 = "\<lparr>native = True, existing = {8}, misuse = False\<rparr>"]]])
    (simp_all add: toy_stream_def audited_def audit_call_def)

lemma toy_order_start: "toy_order {} False"
  by (simp add: toy_order_def)

lemma toy_lookup: "span_feed_from_token ((\<lambda>_. zero_feed_slot)(Suc 0 := toy_feed)) 65537 = Some (Suc 0)"
  by (simp add: span_feed_from_token_def toy_state_def token_1_1 toy_feed_def FEED_CAPACITY_def)

lemma toy_cleanup: "cleanup_feed_pending N (Suc 0) (toy_state w) = toy_state w"
  by (rule cleanup_idle) (simp_all add: toy_state_def toy_feed_def)

theorem feed_streams_safe_witness:
  "let s = toy_state \<lparr>native = True, existing = {8}, misuse = False\<rparr>
   in \<not> misuse (world s) \<and> existing (world s) = live_streams s \<and> NULL \<notin> live_streams s"
  using feed_streams_safe [OF toy_protocol toy_order_start toy_audit_reachable] unfolding Let_def .

theorem feed_tables_consistent_witness:
  "tables_ok (toy_state True) \<and> f_alive (feeds (toy_state True) 1)"
  using feed_tables_consistent [OF toy_protocol toy_order_start toy_reachable]
  by (simp add: toy_state_def toy_feed_def)

theorem close_kills_tokens_witness:
  "\<exists>s'. opentui_raw_span_feed_close toy_stream 65537 (toy_state True) = (Ok, s')
    \<and> span_feed_from_token (feeds s') 65537 = None"
proof -
  obtain s' where s': "opentui_raw_span_feed_close toy_stream 65537 (toy_state True) = (Ok, s')"
    by (simp add: opentui_raw_span_feed_close_def toy_lookup toy_cleanup map_native_status_def)
  from close_kills_tokens [OF toy_protocol toy_order_start toy_reachable s', of 65537]
  show ?thesis using s' by simp
qed

lemma toy_span_allocate:
  "span_allocate (f, info) (\<lambda>_. zero_span_slot) = (65537, 1,
     (\<lambda>_. zero_span_slot)(1 := \<lparr>s_generation = 1, s_alive = True, s_feed_handle = f, s_info = info\<rparr>))"
  by (simp add: span_allocate_def toy_scan SPAN_CAPACITY_def Let_def token_1_1 zero_span_slot_def
      fresh_generation_def)

definition toy_info :: span_info where
  "toy_info = \<lparr>chunk_ptr = 64, offset = 0, len = 3, chunk_index = 0, si_reserved = 0\<rparr>"

definition toy_drained :: "bool \<Rightarrow> bool feed_state" where
  "toy_drained pending = (toy_state True)\<lparr>
     spans := (\<lambda>_. zero_span_slot)(1 := \<lparr>s_generation = 1, s_alive = True, s_feed_handle = 65537, s_info = toy_info\<rparr>),
     feeds := (\<lambda>_. zero_feed_slot)(1 := toy_feed\<lparr>f_pending_span := pending, f_pending_info := toy_info,
       f_pending_span_handle := (if pending then 65537 else 0)\<rparr>)\<rparr>"

lemma toy_source: "span_source toy_info = Some 64"
  by (simp add: span_source_def toy_info_def)

lemma toy_bytes: "replicate 3 x = [x, x, x]"
  by (simp add: numeral_3_eq_3)

lemma toy_drain:
  "opentui_raw_span_feed_drain toy_stream oom 65537 (toy_state True) =
     (if oom then Out_of_memory else Returns (Ok, Some ([7, 7, 7], 65537)), toy_drained oom)"
  using toy_source
  by (simp add: opentui_raw_span_feed_drain_def toy_lookup toy_cleanup toy_info_def [symmetric]
      toy_span_allocate clear_feed_pending_span_def toy_drained_def)
    (simp add: toy_state_def toy_info_def toy_feed_def toy_bytes)

lemma toy_own: "span_feed_from_token (feeds (toy_state w)) 65537 = Some 1"
  by (simp add: toy_lookup toy_state_def)

lemma toy_drain_call:
  "streamDrainSpans toy_stream (f_stream (feeds (toy_state True) 1)) 1
      (world (cleanup_feed_pending toy_stream 1 (toy_state True))) = (1, toy_info, True)"
  by (simp add: toy_info_def toy_cleanup)

theorem drain_failure_recovers_witness:
  "\<exists>s'. opentui_raw_span_feed_drain toy_stream True 65537 (toy_state True) = (Out_of_memory, s')
     \<and> \<not> f_pending_span (feeds (cleanup_feed_pending toy_stream 1 s') 1)"
  using drain_failure_recovers [OF toy_own toy_drain_call] by (metis one_neq_zero prod.collapse)


lemma toy_drained_reachable: "feed_reachable toy_stream False (toy_drained False)"
  using feed_reachable.step [OF toy_reachable feed_step.drain [of _ False 65537]]
  by (simp add: toy_drain)

theorem span_release_exact_witness:
  "\<exists>i. span_feed_from_token (feeds (toy_drained False)) 65537 = Some i
     \<and> fst (opentui_raw_span_release toy_stream 65537 (toy_drained False)) = Ok"
proof -
  have tok: "span_from_token (spans (toy_drained False)) 65537 = Some 1"
    by (simp add: span_from_token_def toy_drained_def token_1_1 SPAN_CAPACITY_def)
  from span_release_exact [OF toy_protocol toy_order_start toy_drained_reachable tok]
  show ?thesis by (auto simp: toy_drained_def toy_stream_def map_native_status_def Let_def)
qed

definition toy_reserved :: "bool feed_state" where
  "toy_reserved = (toy_state True)\<lparr>reservations := (\<lambda>_. zero_reservation_slot)(1 :=
     \<lparr>v_generation = 1, v_alive = True, v_feed_handle = 65537, v_info = \<lparr>r_ptr = 100, r_len = 16, r_reserved = 0\<rparr>\<rparr>)\<rparr>"

theorem reservation_commit_bounds_witness:
  "\<exists>s'. opentui_raw_span_feed_reservation_commit toy_stream 65537 [1, 2, 3] 2 toy_reserved = (Ok, s')
     \<and> reservation_from_token (reservations s') 65537 = None"
proof -
  have tok: "reservation_from_token (reservations toy_reserved) 65537 = Some 1"
    by (simp add: reservation_from_token_def toy_reserved_def token_1_1 RESERVATION_CAPACITY_def)
  have own: "owning_feed (v_feed_handle (reservations toy_reserved 1)) (feeds toy_reserved) = Some 1"
    by (simp add: owning_feed_def toy_reserved_def toy_state_def toy_feed_def token_1_1 FEED_CAPACITY_def)
  have idle: "cleanup_feed_pending toy_stream 1 toy_reserved = toy_reserved"
    by (rule cleanup_idle) (simp_all add: toy_reserved_def toy_state_def toy_feed_def)
  obtain s' where run:
    "opentui_raw_span_feed_reservation_commit toy_stream 65537 [1, 2, 3] 2 toy_reserved = (Ok, s')"
    using tok own idle
    by (simp add: opentui_raw_span_feed_reservation_commit_def neg32_def)
      (simp add: toy_reserved_def toy_stream_def map_native_status_def)
  from reservation_commit_bounds [OF run tok own] run show ?thesis by blast
qed

theorem token_reuse_distance_witness:
  "make_token (of_nat 5) ((fresh_generation ^^ 2) 1) \<noteq> make_token (of_nat 5) 1"
  using token_reuse_distance [of 5 1 2] by simp

end
