(* ===== verification/Yoga.thy ===== *)
theory Yoga
  imports Slot_Table Values
begin

text \<open>
  yoga_stubs.c: layout nodes. A static table gives OCaml generation-checked handles of
  native Yoga nodes and shadows the tree (\<open>parent_handle\<close>), so that the stubs can refuse
  calls the Yoga library does not survive. The library is the parameter \<open>N\<close>, a record of
  the ABI functions over a native world \<open>'w\<close>.
\<close>

section \<open>Data\<close>

definition YOGA_NODE_CAPACITY :: nat where "YOGA_NODE_CAPACITY = 4096"

record yoga_node_slot =
  y_generation :: u16
  y_alive :: bool
  native_renderable_attached :: bool
  native_measure_attached :: bool
  y_node :: ptr
  parent_handle :: u32

record yoga_layout =
  left :: fp
  top :: fp
  right :: fp
  bottom :: fp
  width :: fp
  height :: fp

text \<open>The callback installed in Yoga is raw_yoga_measure_callback (True) or NULL (False).\<close>

record 'w yoga_api =
  yogaNodeCreateForOpenTUI :: "'w \<Rightarrow> ptr \<times> 'w"
  yogaNodeFree :: "ptr \<Rightarrow> 'w \<Rightarrow> 'w"
  yogaNodeFreeRecursive :: "ptr \<Rightarrow> 'w \<Rightarrow> 'w"
  yogaNodeInsertChild :: "ptr \<Rightarrow> ptr \<Rightarrow> u32 \<Rightarrow> 'w \<Rightarrow> 'w"
  yogaNodeRemoveChild :: "ptr \<Rightarrow> ptr \<Rightarrow> 'w \<Rightarrow> 'w"
  yogaNodeGetChildCount :: "ptr \<Rightarrow> 'w \<Rightarrow> u32"
  yogaNodeCalculateLayout :: "ptr \<Rightarrow> fp \<Rightarrow> fp \<Rightarrow> u32 \<Rightarrow> 'w \<Rightarrow> 'w"
  yogaNodeIsDirty :: "ptr \<Rightarrow> 'w \<Rightarrow> bool"
  yogaNodeMarkDirty :: "ptr \<Rightarrow> 'w \<Rightarrow> 'w"
  yogaNodeGetHasNewLayout :: "ptr \<Rightarrow> 'w \<Rightarrow> bool"
  yogaNodeSetHasNewLayout :: "ptr \<Rightarrow> bool \<Rightarrow> 'w \<Rightarrow> 'w"
  yogaNodeStyleSetValue :: "ptr \<Rightarrow> u32 \<Rightarrow> u32 \<Rightarrow> u32 \<Rightarrow> fp \<Rightarrow> 'w \<Rightarrow> 'w"
  yogaNodeStyleSetEnum :: "ptr \<Rightarrow> u32 \<Rightarrow> u32 \<Rightarrow> 'w \<Rightarrow> 'w"
  yogaNodeStyleSetFloat :: "ptr \<Rightarrow> u32 \<Rightarrow> fp \<Rightarrow> 'w \<Rightarrow> 'w"
  yogaNodeStyleSetBorder :: "ptr \<Rightarrow> u32 \<Rightarrow> fp \<Rightarrow> 'w \<Rightarrow> 'w"
  yogaNodeGetComputedLayout :: "ptr \<Rightarrow> 'w \<Rightarrow> yoga_layout"
  nativeRenderableAttachYogaNode :: "handle \<Rightarrow> ptr \<Rightarrow> 'w \<Rightarrow> bool \<times> 'w"
  yogaNodeSetMeasureFunc :: "ptr \<Rightarrow> bool \<Rightarrow> 'w \<Rightarrow> 'w"
  yogaNodeUnsetMeasureFunc :: "ptr \<Rightarrow> 'w \<Rightarrow> 'w"
  yogaNodeHasMeasureFunc :: "ptr \<Rightarrow> 'w \<Rightarrow> bool"
  yogaSetMeasureCallback :: "bool \<Rightarrow> 'w \<Rightarrow> 'w"
  yogaStoreMeasureResult :: "fp \<Rightarrow> fp \<Rightarrow> 'w \<Rightarrow> 'w"

text \<open>The static variables and the native world; the callback is an OCaml value that
  matters only while it is registered.\<close>

record 'w yoga_state =
  yoga_nodes :: "nat \<Rightarrow> yoga_node_slot"
  yoga_measure_callback :: "value"
  yoga_measure_callback_registered :: bool
  yoga_world :: 'w

definition zero_yoga_slot :: yoga_node_slot where
  "zero_yoga_slot = \<lparr>y_generation = 0, y_alive = False, native_renderable_attached = False,
     native_measure_attached = False, y_node = NULL, parent_handle = 0\<rparr>"

definition init_yoga_state :: "'w \<Rightarrow> 'w yoga_state" where
  "init_yoga_state w = \<lparr>yoga_nodes = (\<lambda>_. zero_yoga_slot), yoga_measure_callback = Val_unit,
     yoga_measure_callback_registered = False, yoga_world = w\<rparr>"

type_synonym yoga_table = "nat \<Rightarrow> yoga_node_slot"

section \<open>The node table\<close>

definition yoga_handle :: "u32 \<Rightarrow> u16 \<Rightarrow> u32" where
  "yoga_handle slot generation = push_bit 16 (ucast generation) OR slot"

definition yoga_slot_index :: "u32 \<Rightarrow> u32" where
  "yoga_slot_index handle = handle AND 0xffff"

definition yoga_generation :: "u32 \<Rightarrow> u16" where
  "yoga_generation handle = ucast (drop_bit 16 handle)"

definition yoga_next_generation :: "u16 \<Rightarrow> u16" where
  "yoga_next_generation generation = (if generation = UINT16_MAX then 1 else generation + 1)"

definition yoga_allocate_node :: "unit \<Rightarrow> yoga_table \<Rightarrow> u32 \<times> nat \<times> yoga_table" where
  "yoga_allocate_node _ t =
     (case scan_free (\<lambda>i. y_alive (t i)) 1 YOGA_NODE_CAPACITY of
        None \<Rightarrow> (0, 0, t)
      | Some index \<Rightarrow>
          let g = (if y_generation (t index) = 0 then 1
                   else yoga_next_generation (y_generation (t index)))
          in (yoga_handle (of_nat index) g, index,
              t(index := \<lparr>y_generation = g, y_alive = True, native_renderable_attached = False,
                 native_measure_attached = False, y_node = NULL, parent_handle = 0\<rparr>)))"

definition yoga_node_from_handle :: "yoga_table \<Rightarrow> u32 \<Rightarrow> nat option" where
  "yoga_node_from_handle t handle =
     (let index = unat (yoga_slot_index handle) in
      if index = 0 \<or> index \<ge> YOGA_NODE_CAPACITY then None
      else if \<not> y_alive (t index) \<or> y_generation (t index) \<noteq> yoga_generation handle then None
      else Some index)"

definition yoga_release_slot :: "nat \<Rightarrow> yoga_table \<Rightarrow> yoga_table" where
  "yoga_release_slot index t = t(index := (t index)\<lparr>y_alive := False,
     native_renderable_attached := False, native_measure_attached := False,
     y_node := NULL, parent_handle := 0\<rparr>)"

text \<open>None: the handle's index is outside the array.\<close>

definition yoga_release_node :: "u32 \<Rightarrow> yoga_table \<Rightarrow> yoga_table option" where
  "yoga_release_node handle t =
     (let index = unat (yoga_slot_index handle) in
      if index \<ge> YOGA_NODE_CAPACITY then None else Some (yoga_release_slot index t))"

text \<open>The handles the scan of a subtree loop pushes for one popped handle, in order.\<close>

definition yoga_children :: "u32 \<Rightarrow> yoga_table \<Rightarrow> u32 list" where
  "yoga_children handle t =
     map (\<lambda>index. yoga_handle (of_nat index) (y_generation (t index)))
       (filter (\<lambda>index. y_alive (t index) \<and> parent_handle (t index) = handle)
          [1..<YOGA_NODE_CAPACITY])"

text \<open>The loop of yoga_release_subtree_slots; the head of the list is the top of the
  pending array, whose overflow is undefined.\<close>

partial_function (option) yoga_release_loop :: "u32 list \<Rightarrow> yoga_table \<Rightarrow> yoga_table option" where
  "yoga_release_loop pending t =
     (case pending of
        [] \<Rightarrow> Some t
      | handle # rest \<Rightarrow>
          let children = yoga_children handle t in
          if length rest + length children > YOGA_NODE_CAPACITY then None
          else Option.bind (yoga_release_node handle t)
                 (\<lambda>t'. yoga_release_loop (rev children @ rest) t'))"

definition yoga_release_subtree_slots :: "u32 \<Rightarrow> yoga_table \<Rightarrow> yoga_table option" where
  "yoga_release_subtree_slots root_handle t = yoga_release_loop [root_handle] t"

partial_function (option) yoga_native_loop :: "u32 list \<Rightarrow> yoga_table \<Rightarrow> bool option" where
  "yoga_native_loop pending t =
     (case pending of
        [] \<Rightarrow> Some False
      | handle # rest \<Rightarrow>
          (case yoga_node_from_handle t handle of
             None \<Rightarrow> Some True
           | Some node \<Rightarrow>
               if native_renderable_attached (t node) then Some True
               else
                 let children = yoga_children handle t in
                 if length rest + length children > YOGA_NODE_CAPACITY then Some True
                 else yoga_native_loop (rev children @ rest) t))"

definition yoga_subtree_has_native_renderable :: "u32 \<Rightarrow> yoga_table \<Rightarrow> bool option" where
  "yoga_subtree_has_native_renderable root_handle t = yoga_native_loop [root_handle] t"

partial_function (option) yoga_cycle_loop :: "u32 \<Rightarrow> u32 \<Rightarrow> yoga_table \<Rightarrow> bool option" where
  "yoga_cycle_loop ancestor_handle child_handle t =
     (if ancestor_handle = 0 then Some False
      else if ancestor_handle = child_handle then Some True
      else (case yoga_node_from_handle t ancestor_handle of
              None \<Rightarrow> Some True
            | Some ancestor \<Rightarrow> yoga_cycle_loop (parent_handle (t ancestor)) child_handle t))"

definition yoga_would_create_cycle :: "u32 \<Rightarrow> u32 \<Rightarrow> yoga_table \<Rightarrow> bool option" where
  "yoga_would_create_cycle parent child t = yoga_cycle_loop parent child t"

section \<open>Validation\<close>

definition yoga_validate_finite_float :: "fp \<Rightarrow> fp option" where
  "yoga_validate_finite_float input =
     (case input of
        Fin r \<Rightarrow> if r < - FLT_MAX \<or> r > FLT_MAX then None else Some (to_float input)
      | _ \<Rightarrow> None)"

definition yoga_validate_layout_dimension :: "fp \<Rightarrow> fp option" where
  "yoga_validate_layout_dimension input =
     (if isnan input then Some NaN
      else case input of
        Fin r \<Rightarrow> if r < 0 \<or> r > FLT_MAX then None else Some (to_float input)
      | _ \<Rightarrow> None)"

definition yoga_validate_style_value :: "i32 \<Rightarrow> fp \<Rightarrow> fp option" where
  "yoga_validate_style_value unit_value numeric_value =
     (if unit_value = 0 \<or> unit_value = 3 then Some NaN
      else if unit_value \<noteq> 1 \<and> unit_value \<noteq> 2 then None
      else yoga_validate_finite_float numeric_value)"

definition in_range :: "int \<Rightarrow> int \<Rightarrow> i32 \<Rightarrow> bool" where
  "in_range lo hi v \<longleftrightarrow> lo \<le> sint v \<and> sint v \<le> hi"

definition yoga_valid_enum_value :: "i32 \<Rightarrow> i32 \<Rightarrow> bool" where
  "yoga_valid_enum_value kind v =
     (if kind = 0 then in_range 0 2 v
      else if kind = 1 then in_range 0 3 v
      else if kind = 2 then in_range 0 5 v
      else if kind \<in> {3, 4, 5} then in_range 0 8 v
      else if kind = 6 then in_range 0 2 v
      else if kind = 7 then in_range 0 2 v
      else if kind \<in> {8, 9} then in_range 0 2 v
      else if kind = 10 then in_range 0 1 v
      else False)"

definition yoga_valid_value_location :: "i32 \<Rightarrow> i32 \<Rightarrow> bool" where
  "yoga_valid_value_location kind edge_or_gutter =
     (if kind \<in> {0, 1, 2, 3, 4, 5, 6} then edge_or_gutter = 0
      else if kind \<in> {7, 8, 9} then in_range 0 8 edge_or_gutter
      else if kind = 10 then in_range 0 2 edge_or_gutter
      else False)"

section \<open>Nodes and the tree\<close>

text \<open>\<open>oom\<close> says whether the allocation of the OCaml result raises.\<close>

definition opentui_raw_yoga_node_create ::
  "'w yoga_api \<Rightarrow> bool \<Rightarrow> 'w yoga_state \<Rightarrow> ((raw_status \<times> u32) outcome \<times> 'w yoga_state) option" where
  "opentui_raw_yoga_node_create N oom s =
     (let (handle, slot, t) = yoga_allocate_node () (yoga_nodes s) in
      if handle = 0 then Some (allocating oom (Native_failure, 0), s)
      else
        let (node, w) = yogaNodeCreateForOpenTUI N (yoga_world s);
            t1 = t(slot := (t slot)\<lparr>y_node := node\<rparr>) in
        if node = NULL then do {
          t2 \<leftarrow> yoga_release_node handle t1;
          Some (allocating oom (Native_failure, 0), s\<lparr>yoga_nodes := t2, yoga_world := w\<rparr>)
        }
        else Some (allocating oom (Ok, handle), s\<lparr>yoga_nodes := t1, yoga_world := w\<rparr>))"

definition opentui_raw_yoga_node_free ::
  "'w yoga_api \<Rightarrow> u32 \<Rightarrow> 'w yoga_state \<Rightarrow> (raw_status \<times> 'w yoga_state) option" where
  "opentui_raw_yoga_node_free N handle s =
     (case yoga_node_from_handle (yoga_nodes s) handle of
        None \<Rightarrow> Some (Stale_handle, s)
      | Some i \<Rightarrow>
          let node = yoga_nodes s i in
          if native_renderable_attached node \<or> parent_handle node \<noteq> 0
             \<or> yogaNodeGetChildCount N (y_node node) (yoga_world s) \<noteq> 0
          then Some (Invalid_argument, s)
          else do {
            t \<leftarrow> yoga_release_node handle (yoga_nodes s);
            Some (Ok, s\<lparr>yoga_world := yogaNodeFree N (y_node node) (yoga_world s), yoga_nodes := t\<rparr>)
          })"

definition opentui_raw_yoga_node_free_recursive ::
  "'w yoga_api \<Rightarrow> u32 \<Rightarrow> 'w yoga_state \<Rightarrow> (raw_status \<times> 'w yoga_state) option" where
  "opentui_raw_yoga_node_free_recursive N handle s =
     (case yoga_node_from_handle (yoga_nodes s) handle of
        None \<Rightarrow> Some (Stale_handle, s)
      | Some i \<Rightarrow>
          let node = yoga_nodes s i in do {
            refused \<leftarrow> (if native_renderable_attached node \<or> parent_handle node \<noteq> 0 then Some True
                       else yoga_subtree_has_native_renderable handle (yoga_nodes s));
            if refused then Some (Invalid_argument, s)
            else do {
              t \<leftarrow> yoga_release_subtree_slots handle (yoga_nodes s);
              Some (Ok, s\<lparr>yoga_world := yogaNodeFreeRecursive N (y_node node) (yoga_world s),
                          yoga_nodes := t\<rparr>)
            }
          })"

definition opentui_raw_yoga_node_insert_child ::
  "'w yoga_api \<Rightarrow> u32 \<Rightarrow> u32 \<Rightarrow> i32 \<Rightarrow> 'w yoga_state \<Rightarrow> (raw_status \<times> 'w yoga_state) option" where
  "opentui_raw_yoga_node_insert_child N p c signed_index s =
     (if neg32 signed_index then Some (Invalid_argument, s)
      else case (yoga_node_from_handle (yoga_nodes s) p, yoga_node_from_handle (yoga_nodes s) c) of
        (Some parent, Some child) \<Rightarrow>
          if native_measure_attached (yoga_nodes s parent) then Some (Invalid_argument, s)
          else do {
            refused \<leftarrow> (if p = c \<or> parent_handle (yoga_nodes s child) \<noteq> 0 then Some True
                       else yoga_would_create_cycle p c (yoga_nodes s));
            if refused then Some (Invalid_argument, s)
            else if signed_index > yogaNodeGetChildCount N (y_node (yoga_nodes s parent)) (yoga_world s)
            then Some (Invalid_argument, s)
            else Some (Ok, s\<lparr>
              yoga_world := yogaNodeInsertChild N (y_node (yoga_nodes s parent))
                 (y_node (yoga_nodes s child)) signed_index (yoga_world s),
              yoga_nodes := (yoga_nodes s)(child := (yoga_nodes s child)\<lparr>parent_handle := p\<rparr>)\<rparr>)
          }
      | _ \<Rightarrow> Some (Stale_handle, s))"

definition opentui_raw_yoga_node_remove_child ::
  "'w yoga_api \<Rightarrow> u32 \<Rightarrow> u32 \<Rightarrow> 'w yoga_state \<Rightarrow> raw_status \<times> 'w yoga_state" where
  "opentui_raw_yoga_node_remove_child N p c s =
     (case (yoga_node_from_handle (yoga_nodes s) p, yoga_node_from_handle (yoga_nodes s) c) of
        (Some parent, Some child) \<Rightarrow>
          if parent_handle (yoga_nodes s child) \<noteq> p then (Invalid_argument, s)
          else (Ok, s\<lparr>
            yoga_world := yogaNodeRemoveChild N (y_node (yoga_nodes s parent))
              (y_node (yoga_nodes s child)) (yoga_world s),
            yoga_nodes := (yoga_nodes s)(child := (yoga_nodes s child)\<lparr>parent_handle := 0\<rparr>)\<rparr>)
      | _ \<Rightarrow> (Stale_handle, s))"

definition opentui_raw_yoga_node_move_child ::
  "'w yoga_api \<Rightarrow> u32 \<Rightarrow> u32 \<Rightarrow> i32 \<Rightarrow> 'w yoga_state \<Rightarrow> raw_status \<times> 'w yoga_state" where
  "opentui_raw_yoga_node_move_child N p c signed_index s =
     (if neg32 signed_index then (Invalid_argument, s)
      else case (yoga_node_from_handle (yoga_nodes s) p, yoga_node_from_handle (yoga_nodes s) c) of
        (Some parent, Some child) \<Rightarrow>
          if parent_handle (yoga_nodes s child) \<noteq> p then (Invalid_argument, s)
          else if signed_index \<ge> yogaNodeGetChildCount N (y_node (yoga_nodes s parent)) (yoga_world s)
          then (Invalid_argument, s)
          else
            let w1 = yogaNodeRemoveChild N (y_node (yoga_nodes s parent))
                       (y_node (yoga_nodes s child)) (yoga_world s) in
            (Ok, s\<lparr>yoga_world := yogaNodeInsertChild N (y_node (yoga_nodes s parent))
                       (y_node (yoga_nodes s child)) signed_index w1\<rparr>)
      | _ \<Rightarrow> (Stale_handle, s))"

text \<open>Stubs that run one native function on the node of a live handle.\<close>

definition with_node ::
  "(yoga_node_slot \<Rightarrow> raw_status \<times> 'w yoga_state) \<Rightarrow> u32 \<Rightarrow> 'w yoga_state \<Rightarrow> raw_status \<times> 'w yoga_state" where
  "with_node f handle s =
     (case yoga_node_from_handle (yoga_nodes s) handle of
        None \<Rightarrow> (Stale_handle, s)
      | Some i \<Rightarrow> f (yoga_nodes s i))"

definition opentui_raw_yoga_node_child_count ::
  "'w yoga_api \<Rightarrow> bool \<Rightarrow> u32 \<Rightarrow> 'w yoga_state \<Rightarrow> (raw_status \<times> i32) outcome" where
  "opentui_raw_yoga_node_child_count N oom handle s = allocating oom
     (case yoga_node_from_handle (yoga_nodes s) handle of
        None \<Rightarrow> (Stale_handle, 0)
      | Some i \<Rightarrow> (Ok, yogaNodeGetChildCount N (y_node (yoga_nodes s i)) (yoga_world s)))"

definition opentui_raw_yoga_node_calculate ::
  "'w yoga_api \<Rightarrow> u32 \<Rightarrow> fp \<Rightarrow> fp \<Rightarrow> i32 \<Rightarrow> 'w yoga_state \<Rightarrow> raw_status \<times> 'w yoga_state" where
  "opentui_raw_yoga_node_calculate N handle width_value height_value direction s =
     with_node (\<lambda>node.
       case (yoga_validate_layout_dimension width_value, yoga_validate_layout_dimension height_value) of
         (Some w, Some h) \<Rightarrow>
           if sint direction < 0 \<or> sint direction > 2 then (Invalid_argument, s)
           else (Ok, s\<lparr>yoga_world := yogaNodeCalculateLayout N (y_node node) w h direction (yoga_world s)\<rparr>)
       | _ \<Rightarrow> (Invalid_argument, s)) handle s"

definition opentui_raw_yoga_node_is_dirty ::
  "'w yoga_api \<Rightarrow> bool \<Rightarrow> u32 \<Rightarrow> 'w yoga_state \<Rightarrow> (raw_status \<times> bool) outcome" where
  "opentui_raw_yoga_node_is_dirty N oom handle s = allocating oom
     (case yoga_node_from_handle (yoga_nodes s) handle of
        None \<Rightarrow> (Stale_handle, False)
      | Some i \<Rightarrow> (Ok, yogaNodeIsDirty N (y_node (yoga_nodes s i)) (yoga_world s)))"

definition opentui_raw_yoga_node_mark_dirty ::
  "'w yoga_api \<Rightarrow> u32 \<Rightarrow> 'w yoga_state \<Rightarrow> raw_status \<times> 'w yoga_state" where
  "opentui_raw_yoga_node_mark_dirty N handle s =
     with_node (\<lambda>node.
       if \<not> native_measure_attached node then (Invalid_argument, s)
       else (Ok, s\<lparr>yoga_world := yogaNodeMarkDirty N (y_node node) (yoga_world s)\<rparr>)) handle s"

definition opentui_raw_yoga_node_has_new_layout ::
  "'w yoga_api \<Rightarrow> bool \<Rightarrow> u32 \<Rightarrow> 'w yoga_state \<Rightarrow> (raw_status \<times> bool) outcome" where
  "opentui_raw_yoga_node_has_new_layout N oom handle s = allocating oom
     (case yoga_node_from_handle (yoga_nodes s) handle of
        None \<Rightarrow> (Stale_handle, False)
      | Some i \<Rightarrow> (Ok, yogaNodeGetHasNewLayout N (y_node (yoga_nodes s i)) (yoga_world s)))"

definition opentui_raw_yoga_node_mark_layout_seen ::
  "'w yoga_api \<Rightarrow> u32 \<Rightarrow> 'w yoga_state \<Rightarrow> raw_status \<times> 'w yoga_state" where
  "opentui_raw_yoga_node_mark_layout_seen N handle s =
     with_node (\<lambda>node.
       (Ok, s\<lparr>yoga_world := yogaNodeSetHasNewLayout N (y_node node) False (yoga_world s)\<rparr>)) handle s"

definition opentui_raw_yoga_node_style_set_value ::
  "'w yoga_api \<Rightarrow> u32 \<Rightarrow> i32 \<Rightarrow> i32 \<Rightarrow> i32 \<Rightarrow> fp \<Rightarrow> 'w yoga_state \<Rightarrow> raw_status \<times> 'w yoga_state" where
  "opentui_raw_yoga_node_style_set_value N handle kind edge_or_gutter unit_value numeric_value s =
     with_node (\<lambda>node.
       if \<not> yoga_valid_value_location kind edge_or_gutter then (Invalid_argument, s)
       else case yoga_validate_style_value unit_value numeric_value of
         None \<Rightarrow> (Invalid_argument, s)
       | Some numeric \<Rightarrow>
           (Ok, s\<lparr>yoga_world := yogaNodeStyleSetValue N (y_node node) kind edge_or_gutter
                    unit_value numeric (yoga_world s)\<rparr>)) handle s"

definition opentui_raw_yoga_node_style_set_enum ::
  "'w yoga_api \<Rightarrow> u32 \<Rightarrow> i32 \<Rightarrow> i32 \<Rightarrow> 'w yoga_state \<Rightarrow> raw_status \<times> 'w yoga_state" where
  "opentui_raw_yoga_node_style_set_enum N handle kind enum_code s =
     with_node (\<lambda>node.
       if \<not> yoga_valid_enum_value kind enum_code then (Invalid_argument, s)
       else (Ok, s\<lparr>yoga_world := yogaNodeStyleSetEnum N (y_node node) kind enum_code (yoga_world s)\<rparr>))
     handle s"

text \<open>\<open>isnan(input) ? NAN : yoga_validate_finite_float\<close>, in the next two stubs.\<close>

definition finite_or_nan :: "fp \<Rightarrow> fp option" where
  "finite_or_nan input = (if isnan input then Some NaN else yoga_validate_finite_float input)"

definition opentui_raw_yoga_node_style_set_float ::
  "'w yoga_api \<Rightarrow> u32 \<Rightarrow> i32 \<Rightarrow> fp \<Rightarrow> 'w yoga_state \<Rightarrow> raw_status \<times> 'w yoga_state" where
  "opentui_raw_yoga_node_style_set_float N handle kind input s =
     with_node (\<lambda>node.
       if sint kind < 0 \<or> sint kind > 3 then (Invalid_argument, s)
       else case finite_or_nan input of
         None \<Rightarrow> (Invalid_argument, s)
       | Some numeric \<Rightarrow>
           (Ok, s\<lparr>yoga_world := yogaNodeStyleSetFloat N (y_node node) kind numeric (yoga_world s)\<rparr>))
     handle s"

definition opentui_raw_yoga_node_style_set_border ::
  "'w yoga_api \<Rightarrow> u32 \<Rightarrow> i32 \<Rightarrow> fp \<Rightarrow> 'w yoga_state \<Rightarrow> raw_status \<times> 'w yoga_state" where
  "opentui_raw_yoga_node_style_set_border N handle edge input s =
     with_node (\<lambda>node.
       if sint edge < 0 \<or> sint edge > 8 then (Invalid_argument, s)
       else case finite_or_nan input of
         None \<Rightarrow> (Invalid_argument, s)
       | Some numeric \<Rightarrow>
           (Ok, s\<lparr>yoga_world := yogaNodeStyleSetBorder N (y_node node) edge numeric (yoga_world s)\<rparr>))
     handle s"

definition opentui_raw_yoga_node_layout ::
  "'w yoga_api \<Rightarrow> bool \<Rightarrow> u32 \<Rightarrow> 'w yoga_state \<Rightarrow> (raw_status \<times> yoga_layout option) outcome" where
  "opentui_raw_yoga_node_layout N oom handle s = allocating oom
     (case yoga_node_from_handle (yoga_nodes s) handle of
        None \<Rightarrow> (Stale_handle, None)
      | Some i \<Rightarrow> (Ok, Some (yogaNodeGetComputedLayout N (y_node (yoga_nodes s i)) (yoga_world s))))"

section \<open>Native renderables and measuring\<close>

definition opentui_raw_native_renderable_attach_yoga_node ::
  "'w yoga_api \<Rightarrow> handle \<Rightarrow> u32 \<Rightarrow> 'w yoga_state \<Rightarrow> raw_status \<times> 'w yoga_state" where
  "opentui_raw_native_renderable_attach_yoga_node N renderable node_handle s =
     (if renderable = 0 then (Stale_handle, s)
      else with_node (\<lambda>node.
        let (attached, w) = nativeRenderableAttachYogaNode N renderable (y_node node) (yoga_world s) in
        (if \<not> attached then Native_failure else Ok, s\<lparr>yoga_world := w\<rparr>)) node_handle s)"

definition opentui_raw_yoga_node_claim_native_renderable ::
  "u32 \<Rightarrow> 'w yoga_state \<Rightarrow> raw_status \<times> 'w yoga_state" where
  "opentui_raw_yoga_node_claim_native_renderable handle s =
     (case yoga_node_from_handle (yoga_nodes s) handle of
        None \<Rightarrow> (Stale_handle, s)
      | Some i \<Rightarrow>
          if native_renderable_attached (yoga_nodes s i) then (Invalid_argument, s)
          else (Ok, s\<lparr>yoga_nodes := (yoga_nodes s)(i := (yoga_nodes s i)\<lparr>
                        native_renderable_attached := True\<rparr>)\<rparr>))"

definition opentui_raw_yoga_node_release_native_renderable ::
  "u32 \<Rightarrow> 'w yoga_state \<Rightarrow> raw_status \<times> 'w yoga_state" where
  "opentui_raw_yoga_node_release_native_renderable handle s =
     (case yoga_node_from_handle (yoga_nodes s) handle of
        None \<Rightarrow> (Stale_handle, s)
      | Some i \<Rightarrow>
          (Ok, s\<lparr>yoga_nodes := (yoga_nodes s)(i := (yoga_nodes s i)\<lparr>
                   native_renderable_attached := False, native_measure_attached := False\<rparr>)\<rparr>))"

definition opentui_raw_yoga_node_set_native_measure_attached ::
  "u32 \<Rightarrow> bool \<Rightarrow> 'w yoga_state \<Rightarrow> raw_status \<times> 'w yoga_state" where
  "opentui_raw_yoga_node_set_native_measure_attached handle attached s =
     (case yoga_node_from_handle (yoga_nodes s) handle of
        None \<Rightarrow> (Stale_handle, s)
      | Some i \<Rightarrow>
          if attached \<and> \<not> native_renderable_attached (yoga_nodes s i) then (Invalid_argument, s)
          else (Ok, s\<lparr>yoga_nodes := (yoga_nodes s)(i := (yoga_nodes s i)\<lparr>
                        native_measure_attached := attached\<rparr>)\<rparr>))"

text \<open>The next three ignore a stale handle.\<close>

definition opentui_raw_yoga_node_set_measure_func ::
  "'w yoga_api \<Rightarrow> u32 \<Rightarrow> bool \<Rightarrow> 'w yoga_state \<Rightarrow> 'w yoga_state" where
  "opentui_raw_yoga_node_set_measure_func N handle enabled s =
     (case yoga_node_from_handle (yoga_nodes s) handle of
        None \<Rightarrow> s
      | Some i \<Rightarrow> s\<lparr>yoga_world := yogaNodeSetMeasureFunc N (y_node (yoga_nodes s i)) enabled (yoga_world s)\<rparr>)"

definition opentui_raw_yoga_node_unset_measure_func ::
  "'w yoga_api \<Rightarrow> u32 \<Rightarrow> 'w yoga_state \<Rightarrow> 'w yoga_state" where
  "opentui_raw_yoga_node_unset_measure_func N handle s =
     (case yoga_node_from_handle (yoga_nodes s) handle of
        None \<Rightarrow> s
      | Some i \<Rightarrow> s\<lparr>yoga_world := yogaNodeUnsetMeasureFunc N (y_node (yoga_nodes s i)) (yoga_world s)\<rparr>)"

definition opentui_raw_yoga_node_has_measure_func :: "'w yoga_api \<Rightarrow> u32 \<Rightarrow> 'w yoga_state \<Rightarrow> bool" where
  "opentui_raw_yoga_node_has_measure_func N handle s =
     (case yoga_node_from_handle (yoga_nodes s) handle of
        None \<Rightarrow> False
      | Some i \<Rightarrow> yogaNodeHasMeasureFunc N (y_node (yoga_nodes s i)) (yoga_world s))"

definition opentui_raw_yoga_node_pointer :: "bool \<Rightarrow> u32 \<Rightarrow> 'w yoga_state \<Rightarrow> ptr outcome" where
  "opentui_raw_yoga_node_pointer oom handle s = allocating oom
     (case yoga_node_from_handle (yoga_nodes s) handle of
        None \<Rightarrow> 0
      | Some i \<Rightarrow> y_node (yoga_nodes s i))"

section \<open>The measure callback\<close>

definition opentui_raw_yoga_set_measure_callback ::
  "'w yoga_api \<Rightarrow> value \<Rightarrow> 'w yoga_state \<Rightarrow> 'w yoga_state" where
  "opentui_raw_yoga_set_measure_callback N callback s =
     (let s1 = (if yoga_measure_callback_registered s
                then s\<lparr>yoga_measure_callback_registered := False\<rparr> else s) in
      s1\<lparr>yoga_measure_callback := callback, yoga_measure_callback_registered := True,
         yoga_world := yogaSetMeasureCallback N True (yoga_world s1)\<rparr>)"

definition opentui_raw_yoga_clear_measure_callback ::
  "'w yoga_api \<Rightarrow> 'w yoga_state \<Rightarrow> 'w yoga_state" where
  "opentui_raw_yoga_clear_measure_callback N s =
     (let s1 = s\<lparr>yoga_world := yogaSetMeasureCallback N False (yoga_world s)\<rparr>;
          s2 = (if yoga_measure_callback_registered s1
                then s1\<lparr>yoga_measure_callback_registered := False\<rparr> else s1) in
      s2\<lparr>yoga_measure_callback := Val_unit\<rparr>)"

text \<open>What the native library calls for each measured node. \<open>call\<close> is the OCaml closure
  applied to the argument tuple (None: it raised); it may change the world. None as result:
  a field of an unboxed float array was read as a value.\<close>

definition raw_yoga_measure_callback ::
  "'w yoga_api \<Rightarrow> (value \<Rightarrow> value \<Rightarrow> 'w \<Rightarrow> value option \<times> 'w) \<Rightarrow>
     ptr \<Rightarrow> fp \<Rightarrow> u32 \<Rightarrow> fp \<Rightarrow> u32 \<Rightarrow> 'w yoga_state \<Rightarrow> 'w yoga_state option" where
  "raw_yoga_measure_callback N call node w width_mode h height_mode s =
     (if \<not> yoga_measure_callback_registered s then
        Some (s\<lparr>yoga_world := yogaStoreMeasureResult N NaN NaN (yoga_world s)\<rparr>)
      else
        let arguments = Block 0 [Nativeint node, Double w, Int32 width_mode, Double h, Int32 height_mode];
            (called, w1) = call (yoga_measure_callback s) arguments (yoga_world s);
            failed = s\<lparr>yoga_world := yogaStoreMeasureResult N NaN NaN w1\<rparr> in
        (case called of
           None \<Rightarrow> Some failed
         | Some result \<Rightarrow>
             if \<not> has_size 2 result then Some failed
             else do {
               width_value \<leftarrow> field result 0;
               height_value \<leftarrow> field result 1;
               if has_tag Double_tag width_value \<and> has_tag Double_tag height_value then do {
                 measured_width \<leftarrow> double_val width_value;
                 measured_height \<leftarrow> double_val height_value;
                 Some (s\<lparr>yoga_world := yogaStoreMeasureResult N (to_float measured_width)
                          (to_float measured_height) w1\<rparr>)
               }
               else Some failed
             }))"

section \<open>The node table satisfies the contract of slot tables\<close>

text \<open>yoga_stubs.c has its own copy of the token functions.\<close>

lemma yoga_token:
  "yoga_handle = make_token" "yoga_slot_index = token_index" "yoga_generation = token_generation"
  "yoga_next_generation = next_generation"
  by (simp_all add: fun_eq_iff yoga_handle_def make_token_def yoga_slot_index_def token_index_def
      yoga_generation_def token_generation_def yoga_next_generation_def next_generation_def)

interpretation yn: slot_table YOGA_NODE_CAPACITY y_alive y_generation yoga_node_from_handle
  yoga_allocate_node yoga_release_slot
proof
  fix t tok i
  show "yoga_node_from_handle t tok = Some i \<longleftrightarrow> i = slot_of tok \<and> i \<noteq> 0 \<and> i < YOGA_NODE_CAPACITY
      \<and> y_alive (t i) \<and> y_generation (t i) = token_generation tok"
    by (auto simp: yoga_node_from_handle_def yoga_token Let_def)
next
  fix t :: yoga_table and x
  assume "\<And>i. 0 < i \<Longrightarrow> i < YOGA_NODE_CAPACITY \<Longrightarrow> y_alive (t i)"
  then have "scan_free (\<lambda>i. y_alive (t i)) 1 YOGA_NODE_CAPACITY = None" by (simp add: scan_free_None)
  then show "yoga_allocate_node x t = (0, 0, t)" by (simp add: yoga_allocate_node_def)
next
  fix t :: yoga_table and i x
  assume i: "0 < i" "i < YOGA_NODE_CAPACITY" "\<not> y_alive (t i)"
  obtain k where "scan_free (\<lambda>i. y_alive (t i)) 1 YOGA_NODE_CAPACITY = Some k" "0 < k" "k \<le> i"
    "\<not> y_alive (t k)" using scan_free_found [of i _ "\<lambda>i. y_alive (t i)", OF i] .
  then show "\<exists>k s. 0 < k \<and> k \<le> i \<and> \<not> y_alive (t k) \<and> y_alive s
      \<and> y_generation s = fresh_generation (y_generation (t k))
      \<and> yoga_allocate_node x t = (make_token (of_nat k) (y_generation s), k, t(k := s))"
    by (intro exI [of _ k] exI [of _ "\<lparr>y_generation = fresh_generation (y_generation (t k)),
        y_alive = True, native_renderable_attached = False, native_measure_attached = False,
        y_node = NULL, parent_handle = 0\<rparr>"])
      (auto simp: yoga_allocate_node_def Let_def yoga_token fresh_generation_def)
qed (simp_all add: YOGA_NODE_CAPACITY_def yoga_release_slot_def)

end
