(* ===== verification/Forest.thy ===== *)
theory Forest
  imports Prelude
begin

text \<open>
  Forests given by a partial parent function: ancestors, grounded nodes (whose chain of
  parents ends) and descendants, with the facts that let the Yoga node table link, unlink
  and free subtrees.
\<close>

inductive anc :: "('a \<Rightarrow> 'a option) \<Rightarrow> 'a \<Rightarrow> 'a \<Rightarrow> bool" for f a where
  anc_refl [simp]: "anc f a a"
| anc_step: "f x = Some p \<Longrightarrow> anc f a p \<Longrightarrow> anc f a x"

inductive grounded :: "('a \<Rightarrow> 'a option) \<Rightarrow> 'a \<Rightarrow> bool" for f where
  grounded_root: "f x = None \<Longrightarrow> grounded f x"
| grounded_step: "f x = Some p \<Longrightarrow> grounded f p \<Longrightarrow> grounded f x"

inductive_cases grounded_SomeE: "grounded f x"

lemma anc_unfold: "anc f a x \<longleftrightarrow> a = x \<or> (\<exists>p. f x = Some p \<and> anc f a p)"
  by (subst anc.simps) auto

lemma grounded_unfold: "grounded f x \<longleftrightarrow> (case f x of None \<Rightarrow> True | Some p \<Rightarrow> grounded f p)"
  by (subst grounded.simps) (auto split: option.splits)

lemma anc_root: "f x = None \<Longrightarrow> anc f a x \<longleftrightarrow> a = x"
  by (subst anc_unfold) auto

lemma anc_trans: "anc f b x \<Longrightarrow> anc f a b \<Longrightarrow> anc f a x"
  by (induction rule: anc.induct) (auto intro: anc_step)

lemma anc_linear: "anc f a x \<Longrightarrow> anc f b x \<Longrightarrow> anc f a b \<or> anc f b a"
proof (induction rule: anc.induct)
  case anc_refl
  then show ?case by blast
next
  case (anc_step x p)
  from anc_step.prems show ?case
  proof (cases rule: anc.cases)
    case anc_refl
    then show ?thesis using anc_step.hyps by (auto intro: anc.anc_step)
  next
    case (anc_step p')
    then show ?thesis using \<open>f x = Some p\<close> \<open>anc f b p \<Longrightarrow> _\<close> by auto
  qed
qed

lemma grounded_anc: "anc f a x \<Longrightarrow> grounded f x \<Longrightarrow> grounded f a"
  by (induction rule: anc.induct) (auto simp: grounded_unfold)

text \<open>A grounded node is not above its own parent.\<close>

lemma grounded_acyclic:
  assumes "grounded f x" "f x = Some p" shows "\<not> anc f x p"
  using assms
proof (induction arbitrary: p rule: grounded.induct)
  case (grounded_step x q)
  then have q: "p = q" by simp
  show ?case
  proof
    assume "anc f x p"
    then consider "x = p" | r where "f p = Some r" "anc f x r" by (auto simp: anc_unfold [of f x p])
    then show False
    proof cases
      case 1
      then show False using grounded_step.IH [of p] grounded_step.hyps(1) q by simp
    next
      case 2
      have "anc f q r"
        using 2(2) grounded_step.hyps(1) by (blast intro: anc_trans anc_step anc_refl)
      then show False using grounded_step.IH [of r] 2(1) q by simp
    qed
  qed
qed simp

lemma grounded_antisym: "grounded f x \<Longrightarrow> anc f a x \<Longrightarrow> anc f x a \<Longrightarrow> a = x"
proof -
  assume g: "grounded f x" and a: "anc f a x" "anc f x a"
  from a(1) show "a = x"
  proof (cases rule: anc.cases)
    case (anc_step p)
    with a(2) have "anc f x p" by (blast intro: anc_trans)
    with grounded_acyclic [OF g anc_step(1)] show ?thesis by blast
  qed simp
qed

text \<open>Linking a root below a node it is not above.\<close>

lemma grounded_link:
  assumes c: "f c = None" and p: "grounded f p" "\<not> anc f c p" and x: "grounded f x"
  shows "grounded (f(c \<mapsto> p)) x"
proof -
  have away: "grounded (f(c \<mapsto> p)) y" if "grounded f y" "\<not> anc f c y" for y
    using that
  proof (induction rule: grounded.induct)
    case (grounded_root y)
    then have "y \<noteq> c" by auto
    with grounded_root show ?case by (intro grounded.grounded_root) simp
  next
    case (grounded_step y q)
    then have "y \<noteq> c" "\<not> anc f c q" by (auto intro: anc_step)
    with grounded_step show ?case by (intro grounded.grounded_step [of _ y q]) simp_all
  qed
  have gc: "grounded (f(c \<mapsto> p)) c" using away [OF p] by (intro grounded_step [of _ c p]) simp_all
  from x show ?thesis
  proof (induction rule: grounded.induct)
    case (grounded_root y)
    show ?case
    proof (cases "y = c")
      case False
      with grounded_root show ?thesis by (intro grounded.grounded_root) simp
    qed (use gc in blast)
  next
    case (grounded_step y q)
    show ?case
    proof (cases "y = c")
      case False
      with grounded_step show ?thesis by (intro grounded.grounded_step [of _ y q]) simp_all
    qed (use gc in blast)
  qed
qed

text \<open>Cutting links.\<close>

lemma grounded_cut:
  assumes "grounded f x" "\<And>y. g y = f y \<or> g y = None"
  shows "grounded g x"
  using assms(1)
proof (induction rule: grounded.induct)
  case (grounded_root x)
  then show ?case using assms(2) [of x] by (auto intro: grounded.grounded_root)
next
  case (grounded_step x p)
  then show ?case using assms(2) [of x] by (auto intro: grounded.intros)
qed

lemma anc_cut:
  assumes "anc g a x" "\<And>y. g y = f y \<or> g y = None" shows "anc f a x"
  using assms(1)
proof (induction rule: anc.induct)
  case (anc_step x p)
  then have "f x = Some p" using assms(2) [of x] by simp
  then show ?case using anc_step.IH by (rule anc.anc_step)
qed simp

text \<open>The subtrees of two children of a grounded node are disjoint, and miss the node.\<close>

lemma siblings_disjoint:
  assumes "grounded f c" "grounded f d" "f c = Some h" "f d = Some h" "anc f c x" "anc f d x"
  shows "c = d"
proof -
  have "anc f c d \<or> anc f d c" using anc_linear assms(5,6) by metis
  then show ?thesis
  proof
    assume "anc f c d"
    then show ?thesis using assms grounded_acyclic [OF assms(1,3)] by (auto simp: anc_unfold [of f c d])
  next
    assume "anc f d c"
    then show ?thesis using assms grounded_acyclic [OF assms(2,4)] by (auto simp: anc_unfold [of f d c])
  qed
qed

lemma anc_below: "anc f h x \<longleftrightarrow> x = h \<or> (\<exists>c. f c = Some h \<and> anc f c x)"
proof
  show "anc f h x \<Longrightarrow> x = h \<or> (\<exists>c. f c = Some h \<and> anc f c x)"
    by (induction rule: anc.induct) (auto intro: anc_step)
next
  assume "x = h \<or> (\<exists>c. f c = Some h \<and> anc f c x)"
  then show "anc f h x"
  proof (elim disjE exE conjE)
    fix c assume c: "f c = Some h" "anc f c x"
    show "anc f h x" by (rule anc_trans [OF c(2) anc_step [of f c h, OF c(1) anc_refl]])
  qed simp
qed

end
