(* ===== verification/Yoga_Forest.thy ===== *)
theory Yoga_Forest
  imports Yoga Forest
begin

text \<open>
  The shadow tree of the node table: the forest invariant, the ancestor test of
  yoga_would_create_cycle, and the two loops over a subtree, which under the invariant end
  without overflowing their pending array.
\<close>

section \<open>The shadow forest\<close>

definition node_handle :: "yoga_table \<Rightarrow> nat \<Rightarrow> u32" where
  "node_handle t i = yoga_handle (of_nat i) (y_generation (t i))"

definition par :: "yoga_table \<Rightarrow> u32 \<Rightarrow> u32 option" where
  "par t h = (case yoga_node_from_handle t h of
      None \<Rightarrow> None
    | Some i \<Rightarrow> if parent_handle (t i) = 0 then None else Some (parent_handle (t i)))"

definition forest_ok :: "yoga_table \<Rightarrow> bool" where
  "forest_ok t \<longleftrightarrow> (\<forall>i. y_alive (t i) \<longrightarrow> 0 < i \<and> i < YOGA_NODE_CAPACITY
     \<and> (parent_handle (t i) = 0 \<or> yoga_node_from_handle t (parent_handle (t i)) \<noteq> None)
     \<and> grounded (par t) (node_handle t i))"

definition desc :: "yoga_table \<Rightarrow> u32 \<Rightarrow> nat set" where
  "desc t h = {i. y_alive (t i) \<and> anc (par t) h (node_handle t i)}"

definition released :: "yoga_node_slot \<Rightarrow> yoga_node_slot" where
  "released x = x\<lparr>y_alive := False, native_renderable_attached := False,
     native_measure_attached := False, y_node := NULL, parent_handle := 0\<rparr>"

definition release_set :: "nat set \<Rightarrow> yoga_table \<Rightarrow> yoga_table" where
  "release_set R t = (\<lambda>i. if i \<in> R then released (t i) else t i)"

lemma released_simps [simp]:
  "\<not> y_alive (released x)" "y_generation (released x) = y_generation x" "parent_handle (released x) = 0"
  by (simp_all add: released_def)

lemma forest_okD:
  assumes "forest_ok t" "y_alive (t i)"
  shows "0 < i" "i < YOGA_NODE_CAPACITY"
    "parent_handle (t i) = 0 \<or> yoga_node_from_handle t (parent_handle (t i)) \<noteq> None"
    "grounded (par t) (node_handle t i)"
  using assms unfolding forest_ok_def by blast+

lemma handle_resolves:
  assumes "forest_ok t" "y_alive (t i)"
  shows "yoga_node_from_handle t (node_handle t i) = Some i"
  unfolding node_handle_def yoga_token
  using forest_okD(1,2) [OF assms] assms(2) by (rule yn.resolve_alive)

lemma resolves_handle: "yoga_node_from_handle t h = Some i \<Longrightarrow> node_handle t i = h"
  unfolding node_handle_def yoga_token yn.resolve_iff by (metis make_token_slot_of)

lemma resolves_alive: "yoga_node_from_handle t h = Some i \<Longrightarrow> y_alive (t i)"
  by (auto simp: yn.resolve_iff)

lemma handle_nonzero: "yoga_node_from_handle t h = Some i \<Longrightarrow> h \<noteq> 0"
  by (rule yn.resolve_nonzero)

lemma par_handle:
  assumes "forest_ok t" "y_alive (t i)"
  shows "par t (node_handle t i) = (if parent_handle (t i) = 0 then None else Some (parent_handle (t i)))"
  by (simp add: par_def handle_resolves [OF assms])

lemma resolves_grounded:
  "forest_ok t \<Longrightarrow> yoga_node_from_handle t h = Some i \<Longrightarrow> grounded (par t) h"
  using forest_okD(4) resolves_alive resolves_handle by metis

lemma par_resolves:
  assumes "forest_ok t" "par t h = Some p" shows "yoga_node_from_handle t p \<noteq> None"
proof -
  from assms(2) obtain i where i: "yoga_node_from_handle t h = Some i" "parent_handle (t i) = p" "p \<noteq> 0"
    by (auto simp: par_def split: option.splits if_splits)
  then show ?thesis using forest_okD(3) [OF assms(1) resolves_alive [OF i(1)]] by simp
qed

lemma anc_resolves:
  assumes "forest_ok t" shows "anc (par t) a h \<Longrightarrow> yoga_node_from_handle t h \<noteq> None
    \<Longrightarrow> yoga_node_from_handle t a \<noteq> None"
  by (induction rule: anc.induct) (use par_resolves [OF assms] in auto)

section \<open>The ancestor test\<close>

lemma cycle_loop_anc:
  assumes "forest_ok t" "grounded (par t) a" "yoga_node_from_handle t a \<noteq> None"
  shows "yoga_cycle_loop a c t = Some (anc (par t) c a)"
  using assms(2,3)
proof (induction rule: grounded.induct)
  case (grounded_root a)
  then obtain i where i: "yoga_node_from_handle t a = Some i" by blast
  with grounded_root have "parent_handle (t i) = 0" by (simp add: par_def split: if_splits)
  then have "yoga_cycle_loop a c t = Some (a = c)"
    using i handle_nonzero [OF i]
    by (subst yoga_cycle_loop.simps) (auto simp: yoga_cycle_loop.simps [of 0])
  then show ?case using grounded_root by (auto simp: anc_root)
next
  case (grounded_step a p)
  then obtain i where i: "yoga_node_from_handle t a = Some i" by blast
  with grounded_step have p: "parent_handle (t i) = p" by (simp add: par_def split: if_splits)
  have "yoga_cycle_loop p c t = Some (anc (par t) c p)"
    using grounded_step par_resolves [OF assms(1)] by blast
  then have "yoga_cycle_loop a c t = Some (a = c \<or> anc (par t) c p)"
    using i p handle_nonzero [OF i] by (subst yoga_cycle_loop.simps) auto
  then show ?case using grounded_step by (auto simp: anc_unfold [of _ c a])
qed

lemma would_create_cycle_anc:
  assumes "forest_ok t" "yoga_node_from_handle t p = Some i"
  shows "yoga_would_create_cycle p c t = Some (anc (par t) c p)"
  unfolding yoga_would_create_cycle_def
  using assms resolves_grounded by (intro cycle_loop_anc) auto

section \<open>Subtrees\<close>

lemma desc_bounded: "forest_ok t \<Longrightarrow> desc t h \<subseteq> {1..<YOGA_NODE_CAPACITY}"
  using forest_okD(1,2) by (fastforce simp: desc_def)

lemma desc_finite: "forest_ok t \<Longrightarrow> finite (desc t h)"
  by (rule finite_subset [OF desc_bounded]) simp_all

lemma yoga_children_set:
  "set (yoga_children h t) = node_handle t ` {i. 0 < i \<and> i < YOGA_NODE_CAPACITY \<and> y_alive (t i) \<and> parent_handle (t i) = h}"
  by (auto simp: yoga_children_def node_handle_def)

lemma yoga_children_iff:
  assumes "forest_ok t" "h \<noteq> 0"
  shows "c \<in> set (yoga_children h t) \<longleftrightarrow> par t c = Some h"
proof
  assume "c \<in> set (yoga_children h t)"
  then obtain i where "c = node_handle t i" "y_alive (t i)" "parent_handle (t i) = h"
    by (auto simp: yoga_children_set)
  then show "par t c = Some h" using par_handle [OF assms(1)] assms(2) by simp
next
  assume "par t c = Some h"
  then obtain i where i: "yoga_node_from_handle t c = Some i" "parent_handle (t i) = h"
    by (auto simp: par_def split: option.splits if_splits)
  then have "node_handle t i = c" "y_alive (t i)" by (simp_all add: resolves_handle resolves_alive)
  then show "c \<in> set (yoga_children h t)"
    using i(2) forest_okD(1,2) [OF assms(1), of i] by (auto simp: yoga_children_set)
qed

lemma yoga_children_resolve:
  assumes "forest_ok t" "h \<noteq> 0" "c \<in> set (yoga_children h t)"
  shows "yoga_node_from_handle t c \<noteq> None"
  using assms(3) unfolding yoga_children_iff [OF assms(1,2)] by (auto simp: par_def split: option.splits)

lemma yoga_children_distinct: "forest_ok t \<Longrightarrow> distinct (yoga_children h t)"
proof -
  assume f: "forest_ok t"
  have "inj_on (\<lambda>i. yoga_handle (of_nat i) (y_generation (t i)))
      (set (filter (\<lambda>i. y_alive (t i) \<and> parent_handle (t i) = h) [1..<YOGA_NODE_CAPACITY]))"
    using handle_resolves [OF f] unfolding node_handle_def inj_on_def
    by simp (metis option.inject)
  then show ?thesis by (simp add: yoga_children_def distinct_map)
qed

lemma desc_self: "forest_ok t \<Longrightarrow> yoga_node_from_handle t h = Some i \<Longrightarrow> i \<in> desc t h"
  by (simp add: desc_def resolves_alive resolves_handle)

lemma desc_split:
  assumes "forest_ok t" "yoga_node_from_handle t h = Some i"
  shows "desc t h = insert i (\<Union>c\<in>set (yoga_children h t). desc t c)"
proof -
  have h: "h \<noteq> 0" using assms(2) by (rule handle_nonzero)
  have "anc (par t) h (node_handle t j) \<longleftrightarrow> j = i \<or> (\<exists>c. par t c = Some h \<and> anc (par t) c (node_handle t j))"
    if "y_alive (t j)" for j
    using handle_resolves [OF assms(1) that] resolves_handle [OF assms(2)] assms(2)
    by (subst anc_below) (metis option.inject)
  moreover have "y_alive (t i)" using assms(2) by (rule resolves_alive)
  ultimately show ?thesis
    unfolding desc_def by (auto simp: yoga_children_iff [OF assms(1) h])
qed

lemma desc_children_disjoint:
  assumes "forest_ok t" "h \<noteq> 0" "c \<in> set (yoga_children h t)" "d \<in> set (yoga_children h t)" "c \<noteq> d"
  shows "desc t c \<inter> desc t d = {}"
proof -
  have p: "par t c = Some h" "par t d = Some h"
    using assms(3,4) by (simp_all add: yoga_children_iff [OF assms(1,2)])
  have "grounded (par t) c" "grounded (par t) d"
    using yoga_children_resolve [OF assms(1,2)] assms(3,4) resolves_grounded [OF assms(1)] by blast+
  from siblings_disjoint [OF this p] assms(5) show ?thesis by (auto simp: desc_def)
qed

lemma desc_not_below:
  assumes "forest_ok t" "yoga_node_from_handle t h = Some i" "c \<in> set (yoga_children h t)"
  shows "i \<notin> desc t c"
proof
  assume "i \<in> desc t c"
  then have "anc (par t) c h" using resolves_handle [OF assms(2)] by (simp add: desc_def)
  moreover have p: "par t c = Some h"
    using assms(3) yoga_children_iff [OF assms(1) handle_nonzero [OF assms(2)]] by simp
  moreover obtain j where "yoga_node_from_handle t c = Some j"
    using yoga_children_resolve [OF assms(1) handle_nonzero [OF assms(2)] assms(3)] by auto
  then have "grounded (par t) c" by (rule resolves_grounded [OF assms(1)])
  from grounded_acyclic [OF this p] calculation show False by simp
qed

text \<open>The condition on a pending list: distinct live handles with disjoint subtrees.\<close>

definition pending_roots :: "yoga_table \<Rightarrow> u32 list \<Rightarrow> bool" where
  "pending_roots t pending \<longleftrightarrow> distinct pending
     \<and> (\<forall>h\<in>set pending. yoga_node_from_handle t h \<noteq> None)
     \<and> (\<forall>g\<in>set pending. \<forall>h\<in>set pending. g \<noteq> h \<longrightarrow> desc t g \<inter> desc t h = {})"

lemma pending_roots_length:
  assumes "forest_ok t" "pending_roots t pending" shows "length pending < YOGA_NODE_CAPACITY"
proof -
  let ?slot = "\<lambda>h. the (yoga_node_from_handle t h)"
  have "inj_on ?slot (set pending)"
    using assms(2) yn.resolve_inj unfolding pending_roots_def inj_on_def by (metis option.exhaust_sel)
  moreover have "?slot ` set pending \<subseteq> {1..<YOGA_NODE_CAPACITY}"
  proof
    fix x assume "x \<in> ?slot ` set pending"
    then obtain h where "h \<in> set pending" "yoga_node_from_handle t h = Some x"
      using assms(2) unfolding pending_roots_def by force
    with yn.resolve_slot show "x \<in> {1..<YOGA_NODE_CAPACITY}" by fastforce
  qed
  ultimately have "card (set pending) \<le> card {1..<YOGA_NODE_CAPACITY}"
    by (intro card_inj_on_le [of ?slot]) auto
  then show ?thesis using assms(2)
    by (simp add: pending_roots_def distinct_card YOGA_NODE_CAPACITY_def)
qed

lemma pending_roots_step:
  assumes f: "forest_ok t" and p: "pending_roots t (h # rest)"
  shows "pending_roots t (rev (yoga_children h t) @ rest)"
proof -
  from p obtain i where i: "yoga_node_from_handle t h = Some i" by (auto simp: pending_roots_def)
  note h = handle_nonzero [OF i]
  let ?cs = "yoga_children h t"
  have sub: "desc t c \<subseteq> desc t h" if "c \<in> set ?cs" for c using desc_split [OF f i] that by blast
  have cross: "desc t c \<inter> desc t g = {}" if "c \<in> set ?cs" "g \<in> set rest" for c g
  proof -
    have "desc t h \<inter> desc t g = {}"
      using p that(2) unfolding pending_roots_def by (metis distinct.simps(2) list.set_intros)
    with sub [OF that(1)] show ?thesis by blast
  qed
  have "c \<noteq> g" if "c \<in> set ?cs" "g \<in> set rest" for c g
    using cross [OF that] yoga_children_resolve [OF f h that(1)] desc_self [OF f] by blast
  then have "distinct (rev ?cs @ rest)"
    using yoga_children_distinct [OF f] p by (auto simp: pending_roots_def)
  moreover have "\<forall>g\<in>set (rev ?cs @ rest). yoga_node_from_handle t g \<noteq> None"
    using p yoga_children_resolve [OF f h] by (auto simp: pending_roots_def)
  moreover have "desc t a \<inter> desc t b = {}"
    if ab: "a \<in> set (rev ?cs @ rest)" "b \<in> set (rev ?cs @ rest)" "a \<noteq> b" for a b
  proof -
    have "desc t a \<inter> desc t b = {}" if "a \<in> set rest" "b \<in> set rest"
      using p ab(3) that by (simp add: pending_roots_def)
    moreover have "desc t a \<inter> desc t b = {}" if "a \<in> set ?cs" "b \<in> set ?cs"
      using desc_children_disjoint [OF f h that ab(3)] .
    moreover have "desc t a \<inter> desc t b = {}" if "a \<in> set rest" "b \<in> set ?cs"
      using cross [OF that(2,1)] by (simp add: Int_commute)
    ultimately show ?thesis using ab(1,2) cross by auto
  qed
  ultimately show ?thesis unfolding pending_roots_def by blast
qed

definition pending_desc :: "yoga_table \<Rightarrow> u32 list \<Rightarrow> nat set" where
  "pending_desc t pending = (\<Union>h\<in>set pending. desc t h)"

lemma pending_desc_step:
  assumes "forest_ok t" "pending_roots t (h # rest)" "yoga_node_from_handle t h = Some i"
  shows "pending_desc t (h # rest) = insert i (pending_desc t (rev (yoga_children h t) @ rest))"
    and "i \<notin> pending_desc t (rev (yoga_children h t) @ rest)"
proof -
  show "pending_desc t (h # rest) = insert i (pending_desc t (rev (yoga_children h t) @ rest))"
    using desc_split [OF assms(1,3)] by (auto simp: pending_desc_def)
  have "i \<notin> desc t g" if "g \<in> set rest" for g
  proof -
    have "desc t h \<inter> desc t g = {}"
      using assms(2) that unfolding pending_roots_def by (metis distinct.simps(2) list.set_intros)
    with desc_self [OF assms(1,3)] show ?thesis by blast
  qed
  then show "i \<notin> pending_desc t (rev (yoga_children h t) @ rest)"
    using desc_not_below [OF assms(1,3)] by (auto simp: pending_desc_def)
qed

lemma pending_desc_finite: "forest_ok t \<Longrightarrow> finite (pending_desc t pending)"
  by (simp add: pending_desc_def desc_finite)

lemma pending_fits:
  assumes "forest_ok t" "pending_roots t (h # rest)"
  shows "\<not> length rest + length (yoga_children h t) > YOGA_NODE_CAPACITY"
  using pending_roots_length [OF assms(1) pending_roots_step [OF assms]] by simp

text \<open>Slots outside the released set keep their children.\<close>

lemma children_release_set:
  assumes "h \<noteq> 0" "\<And>i. y_alive (t i) \<Longrightarrow> parent_handle (t i) = h \<Longrightarrow> i \<notin> R"
  shows "yoga_children h (release_set R t) = yoga_children h t"
proof -
  have "filter (\<lambda>i. y_alive (release_set R t i) \<and> parent_handle (release_set R t i) = h) xs =
      filter (\<lambda>i. y_alive (t i) \<and> parent_handle (t i) = h) xs" for xs
    using assms by (intro filter_cong) (auto simp: release_set_def)
  then show ?thesis by (simp add: yoga_children_def release_set_def cong: map_cong)
qed

lemma release_loop_spec:
  assumes f: "forest_ok t" and "pending_roots t pending" and "pending_desc t pending \<inter> R = {}"
  shows "yoga_release_loop pending (release_set R t) = Some (release_set (R \<union> pending_desc t pending) t)"
  using assms(2,3)
proof (induction "card (pending_desc t pending)" arbitrary: pending R rule: less_induct)
  case less
  show ?case
  proof (cases pending)
    case Nil
    then show ?thesis by (subst yoga_release_loop.simps) (simp add: pending_desc_def)
  next
    case (Cons h rest)
    then obtain i where i: "yoga_node_from_handle t h = Some i"
      using less.prems(1) by (auto simp: pending_roots_def)
    let ?next = "rev (yoga_children h t) @ rest"
    note step = pending_desc_step [OF f less.prems(1) [unfolded Cons] i]
    have kids: "yoga_children h (release_set R t) = yoga_children h t"
    proof (rule children_release_set [OF handle_nonzero [OF i]])
      fix j assume j: "y_alive (t j)" "parent_handle (t j) = h"
      then have "par t (node_handle t j) = Some h"
        using par_handle [OF f j(1)] handle_nonzero [OF i] by simp
      then have "j \<in> desc t h" using j(1) by (auto simp: desc_def intro: anc_step)
      then show "j \<notin> R" using less.prems(2) Cons by (auto simp: pending_desc_def)
    qed
    have iR: "i \<notin> R" using less.prems(2) step(1) Cons by auto
    have rel: "yoga_release_node h (release_set R t) = Some (release_set (insert i R) t)"
    proof -
      have slot: "i = unat (yoga_slot_index h)" "i < YOGA_NODE_CAPACITY"
        using i by (auto simp: yn.resolve_iff yoga_token)
      have "yoga_release_slot i (release_set R t) = release_set (insert i R) t"
        using iR by (auto simp: yoga_release_slot_def release_set_def released_def fun_eq_iff)
      then show ?thesis using slot by (simp add: yoga_release_node_def)
    qed
    have "yoga_release_loop ?next (release_set (insert i R) t) =
        Some (release_set (insert i R \<union> pending_desc t ?next) t)"
    proof (rule less.hyps)
      show "card (pending_desc t ?next) < card (pending_desc t pending)"
        using step pending_desc_finite [OF f, of ?next] Cons by simp
      show "pending_roots t ?next" using pending_roots_step [OF f] less.prems(1) Cons by blast
      show "pending_desc t ?next \<inter> insert i R = {}" using step less.prems(2) Cons by auto
    qed
    moreover have "insert i R \<union> pending_desc t ?next = R \<union> pending_desc t pending"
      using step(1) Cons by auto
    ultimately show ?thesis
      using Cons kids rel pending_fits [OF f less.prems(1) [unfolded Cons]]
      by (subst yoga_release_loop.simps) (simp add: Let_def)
  qed
qed

lemma pending_roots_single: "yoga_node_from_handle t h = Some i \<Longrightarrow> pending_roots t [h]"
  by (simp add: pending_roots_def)

theorem release_subtree_spec:
  assumes "forest_ok t" "yoga_node_from_handle t h = Some i"
  shows "yoga_release_subtree_slots h t = Some (release_set (desc t h) t)"
  using release_loop_spec [OF assms(1) pending_roots_single [OF assms(2)], of "{}"]
  by (simp add: yoga_release_subtree_slots_def pending_desc_def release_set_def)

lemma native_loop_spec:
  assumes f: "forest_ok t" and "pending_roots t pending"
  shows "yoga_native_loop pending t = Some (\<exists>i\<in>pending_desc t pending. native_renderable_attached (t i))"
  using assms(2)
proof (induction "card (pending_desc t pending)" arbitrary: pending rule: less_induct)
  case less
  show ?case
  proof (cases pending)
    case Nil
    then show ?thesis by (subst yoga_native_loop.simps) (simp add: pending_desc_def)
  next
    case (Cons h rest)
    then obtain i where i: "yoga_node_from_handle t h = Some i"
      using less.prems by (auto simp: pending_roots_def)
    let ?next = "rev (yoga_children h t) @ rest"
    note step = pending_desc_step [OF f less.prems [unfolded Cons] i]
    have "yoga_native_loop ?next t = Some (\<exists>i\<in>pending_desc t ?next. native_renderable_attached (t i))"
    proof (rule less.hyps)
      show "card (pending_desc t ?next) < card (pending_desc t pending)"
        using step pending_desc_finite [OF f, of ?next] Cons by simp
      show "pending_roots t ?next" using pending_roots_step [OF f] less.prems Cons by blast
    qed
    then show ?thesis
      using Cons i step(1) pending_fits [OF f less.prems [unfolded Cons]]
      by (subst yoga_native_loop.simps) (simp add: Let_def)
  qed
qed

theorem subtree_native_spec:
  assumes "forest_ok t" "yoga_node_from_handle t h = Some i"
  shows "yoga_subtree_has_native_renderable h t =
    Some (\<exists>i\<in>desc t h. native_renderable_attached (t i))"
  using native_loop_spec [OF assms(1) pending_roots_single [OF assms(2)]]
  by (simp add: yoga_subtree_has_native_renderable_def pending_desc_def)

end
