(* ===== verification/Yoga_Inv.thy ===== *)
theory Yoga_Inv
  imports Yoga_Forest
begin

text \<open>
  Agreement of the shadow tree with the native tree. \<open>yoga_protocol\<close> states what the Yoga
  library asks of its caller and does to its own tree \<open>K\<close> (the children list of each
  existing node); every stub keeps the two trees in agreement and meets the preconditions.
\<close>

section \<open>The native tree\<close>

type_synonym tree = "ptr \<Rightarrow> ptr list option"

definition links :: "tree \<Rightarrow> (ptr \<times> ptr) set" where
  "links K = {(p, c). \<exists>cs. K p = Some cs \<and> c \<in> set cs}"

definition orphan :: "tree \<Rightarrow> ptr \<Rightarrow> bool" where
  "orphan K c \<longleftrightarrow> (\<forall>p. (p, c) \<notin> links K)"

definition below :: "tree \<Rightarrow> ptr \<Rightarrow> ptr set" where
  "below K p = {x. (p, x) \<in> (links K)\<^sup>*}"

definition yoga_keeps :: "(tree \<Rightarrow> 'w \<Rightarrow> bool) \<Rightarrow> (ptr \<Rightarrow> 'w \<Rightarrow> 'w) \<Rightarrow> bool" where
  "yoga_keeps Q f \<longleftrightarrow> (\<forall>K w p. Q K w \<longrightarrow> p \<in> dom K \<longrightarrow> Q K (f p w))"

text \<open>
  \<open>Q K w\<close>: the world \<open>w\<close> is in order and its nodes form the tree \<open>K\<close>. A function promises
  its effect only under its precondition: a node may be freed when it has neither children nor
  a parent, a subtree when its root has no parent; a child is inserted when it has no
  parent, is not above the new parent, the index is within the list and the new parent has no
  measure function; only a node with a measure function is marked dirty (ABI.md), and only a
  node without children is given one, by itself or by the renderable it is attached to. In
  return no node with a measure function has children, and removing a child leaves the
  parent's measure function as it is.
\<close>

definition yoga_protocol :: "'w yoga_api \<Rightarrow> (tree \<Rightarrow> 'w \<Rightarrow> bool) \<Rightarrow> bool" where
  "yoga_protocol N Q \<longleftrightarrow>
     (\<forall>K w p w'. Q K w \<longrightarrow> yogaNodeCreateForOpenTUI N w = (p, w') \<longrightarrow>
        (if p = NULL then Q K w' else K p = None \<and> Q (K(p \<mapsto> [])) w')) \<and>
     (\<forall>K w p. Q K w \<longrightarrow> K p = Some [] \<longrightarrow> orphan K p \<longrightarrow> Q (K(p := None)) (yogaNodeFree N p w)) \<and>
     (\<forall>K w p. Q K w \<longrightarrow> p \<in> dom K \<longrightarrow> orphan K p \<longrightarrow>
        Q (K |` (- below K p)) (yogaNodeFreeRecursive N p w)) \<and>
     (\<forall>K w p cs c i. Q K w \<longrightarrow> K p = Some cs \<longrightarrow> c \<in> dom K \<longrightarrow> orphan K c \<longrightarrow> p \<notin> below K c \<longrightarrow>
        unat i \<le> length cs \<longrightarrow> \<not> yogaNodeHasMeasureFunc N p w \<longrightarrow>
        Q (K(p \<mapsto> take (unat i) cs @ c # drop (unat i) cs)) (yogaNodeInsertChild N p c i w)) \<and>
     (\<forall>K w p cs c. Q K w \<longrightarrow> K p = Some cs \<longrightarrow> c \<in> set cs \<longrightarrow>
        Q (K(p \<mapsto> remove1 c cs)) (yogaNodeRemoveChild N p c w) \<and>
        yogaNodeHasMeasureFunc N p (yogaNodeRemoveChild N p c w) = yogaNodeHasMeasureFunc N p w) \<and>
     (\<forall>K w p cs. Q K w \<longrightarrow> K p = Some cs \<longrightarrow> yogaNodeGetChildCount N p w = of_nat (length cs)) \<and>
     (\<forall>x y d. yoga_keeps Q (\<lambda>p. yogaNodeCalculateLayout N p x y d)) \<and>
     (\<forall>K w p. Q K w \<longrightarrow> p \<in> dom K \<longrightarrow> yogaNodeHasMeasureFunc N p w \<longrightarrow> Q K (yogaNodeMarkDirty N p w)) \<and>
     (\<forall>b. yoga_keeps Q (\<lambda>p. yogaNodeSetHasNewLayout N p b)) \<and>
     (\<forall>k e u v. yoga_keeps Q (\<lambda>p. yogaNodeStyleSetValue N p k e u v)) \<and>
     (\<forall>k v. yoga_keeps Q (\<lambda>p. yogaNodeStyleSetEnum N p k v)) \<and>
     (\<forall>k v. yoga_keeps Q (\<lambda>p. yogaNodeStyleSetFloat N p k v)) \<and>
     (\<forall>k v. yoga_keeps Q (\<lambda>p. yogaNodeStyleSetBorder N p k v)) \<and>
     (\<forall>K w p cs r w'. Q K w \<longrightarrow> K p = Some cs \<longrightarrow> snd (nativeRenderableAttachYogaNode N r p w) = w' \<longrightarrow>
        cs = [] \<or> \<not> yogaNodeHasMeasureFunc N p w' \<longrightarrow> Q K w') \<and>
     (\<forall>K w p cs b. Q K w \<longrightarrow> K p = Some cs \<longrightarrow> (b \<longrightarrow> cs = []) \<longrightarrow> Q K (yogaNodeSetMeasureFunc N p b w)) \<and>
     yoga_keeps Q (yogaNodeUnsetMeasureFunc N) \<and>
     (\<forall>K w p. Q K w \<longrightarrow> p \<in> dom K \<longrightarrow> yogaNodeHasMeasureFunc N p w \<longrightarrow> K p = Some []) \<and>
     (\<forall>K w b. Q K w \<longrightarrow> Q K (yogaSetMeasureCallback N b w))"

section \<open>Agreement\<close>

definition kids :: "yoga_table \<Rightarrow> nat \<Rightarrow> nat set" where
  "kids t i = {j. y_alive (t j) \<and> parent_handle (t j) = node_handle t i}"

definition agrees :: "yoga_table \<Rightarrow> tree \<Rightarrow> bool" where
  "agrees t K \<longleftrightarrow> inj_on (\<lambda>i. y_node (t i)) {i. y_alive (t i)}
     \<and> dom K = (\<lambda>i. y_node (t i)) ` {i. y_alive (t i)}
     \<and> (\<forall>i. y_alive (t i) \<longrightarrow> y_node (t i) \<noteq> NULL \<and>
          (\<exists>cs. K (y_node (t i)) = Some cs \<and> distinct cs \<and> set cs = (\<lambda>j. y_node (t j)) ` kids t i))"

definition yoga_good :: "(tree \<Rightarrow> 'w \<Rightarrow> bool) \<Rightarrow> 'w yoga_state \<Rightarrow> bool" where
  "yoga_good Q s \<longleftrightarrow> forest_ok (yoga_nodes s) \<and>
     (\<exists>K. agrees (yoga_nodes s) K \<and> Q K (yoga_world s))"

lemma agreesD:
  assumes "agrees t K" "y_alive (t i)"
  shows "y_node (t i) \<noteq> NULL" "y_node (t i) \<in> dom K"
    "\<exists>cs. K (y_node (t i)) = Some cs \<and> distinct cs \<and> set cs = (\<lambda>j. y_node (t j)) ` kids t i"
  using assms unfolding agrees_def by blast+

lemma agrees_inj:
  "agrees t K \<Longrightarrow> y_alive (t i) \<Longrightarrow> y_alive (t j) \<Longrightarrow> y_node (t i) = y_node (t j) \<longleftrightarrow> i = j"
  unfolding agrees_def inj_on_def by blast

lemma links_iff:
  assumes "agrees t K"
  shows "(x, y) \<in> links K \<longleftrightarrow>
    (\<exists>i j. y_alive (t i) \<and> y_alive (t j) \<and> x = y_node (t i) \<and> y = y_node (t j)
       \<and> parent_handle (t j) = node_handle t i)"
proof
  assume "(x, y) \<in> links K"
  then obtain cs where cs: "K x = Some cs" "y \<in> set cs" by (auto simp: links_def)
  then obtain i where i: "y_alive (t i)" "x = y_node (t i)"
    using assms unfolding agrees_def by (metis (no_types, lifting) domI imageE mem_Collect_eq)
  with agreesD(3) [OF assms i(1)] cs have "y \<in> (\<lambda>j. y_node (t j)) ` kids t i" by auto
  with i show "\<exists>i j. y_alive (t i) \<and> y_alive (t j) \<and> x = y_node (t i) \<and> y = y_node (t j)
      \<and> parent_handle (t j) = node_handle t i" by (auto simp: kids_def)
next
  assume "\<exists>i j. y_alive (t i) \<and> y_alive (t j) \<and> x = y_node (t i) \<and> y = y_node (t j)
      \<and> parent_handle (t j) = node_handle t i"
  then obtain i j where ij: "y_alive (t i)" "y_alive (t j)" "x = y_node (t i)" "y = y_node (t j)"
    "parent_handle (t j) = node_handle t i" by blast
  then show "(x, y) \<in> links K" using agreesD(3) [OF assms ij(1)] by (auto simp: links_def kids_def)
qed

lemma linksI:
  assumes "agrees t K" "y_alive (t i)" "y_alive (t j)" "parent_handle (t j) = node_handle t i"
  shows "(y_node (t i), y_node (t j)) \<in> links K"
  unfolding links_iff [OF assms(1)] by (intro exI [of _ i] exI [of _ j]) (simp add: assms)

lemma orphan_iff:
  assumes "forest_ok t" "agrees t K" "y_alive (t i)"
  shows "orphan K (y_node (t i)) \<longleftrightarrow> parent_handle (t i) = 0"
proof
  assume o: "orphan K (y_node (t i))"
  show "parent_handle (t i) = 0"
  proof (rule ccontr)
    assume "parent_handle (t i) \<noteq> 0"
    then obtain j where j: "yoga_node_from_handle t (parent_handle (t i)) = Some j"
      using forest_okD(3) [OF assms(1,3)] by auto
    then have "(y_node (t j), y_node (t i)) \<in> links K"
      using assms(3) resolves_alive resolves_handle unfolding links_iff [OF assms(2)] by metis
    with o show False by (simp add: orphan_def)
  qed
next
  assume "parent_handle (t i) = 0"
  moreover have "node_handle t j \<noteq> 0" if "y_alive (t j)" for j
    using handle_resolves [OF assms(1) that] by (rule handle_nonzero)
  ultimately show "orphan K (y_node (t i))"
    using agrees_inj [OF assms(2) _ assms(3)] unfolding orphan_def links_iff [OF assms(2)] by metis
qed

lemma below_iff:
  assumes f: "forest_ok t" and a: "agrees t K" and i: "y_alive (t i)"
  shows "x \<in> below K (y_node (t i)) \<longleftrightarrow>
    (\<exists>j. y_alive (t j) \<and> x = y_node (t j) \<and> anc (par t) (node_handle t i) (node_handle t j))"
proof
  assume "x \<in> below K (y_node (t i))"
  then have "(y_node (t i), x) \<in> (links K)\<^sup>*" by (simp add: below_def)
  then show "\<exists>j. y_alive (t j) \<and> x = y_node (t j) \<and> anc (par t) (node_handle t i) (node_handle t j)"
  proof (induction rule: rtrancl_induct)
    case base
    with i show ?case by auto
  next
    case (step y z)
    then obtain j where j: "y_alive (t j)" "y = y_node (t j)"
      "anc (par t) (node_handle t i) (node_handle t j)" by blast
    from step.hyps(2) obtain j' k where k: "y_alive (t j')" "y_alive (t k)" "y = y_node (t j')"
      "z = y_node (t k)" "parent_handle (t k) = node_handle t j'"
      unfolding links_iff [OF a] by blast
    from k(3) j(2) have jj: "j' = j" using agrees_inj [OF a k(1) j(1)] by simp
    have nz: "node_handle t j \<noteq> 0" using handle_resolves [OF f j(1)] by (rule handle_nonzero)
    have "par t (node_handle t k) = Some (node_handle t j)"
      using par_handle [OF f k(2)] k(5) jj nz by simp
    then have "anc (par t) (node_handle t i) (node_handle t k)" using j(3) by (rule anc_step)
    with k show ?case by blast
  qed
next
  have "yoga_node_from_handle t h \<noteq> None \<Longrightarrow>
      (y_node (t i), y_node (t (the (yoga_node_from_handle t h)))) \<in> (links K)\<^sup>*"
    if "anc (par t) (node_handle t i) h" for h
    using that
  proof (induction rule: anc.induct)
    case anc_refl
    then show ?case by (simp add: handle_resolves [OF f i])
  next
    case (anc_step h p)
    then obtain j where j: "yoga_node_from_handle t h = Some j" by blast
    obtain k where k: "yoga_node_from_handle t p = Some k" using par_resolves [OF f anc_step.hyps(1)] by blast
    have "parent_handle (t j) = p" using anc_step.hyps(1) j by (simp add: par_def split: if_splits)
    then have "parent_handle (t j) = node_handle t k" using resolves_handle [OF k] by simp
    then have "(y_node (t k), y_node (t j)) \<in> links K"
      by (rule linksI [OF a resolves_alive [OF k] resolves_alive [OF j]])
    then show ?case using anc_step.IH j k by (simp add: rtrancl.rtrancl_into_rtrancl)
  qed
  note path = this
  assume "\<exists>j. y_alive (t j) \<and> x = y_node (t j) \<and> anc (par t) (node_handle t i) (node_handle t j)"
  then obtain j where j: "y_alive (t j)" "x = y_node (t j)" "anc (par t) (node_handle t i) (node_handle t j)"
    by blast
  show "x \<in> below K (y_node (t i))"
    using path [OF j(3)] handle_resolves [OF f j(1)] j(2) by (simp add: below_def)
qed

section \<open>Changes of the table\<close>

text \<open>Changes that leave the tree alone.\<close>

definition same_tree :: "yoga_table \<Rightarrow> yoga_table \<Rightarrow> bool" where
  "same_tree t t' \<longleftrightarrow> (\<forall>i. y_alive (t' i) = y_alive (t i) \<and> y_generation (t' i) = y_generation (t i)
     \<and> y_node (t' i) = y_node (t i) \<and> parent_handle (t' i) = parent_handle (t i))"

lemma same_tree_facts:
  assumes "same_tree t t'"
  shows "yoga_node_from_handle t' = yoga_node_from_handle t" "node_handle t' = node_handle t"
    "par t' = par t" "kids t' = kids t"
proof -
  show r: "yoga_node_from_handle t' = yoga_node_from_handle t"
    using assms by (simp add: fun_eq_iff same_tree_def yoga_node_from_handle_def Let_def)
  show h: "node_handle t' = node_handle t"
    using assms by (simp add: fun_eq_iff same_tree_def node_handle_def)
  have "parent_handle (t' i) = parent_handle (t i)" for i using assms by (simp add: same_tree_def)
  then show "par t' = par t" using r by (simp add: fun_eq_iff par_def split: option.split)
  show "kids t' = kids t" using assms h by (simp add: fun_eq_iff kids_def same_tree_def)
qed

lemma same_tree_good:
  assumes "same_tree (yoga_nodes s) t" "yoga_good Q s"
  shows "yoga_good Q (s\<lparr>yoga_nodes := t\<rparr>)"
proof -
  from assms(2) obtain K where K: "agrees (yoga_nodes s) K" "Q K (yoga_world s)"
    and f: "forest_ok (yoga_nodes s)" by (auto simp: yoga_good_def)
  have eq: "y_alive (t i) = y_alive (yoga_nodes s i)" "y_node (t i) = y_node (yoga_nodes s i)"
    "parent_handle (t i) = parent_handle (yoga_nodes s i)" for i
    using assms(1) by (simp_all add: same_tree_def)
  have "forest_ok t" using f unfolding forest_ok_def same_tree_facts [OF assms(1)] eq .
  moreover have "agrees t K" using K(1) unfolding agrees_def same_tree_facts [OF assms(1)] eq .
  ultimately show ?thesis using K(2) by (auto simp: yoga_good_def)
qed

text \<open>A native call on the node of a live handle.\<close>

lemma node_call_good:
  assumes "yoga_good Q s" "yoga_node_from_handle (yoga_nodes s) h = Some i" "yoga_keeps Q g"
  shows "yoga_good Q (s\<lparr>yoga_world := g (y_node (yoga_nodes s i)) (yoga_world s)\<rparr>)"
proof -
  from assms(1) obtain K where K: "agrees (yoga_nodes s) K" "Q K (yoga_world s)"
    by (auto simp: yoga_good_def)
  have "y_node (yoga_nodes s i) \<in> dom K" by (rule agreesD(2) [OF K(1) resolves_alive [OF assms(2)]])
  then have "Q K (g (y_node (yoga_nodes s i)) (yoga_world s))" using assms(3) K(2) by (simp add: yoga_keeps_def)
  then show ?thesis using assms(1) K(1) by (auto simp: yoga_good_def)
qed

text \<open>Inserting a child.\<close>

lemma insert_at:
  assumes "distinct cs" "x \<notin> set cs"
  shows "distinct (take n cs @ x # drop n cs)" "set (take n cs @ x # drop n cs) = insert x (set cs)"
proof -
  have "set (take n cs) \<union> set (drop n cs) = set cs" by (metis append_take_drop_id set_append)
  then show "set (take n cs @ x # drop n cs) = insert x (set cs)" by auto
  have "set (take n cs) \<inter> set (drop n cs) = {}"
    using assms(1) by (intro set_take_disj_set_drop_if_distinct) auto
  moreover have "x \<notin> set (take n cs)" "x \<notin> set (drop n cs)"
    using assms(2) by (auto dest: in_set_takeD in_set_dropD)
  ultimately show "distinct (take n cs @ x # drop n cs)" using assms(1) by simp
qed

lemma reparent_facts:
  fixes t :: yoga_table and p c :: u32
  assumes "yoga_node_from_handle t c = Some ci"
  defines "t' \<equiv> t(ci := (t ci)\<lparr>parent_handle := p\<rparr>)"
  shows "yoga_node_from_handle t' = yoga_node_from_handle t" "node_handle t' = node_handle t"
    "par t' = (par t)(c := (if p = 0 then None else Some p))"
proof -
  show r: "yoga_node_from_handle t' = yoga_node_from_handle t"
    by (auto simp: fun_eq_iff t'_def yoga_node_from_handle_def Let_def)
  show "node_handle t' = node_handle t" by (simp add: fun_eq_iff t'_def node_handle_def)
  show "par t' = (par t)(c := (if p = 0 then None else Some p))"
  proof
    fix h
    show "par t' h = ((par t)(c := (if p = 0 then None else Some p))) h"
    proof (cases "h = c")
      case True
      then show ?thesis using assms(1) by (simp add: par_def r) (simp add: t'_def)
    next
      case False
      then have "yoga_node_from_handle t h \<noteq> Some ci" using yn.resolve_inj [OF assms(1)] by metis
      moreover have "t' j = t j" if "j \<noteq> ci" for j using that by (simp add: t'_def)
      ultimately have "par t' h = par t h"
        by (cases "yoga_node_from_handle t h") (auto simp: par_def r)
      then show ?thesis using False by simp
    qed
  qed
qed

lemma link_good:
  assumes f: "forest_ok t" and a: "agrees t K"
    and p: "yoga_node_from_handle t p = Some pp" and c: "yoga_node_from_handle t c = Some ci"
    and root: "parent_handle (t ci) = 0" and acyclic: "\<not> anc (par t) c p"
    and cs: "K (y_node (t pp)) = Some cs"
  fixes n :: nat
  defines "t' \<equiv> t(ci := (t ci)\<lparr>parent_handle := p\<rparr>)"
  shows "forest_ok t'"
    and "agrees t' (K(y_node (t pp) \<mapsto> take n cs @ y_node (t ci) # drop n cs))"
proof -
  note facts = reparent_facts [OF c, of p, folded t'_def]
  have p0: "p \<noteq> 0" using p by (rule handle_nonzero)
  have par': "par t' = (par t)(c \<mapsto> p)" using facts(3) p0 by simp
  have alive: "y_alive (t' i) = y_alive (t i)" "y_node (t' i) = y_node (t i)" for i
    by (simp_all add: t'_def)
  have parent: "parent_handle (t' i) = (if i = ci then p else parent_handle (t i))" for i
    by (simp add: t'_def)
  have pc: "par t c = None" using c root by (simp add: par_def)
  have "grounded (par t') x" if "grounded (par t) x" for x
    unfolding par' using grounded_link [OF pc resolves_grounded [OF f p] acyclic that] .
  then show "forest_ok t'"
    using f p unfolding forest_ok_def facts(1,2) alive parent by auto
  have cia: "y_alive (t ci)" and ppa: "y_alive (t pp)" using c p resolves_alive by blast+
  have kids': "kids t' i = (if i = pp then insert ci (kids t i) else kids t i)" if "y_alive (t i)" for i
  proof -
    have "p = node_handle t i \<longleftrightarrow> i = pp"
      using handle_resolves [OF f that] resolves_handle [OF p] p by (metis option.inject)
    moreover have "ci \<notin> kids t i"
      using root handle_nonzero [OF handle_resolves [OF f that]] by (simp add: kids_def)
    moreover have "j \<in> kids t' i \<longleftrightarrow> (if j = ci then p = node_handle t i else j \<in> kids t i)" for j
      by (simp add: kids_def facts(2) alive parent cia)
    ultimately show ?thesis by (intro set_eqI) simp
  qed
  have ci_new: "ci \<notin> kids t pp" using root handle_nonzero [OF p] resolves_handle [OF p] by (simp add: kids_def)
  have cs': "distinct cs" "set cs = (\<lambda>j. y_node (t j)) ` kids t pp"
    using agreesD(3) [OF a ppa] cs by auto
  have new: "y_node (t ci) \<notin> set cs"
    using ci_new agrees_inj [OF a cia] unfolding cs'(2) by (auto simp: kids_def)
  note ins = insert_at [OF cs'(1) new, of n]
  show "agrees t' (K(y_node (t pp) \<mapsto> take n cs @ y_node (t ci) # drop n cs))" (is "agrees t' ?K")
    unfolding agrees_def alive
  proof (intro conjI allI impI)
    show "inj_on (\<lambda>i. y_node (t i)) {i. y_alive (t i)}" using a by (simp add: agrees_def)
    show "dom ?K = (\<lambda>i. y_node (t i)) ` {i. y_alive (t i)}"
      using a ppa unfolding agrees_def by auto
    fix i assume i: "y_alive (t i)"
    show "y_node (t i) \<noteq> NULL" by (rule agreesD(1) [OF a i])
    show "\<exists>cs. ?K (y_node (t i)) = Some cs \<and> distinct cs \<and> set cs = (\<lambda>j. y_node (t j)) ` kids t' i"
    proof (cases "i = pp")
      case True
      then show ?thesis using ins cs'(2) kids' [OF i] by simp
    next
      case False
      then have "y_node (t i) \<noteq> y_node (t pp)" using agrees_inj [OF a i ppa] by simp
      then show ?thesis using agreesD(3) [OF a i] kids' [OF i] False by simp
    qed
  qed
qed

text \<open>Removing a child.\<close>

lemma unlink_good:
  assumes f: "forest_ok t" and a: "agrees t K"
    and p: "yoga_node_from_handle t p = Some pp" and c: "yoga_node_from_handle t c = Some ci"
    and child: "parent_handle (t ci) = p" and cs: "K (y_node (t pp)) = Some cs"
  defines "t' \<equiv> t(ci := (t ci)\<lparr>parent_handle := 0\<rparr>)"
  shows "forest_ok t'" and "agrees t' (K(y_node (t pp) \<mapsto> remove1 (y_node (t ci)) cs))"
    and "y_node (t ci) \<in> set cs"
proof -
  note facts = reparent_facts [OF c, of 0, folded t'_def]
  have alive: "y_alive (t' i) = y_alive (t i)" "y_node (t' i) = y_node (t i)" for i
    by (simp_all add: t'_def)
  have parent: "parent_handle (t' i) = (if i = ci then 0 else parent_handle (t i))" for i
    by (simp add: t'_def)
  have "grounded (par t') x" if "grounded (par t) x" for x
    using that by (rule grounded_cut) (simp add: facts(3))
  then show "forest_ok t'"
    using f unfolding forest_ok_def facts(1,2) alive parent by auto
  have cia: "y_alive (t ci)" and ppa: "y_alive (t pp)" using c p resolves_alive by blast+
  have kids': "kids t' i = kids t i - {ci}" if "y_alive (t i)" for i
    using handle_nonzero [OF handle_resolves [OF f that]] by (auto simp: kids_def facts(2) alive parent)
  have other: "ci \<notin> kids t i" if "y_alive (t i)" "i \<noteq> pp" for i
    using child handle_resolves [OF f that(1)] p that(2) by (auto simp: kids_def)
  have mem: "ci \<in> kids t pp" using child cia resolves_handle [OF p] by (simp add: kids_def)
  have cs': "distinct cs" "set cs = (\<lambda>j. y_node (t j)) ` kids t pp"
    using agreesD(3) [OF a ppa] cs by auto
  show "y_node (t ci) \<in> set cs" using mem cs'(2) by simp
  have rem: "set (remove1 (y_node (t ci)) cs) = (\<lambda>j. y_node (t j)) ` (kids t pp - {ci})"
    using cs' agrees_inj [OF a _ cia] by (auto simp: kids_def)
  show "agrees t' (K(y_node (t pp) \<mapsto> remove1 (y_node (t ci)) cs))" (is "agrees t' ?K")
    unfolding agrees_def alive
  proof (intro conjI allI impI)
    show "inj_on (\<lambda>i. y_node (t i)) {i. y_alive (t i)}" using a by (simp add: agrees_def)
    show "dom ?K = (\<lambda>i. y_node (t i)) ` {i. y_alive (t i)}"
      using a ppa unfolding agrees_def by auto
    fix i assume i: "y_alive (t i)"
    show "y_node (t i) \<noteq> NULL" by (rule agreesD(1) [OF a i])
    show "\<exists>cs. ?K (y_node (t i)) = Some cs \<and> distinct cs \<and> set cs = (\<lambda>j. y_node (t j)) ` kids t' i"
    proof (cases "i = pp")
      case True
      then show ?thesis using rem cs'(1) kids' [OF i] by (simp add: distinct_remove1)
    next
      case False
      then have "y_node (t i) \<noteq> y_node (t pp)" using agrees_inj [OF a i ppa] by simp
      then show ?thesis using agreesD(3) [OF a i] kids' [OF i] other [OF i False] by simp
    qed
  qed
qed

text \<open>Freeing a closed set of slots.\<close>

lemma slot_release_good:
  assumes f: "forest_ok t" and a: "agrees t K"
    and live: "\<And>i. i \<in> D \<Longrightarrow> y_alive (t i)"
    and down: "\<And>i. i \<in> D \<Longrightarrow> kids t i \<subseteq> D"
    and up: "\<And>i. y_alive (t i) \<Longrightarrow> i \<notin> D \<Longrightarrow> kids t i \<inter> D = {}"
  defines "t' \<equiv> release_set D t"
  shows "forest_ok t'" and "agrees t' (K |` (- (\<lambda>i. y_node (t i)) ` D))"
proof -
  have t': "t' i = (if i \<in> D then released (t i) else t i)" for i by (simp add: t'_def release_set_def)
  have alive: "y_alive (t' i) \<longleftrightarrow> y_alive (t i) \<and> i \<notin> D" for i by (simp add: t')
  have gen: "y_generation (t' i) = y_generation (t i)" for i by (simp add: t')
  have handle: "node_handle t' = node_handle t" by (simp add: fun_eq_iff node_handle_def gen)
  have look: "yoga_node_from_handle t' h = (case yoga_node_from_handle t h of None \<Rightarrow> None
      | Some i \<Rightarrow> if i \<in> D then None else Some i)" for h
    using live by (auto simp: yoga_node_from_handle_def Let_def alive gen)
  have sub: "par t' h = par t h \<or> par t' h = None" for h
    by (auto simp: par_def look t' split: option.split)
  have cut: "grounded (par t') x" if "grounded (par t) x" for x
    by (rule grounded_cut [OF that sub])
  show "forest_ok t'"
    unfolding forest_ok_def
  proof (intro allI impI conjI)
    fix i assume "y_alive (t' i)"
    then have i: "y_alive (t i)" "i \<notin> D" by (simp_all add: alive)
    note fi = forest_okD [OF f i(1)]
    show "0 < i" "i < YOGA_NODE_CAPACITY" by (fact fi)+
    show "grounded (par t') (node_handle t' i)" unfolding handle by (rule cut [OF fi(4)])
    show "parent_handle (t' i) = 0 \<or> yoga_node_from_handle t' (parent_handle (t' i)) \<noteq> None"
    proof (cases "parent_handle (t i) = 0")
      case False
      then obtain j where j: "yoga_node_from_handle t (parent_handle (t i)) = Some j" using fi(3) by auto
      then have "i \<in> kids t j" using i(1) resolves_handle by (simp add: kids_def)
      then have "j \<notin> D" using down i(2) by blast
      with j i(2) show ?thesis by (simp add: t' look)
    qed (simp add: t' i(2))
  qed
  have kids': "kids t' i = kids t i" if "y_alive (t i)" "i \<notin> D" for i
    using up [OF that] by (auto simp: kids_def handle alive t')
  show "agrees t' (K |` (- (\<lambda>i. y_node (t i)) ` D))" (is "agrees t' ?K")
    unfolding agrees_def
  proof (intro conjI allI impI)
    show "inj_on (\<lambda>i. y_node (t' i)) {i. y_alive (t' i)}"
      using a by (auto simp: agrees_def inj_on_def alive t')
    have "dom ?K = (\<lambda>i. y_node (t i)) ` {i. y_alive (t i)} - (\<lambda>i. y_node (t i)) ` D"
      using a by (auto simp: agrees_def)
    also have "\<dots> = (\<lambda>i. y_node (t i)) ` {i. y_alive (t i) \<and> i \<notin> D}"
      using agrees_inj [OF a] live by blast
    also have "\<dots> = (\<lambda>i. y_node (t' i)) ` {i. y_alive (t' i)}" by (auto simp: alive t')
    finally show "dom ?K = (\<lambda>i. y_node (t' i)) ` {i. y_alive (t' i)}" .
    fix i assume "y_alive (t' i)"
    then have i: "y_alive (t i)" "i \<notin> D" by (simp_all add: alive)
    then show "y_node (t' i) \<noteq> NULL" using agreesD(1) [OF a] by (simp add: t')
    have "y_node (t i) \<notin> (\<lambda>i. y_node (t i)) ` D" using agrees_inj [OF a i(1)] live i(2) by blast
    moreover have "(\<lambda>j. y_node (t' j)) ` kids t i = (\<lambda>j. y_node (t j)) ` kids t i"
      using up [OF i] by (intro image_cong) (auto simp: t')
    ultimately show "\<exists>cs. ?K (y_node (t' i)) = Some cs \<and> distinct cs
        \<and> set cs = (\<lambda>j. y_node (t' j)) ` kids t' i"
      using agreesD(3) [OF a i(1)] i(2) kids' [OF i] by (simp add: t' restrict_map_def)
  qed
qed

text \<open>Allocating a node, and a slot that stays dead.\<close>

lemma dead_slot_facts:
  assumes "\<not> y_alive (t k)" "\<not> y_alive x"
  defines "t' \<equiv> t(k := x)"
  shows "yoga_node_from_handle t' = yoga_node_from_handle t" "par t' = par t"
    "\<And>i. y_alive (t i) \<Longrightarrow> t' i = t i" "\<And>i. y_alive (t' i) = y_alive (t i)"
proof -
  show r: "yoga_node_from_handle t' = yoga_node_from_handle t"
    using assms(1,2) by (auto simp: fun_eq_iff t'_def yoga_node_from_handle_def Let_def)
  show keep: "\<And>i. y_alive (t i) \<Longrightarrow> t' i = t i" using assms(1) by (auto simp: t'_def)
  show "\<And>i. y_alive (t' i) = y_alive (t i)" using assms(1,2) by (simp add: t'_def)
  show "par t' = par t"
  proof
    fix h show "par t' h = par t h"
    proof (cases "yoga_node_from_handle t h")
      case (Some i)
      with keep [OF resolves_alive [OF Some]] show ?thesis by (simp add: par_def r)
    qed (simp add: par_def r)
  qed
qed

lemma dead_slot_good:
  assumes f: "forest_ok t" and a: "agrees t K" and d: "\<not> y_alive (t k)" "\<not> y_alive x"
  shows "forest_ok (t(k := x))" "agrees (t(k := x)) K"
proof -
  note facts = dead_slot_facts [of t k x, OF d]
  have handle: "node_handle (t(k := x)) i = node_handle t i" if "y_alive (t i)" for i
    using facts(3) [OF that] by (simp add: node_handle_def)
  have kids: "kids (t(k := x)) i = kids t i" if "y_alive (t i)" for i
    unfolding kids_def facts(4) handle [OF that] by (intro Collect_cong conj_cong refl) (simp only: facts(3))
  show "forest_ok (t(k := x))"
    unfolding forest_ok_def
  proof (intro allI impI)
    fix i assume "y_alive ((t(k := x)) i)"
    then have i: "y_alive (t i)" by (simp only: facts(4))
    show "0 < i \<and> i < YOGA_NODE_CAPACITY \<and> (parent_handle ((t(k := x)) i) = 0 \<or>
        yoga_node_from_handle (t(k := x)) (parent_handle ((t(k := x)) i)) \<noteq> None) \<and>
        grounded (par (t(k := x))) (node_handle (t(k := x)) i)"
      using forest_okD [OF f i] by (simp only: facts(1,2) facts(3) [OF i] handle [OF i] simp_thms)
  qed
  have eq: "{i. y_alive ((t(k := x)) i)} = {i. y_alive (t i)}" by (simp only: facts(4))
  have img: "(\<lambda>j. y_node ((t(k := x)) j)) ` A = (\<lambda>j. y_node (t j)) ` A" if "A \<subseteq> {i. y_alive (t i)}" for A
    by (rule image_cong [OF refl]) (use that facts(3) in \<open>metis mem_Collect_eq subsetD\<close>)
  show "agrees (t(k := x)) K"
    unfolding agrees_def eq
  proof (intro conjI allI impI)
    show "inj_on (\<lambda>i. y_node ((t(k := x)) i)) {i. y_alive (t i)}"
      using a facts(3) unfolding agrees_def inj_on_def by auto
    show "dom K = (\<lambda>i. y_node ((t(k := x)) i)) ` {i. y_alive (t i)}"
      unfolding img [OF subset_refl] using a by (simp add: agrees_def)
    fix i assume "y_alive ((t(k := x)) i)"
    then have i: "y_alive (t i)" by (simp only: facts(4))
    show "y_node ((t(k := x)) i) \<noteq> NULL" using agreesD(1) [OF a i] by (simp only: facts(3) [OF i]) simp
    have "kids t i \<subseteq> {i. y_alive (t i)}" by (auto simp: kids_def)
    then show "\<exists>cs. K (y_node ((t(k := x)) i)) = Some cs \<and> distinct cs
        \<and> set cs = (\<lambda>j. y_node ((t(k := x)) j)) ` kids (t(k := x)) i"
      using agreesD(3) [OF a i] by (simp only: facts(3) [OF i] kids [OF i] img)
  qed
qed

lemma yoga_alloc_slot:
  assumes "yoga_allocate_node u t0 = (h, k, t)" "h \<noteq> 0"
  shows "0 < k \<and> k < YOGA_NODE_CAPACITY \<and> \<not> y_alive (t0 k) \<and> y_alive (t k) \<and> parent_handle (t k) = 0
    \<and> t = t0(k := t k) \<and> h = node_handle t k \<and> slot_of h = k"
  using assms scan_free_Some [of "\<lambda>i. y_alive (t0 i)" 1 YOGA_NODE_CAPACITY k] yn.alloc_token_slot [OF assms]
  by (auto simp: yoga_allocate_node_def Let_def node_handle_def split: option.splits)

lemma alloc_good:
  assumes f: "forest_ok t0" and a: "agrees t0 K" and al: "yoga_allocate_node u t0 = (h, k, t)" "h \<noteq> 0"
    and p: "p \<noteq> NULL" "K p = None"
  defines "t' \<equiv> t(k := (t k)\<lparr>y_node := p\<rparr>)"
  shows "forest_ok t'" "agrees t' (K(p \<mapsto> []))"
proof -
  note sl = yoga_alloc_slot [OF al]
  have keep: "t' i = t0 i" if "i \<noteq> k" for i using sl that unfolding t'_def by (metis fun_upd_other)
  have k': "y_alive (t' k)" "parent_handle (t' k) = 0" "y_node (t' k) = p"
    "y_generation (t' k) = y_generation (t k)" using sl by (simp_all add: t'_def)
  have r: "yoga_node_from_handle t' = yoga_node_from_handle t"
    by (auto simp: fun_eq_iff t'_def yoga_node_from_handle_def Let_def)
  have rh: "yoga_node_from_handle t' h = Some k" unfolding r by (rule yn.alloc_resolves [OF al])
  have stale: "yoga_node_from_handle t0 h = None" by (rule yn.alloc_was_stale [OF al])
  have other: "yoga_node_from_handle t' g = yoga_node_from_handle t0 g" if "g \<noteq> h" for g
    unfolding r by (rule yn.alloc_other [OF al(1) that])
  have par': "par t' = par t0"
  proof
    fix g show "par t' g = par t0 g"
    proof (cases "g = h")
      case True
      then show ?thesis using rh stale k'(2) by (simp add: par_def)
    next
      case False
      show ?thesis
      proof (cases "yoga_node_from_handle t0 g")
        case (Some i)
        then have "i \<noteq> k" using resolves_alive sl by blast
        then show ?thesis using Some other [OF False] keep by (simp add: par_def)
      qed (simp add: par_def other [OF False])
    qed
  qed
  have handle: "node_handle t' i = node_handle t0 i" if "i \<noteq> k" for i
    using keep [OF that] by (simp add: node_handle_def)
  have hk: "node_handle t' k = h" using sl k'(4) by (simp add: node_handle_def)
  have alive: "y_alive (t' i) \<longleftrightarrow> y_alive (t0 i) \<or> i = k" for i using keep k'(1) by (cases "i = k") auto
  show "forest_ok t'"
    unfolding forest_ok_def
  proof (intro allI impI)
    fix i assume i: "y_alive (t' i)"
    show "0 < i \<and> i < YOGA_NODE_CAPACITY \<and> (parent_handle (t' i) = 0 \<or>
        yoga_node_from_handle t' (parent_handle (t' i)) \<noteq> None) \<and> grounded (par t') (node_handle t' i)"
    proof (cases "i = k")
      case True
      have "par t0 h = None" using stale by (simp add: par_def)
      then show ?thesis using True sl k'(2) hk by (simp add: par' grounded_root)
    next
      case False
      then have a0: "y_alive (t0 i)" using i alive by simp
      have "parent_handle (t0 i) \<noteq> h \<or> h = 0" using forest_okD(3) [OF f a0] stale by auto
      then show ?thesis using forest_okD [OF f a0] False keep [OF False]
        by (simp add: par' handle other al(2))
    qed
  qed
  have dead: "\<not> y_alive (t0 k)" using sl by blast
  have kids_old: "kids t' i = kids t0 i" if i: "y_alive (t0 i)" for i
  proof -
    have ik: "i \<noteq> k" using i dead by blast
    have nz: "node_handle t0 i \<noteq> 0" using handle_resolves [OF f i] by (rule handle_nonzero)
    have "j \<in> kids t' i \<longleftrightarrow> j \<in> kids t0 i" for j
      using keep [of j] k' nz dead by (cases "j = k") (auto simp: kids_def handle [OF ik])
    then show ?thesis by (intro set_eqI)
  qed
  have kids_new: "kids t' k = {}"
  proof -
    have "parent_handle (t' j) \<noteq> h" if "y_alive (t' j)" for j
    proof (cases "j = k")
      case False
      then have "y_alive (t0 j)" using that alive by simp
      from forest_okD(3) [OF f this] show ?thesis using stale keep [OF False] al(2) by auto
    qed (use k' al(2) in auto)
    then show ?thesis by (auto simp: kids_def hk)
  qed
  have img: "(\<lambda>j. y_node (t' j)) ` A = (\<lambda>j. y_node (t0 j)) ` A" if "A \<subseteq> {i. y_alive (t0 i)}" for A
  proof (intro image_cong refl)
    fix x assume "x \<in> A"
    with that dead have "x \<noteq> k" by auto
    then show "y_node (t' x) = y_node (t0 x)" by (simp add: keep)
  qed
  have set: "{i. y_alive (t' i)} = insert k {i. y_alive (t0 i)}" using alive by auto
  show "agrees t' (K(p \<mapsto> []))"
    unfolding agrees_def set
  proof (intro conjI allI impI)
    have "p \<notin> (\<lambda>j. y_node (t0 j)) ` {i. y_alive (t0 i)}" using a p(2) by (auto simp: agrees_def)
    moreover have "inj_on (\<lambda>i. y_node (t' i)) {i. y_alive (t0 i)}"
      using a dead keep unfolding agrees_def inj_on_def by (metis mem_Collect_eq)
    ultimately show "inj_on (\<lambda>i. y_node (t' i)) (insert k {i. y_alive (t0 i)})"
      using dead by (simp add: img k'(3))
    show "dom (K(p \<mapsto> [])) = (\<lambda>i. y_node (t' i)) ` insert k {i. y_alive (t0 i)}"
      using a by (simp add: img k'(3) agrees_def)
    fix i assume "y_alive (t' i)"
    then consider "i = k" | "y_alive (t0 i)" "i \<noteq> k" using alive by blast
    then have "y_node (t' i) \<noteq> NULL \<and> (\<exists>cs. (K(p \<mapsto> [])) (y_node (t' i)) = Some cs \<and> distinct cs
        \<and> set cs = (\<lambda>j. y_node (t' j)) ` kids t' i)"
    proof cases
      case 1
      then show ?thesis using p(1) kids_new k'(3) by simp
    next
      case 2
      have "kids t0 i \<subseteq> {i. y_alive (t0 i)}" by (auto simp: kids_def)
      moreover have "y_node (t0 i) \<noteq> p" using agreesD(2) [OF a 2(1)] p(2) by auto
      ultimately show ?thesis
        using agreesD(1,3) [OF a 2(1)] keep [OF 2(2)] by (simp add: kids_old [OF 2(1)] img)
    qed
    then show "y_node (t' i) \<noteq> NULL" "\<exists>cs. (K(p \<mapsto> [])) (y_node (t' i)) = Some cs \<and> distinct cs
        \<and> set cs = (\<lambda>j. y_node (t' j)) ` kids t' i" by blast+
  qed
qed

section \<open>Every stub keeps the trees in agreement\<close>

lemma yoga_goodE:
  assumes "yoga_good Q s"
  obtains K where "forest_ok (yoga_nodes s)" "agrees (yoga_nodes s) K" "Q K (yoga_world s)"
  using assms by (auto simp: yoga_good_def)

lemma yoga_goodI:
  "forest_ok (yoga_nodes s) \<Longrightarrow> agrees (yoga_nodes s) K \<Longrightarrow> Q K (yoga_world s) \<Longrightarrow> yoga_good Q s"
  by (auto simp: yoga_good_def)

lemma yoga_good_update:
  assumes "forest_ok t" "agrees t K" "Q K w"
  shows "yoga_good Q (s\<lparr>yoga_world := w, yoga_nodes := t\<rparr>)" "yoga_good Q (s\<lparr>yoga_nodes := t, yoga_world := w\<rparr>)"
  using assms by (auto simp: yoga_good_def)

lemma protocol_insert:
  "yoga_protocol N Q \<Longrightarrow> Q K w \<Longrightarrow> K p = Some cs \<Longrightarrow> c \<in> dom K \<Longrightarrow> orphan K c \<Longrightarrow> p \<notin> below K c \<Longrightarrow>
     unat i \<le> length cs \<Longrightarrow> \<not> yogaNodeHasMeasureFunc N p w \<Longrightarrow>
     Q (K(p \<mapsto> take (unat i) cs @ c # drop (unat i) cs)) (yogaNodeInsertChild N p c i w)"
  by (simp add: yoga_protocol_def)

lemma protocol_remove:
  "yoga_protocol N Q \<Longrightarrow> Q K w \<Longrightarrow> K p = Some cs \<Longrightarrow> c \<in> set cs \<Longrightarrow>
     Q (K(p \<mapsto> remove1 c cs)) (yogaNodeRemoveChild N p c w)"
  by (simp add: yoga_protocol_def)

lemma protocol_leaf:
  "yoga_protocol N Q \<Longrightarrow> Q K w \<Longrightarrow> p \<in> dom K \<Longrightarrow> yogaNodeHasMeasureFunc N p w \<Longrightarrow> K p = Some []"
  by (simp add: yoga_protocol_def)

lemma protocol_parent_unmeasured:
  assumes "yoga_protocol N Q" "Q K w" "K p = Some cs" "c \<in> set cs"
  shows "\<not> yogaNodeHasMeasureFunc N p (yogaNodeRemoveChild N p c w)"
proof -
  have "yogaNodeHasMeasureFunc N p (yogaNodeRemoveChild N p c w) = yogaNodeHasMeasureFunc N p w"
    using assms by (simp add: yoga_protocol_def)
  with protocol_leaf [OF assms(1,2) domI [of K p, OF assms(3)]] assms(3,4) show ?thesis by auto
qed

text \<open>The measure calls. What the stubs check is their own flag (\<open>flag_true\<close>: it tells what the
  library has) or nothing at all (\<open>childless\<close>).\<close>

definition flag_true :: "'w yoga_api \<Rightarrow> u32 \<Rightarrow> 'w yoga_state \<Rightarrow> bool" where
  "flag_true N h s \<longleftrightarrow> (\<forall>i. yoga_node_from_handle (yoga_nodes s) h = Some i \<longrightarrow>
     native_measure_attached (yoga_nodes s i) = yogaNodeHasMeasureFunc N (y_node (yoga_nodes s i)) (yoga_world s))"

definition childless :: "'w yoga_api \<Rightarrow> ptr \<Rightarrow> 'w \<Rightarrow> bool" where
  "childless N p w \<longleftrightarrow> yogaNodeGetChildCount N p w = 0"

lemma protocol_measure:
  assumes "yoga_protocol N Q" "Q K w" "K p = Some cs"
  shows "yogaNodeHasMeasureFunc N p w \<Longrightarrow> Q K (yogaNodeMarkDirty N p w)"
    "cs = [] \<or> \<not> yogaNodeHasMeasureFunc N p (snd (nativeRenderableAttachYogaNode N r p w)) \<Longrightarrow>
       Q K (snd (nativeRenderableAttachYogaNode N r p w))"
    "(b \<longrightarrow> cs = []) \<Longrightarrow> Q K (yogaNodeSetMeasureFunc N p b w)"
proof -
  have p: "p \<in> dom K" using assms(3) by blast
  show "yogaNodeHasMeasureFunc N p w \<Longrightarrow> Q K (yogaNodeMarkDirty N p w)"
    using assms(1,2) p by (simp add: yoga_protocol_def)
  have "\<forall>K w p cs r w'. Q K w \<longrightarrow> K p = Some cs \<longrightarrow> snd (nativeRenderableAttachYogaNode N r p w) = w' \<longrightarrow>
      cs = [] \<or> \<not> yogaNodeHasMeasureFunc N p w' \<longrightarrow> Q K w'"
    using assms(1) unfolding yoga_protocol_def by (elim conjE) assumption
  then show "cs = [] \<or> \<not> yogaNodeHasMeasureFunc N p (snd (nativeRenderableAttachYogaNode N r p w)) \<Longrightarrow>
       Q K (snd (nativeRenderableAttachYogaNode N r p w))"
    using assms(2,3) by blast
  show "(b \<longrightarrow> cs = []) \<Longrightarrow> Q K (yogaNodeSetMeasureFunc N p b w)"
    using assms by (simp add: yoga_protocol_def)
qed

lemma protocol_count:
  "yoga_protocol N Q \<Longrightarrow> Q K w \<Longrightarrow> K p = Some cs \<Longrightarrow> yogaNodeGetChildCount N p w = of_nat (length cs)"
  by (simp add: yoga_protocol_def)

lemma protocol_free:
  "yoga_protocol N Q \<Longrightarrow> Q K w \<Longrightarrow> K p = Some [] \<Longrightarrow> orphan K p \<Longrightarrow> Q (K(p := None)) (yogaNodeFree N p w)"
  by (simp add: yoga_protocol_def)

lemma protocol_free_recursive:
  "yoga_protocol N Q \<Longrightarrow> Q K w \<Longrightarrow> p \<in> dom K \<Longrightarrow> orphan K p \<Longrightarrow>
     Q (K |` (- below K p)) (yogaNodeFreeRecursive N p w)"
  by (simp add: yoga_protocol_def)

lemma yoga_protocol_creates:
  "yoga_protocol N Q \<Longrightarrow> Q K w \<Longrightarrow> yogaNodeCreateForOpenTUI N w = (p, w') \<Longrightarrow>
     if p = NULL then Q K w' else K p = None \<and> Q (K(p \<mapsto> [])) w'"
  by (simp add: yoga_protocol_def)

text \<open>A node has fewer children than there are slots, so the count of children fits.\<close>

lemma children_count:
  assumes "forest_ok t" "agrees t K" "y_alive (t i)" "K (y_node (t i)) = Some cs"
  shows "length cs < YOGA_NODE_CAPACITY" "unat (of_nat (length cs) :: u32) = length cs"
proof -
  have cs: "distinct cs" "set cs = (\<lambda>j. y_node (t j)) ` kids t i" using agreesD(3) [OF assms(2,3)] assms(4) by auto
  have sub: "kids t i \<subseteq> {1..<YOGA_NODE_CAPACITY}"
  proof
    fix j assume "j \<in> kids t i"
    then have "y_alive (t j)" by (simp add: kids_def)
    from forest_okD(1,2) [OF assms(1) this] show "j \<in> {1..<YOGA_NODE_CAPACITY}" by simp
  qed
  have "length cs = card (set cs)" using cs(1) by (simp add: distinct_card)
  also have "\<dots> \<le> card (kids t i)" unfolding cs(2) using finite_subset [OF sub] by (simp add: card_image_le)
  also have "\<dots> \<le> card {1..<YOGA_NODE_CAPACITY}" by (rule card_mono) (use sub in simp_all)
  finally show l: "length cs < YOGA_NODE_CAPACITY" by (simp add: YOGA_NODE_CAPACITY_def)
  then show "unat (of_nat (length cs) :: u32) = length cs"
    by (intro unat_of_nat_32) (simp add: YOGA_NODE_CAPACITY_def)
qed

lemma create_node_good:
  assumes prot: "yoga_protocol N Q" and good: "yoga_good Q s"
  shows "\<exists>r s'. opentui_raw_yoga_node_create N oom s = Some (r, s') \<and> yoga_good Q s'"
proof -
  from good obtain K where K: "forest_ok (yoga_nodes s)" "agrees (yoga_nodes s) K" "Q K (yoga_world s)"
    by (rule yoga_goodE)
  obtain h k t where al: "yoga_allocate_node () (yoga_nodes s) = (h, k, t)" by (metis prod_cases3)
  obtain p w where c: "yogaNodeCreateForOpenTUI N (yoga_world s) = (p, w)" by force
  note new = yoga_protocol_creates [OF prot K(3) c]
  show ?thesis
  proof (cases "h = 0")
    case True
    then show ?thesis using good al by (simp add: opentui_raw_yoga_node_create_def)
  next
    case h: False
    note sl = yoga_alloc_slot [OF al h]
    show ?thesis
    proof (cases "p = NULL")
      case True
      let ?t1 = "t(k := (t k)\<lparr>y_node := p\<rparr>)"
      have rel: "yoga_release_node h ?t1 = Some (yoga_release_slot k ?t1)"
      proof -
        have "slot_of h = k" "k < YOGA_NODE_CAPACITY" using sl by blast+
        then show ?thesis unfolding yoga_release_node_def yoga_token by (simp only: Let_def) simp
      qed
      define x where "x = (t k)\<lparr>y_alive := False, native_renderable_attached := False,
          native_measure_attached := False, y_node := NULL, parent_handle := 0\<rparr>"
      have "yoga_release_slot k ?t1 = t(k := x)"
        by (simp add: yoga_release_slot_def x_def)
      also have "\<dots> = (yoga_nodes s)(k := x)" using sl by (metis fun_upd_upd)
      finally have eq: "yoga_release_slot k ?t1 = (yoga_nodes s)(k := x)" .
      have "\<not> y_alive (yoga_nodes s k)" "\<not> y_alive x" using sl by (simp_all add: x_def)
      from dead_slot_good [OF K(1,2) this] new True
      have "yoga_good Q (s\<lparr>yoga_nodes := (yoga_nodes s)(k := x), yoga_world := w\<rparr>)"
        by (intro yoga_goodI [of _ K]) simp_all
      then show ?thesis using al h c True rel eq by (simp add: opentui_raw_yoga_node_create_def)
    next
      case False
      with new have p: "K p = None" "Q (K(p \<mapsto> [])) w" by simp_all
      from alloc_good [OF K(1,2) al h False p(1)] p(2)
      have "yoga_good Q (s\<lparr>yoga_nodes := t(k := (t k)\<lparr>y_node := p\<rparr>), yoga_world := w\<rparr>)"
        by (intro yoga_goodI [of _ "K(p \<mapsto> [])"]) simp_all
      then show ?thesis using al h c False by (simp add: opentui_raw_yoga_node_create_def)
    qed
  qed
qed

lemma insert_native_ok:
  assumes prot: "yoga_protocol N Q"
    and K: "forest_ok t" "agrees t K" "Q K w"
    and pp: "yoga_node_from_handle t p = Some pp" and ci: "yoga_node_from_handle t c = Some ci"
    and root: "parent_handle (t ci) = 0" and ac: "\<not> anc (par t) c p"
    and cs: "K (y_node (t pp)) = Some cs" and le: "unat n \<le> length cs"
    and meas: "\<not> yogaNodeHasMeasureFunc N (y_node (t pp)) w"
  shows "Q (K(y_node (t pp) \<mapsto> take (unat n) cs @ y_node (t ci) # drop (unat n) cs))
    (yogaNodeInsertChild N (y_node (t pp)) (y_node (t ci)) n w)"
proof -
  note alive = resolves_alive [OF pp] resolves_alive [OF ci]
  have "orphan K (y_node (t ci))" using orphan_iff [OF K(1,2) alive(2)] root by simp
  moreover have "y_node (t pp) \<notin> below K (y_node (t ci))"
  proof
    assume "y_node (t pp) \<in> below K (y_node (t ci))"
    then obtain j where j: "y_alive (t j)" "y_node (t pp) = y_node (t j)"
      "anc (par t) (node_handle t ci) (node_handle t j)"
      unfolding below_iff [OF K(1,2) alive(2)] by blast
    then have "j = pp" using agrees_inj [OF K(2) alive(1) j(1)] by simp
    with j(3) ac show False by (simp add: resolves_handle [OF pp] resolves_handle [OF ci])
  qed
  ultimately show ?thesis
    using protocol_insert [OF prot K(3) cs agreesD(2) [OF K(2) alive(2)]] le meas by blast
qed

lemma insert_child_good:
  assumes prot: "yoga_protocol N Q" and good: "yoga_good Q s"
  shows "\<exists>r s'. opentui_raw_yoga_node_insert_child N p c n s = Some (r, s') \<and> (flag_true N p s \<longrightarrow> yoga_good Q s')"
proof (cases "yoga_node_from_handle (yoga_nodes s) p = None \<or> yoga_node_from_handle (yoga_nodes s) c = None")
  case True
  then show ?thesis using good by (auto simp: opentui_raw_yoga_node_insert_child_def split: option.splits)
next
  case False
  then obtain pp ci where pp: "yoga_node_from_handle (yoga_nodes s) p = Some pp"
    and ci: "yoga_node_from_handle (yoga_nodes s) c = Some ci" by auto
  from good obtain K where K: "forest_ok (yoga_nodes s)" "agrees (yoga_nodes s) K" "Q K (yoga_world s)"
    by (rule yoga_goodE)
  let ?t = "yoga_nodes s"
  note alive = resolves_alive [OF pp] resolves_alive [OF ci]
  obtain cs where cs: "K (y_node (?t pp)) = Some cs" using agreesD(3) [OF K(2) alive(1)] by blast
  note cyc = would_create_cycle_anc [OF K(1) pp, of c]
  note count = protocol_count [OF prot K(3) cs] children_count(2) [OF K(1,2) alive(1) cs]
  define s' where "s' = s\<lparr>
      yoga_world := yogaNodeInsertChild N (y_node (?t pp)) (y_node (?t ci)) n (yoga_world s),
      yoga_nodes := ?t(ci := (?t ci)\<lparr>parent_handle := p\<rparr>)\<rparr>"
  have ok: "yoga_good Q s'"
    if root: "parent_handle (?t ci) = 0" and ac: "\<not> anc (par ?t) c p"
      and le: "n \<le> yogaNodeGetChildCount N (y_node (?t pp)) (yoga_world s)"
      and flag: "flag_true N p s" "\<not> native_measure_attached (?t pp)"
  proof -
    have "unat n \<le> length cs" using le count by (simp add: word_le_nat_alt)
    note insert_native_ok [OF prot K pp ci root ac cs this]
    moreover have "\<not> yogaNodeHasMeasureFunc N (y_node (?t pp)) (yoga_world s)"
      using flag pp by (simp add: flag_true_def)
    ultimately have "Q (K(y_node (?t pp) \<mapsto> take (unat n) cs @ y_node (?t ci) # drop (unat n) cs))
      (yogaNodeInsertChild N (y_node (?t pp)) (y_node (?t ci)) n (yoga_world s))" by blast
    then show ?thesis unfolding s'_def
      by (rule yoga_good_update(1) [where Q = Q, OF link_good(1) [OF K(1,2) pp ci root ac cs]
            link_good(2) [OF K(1,2) pp ci root ac cs, of "unat n"]])
  qed
  show ?thesis
    using good ok pp ci cyc by (auto simp: opentui_raw_yoga_node_insert_child_def s'_def not_less)
qed

lemma remove_child_good:
  assumes prot: "yoga_protocol N Q" and good: "yoga_good Q s"
  shows "yoga_good Q (snd (opentui_raw_yoga_node_remove_child N p c s))"
proof (cases "\<exists>pp ci. yoga_node_from_handle (yoga_nodes s) p = Some pp \<and>
    yoga_node_from_handle (yoga_nodes s) c = Some ci \<and> parent_handle (yoga_nodes s ci) = p")
  case False
  then show ?thesis using good by (auto simp: opentui_raw_yoga_node_remove_child_def split: option.splits)
next
  case True
  then obtain pp ci where pp: "yoga_node_from_handle (yoga_nodes s) p = Some pp"
    and ci: "yoga_node_from_handle (yoga_nodes s) c = Some ci" "parent_handle (yoga_nodes s ci) = p" by auto
  from good obtain K where K: "forest_ok (yoga_nodes s)" "agrees (yoga_nodes s) K" "Q K (yoga_world s)"
    by (rule yoga_goodE)
  obtain cs where cs: "K (y_node (yoga_nodes s pp)) = Some cs"
    using agreesD(3) [OF K(2) resolves_alive [OF pp]] by blast
  note un = unlink_good [OF K(1,2) pp ci cs]
  have "yoga_good Q (s\<lparr>yoga_world := yogaNodeRemoveChild N (y_node (yoga_nodes s pp))
      (y_node (yoga_nodes s ci)) (yoga_world s),
      yoga_nodes := (yoga_nodes s)(ci := (yoga_nodes s ci)\<lparr>parent_handle := 0\<rparr>)\<rparr>)"
    by (rule yoga_good_update(1) [where Q = Q, OF un(1,2) protocol_remove [OF prot K(3) cs un(3)]])
  then show ?thesis by (simp add: opentui_raw_yoga_node_remove_child_def pp ci)
qed

lemma move_child_good:
  assumes prot: "yoga_protocol N Q" and good: "yoga_good Q s"
  shows "yoga_good Q (snd (opentui_raw_yoga_node_move_child N p c n s))"
proof (cases "\<exists>pp ci. yoga_node_from_handle (yoga_nodes s) p = Some pp \<and>
    yoga_node_from_handle (yoga_nodes s) c = Some ci \<and> parent_handle (yoga_nodes s ci) = p")
  case False
  then show ?thesis using good by (auto simp: opentui_raw_yoga_node_move_child_def split: option.splits)
next
  case True
  let ?t = "yoga_nodes s"
  from True obtain pp ci where pp: "yoga_node_from_handle ?t p = Some pp"
    and ci: "yoga_node_from_handle ?t c = Some ci" "parent_handle (?t ci) = p" by auto
  from good obtain K where K: "forest_ok ?t" "agrees ?t K" "Q K (yoga_world s)"
    by (rule yoga_goodE)
  obtain cs where cs: "K (y_node (?t pp)) = Some cs"
    using agreesD(3) [OF K(2) resolves_alive [OF pp]] by blast
  note un = unlink_good [OF K(1,2) pp ci cs]
  note Q1 = protocol_remove [OF prot K(3) cs un(3)]
  note count = protocol_count [OF prot K(3) cs] children_count(2) [OF K(1,2) resolves_alive [OF pp] cs]
  define t1 where "t1 = ?t(ci := (?t ci)\<lparr>parent_handle := 0\<rparr>)"
  define K1 where "K1 = K(y_node (?t pp) \<mapsto> remove1 (y_node (?t ci)) cs)"
  define w1 where "w1 = yogaNodeRemoveChild N (y_node (?t pp)) (y_node (?t ci)) (yoga_world s)"
  have f1: "forest_ok t1" and a1: "agrees t1 K1" and q1: "Q K1 w1"
    using un(1,2) Q1 by (simp_all only: t1_def K1_def w1_def)
  note facts = reparent_facts [OF ci(1), of 0, folded t1_def]
  have look: "yoga_node_from_handle t1 p = Some pp" "yoga_node_from_handle t1 c = Some ci"
    using facts(1) pp ci(1) by simp_all
  have node: "y_node (t1 i) = y_node (?t i)" for i by (simp add: t1_def)
  have root: "parent_handle (t1 ci) = 0" by (simp add: t1_def)
  have "par ?t c = Some p" using ci handle_nonzero [OF pp] by (simp add: par_def)
  then have "\<not> anc (par ?t) c p" using grounded_acyclic resolves_grounded [OF K(1) ci(1)] by metis
  moreover have "par t1 y = par ?t y \<or> par t1 y = None" for y by (simp add: facts(3))
  ultimately have ac: "\<not> anc (par t1) c p" using anc_cut by metis
  have cs1: "K1 (y_node (t1 pp)) = Some (remove1 (y_node (?t ci)) cs)" by (simp add: K1_def node)
  show ?thesis
  proof (cases "neg32 n \<or> n \<ge> yogaNodeGetChildCount N (y_node (?t pp)) (yoga_world s)")
    case True
    then show ?thesis using good by (auto simp: opentui_raw_yoga_node_move_child_def pp ci)
  next
    case False
    have meas: "\<not> yogaNodeHasMeasureFunc N (y_node (t1 pp)) w1"
      unfolding node w1_def by (rule protocol_parent_unmeasured [OF prot K(3) cs un(3)])
    from False have "unat n \<le> length (remove1 (y_node (?t ci)) cs)"
      using count un(3) by (auto simp: length_remove1 word_less_nat_alt not_le)
    from insert_native_ok [OF prot f1 a1 q1 look root ac cs1 this] meas
      link_good(2) [OF f1 a1 look root ac cs1, of "unat n"]
    have "\<exists>K2. agrees (t1(ci := (t1 ci)\<lparr>parent_handle := p\<rparr>)) K2 \<and>
        Q K2 (yogaNodeInsertChild N (y_node (?t pp)) (y_node (?t ci)) n w1)"
      unfolding node by blast
    moreover have "t1(ci := (t1 ci)\<lparr>parent_handle := p\<rparr>) = ?t" using ci(2) by (auto simp: t1_def fun_eq_iff)
    ultimately have "yoga_good Q (s\<lparr>yoga_world :=
        yogaNodeInsertChild N (y_node (?t pp)) (y_node (?t ci)) n w1\<rparr>)"
      using K(1) by (auto simp: yoga_good_def)
    then show ?thesis using False by (simp add: opentui_raw_yoga_node_move_child_def pp ci w1_def)
  qed
qed

lemma free_good:
  assumes prot: "yoga_protocol N Q" and good: "yoga_good Q s"
  shows "\<exists>r s'. opentui_raw_yoga_node_free N h s = Some (r, s') \<and> yoga_good Q s'"
proof (cases "yoga_node_from_handle (yoga_nodes s) h")
  case None
  then show ?thesis using good by (simp add: opentui_raw_yoga_node_free_def)
next
  case (Some i)
  let ?t = "yoga_nodes s"
  from good obtain K where K: "forest_ok ?t" "agrees ?t K" "Q K (yoga_world s)" by (rule yoga_goodE)
  note live = resolves_alive [OF Some]
  obtain cs where cs: "K (y_node (?t i)) = Some cs" "set cs = (\<lambda>j. y_node (?t j)) ` kids ?t i"
    using agreesD(3) [OF K(2) live] by blast
  note count = protocol_count [OF prot K(3) cs(1)] children_count(2) [OF K(1,2) live cs(1)]
  show ?thesis
  proof (cases "native_renderable_attached (?t i) \<or> parent_handle (?t i) \<noteq> 0
      \<or> yogaNodeGetChildCount N (y_node (?t i)) (yoga_world s) \<noteq> 0")
    case True
    then show ?thesis using good Some by (simp add: opentui_raw_yoga_node_free_def)
  next
    case False
    then have empty: "cs = []" using count by (metis length_0_conv unat_eq_zero)
    then have kids: "kids ?t i = {}" using cs(2) by simp
    have root: "parent_handle (?t i) = 0" using False by simp
    have up: "kids ?t j \<inter> {i} = {}" if "y_alive (?t j)" for j
      using root handle_nonzero [OF handle_resolves [OF K(1) that]] by (auto simp: kids_def)
    have "orphan K (y_node (?t i))" using orphan_iff [OF K(1,2) live] root by simp
    then have q: "Q (K(y_node (?t i) := None)) (yogaNodeFree N (y_node (?t i)) (yoga_world s))"
      by (intro protocol_free [OF prot K(3)]) (simp_all add: cs(1) empty)
    have "forest_ok (release_set {i} ?t)" "agrees (release_set {i} ?t) (K |` (- (\<lambda>i. y_node (?t i)) ` {i}))"
      using slot_release_good [OF K(1,2), of "{i}"] live kids up by simp_all
    moreover have "K |` (- (\<lambda>i. y_node (?t i)) ` {i}) = K(y_node (?t i) := None)"
      by (auto simp: restrict_map_def fun_eq_iff)
    moreover have "yoga_release_node h ?t = Some (release_set {i} ?t)"
    proof -
      have "unat (yoga_slot_index h) = i" "i < YOGA_NODE_CAPACITY"
        using Some by (auto simp: yn.resolve_iff yoga_token)
      then show ?thesis
        by (auto simp: yoga_release_node_def yoga_release_slot_def release_set_def released_def fun_eq_iff)
    qed
    ultimately show ?thesis using False Some q
      by (auto simp: opentui_raw_yoga_node_free_def intro!: yoga_good_update(1) [where Q = Q])
  qed
qed

lemma free_recursive_good:
  assumes prot: "yoga_protocol N Q" and good: "yoga_good Q s"
  shows "\<exists>r s'. opentui_raw_yoga_node_free_recursive N h s = Some (r, s') \<and> yoga_good Q s'"
proof (cases "yoga_node_from_handle (yoga_nodes s) h")
  case None
  then show ?thesis using good by (simp add: opentui_raw_yoga_node_free_recursive_def)
next
  case (Some i)
  let ?t = "yoga_nodes s"
  from good obtain K where K: "forest_ok ?t" "agrees ?t K" "Q K (yoga_world s)" by (rule yoga_goodE)
  note live = resolves_alive [OF Some]
  note native = subtree_native_spec [OF K(1) Some]
  show ?thesis
  proof (cases "native_renderable_attached (?t i) \<or> parent_handle (?t i) \<noteq> 0
      \<or> (\<exists>i\<in>desc ?t h. native_renderable_attached (?t i))")
    case True
    then have "opentui_raw_yoga_node_free_recursive N h s = Some (Invalid_argument, s)"
      using Some native by (auto simp: opentui_raw_yoga_node_free_recursive_def Let_def)
    then show ?thesis using good by simp
  next
    case False
    let ?D = "desc ?t h"
    have "orphan K (y_node (?t i))" using orphan_iff [OF K(1,2) live] False by simp
    then have q: "Q (K |` (- below K (y_node (?t i)))) (yogaNodeFreeRecursive N (y_node (?t i)) (yoga_world s))"
      using protocol_free_recursive [OF prot K(3) agreesD(2) [OF K(2) live]] by simp
    have below: "below K (y_node (?t i)) = (\<lambda>i. y_node (?t i)) ` ?D"
      using below_iff [OF K(1,2) live] resolves_handle [OF Some] by (auto simp: desc_def)
    have nz: "node_handle ?t j \<noteq> 0" if "y_alive (?t j)" for j
      using handle_resolves [OF K(1) that] by (rule handle_nonzero)
    have link: "par ?t (node_handle ?t k) = Some (node_handle ?t j)" if "y_alive (?t j)" "k \<in> kids ?t j" for j k
      using that par_handle [OF K(1), of k] nz by (simp add: kids_def)
    have down: "kids ?t j \<subseteq> ?D" if "j \<in> ?D" for j
    proof
      fix k assume k: "k \<in> kids ?t j"
      from that have j: "y_alive (?t j)" "anc (par ?t) h (node_handle ?t j)" by (simp_all add: desc_def)
      from anc_step [of "par ?t", OF link [OF j(1) k] j(2)] k show "k \<in> ?D" by (simp add: desc_def kids_def)
    qed
    have up: "kids ?t j \<inter> ?D = {}" if j: "y_alive (?t j)" "j \<notin> ?D" for j
    proof (rule ccontr)
      assume "kids ?t j \<inter> ?D \<noteq> {}"
      then obtain k where k: "k \<in> kids ?t j" "anc (par ?t) h (node_handle ?t k)" "y_alive (?t k)"
        by (auto simp: desc_def)
      have "h \<noteq> node_handle ?t k"
      proof
        assume "h = node_handle ?t k"
        then have "k = i" using handle_resolves [OF K(1) k(3)] Some by simp
        then show False using k(1) False nz [OF j(1)] by (simp add: kids_def)
      qed
      then have "anc (par ?t) h (node_handle ?t j)"
        using k(2) link [OF j(1) k(1)] by (auto simp: anc_unfold [of _ h "node_handle ?t k"])
      with j show False by (simp add: desc_def)
    qed
    have "forest_ok (release_set ?D ?t)" "agrees (release_set ?D ?t) (K |` (- (\<lambda>i. y_node (?t i)) ` ?D))"
      using slot_release_good [OF K(1,2), of ?D] down up by (simp_all add: desc_def)
    then have "yoga_good Q (s\<lparr>yoga_world := yogaNodeFreeRecursive N (y_node (?t i)) (yoga_world s),
        yoga_nodes := release_set ?D ?t\<rparr>)"
      using q by (intro yoga_good_update(1) [where Q = Q]) (simp_all only: below)
    then show ?thesis using False Some native release_subtree_spec [OF K(1) Some]
      by (simp add: opentui_raw_yoga_node_free_recursive_def)
  qed
qed

end
