(* ===== verification/Yoga_Props.thy ===== *)
theory Yoga_Props
  imports Yoga_Inv
begin

text \<open>
  What the layout nodes promise: in every state the stubs can reach the shadow tree is the
  native tree, no native call breaks the library's preconditions, the loops end inside their
  arrays, and freeing a subtree frees exactly its handles.
\<close>

section \<open>Reachable states\<close>

text \<open>The stubs that change state, with their arguments (for a creation: whether the
  allocation of its result raises).\<close>

datatype yoga_call =
    Create bool
  | Free u32
  | Free_recursive u32
  | Insert_child u32 u32 i32
  | Remove_child u32 u32
  | Move_child u32 u32 i32
  | Calculate u32 fp fp i32
  | Mark_dirty u32
  | Mark_layout_seen u32
  | Style_set_value u32 i32 i32 i32 fp
  | Style_set_enum u32 i32 i32
  | Style_set_float u32 i32 fp
  | Style_set_border u32 i32 fp
  | Attach_yoga_node handle u32
  | Claim_native_renderable u32
  | Release_native_renderable u32
  | Set_native_measure_attached u32 bool
  | Set_measure_func u32 bool
  | Unset_measure_func u32
  | Set_measure_callback "value"
  | Clear_measure_callback

inductive yoga_step :: "'w yoga_api \<Rightarrow> yoga_call \<Rightarrow> 'w yoga_state \<Rightarrow> 'w yoga_state \<Rightarrow> bool" for N where
  "opentui_raw_yoga_node_create N oom s = Some (r, s') \<Longrightarrow> yoga_step N (Create oom) s s'"
| "opentui_raw_yoga_node_free N h s = Some (st, s') \<Longrightarrow> yoga_step N (Free h) s s'"
| "opentui_raw_yoga_node_free_recursive N h s = Some (st, s') \<Longrightarrow> yoga_step N (Free_recursive h) s s'"
| "opentui_raw_yoga_node_insert_child N p c n s = Some (st, s') \<Longrightarrow> yoga_step N (Insert_child p c n) s s'"
| "opentui_raw_yoga_node_remove_child N p c s = (st, s') \<Longrightarrow> yoga_step N (Remove_child p c) s s'"
| "opentui_raw_yoga_node_move_child N p c n s = (st, s') \<Longrightarrow> yoga_step N (Move_child p c n) s s'"
| "opentui_raw_yoga_node_calculate N h x y d s = (st, s') \<Longrightarrow> yoga_step N (Calculate h x y d) s s'"
| "opentui_raw_yoga_node_mark_dirty N h s = (st, s') \<Longrightarrow> yoga_step N (Mark_dirty h) s s'"
| "opentui_raw_yoga_node_mark_layout_seen N h s = (st, s') \<Longrightarrow> yoga_step N (Mark_layout_seen h) s s'"
| "opentui_raw_yoga_node_style_set_value N h k e u x s = (st, s') \<Longrightarrow> yoga_step N (Style_set_value h k e u x) s s'"
| "opentui_raw_yoga_node_style_set_enum N h k e s = (st, s') \<Longrightarrow> yoga_step N (Style_set_enum h k e) s s'"
| "opentui_raw_yoga_node_style_set_float N h k x s = (st, s') \<Longrightarrow> yoga_step N (Style_set_float h k x) s s'"
| "opentui_raw_yoga_node_style_set_border N h k x s = (st, s') \<Longrightarrow> yoga_step N (Style_set_border h k x) s s'"
| "opentui_raw_native_renderable_attach_yoga_node N q h s = (st, s') \<Longrightarrow> yoga_step N (Attach_yoga_node q h) s s'"
| "opentui_raw_yoga_node_claim_native_renderable h s = (st, s') \<Longrightarrow> yoga_step N (Claim_native_renderable h) s s'"
| "opentui_raw_yoga_node_release_native_renderable h s = (st, s') \<Longrightarrow> yoga_step N (Release_native_renderable h) s s'"
| "opentui_raw_yoga_node_set_native_measure_attached h b s = (st, s') \<Longrightarrow> yoga_step N (Set_native_measure_attached h b) s s'"
| "s' = opentui_raw_yoga_node_set_measure_func N h b s \<Longrightarrow> yoga_step N (Set_measure_func h b) s s'"
| "s' = opentui_raw_yoga_node_unset_measure_func N h s \<Longrightarrow> yoga_step N (Unset_measure_func h) s s'"
| "s' = opentui_raw_yoga_set_measure_callback N f s \<Longrightarrow> yoga_step N (Set_measure_callback f) s s'"
| "s' = opentui_raw_yoga_clear_measure_callback N s \<Longrightarrow> yoga_step N Clear_measure_callback s s'"

text \<open>What the stubs leave to their caller. Inserting and dirtying are decided by the flag of the
  node, so the flag has to say what the library says: native_renderable.ml sets it together
  with the measure target of the attached renderable. No stub looks at the children when a node
  is given a measure function, or is attached to a renderable that measures:
  native_renderable.ml checks that such a node is a leaf. Every other call is free.\<close>

definition measure_contract :: "'w yoga_api \<Rightarrow> yoga_call \<Rightarrow> 'w yoga_state \<Rightarrow> bool" where
  "measure_contract N c s =
     (let on = (\<lambda>h P. case yoga_node_from_handle (yoga_nodes s) h of None \<Rightarrow> True
                | Some i \<Rightarrow> P (y_node (yoga_nodes s i))) in
      case c of
        Insert_child p c n \<Rightarrow> flag_true N p s
      | Mark_dirty h \<Rightarrow> flag_true N h s
      | Set_measure_func h b \<Rightarrow> b \<longrightarrow> on h (\<lambda>p. childless N p (yoga_world s))
      | Attach_yoga_node r h \<Rightarrow> on h (\<lambda>p. childless N p (yoga_world s)
          \<or> \<not> yogaNodeHasMeasureFunc N p (snd (nativeRenderableAttachYogaNode N r p (yoga_world s))))
      | _ \<Rightarrow> True)"

inductive yoga_reachable :: "'w yoga_api \<Rightarrow> 'w \<Rightarrow> 'w yoga_state \<Rightarrow> bool" for N w0 where
  start: "yoga_reachable N w0 (init_yoga_state w0)"
| step: "yoga_reachable N w0 s \<Longrightarrow> measure_contract N c s \<Longrightarrow> yoga_step N c s s' \<Longrightarrow> yoga_reachable N w0 s'"

lemma with_node_cases:
  assumes "yoga_good Q s" "\<And>i. yoga_node_from_handle (yoga_nodes s) h = Some i \<Longrightarrow>
    yoga_good Q (snd (f (yoga_nodes s i)))"
  shows "yoga_good Q (snd (with_node f h s))"
  using assms by (auto simp: with_node_def split: option.split)

lemma yoga_good_start: "Q (\<lambda>_. None) w0 \<Longrightarrow> yoga_good Q (init_yoga_state w0)"
  by (rule yoga_goodI [of _ "\<lambda>_. None"])
    (simp_all add: init_yoga_state_def zero_yoga_slot_def forest_ok_def agrees_def)

lemma native_calls_keep:
  assumes "yoga_protocol N Q"
  shows "yoga_keeps Q (\<lambda>p. yogaNodeCalculateLayout N p x y d)"
    "yoga_keeps Q (\<lambda>p. yogaNodeSetHasNewLayout N p b)" "yoga_keeps Q (\<lambda>p. yogaNodeStyleSetValue N p k e u v)"
    "yoga_keeps Q (\<lambda>p. yogaNodeStyleSetEnum N p k e)" "yoga_keeps Q (\<lambda>p. yogaNodeStyleSetFloat N p k v)"
    "yoga_keeps Q (\<lambda>p. yogaNodeStyleSetBorder N p k v)" "yoga_keeps Q (yogaNodeUnsetMeasureFunc N)"
    "Q K w \<Longrightarrow> Q K (yogaSetMeasureCallback N b w)"
  using assms by (simp_all add: yoga_protocol_def)

lemma native_calls_good:
  assumes "yoga_protocol N Q" "yoga_good Q s" "yoga_node_from_handle (yoga_nodes s) h = Some i"
  defines "m \<equiv> y_node (yoga_nodes s i)" and "w \<equiv> yoga_world s"
  shows "yoga_good Q (s\<lparr>yoga_world := yogaNodeCalculateLayout N m x y d w\<rparr>)"
    "yoga_good Q (s\<lparr>yoga_world := yogaNodeSetHasNewLayout N m b w\<rparr>)"
    "yoga_good Q (s\<lparr>yoga_world := yogaNodeStyleSetValue N m k e u v w\<rparr>)"
    "yoga_good Q (s\<lparr>yoga_world := yogaNodeStyleSetEnum N m k e w\<rparr>)"
    "yoga_good Q (s\<lparr>yoga_world := yogaNodeStyleSetFloat N m k v w\<rparr>)"
    "yoga_good Q (s\<lparr>yoga_world := yogaNodeStyleSetBorder N m k v w\<rparr>)"
    "yoga_good Q (s\<lparr>yoga_world := yogaNodeUnsetMeasureFunc N m w\<rparr>)"
proof -
  note call = node_call_good [OF assms(2,3), folded m_def w_def]
  note keep = native_calls_keep [OF assms(1)]
  show "yoga_good Q (s\<lparr>yoga_world := yogaNodeCalculateLayout N m x y d w\<rparr>)" by (rule call [OF keep(1)])
  show "yoga_good Q (s\<lparr>yoga_world := yogaNodeSetHasNewLayout N m b w\<rparr>)" by (rule call [OF keep(2)])
  show "yoga_good Q (s\<lparr>yoga_world := yogaNodeStyleSetValue N m k e u v w\<rparr>)" by (rule call [OF keep(3)])
  show "yoga_good Q (s\<lparr>yoga_world := yogaNodeStyleSetEnum N m k e w\<rparr>)" by (rule call [OF keep(4)])
  show "yoga_good Q (s\<lparr>yoga_world := yogaNodeStyleSetFloat N m k v w\<rparr>)" by (rule call [OF keep(5)])
  show "yoga_good Q (s\<lparr>yoga_world := yogaNodeStyleSetBorder N m k v w\<rparr>)" by (rule call [OF keep(6)])
  show "yoga_good Q (s\<lparr>yoga_world := yogaNodeUnsetMeasureFunc N m w\<rparr>)" by (rule call [OF keep(7)])
qed

text \<open>The measure calls meet their preconditions, by the guard of the stub and the contract.\<close>

lemma measure_calls_good:
  assumes "yoga_protocol N Q" "yoga_good Q s" "yoga_node_from_handle (yoga_nodes s) h = Some i"
  defines "m \<equiv> y_node (yoga_nodes s i)" and "w \<equiv> yoga_world s"
  shows "flag_true N h s \<Longrightarrow> native_measure_attached (yoga_nodes s i) \<Longrightarrow>
      yoga_good Q (s\<lparr>yoga_world := yogaNodeMarkDirty N m w\<rparr>)"
    "childless N m w \<or> \<not> yogaNodeHasMeasureFunc N m (snd (nativeRenderableAttachYogaNode N r m w)) \<Longrightarrow>
      yoga_good Q (s\<lparr>yoga_world := snd (nativeRenderableAttachYogaNode N r m w)\<rparr>)"
    "(b \<longrightarrow> childless N m w) \<Longrightarrow> yoga_good Q (s\<lparr>yoga_world := yogaNodeSetMeasureFunc N m b w\<rparr>)"
proof -
  from assms(2) obtain K where K: "forest_ok (yoga_nodes s)" "agrees (yoga_nodes s) K" "Q K w"
    unfolding w_def by (rule yoga_goodE)
  note live = resolves_alive [OF assms(3)]
  obtain cs where cs: "K m = Some cs" using agreesD(3) [OF K(2) live] by (auto simp: m_def)
  have empty: "childless N m w \<Longrightarrow> cs = []"
    using protocol_count [OF assms(1) K(3) cs] children_count(2) [OF K(1,2) live, folded m_def, OF cs]
    by (auto simp: childless_def)
  have good: "Q K w' \<Longrightarrow> yoga_good Q (s\<lparr>yoga_world := w'\<rparr>)" for w'
    using K(1,2) by (auto simp: yoga_good_def)
  note calls = protocol_measure [OF assms(1) K(3) cs]
  show "yoga_good Q (s\<lparr>yoga_world := yogaNodeMarkDirty N m w\<rparr>)"
    if "flag_true N h s" "native_measure_attached (yoga_nodes s i)"
    using that assms(3) by (intro good calls(1)) (simp add: flag_true_def m_def w_def)
  show "yoga_good Q (s\<lparr>yoga_world := snd (nativeRenderableAttachYogaNode N r m w)\<rparr>)"
    if "childless N m w \<or> \<not> yogaNodeHasMeasureFunc N m (snd (nativeRenderableAttachYogaNode N r m w))"
    using that empty by (intro good calls(2)) blast
  show "yoga_good Q (s\<lparr>yoga_world := yogaNodeSetMeasureFunc N m b w\<rparr>)" if "b \<longrightarrow> childless N m w"
    using that empty by (intro good calls(3)) blast
qed

lemma node_stubs_good:
  assumes "yoga_protocol N Q" "yoga_good Q s"
  shows "yoga_good Q (snd (opentui_raw_yoga_node_calculate N h x y d s))"
    "yoga_good Q (snd (opentui_raw_yoga_node_mark_layout_seen N h s))"
    "yoga_good Q (snd (opentui_raw_yoga_node_style_set_value N h k e u v s))"
    "yoga_good Q (snd (opentui_raw_yoga_node_style_set_enum N h k e s))"
    "yoga_good Q (snd (opentui_raw_yoga_node_style_set_float N h k v s))"
    "yoga_good Q (snd (opentui_raw_yoga_node_style_set_border N h k v s))"
    "yoga_good Q (opentui_raw_yoga_node_unset_measure_func N h s)"
  unfolding opentui_raw_yoga_node_calculate_def
    opentui_raw_yoga_node_mark_layout_seen_def opentui_raw_yoga_node_style_set_value_def
    opentui_raw_yoga_node_style_set_enum_def opentui_raw_yoga_node_style_set_float_def
    opentui_raw_yoga_node_style_set_border_def opentui_raw_yoga_node_unset_measure_func_def
  using assms(2) native_calls_good [OF assms]
  by (auto intro!: with_node_cases simp: case_prod_beta Let_def split: option.split)

lemma measure_stubs_good:
  assumes "yoga_protocol N Q" "yoga_good Q s"
  shows "measure_contract N (Mark_dirty h) s \<Longrightarrow> yoga_good Q (snd (opentui_raw_yoga_node_mark_dirty N h s))"
    "measure_contract N (Attach_yoga_node r h) s \<Longrightarrow>
       yoga_good Q (snd (opentui_raw_native_renderable_attach_yoga_node N r h s))"
    "measure_contract N (Set_measure_func h b) s \<Longrightarrow> yoga_good Q (opentui_raw_yoga_node_set_measure_func N h b s)"
  unfolding opentui_raw_yoga_node_mark_dirty_def opentui_raw_native_renderable_attach_yoga_node_def
    opentui_raw_yoga_node_set_measure_func_def measure_contract_def
  using assms(2) measure_calls_good [OF assms]
  by (auto intro!: with_node_cases simp: case_prod_beta Let_def split: option.splits)

lemma flag_stubs_good:
  assumes "yoga_good Q s"
  shows "yoga_good Q (snd (opentui_raw_yoga_node_claim_native_renderable h s))"
    "yoga_good Q (snd (opentui_raw_yoga_node_release_native_renderable h s))"
    "yoga_good Q (snd (opentui_raw_yoga_node_set_native_measure_attached h b s))"
  unfolding opentui_raw_yoga_node_claim_native_renderable_def
    opentui_raw_yoga_node_release_native_renderable_def
    opentui_raw_yoga_node_set_native_measure_attached_def
  using assms by (auto intro!: same_tree_good simp: same_tree_def split: option.split)

lemma yoga_good_callback:
  "yoga_good Q (s\<lparr>yoga_measure_callback := f\<rparr>) = yoga_good Q s"
  "yoga_good Q (s\<lparr>yoga_measure_callback_registered := b\<rparr>) = yoga_good Q s"
  by (simp_all add: yoga_good_def)

lemma callback_stubs_good:
  assumes "yoga_protocol N Q" "yoga_good Q s"
  shows "yoga_good Q (opentui_raw_yoga_set_measure_callback N f s)"
    "yoga_good Q (opentui_raw_yoga_clear_measure_callback N s)"
  using assms native_calls_keep(8) [OF assms(1)]
  by (auto simp: opentui_raw_yoga_set_measure_callback_def opentui_raw_yoga_clear_measure_callback_def
      Let_def yoga_good_def)

lemma yoga_step_good:
  assumes "yoga_protocol N Q" "measure_contract N c s" "yoga_step N c s s'" "yoga_good Q s"
  shows "yoga_good Q s'"
proof -
  note stubs = create_node_good [OF assms(1,4)] free_good [OF assms(1,4)] free_recursive_good [OF assms(1,4)]
    remove_child_good [OF assms(1,4)] move_child_good [OF assms(1,4)] node_stubs_good [OF assms(1,4)]
    flag_stubs_good [OF assms(4)] callback_stubs_good [OF assms(1,4)]
  show ?thesis using assms(3,2)
  proof cases
    case (4 p c n st)
    then have "flag_true N p s" using assms(2) by (simp add: measure_contract_def)
    then show ?thesis using insert_child_good [OF assms(1,4), of p c n] 4 by auto
  qed (use stubs measure_stubs_good [OF assms(1,4)] in \<open>metis option.inject prod.inject snd_conv\<close>)+
qed

lemma yoga_reachable_good:
  assumes "yoga_protocol N Q" "Q (\<lambda>_. None) w0" "yoga_reachable N w0 s"
  shows "yoga_good Q s"
  using assms(3)
  by (induction rule: yoga_reachable.induct)
    (auto intro: yoga_good_start [of Q, OF assms(2)] yoga_step_good [OF assms(1)])

section \<open>Properties\<close>

text \<open>(C2) In every reachable state the shadow tree is a forest of live handles and agrees
  with the native tree: the live slots are exactly the existing native nodes, and the
  children of each node in the library are exactly the slots whose parent handle names it.
  Every native call on the way met its precondition (\<open>yoga_protocol\<close>): no node freed while
  linked, no cycle, no child with two parents, no index out of range, no child inserted below
  a node with a measure function, only such nodes marked dirty, and only childless nodes given
  a measure function. The caller keeps \<open>measure_contract\<close>; all other arguments are free.\<close>

theorem yoga_trees_agree:
  assumes "yoga_protocol N Q" "Q (\<lambda>_. None) w0" "yoga_reachable N w0 s"
  shows "forest_ok (yoga_nodes s) \<and> (\<exists>K. agrees (yoga_nodes s) K \<and> Q K (yoga_world s))"
  using yoga_reachable_good [OF assms] by (simp add: yoga_good_def)

text \<open>(C17) In every reachable state the node stubs return, whatever their arguments: the subtree loops and the
  ancestor loop end, and no write leaves the pending array or the node table.\<close>

theorem yoga_stubs_return:
  assumes "yoga_protocol N Q" "Q (\<lambda>_. None) w0" "yoga_reachable N w0 s"
  shows "(\<exists>r. opentui_raw_yoga_node_create N oom s = Some r)
    \<and> (\<exists>r. opentui_raw_yoga_node_free N h s = Some r)
    \<and> (\<exists>r. opentui_raw_yoga_node_free_recursive N h s = Some r)
    \<and> (\<exists>r. opentui_raw_yoga_node_insert_child N p c n s = Some r)"
proof -
  have good: "yoga_good Q s" by (rule yoga_reachable_good [OF assms])
  show ?thesis
    using create_node_good [OF assms(1) good] free_good [OF assms(1) good]
      free_recursive_good [OF assms(1) good] insert_child_good [OF assms(1) good] by blast
qed

text \<open>(C38) The ancestor loop decides ancestry: it answers that linking the child would close
  a cycle exactly when the child is the parent or one of its ancestors.\<close>

theorem cycle_test_exact:
  assumes "yoga_protocol N Q" "Q (\<lambda>_. None) w0" "yoga_reachable N w0 s"
    and "yoga_node_from_handle (yoga_nodes s) p = Some i"
  shows "yoga_would_create_cycle p c (yoga_nodes s) = Some (anc (par (yoga_nodes s)) c p)"
  using yoga_reachable_good [OF assms(1-3)] would_create_cycle_anc [OF _ assms(4)]
  by (auto simp: yoga_good_def)

text \<open>(C7) Freeing a subtree is refused, without effect, when its root has a parent or any
  node in it belongs to a native renderable; otherwise exactly the handles of the root and
  its descendants die.\<close>

theorem free_recursive_exact:
  assumes "yoga_protocol N Q" "Q (\<lambda>_. None) w0" "yoga_reachable N w0 s"
    and "yoga_node_from_handle (yoga_nodes s) h = Some i"
  defines "t \<equiv> yoga_nodes s"
  shows "if parent_handle (t i) \<noteq> 0 \<or> (\<exists>j\<in>desc t h. native_renderable_attached (t j))
    then opentui_raw_yoga_node_free_recursive N h s = Some (Invalid_argument, s)
    else \<exists>s'. opentui_raw_yoga_node_free_recursive N h s = Some (Ok, s') \<and>
      (\<forall>g. yoga_node_from_handle (yoga_nodes s') g =
         (if yoga_node_from_handle t g \<noteq> None \<and> anc (par t) h g then None else yoga_node_from_handle t g))"
proof -
  have f: "forest_ok t" using yoga_reachable_good [OF assms(1-3)] by (simp add: yoga_good_def t_def)
  have h: "yoga_node_from_handle t h = Some i" using assms(4) by (simp add: t_def)
  note native = subtree_native_spec [OF f h] and rel = release_subtree_spec [OF f h]
  have self: "i \<in> desc t h" by (rule desc_self [OF f h])
  have look: "yoga_node_from_handle (release_set (desc t h) t) g =
      (if yoga_node_from_handle t g \<noteq> None \<and> anc (par t) h g then None else yoga_node_from_handle t g)" for g
  proof (cases "yoga_node_from_handle t g")
    case None
    then show ?thesis by (auto simp: yoga_node_from_handle_def release_set_def Let_def split: if_splits)
  next
    case (Some j)
    have "j \<in> desc t h \<longleftrightarrow> anc (par t) h g"
      using resolves_alive [OF Some] resolves_handle [OF Some] by (simp add: desc_def)
    moreover have slot: "slot_of g = j" using Some by (auto simp: yn.resolve_iff)
    moreover have "yoga_node_from_handle (release_set (desc t h) t) g = yoga_node_from_handle t g" if "j \<notin> desc t h"
      by (rule yn.resolve_cong) (simp add: release_set_def slot that)
    moreover have "yoga_node_from_handle (release_set (desc t h) t) g = None" if "j \<in> desc t h"
      using that by (simp add: yn.resolve_None slot) (simp add: release_set_def)
    ultimately show ?thesis using Some by auto
  qed
  show ?thesis
  proof (cases "parent_handle (t i) \<noteq> 0 \<or> (\<exists>j\<in>desc t h. native_renderable_attached (t j))")
    case True
    then have "opentui_raw_yoga_node_free_recursive N h s = Some (Invalid_argument, s)"
      using native h self by (auto simp: opentui_raw_yoga_node_free_recursive_def t_def Let_def)
    with True show ?thesis by simp
  next
    case False
    then have "opentui_raw_yoga_node_free_recursive N h s = Some (Ok, s\<lparr>yoga_world :=
        yogaNodeFreeRecursive N (y_node (t i)) (yoga_world s), yoga_nodes := release_set (desc t h) t\<rparr>)"
      using native h self rel by (auto simp: opentui_raw_yoga_node_free_recursive_def t_def Let_def)
    then show ?thesis using False look by auto
  qed
qed

text \<open>(C18) A child is inserted exactly when both handles are live, the parent does not
  measure natively, the child has no parent, is not the parent or above it, and the index is
  at most the number of children.\<close>

theorem insert_child_accepts:
  assumes "yoga_protocol N Q" "Q (\<lambda>_. None) w0" "yoga_reachable N w0 s"
  defines "t \<equiv> yoga_nodes s"
  shows "(\<exists>s'. opentui_raw_yoga_node_insert_child N p c n s = Some (Ok, s')) \<longleftrightarrow>
    0 \<le> sint n \<and> (\<exists>pp ci. yoga_node_from_handle t p = Some pp \<and> yoga_node_from_handle t c = Some ci
      \<and> \<not> native_measure_attached (t pp) \<and> parent_handle (t ci) = 0 \<and> \<not> anc (par t) c p
      \<and> unat n \<le> card (kids t pp))"
proof -
  from yoga_reachable_good [OF assms(1-3)] obtain K where
    K: "forest_ok t" "agrees t K" "Q K (yoga_world s)" by (auto simp: yoga_good_def t_def)
  have count: "n \<le> yogaNodeGetChildCount N (y_node (t pp)) (yoga_world s) \<longleftrightarrow> unat n \<le> card (kids t pp)"
    if "yoga_node_from_handle t p = Some pp" for pp
  proof -
    note live = resolves_alive [OF that]
    obtain cs where cs: "K (y_node (t pp)) = Some cs" "distinct cs" "set cs = (\<lambda>j. y_node (t j)) ` kids t pp"
      using agreesD(3) [OF K(2) live] by blast
    have "inj_on (\<lambda>j. y_node (t j)) (kids t pp)"
      using agrees_inj [OF K(2)] by (auto simp: inj_on_def kids_def)
    then have "length cs = card (kids t pp)" using cs(2,3) by (metis card_image distinct_card)
    then show ?thesis
      using protocol_count [OF assms(1) K(3) cs(1)] children_count(2) [OF K(1,2) live cs(1)]
      by (simp add: word_le_nat_alt)
  qed
  have cyc: "yoga_would_create_cycle p c t = Some (anc (par t) c p)" if "yoga_node_from_handle t p = Some pp" for pp
    by (rule would_create_cycle_anc [OF K(1) that])
  show ?thesis
    using count cyc
    by (auto simp: opentui_raw_yoga_node_insert_child_def t_def [symmetric] neg32_def not_less not_le
        split: option.splits if_splits)
qed

text \<open>A created handle is new, names the new native node and has no parent; whether or
  not the creation succeeds, every other handle keeps its meaning.\<close>

theorem create_node_fresh:
  assumes "opentui_raw_yoga_node_create N oom s = Some (r, s')"
  shows "(\<forall>h. r = Returns (Ok, h) \<longrightarrow> yoga_node_from_handle (yoga_nodes s) h = None \<and>
      (\<exists>i. yoga_node_from_handle (yoga_nodes s') h = Some i \<and> parent_handle (yoga_nodes s' i) = 0
        \<and> y_node (yoga_nodes s' i) = fst (yogaNodeCreateForOpenTUI N (yoga_world s))
        \<and> y_node (yoga_nodes s' i) \<noteq> NULL))
    \<and> (yoga_node_from_handle (yoga_nodes s) g = Some j \<longrightarrow>
        yoga_node_from_handle (yoga_nodes s') g = Some j \<and> yoga_nodes s' j = yoga_nodes s j)"
proof -
  obtain h k t where al: "yoga_allocate_node () (yoga_nodes s) = (h, k, t)" by (metis prod_cases3)
  obtain p w where c: "yogaNodeCreateForOpenTUI N (yoga_world s) = (p, w)" by force
  show ?thesis
  proof (cases "h = 0")
    case True
    then show ?thesis using assms al
      by (auto simp: opentui_raw_yoga_node_create_def allocating_def split: if_splits)
  next
    case h: False
    note sl = yoga_alloc_slot [OF al h]
    let ?t1 = "t(k := (t k)\<lparr>y_node := p\<rparr>)"
    have r1: "yoga_node_from_handle ?t1 = yoga_node_from_handle t"
      by (auto simp: fun_eq_iff yoga_node_from_handle_def Let_def)
    have keep: "yoga_node_from_handle t g = Some j \<and> t j = yoga_nodes s j \<and> j \<noteq> k"
      if "yoga_node_from_handle (yoga_nodes s) g = Some j"
      using yn.alloc_keeps [OF al that] resolves_alive [OF that] sl by auto
    show ?thesis
    proof (cases "p = NULL")
      case True
      have slot: "slot_of h = k" "k < YOGA_NODE_CAPACITY" using sl by blast+
      then have rel: "yoga_release_node h ?t1 = Some (yoga_release_slot k ?t1)"
        unfolding yoga_release_node_def yoga_token by (simp only: Let_def) simp
      have s': "s' = s\<lparr>yoga_nodes := yoga_release_slot k ?t1, yoga_world := w\<rparr>"
        "r = allocating oom (Native_failure, 0)"
        using assms al h c True rel by (auto simp: opentui_raw_yoga_node_create_def)
      have "yoga_node_from_handle (yoga_release_slot k ?t1) g = Some j \<and>
          yoga_release_slot k ?t1 j = yoga_nodes s j"
        if "yoga_node_from_handle (yoga_nodes s) g = Some j"
      proof -
        have j: "yoga_node_from_handle t g = Some j" "t j = yoga_nodes s j" "j \<noteq> k" using keep [OF that] by auto
        then have "slot_of g \<noteq> k" by (auto simp: yn.resolve_iff)
        from yn.release_keeps [OF this, of ?t1] j show ?thesis
          by (simp add: r1 yn.release_other)
      qed
      then show ?thesis by (simp add: s' allocating_def)
    next
      case False
      have s': "s' = s\<lparr>yoga_nodes := ?t1, yoga_world := w\<rparr>" "r = allocating oom (Ok, h)"
        using assms al h c False by (auto simp: opentui_raw_yoga_node_create_def)
      show ?thesis
        using keep yn.alloc_was_stale [OF al h] yn.alloc_resolves [OF al h] sl False
        by (auto simp: s' allocating_def r1 c)
    qed
  qed
qed


text \<open>A measure request always stores a result: the two floats when a callback is
  registered and returns a pair of floats, NaN twice when none is registered, it raises or
  returns anything else; the node table is untouched.\<close>

theorem measure_always_answers:
  assumes "raw_yoga_measure_callback N call node w wm h hm s = Some s'"
  defines "answer \<equiv> (if yoga_measure_callback_registered s
      then fst (call (yoga_measure_callback s)
        (Block 0 [Nativeint node, Double w, Int32 wm, Double h, Int32 hm]) (yoga_world s))
      else None)"
  shows "\<exists>x y w1. yoga_world s' = yogaStoreMeasureResult N x y w1 \<and> yoga_nodes s' = yoga_nodes s \<and>
    (if \<exists>tag a b. answer = Some (Block tag [Double a, Double b])
     then \<exists>tag a b. answer = Some (Block tag [Double a, Double b]) \<and> x = to_float a \<and> y = to_float b
     else x = NaN \<and> y = NaN)"
proof (cases "yoga_measure_callback_registered s")
  case False
  then have "s' = s\<lparr>yoga_world := yogaStoreMeasureResult N NaN NaN (yoga_world s)\<rparr>"
    using assms(1) by (simp add: raw_yoga_measure_callback_def)
  with False show ?thesis by (auto simp: answer_def)
next
  case True
  let ?args = "Block 0 [Nativeint node, Double w, Int32 wm, Double h, Int32 hm]"
  obtain res w1 where call: "call (yoga_measure_callback s) ?args (yoga_world s) = (res, w1)" by force
  have res: "answer = res" using True call by (simp add: answer_def)
  let ?failed = "s\<lparr>yoga_world := yogaStoreMeasureResult N NaN NaN w1\<rparr>"
  show ?thesis
  proof (cases "\<exists>tag a b. res = Some (Block tag [Double a, Double b])")
    case pair: True
    then obtain tag a b where r: "res = Some (Block tag [Double a, Double b])" by blast
    then have "s' = s\<lparr>yoga_world := yogaStoreMeasureResult N (to_float a) (to_float b) w1\<rparr>"
      using assms(1) True call by (simp add: raw_yoga_measure_callback_def)
    then show ?thesis using r by (auto simp: res)
  next
    case no_pair: False
    have "s' = ?failed"
    proof (cases res)
      case (Some v)
      show ?thesis
      proof (cases "has_size 2 v")
        case size: True
        with assms(1) True call Some obtain tag x y where v: "v = Block tag [x, y]"
          by (cases v) (auto simp: raw_yoga_measure_callback_def length_Suc_conv numeral_2_eq_2)
        have "\<not> (has_tag Double_tag x \<and> has_tag Double_tag y) \<or> s' = ?failed"
          using assms(1) True call Some v no_pair
          by (cases x; cases y) (auto simp: raw_yoga_measure_callback_def)
        then show ?thesis using assms(1) True call Some v
          by (auto simp: raw_yoga_measure_callback_def split: if_splits)
      qed (use assms(1) True call Some in \<open>simp add: raw_yoga_measure_callback_def\<close>)
    qed (use assms(1) True call in \<open>simp add: raw_yoga_measure_callback_def\<close>)
    with no_pair show ?thesis by (auto simp: res)
  qed
qed

section \<open>Witnesses\<close>

text \<open>A library whose world is its tree and the set of measuring nodes, with room for two nodes
  at addresses 8 and 16. Marking a node without a measure function makes every node measure.\<close>

type_synonym toy_world = "tree \<times> ptr set"

definition toy_yoga :: "toy_world yoga_api" where
  "toy_yoga = \<lparr>
     yogaNodeCreateForOpenTUI = (\<lambda>(K, M). if K 8 = None then (8, K(8 \<mapsto> []), M - {8})
       else if K 16 = None then (16, K(16 \<mapsto> []), M - {16}) else (NULL, K, M)),
     yogaNodeFree = (\<lambda>p (K, M). (K(p := None), M)),
     yogaNodeFreeRecursive = (\<lambda>p (K, M). (K |` (- below K p), M)),
     yogaNodeInsertChild = (\<lambda>p c i (K, M). case K p of None \<Rightarrow> (K, M)
       | Some cs \<Rightarrow> (K(p \<mapsto> take (unat i) cs @ c # drop (unat i) cs), M)),
     yogaNodeRemoveChild = (\<lambda>p c (K, M). case K p of None \<Rightarrow> (K, M) | Some cs \<Rightarrow> (K(p \<mapsto> remove1 c cs), M)),
     yogaNodeGetChildCount = (\<lambda>p (K, M). case K p of None \<Rightarrow> 0 | Some cs \<Rightarrow> of_nat (length cs)),
     yogaNodeCalculateLayout = (\<lambda>_ _ _ _ w. w),
     yogaNodeIsDirty = (\<lambda>_ _. False),
     yogaNodeMarkDirty = (\<lambda>p (K, M). (K, if p \<in> M then M else UNIV)),
     yogaNodeGetHasNewLayout = (\<lambda>_ _. False),
     yogaNodeSetHasNewLayout = (\<lambda>_ _ w. w),
     yogaNodeStyleSetValue = (\<lambda>_ _ _ _ _ w. w),
     yogaNodeStyleSetEnum = (\<lambda>_ _ _ w. w),
     yogaNodeStyleSetFloat = (\<lambda>_ _ _ w. w),
     yogaNodeStyleSetBorder = (\<lambda>_ _ _ w. w),
     yogaNodeGetComputedLayout = (\<lambda>_ _. \<lparr>left = Fin 0, top = Fin 0, right = Fin 0, bottom = Fin 0,
       width = Fin 0, height = Fin 0\<rparr>),
     nativeRenderableAttachYogaNode = (\<lambda>_ p (K, M). (True, K, insert p M)),
     yogaNodeSetMeasureFunc = (\<lambda>p b (K, M). (K, if b then insert p M else M - {p})),
     yogaNodeUnsetMeasureFunc = (\<lambda>p (K, M). (K, M - {p})),
     yogaNodeHasMeasureFunc = (\<lambda>p (K, M). p \<in> M),
     yogaSetMeasureCallback = (\<lambda>_ w. w),
     yogaStoreMeasureResult = (\<lambda>_ _ w. w)\<rparr>"

definition toy_tree :: "tree \<Rightarrow> toy_world \<Rightarrow> bool" where
  "toy_tree K w \<longleftrightarrow> fst w = K \<and> (\<forall>p\<in>snd w. K p = Some [] \<or> K p = None)"

lemma toy_yoga_protocol: "yoga_protocol toy_yoga toy_tree"
  unfolding yoga_protocol_def
  by (intro conjI) (auto simp: yoga_keeps_def toy_yoga_def toy_tree_def restrict_map_def split: if_splits)

lemma toy_tree_start: "toy_tree (\<lambda>_. None) (\<lambda>_. None, {})"
  by (simp add: toy_tree_def)

definition toy_node :: "ptr \<Rightarrow> u32 \<Rightarrow> yoga_node_slot" where
  "toy_node p parent = \<lparr>y_generation = 1, y_alive = True, native_renderable_attached = False,
     native_measure_attached = False, y_node = p, parent_handle = parent\<rparr>"

text \<open>Node 1 (handle 65537), and node 2 (handle 65538) below it.\<close>

definition toy_one :: "toy_world yoga_state" where
  "toy_one = (init_yoga_state ([8 \<mapsto> []], {}))\<lparr>yoga_nodes := (\<lambda>_. zero_yoga_slot)(1 := toy_node 8 0)\<rparr>"

definition toy_two :: "u32 \<Rightarrow> tree \<Rightarrow> toy_world yoga_state" where
  "toy_two parent K = (init_yoga_state (K, {}))\<lparr>yoga_nodes :=
     (\<lambda>_. zero_yoga_slot)(1 := toy_node 8 0, 2 := toy_node 16 parent)\<rparr>"

definition toy_roots :: "toy_world yoga_state" where
  "toy_roots = toy_two 0 [8 \<mapsto> [], 16 \<mapsto> []]"

definition toy_linked :: "toy_world yoga_state" where
  "toy_linked = toy_two 65537 [8 \<mapsto> [16], 16 \<mapsto> []]"

lemma toy_handles:
  "yoga_handle 1 1 = 65537" "yoga_handle 2 1 = 65538" "yoga_slot_index 65537 = 1"
  "yoga_slot_index 65538 = 2" "yoga_generation 65537 = 1" "yoga_generation 65538 = 1"
  by (simp_all add: yoga_handle_def yoga_slot_index_def yoga_generation_def)

lemma toy_create_one:
  "opentui_raw_yoga_node_create toy_yoga False (init_yoga_state (\<lambda>_. None, {})) = Some (Returns (Ok, 65537), toy_one)"
proof -
  have "scan_free (\<lambda>i. y_alive zero_yoga_slot) 1 YOGA_NODE_CAPACITY = Some 1"
    by (rule scan_free_first) (simp_all add: YOGA_NODE_CAPACITY_def zero_yoga_slot_def)
  then have "yoga_allocate_node () (\<lambda>_. zero_yoga_slot) = (65537, 1, (\<lambda>_. zero_yoga_slot)(1 := toy_node 0 0))"
    unfolding yoga_allocate_node_def
    by (simp add: toy_handles toy_node_def) (simp add: zero_yoga_slot_def toy_handles)
  then show ?thesis
    by (simp add: opentui_raw_yoga_node_create_def init_yoga_state_def toy_one_def)
      (simp add: toy_yoga_def toy_node_def)
qed

lemma toy_create_two:
  "opentui_raw_yoga_node_create toy_yoga False toy_one = Some (Returns (Ok, 65538), toy_roots)"
proof -
  let ?t = "(\<lambda>_. zero_yoga_slot)(1 := toy_node 8 0)"
  have "scan_free (\<lambda>i. y_alive (?t i)) 1 YOGA_NODE_CAPACITY = scan_free (\<lambda>i. y_alive (?t i)) 2 YOGA_NODE_CAPACITY"
    by (subst scan_free.simps) (simp add: YOGA_NODE_CAPACITY_def toy_node_def numeral_2_eq_2)
  also have "\<dots> = Some 2"
    by (rule scan_free_first) (simp_all add: YOGA_NODE_CAPACITY_def zero_yoga_slot_def)
  finally have "yoga_allocate_node () ?t = (65538, 2, ?t(2 := toy_node 0 0))"
    unfolding yoga_allocate_node_def
    by (simp add: toy_handles toy_node_def) (simp add: zero_yoga_slot_def toy_handles)
  then show ?thesis
    by (simp add: opentui_raw_yoga_node_create_def toy_roots_def toy_two_def toy_one_def init_yoga_state_def)
      (simp add: toy_yoga_def toy_node_def)
qed

lemma toy_lookups:
  "yoga_node_from_handle (yoga_nodes (toy_two q K)) 65537 = Some 1"
  "yoga_node_from_handle (yoga_nodes (toy_two q K)) 65538 = Some 2"
  by (simp_all add: yoga_node_from_handle_def toy_handles toy_two_def init_yoga_state_def
      toy_node_def YOGA_NODE_CAPACITY_def)

lemma toy_roots_reachable: "yoga_reachable toy_yoga (\<lambda>_. None, {}) toy_roots"
proof -
  have free: "measure_contract toy_yoga (Create False) s" for s by (simp add: measure_contract_def)
  have "yoga_reachable toy_yoga (\<lambda>_. None, {}) toy_one"
    by (rule yoga_reachable.step [OF yoga_reachable.start free yoga_step.intros(1) [OF toy_create_one]])
  then show ?thesis by (rule yoga_reachable.step [OF _ free yoga_step.intros(1) [OF toy_create_two]])
qed

lemma toy_insert:
  "opentui_raw_yoga_node_insert_child toy_yoga 65537 65538 0 toy_roots = Some (Ok, toy_linked)"
proof -
  let ?t = "yoga_nodes toy_roots"
  have "yoga_would_create_cycle 65537 65538 ?t = Some False"
    unfolding yoga_would_create_cycle_def
    by (subst yoga_cycle_loop.simps, simp add: toy_roots_def toy_lookups)
      (simp add: toy_two_def toy_node_def init_yoga_state_def yoga_cycle_loop.simps [of 0])
  then show ?thesis
    by (simp add: opentui_raw_yoga_node_insert_child_def toy_roots_def toy_linked_def toy_lookups neg32_def)
      (auto simp: toy_two_def toy_yoga_def toy_node_def init_yoga_state_def fun_eq_iff)
qed

lemma toy_linked_reachable: "yoga_reachable toy_yoga (\<lambda>_. None, {}) toy_linked"
proof (rule yoga_reachable.step [OF toy_roots_reachable _ yoga_step.intros(4) [OF toy_insert]])
  show "measure_contract toy_yoga (Insert_child 65537 65538 0) toy_roots"
    by (simp add: measure_contract_def flag_true_def toy_roots_def toy_lookups)
      (simp add: toy_two_def toy_node_def toy_yoga_def init_yoga_state_def)
qed

text \<open>The lower node is claimed, flagged, given a measure function and marked dirty.\<close>

definition toy_leaf :: "bool \<Rightarrow> bool \<Rightarrow> ptr set \<Rightarrow> toy_world yoga_state" where
  "toy_leaf c m M = (init_yoga_state ([8 \<mapsto> [16], 16 \<mapsto> []], M))\<lparr>yoga_nodes :=
     (\<lambda>_. zero_yoga_slot)(1 := toy_node 8 0, 2 := (toy_node 16 65537)\<lparr>native_renderable_attached := c,
       native_measure_attached := m\<rparr>)\<rparr>"

lemma toy_leaf_lookup: "yoga_node_from_handle (yoga_nodes (toy_leaf c m M)) 65538 = Some 2"
  by (simp add: yoga_node_from_handle_def toy_handles toy_leaf_def init_yoga_state_def
      toy_node_def YOGA_NODE_CAPACITY_def)

lemma toy_linked_leaf: "toy_linked = toy_leaf False False {}"
  by (simp add: toy_linked_def toy_two_def toy_leaf_def toy_node_def)

lemma toy_leaf_calls:
  "opentui_raw_yoga_node_claim_native_renderable 65538 (toy_leaf False False {}) = (Ok, toy_leaf True False {})"
  "opentui_raw_yoga_node_set_native_measure_attached 65538 True (toy_leaf True False {}) = (Ok, toy_leaf True True {})"
  "opentui_raw_yoga_node_set_measure_func toy_yoga 65538 True (toy_leaf True True {}) = toy_leaf True True {16}"
  "opentui_raw_yoga_node_mark_dirty toy_yoga 65538 (toy_leaf True True {16}) = (Ok, toy_leaf True True {16})"
  by (simp_all add: opentui_raw_yoga_node_claim_native_renderable_def
      opentui_raw_yoga_node_set_native_measure_attached_def opentui_raw_yoga_node_set_measure_func_def
      opentui_raw_yoga_node_mark_dirty_def with_node_def toy_leaf_lookup)
    (auto simp: toy_leaf_def toy_node_def init_yoga_state_def toy_yoga_def fun_eq_iff)

lemma toy_leaf_reachable: "yoga_reachable toy_yoga (\<lambda>_. None, {}) (toy_leaf True True {16})"
proof -
  have contract: "measure_contract toy_yoga (Claim_native_renderable 65538) s"
    "measure_contract toy_yoga (Set_native_measure_attached 65538 True) s" for s
    by (simp_all add: measure_contract_def)
  have measure: "measure_contract toy_yoga (Set_measure_func 65538 True) (toy_leaf True True {})"
    "measure_contract toy_yoga (Mark_dirty 65538) (toy_leaf True True {16})"
    by (simp_all add: measure_contract_def flag_true_def childless_def toy_leaf_lookup)
      (simp_all add: toy_leaf_def toy_node_def toy_yoga_def init_yoga_state_def)
  have "yoga_reachable toy_yoga (\<lambda>_. None, {}) (toy_leaf True False {})"
    by (rule yoga_reachable.step [OF toy_linked_reachable [unfolded toy_linked_leaf] contract(1)
          yoga_step.intros(15) [OF toy_leaf_calls(1)]])
  then have "yoga_reachable toy_yoga (\<lambda>_. None, {}) (toy_leaf True True {})"
    by (rule yoga_reachable.step [OF _ contract(2) yoga_step.intros(17) [OF toy_leaf_calls(2)]])
  then have "yoga_reachable toy_yoga (\<lambda>_. None, {}) (toy_leaf True True {16})"
    by (rule yoga_reachable.step [OF _ measure(1) yoga_step.intros(18) [OF toy_leaf_calls(3) [symmetric]]])
  then show ?thesis by (rule yoga_reachable.step [OF _ measure(2) yoga_step.intros(8) [OF toy_leaf_calls(4)]])
qed

theorem yoga_trees_agree_witness:
  "forest_ok (yoga_nodes (toy_leaf True True {16}))
    \<and> (\<exists>K. agrees (yoga_nodes (toy_leaf True True {16})) K \<and> toy_tree K (yoga_world (toy_leaf True True {16})))"
  by (rule yoga_trees_agree [OF toy_yoga_protocol toy_tree_start toy_leaf_reachable])

theorem yoga_stubs_return_witness:
  "\<exists>r. opentui_raw_yoga_node_free_recursive toy_yoga 65537 toy_linked = Some r"
  using yoga_stubs_return [OF toy_yoga_protocol toy_tree_start toy_linked_reachable] by blast

lemma toy_linked_par: "par (yoga_nodes toy_linked) 65538 = Some 65537"
  by (simp add: par_def toy_linked_def toy_lookups) (simp add: toy_two_def toy_node_def)

lemma toy_linked_anc: "anc (par (yoga_nodes toy_linked)) 65537 65538"
  by (rule anc_step [of "par (yoga_nodes toy_linked)", OF toy_linked_par]) simp

theorem cycle_test_exact_witness:
  "yoga_would_create_cycle 65538 65537 (yoga_nodes toy_linked) = Some True"
proof -
  have "yoga_node_from_handle (yoga_nodes toy_linked) 65538 = Some 2" by (simp add: toy_linked_def toy_lookups)
  from cycle_test_exact [OF toy_yoga_protocol toy_tree_start toy_linked_reachable this]
  show ?thesis using toy_linked_anc by simp
qed

theorem free_recursive_exact_witness:
  "\<exists>s'. opentui_raw_yoga_node_free_recursive toy_yoga 65537 toy_linked = Some (Ok, s')
     \<and> yoga_node_from_handle (yoga_nodes s') 65538 = None"
proof -
  have h: "yoga_node_from_handle (yoga_nodes toy_linked) 65537 = Some 1"
    "yoga_node_from_handle (yoga_nodes toy_linked) 65538 = Some 2"
    by (simp_all add: toy_linked_def toy_lookups)
  have free: "\<not> (parent_handle (yoga_nodes toy_linked 1) \<noteq> 0
      \<or> (\<exists>j\<in>desc (yoga_nodes toy_linked) 65537. native_renderable_attached (yoga_nodes toy_linked j)))"
    by (simp add: toy_linked_def toy_two_def toy_node_def zero_yoga_slot_def)
  from free_recursive_exact [OF toy_yoga_protocol toy_tree_start toy_linked_reachable h(1)]
  obtain s' where "opentui_raw_yoga_node_free_recursive toy_yoga 65537 toy_linked = Some (Ok, s')"
    "\<forall>g. yoga_node_from_handle (yoga_nodes s') g =
       (if yoga_node_from_handle (yoga_nodes toy_linked) g \<noteq> None \<and> anc (par (yoga_nodes toy_linked)) 65537 g
        then None else yoga_node_from_handle (yoga_nodes toy_linked) g)"
    unfolding if_not_P [OF free] by blast
  then show ?thesis using h(2) toy_linked_anc by auto
qed

theorem insert_child_accepts_witness:
  "\<not> anc (par (yoga_nodes toy_roots)) 65538 65537"
  using insert_child_accepts [OF toy_yoga_protocol toy_tree_start toy_roots_reachable, of 65537 65538 0]
    toy_insert by auto

theorem create_node_fresh_witness:
  "yoga_node_from_handle (yoga_nodes toy_one) 65538 = None"
  using create_node_fresh [OF toy_create_two] by simp

theorem measure_always_answers_witness:
  "\<exists>s'. raw_yoga_measure_callback toy_yoga (\<lambda>_ _ K. (None, K)) 8 (Fin 1) 0 (Fin 1) 0 toy_one = Some s'
     \<and> yoga_nodes s' = yoga_nodes toy_one"
proof -
  obtain s' where s': "raw_yoga_measure_callback toy_yoga (\<lambda>_ _ K. (None, K)) 8 (Fin 1) 0 (Fin 1) 0 toy_one = Some s'"
    by (simp add: raw_yoga_measure_callback_def toy_one_def init_yoga_state_def)
  from measure_always_answers [OF s'] s' show ?thesis by blast
qed

end
