(* ===== verification/Ring.thy ===== *)
theory Ring
  imports Prelude "HOL-Library.Sublist"
begin

text \<open>
  Ring buffers: the list an array holds from \<open>h\<close> on, and the contract of a bounded FIFO
  queue with the consequences its users need (what a burst of pushes leaves, and that
  popping returns the pushed elements in order).
\<close>

definition ring_list :: "nat \<Rightarrow> (nat \<Rightarrow> 'a) \<Rightarrow> nat \<Rightarrow> nat \<Rightarrow> 'a list" where
  "ring_list c q h n = map (\<lambda>k. q ((h + k) mod c)) [0..<n]"

lemma ring_list_length [simp]: "length (ring_list c q h n) = n"
  by (simp add: ring_list_def)

lemma ring_list_0 [simp]: "ring_list c q h 0 = []"
  by (simp add: ring_list_def)

lemma ring_slots_differ:
  assumes "k < n" "n < c" shows "((h::nat) + k) mod c \<noteq> (h + n) mod c"
proof
  assume eq: "(h + k) mod c = (h + n) mod c"
  have "k \<le> n" using assms(1) by simp
  then have "c dvd (h + n) - (h + k)" using eq mod_eq_dvd_iff_nat [of "h + k" "h + n" c] by simp
  then have "c dvd n - k" by simp
  then show False using assms by (auto dest: dvd_imp_le)
qed

lemma ring_list_push:
  assumes "n < c"
  shows "ring_list c (q((h + n) mod c := x)) h (Suc n) = ring_list c q h n @ [x]"
proof -
  have "(h + k) mod c \<noteq> (h + n) mod c" if "k < n" for k
    using ring_slots_differ [OF that assms] .
  then show ?thesis by (simp add: ring_list_def)
qed

lemma ring_list_pop:
  assumes "0 < n"
  shows "ring_list c q h n = q (h mod c) # ring_list c q ((h + 1) mod c) (n - 1)"
proof -
  have split: "[0..<n] = 0 # map Suc [0..<n - 1]"
    using assms by (cases n) (simp_all add: map_Suc_upt upt_conv_Cons del: upt_Suc)
  have "(h + Suc k) mod c = ((h + 1) mod c + k) mod c" for k
    by (simp add: mod_add_left_eq)
  then show ?thesis by (simp add: ring_list_def split comp_def)
qed

locale fifo =
  fixes cap :: nat
    and inv :: "'s \<Rightarrow> bool"
    and contents :: "'s \<Rightarrow> 'e list"
    and valid :: "'e \<Rightarrow> bool"
    and accepts :: "'e \<Rightarrow> bool"
    and push :: "'e \<Rightarrow> 's \<Rightarrow> 's"
    and pop :: "'s \<Rightarrow> ('e \<times> 's) option"
  assumes bounded: "inv s \<Longrightarrow> length (contents s) \<le> cap"
    and push_inv: "inv s \<Longrightarrow> valid e \<Longrightarrow> inv (push e s)"
    and push_contents: "inv s \<Longrightarrow> valid e \<Longrightarrow> contents (push e s) =
      (if accepts e \<and> length (contents s) < cap then contents s @ [e] else contents s)"
    and pop_empty: "inv s \<Longrightarrow> pop s = None \<longleftrightarrow> contents s = []"
    and pop_head: "inv s \<Longrightarrow> pop s = Some (e, s') \<Longrightarrow> inv s' \<and> contents s = e # contents s'"
begin

lemma pushes_contents:
  assumes "inv s" "list_all valid es"
  shows "inv (fold push es s) \<and>
    contents (fold push es s) = contents s @ take (cap - length (contents s)) (filter accepts es)"
  using assms
proof (induction es arbitrary: s)
  case (Cons e es)
  have c: "contents (push e s) =
      (if accepts e \<and> length (contents s) < cap then contents s @ [e] else contents s)"
    using push_contents [OF Cons.prems(1), of e] Cons.prems(2) by simp
  have next': "inv (push e s)" "list_all valid es" using push_inv [OF Cons.prems(1)] Cons.prems(2) by simp_all
  show ?case
  proof (cases "accepts e \<and> length (contents s) < cap")
    case True
    then have "cap - length (contents s) = Suc (cap - Suc (length (contents s)))" by linarith
    then show ?thesis using Cons.IH [OF next'] c True by simp
  next
    case False
    then show ?thesis using Cons.IH [OF next'] c by auto
  qed
qed simp

fun drain :: "nat \<Rightarrow> 's \<Rightarrow> 'e list \<times> 's" where
  "drain 0 s = ([], s)"
| "drain (Suc n) s = (case pop s of None \<Rightarrow> ([], s)
     | Some (e, s') \<Rightarrow> let (es, s'') = drain n s' in (e # es, s''))"

lemma drain_contents:
  assumes "inv s"
  shows "fst (drain n s) = take n (contents s) \<and> inv (snd (drain n s))
    \<and> contents (snd (drain n s)) = drop n (contents s)"
  using assms
proof (induction n arbitrary: s)
  case (Suc n)
  show ?case
  proof (cases "pop s")
    case None
    then show ?thesis using pop_empty [OF Suc.prems] Suc.prems by simp
  next
    case (Some p)
    then obtain e s' where p: "pop s = Some (e, s')" by (cases p) simp
    note h = pop_head [OF Suc.prems p]
    show ?thesis using p h Suc.IH [of s'] by (simp add: case_prod_beta)
  qed
qed simp

end

section \<open>Logs that keep the most recent entries\<close>

text \<open>
  A log of bounded size written by several threads and read in batches: when it is full, a
  put drops the oldest entry. Writes and reads are atomic (the code holds a lock), so a run is
  a list of them; its output is what the reads returned.
\<close>

datatype 'e log_op = Write 'e | Read nat

fun log_run ::
  "('a \<Rightarrow> 's \<Rightarrow> 's) \<Rightarrow> (nat \<Rightarrow> 's \<Rightarrow> 'e list \<times> 's) \<Rightarrow> 'a log_op list \<Rightarrow> 's \<Rightarrow> 'e list \<times> 's" where
  "log_run put get [] s = ([], s)"
| "log_run put get (Write e # ops) s = log_run put get ops (put e s)"
| "log_run put get (Read n # ops) s =
     (let (xs, s1) = get n s; (ys, s2) = log_run put get ops s1 in (xs @ ys, s2))"

fun written :: "'e log_op list \<Rightarrow> 'e list" where
  "written [] = []"
| "written (Write e # ops) = e # written ops"
| "written (Read n # ops) = written ops"

definition keep_last :: "nat \<Rightarrow> 'a list \<Rightarrow> 'a list" where
  "keep_last c xs = drop (length xs - c) xs"

lemma keep_last_all: "length xs \<le> c \<Longrightarrow> keep_last c xs = xs"
  by (simp add: keep_last_def)

lemma keep_last_subseq: "subseq (keep_last c xs) xs"
  unfolding keep_last_def by (rule suffix_imp_subseq [OF suffix_drop])

lemma keep_last_append: "keep_last c (keep_last c xs @ ys) = keep_last c (xs @ ys)"
proof -
  let ?i = "length xs - c"
  have "keep_last c xs @ ys = drop ?i (xs @ ys)" by (simp add: keep_last_def)
  then have "keep_last c (keep_last c xs @ ys) = drop (length (drop ?i (xs @ ys)) - c + ?i) (xs @ ys)"
    by (simp only: keep_last_def drop_drop)
  also have "length (drop ?i (xs @ ys)) - c + ?i = length (xs @ ys) - c" by simp
  finally show ?thesis by (simp add: keep_last_def)
qed

locale recent_log =
  fixes cap :: nat
    and inv :: "'s \<Rightarrow> bool"
    and contents :: "'s \<Rightarrow> 'e list"
    and stored :: "'a \<Rightarrow> 'e"
    and put :: "'a \<Rightarrow> 's \<Rightarrow> 's"
    and get :: "nat \<Rightarrow> 's \<Rightarrow> 'e list \<times> 's"
  assumes write_law: "inv s \<Longrightarrow> inv (put e s) \<and>
      contents (put e s) = keep_last cap (contents s @ [stored e])"
    and read_law: "inv s \<Longrightarrow> inv (snd (get n s)) \<and> fst (get n s) = take n (contents s) \<and>
      contents (snd (get n s)) = drop n (contents s)"
    and bounded: "inv s \<Longrightarrow> length (contents s) \<le> cap"
begin

lemma run_law:
  assumes "inv s" "log_run put get ops s = (out, s')"
  shows "inv s' \<and> subseq (out @ contents s') (contents s @ map stored (written ops)) \<and>
    (length (contents s) + length (written ops) \<le> cap \<longrightarrow> out @ contents s' = contents s @ map stored (written ops))"
  using assms
proof (induction ops arbitrary: s out)
  case (Cons op ops)
  show ?case
  proof (cases op)
    case (Write e)
    note w = write_law [OF Cons.prems(1), of e]
    have "subseq (contents (put e s)) (contents s @ [stored e])" using w by (simp add: keep_last_subseq)
    then have "subseq (contents (put e s) @ map stored (written ops)) ((contents s @ [stored e]) @ map stored (written ops))"
      by (rule list_emb_append_mono) simp
    then have "subseq (contents (put e s) @ map stored (written ops)) (contents s @ map stored (written (op # ops)))"
      using Write by simp
    moreover have "length (contents s) + length (written (op # ops)) \<le> cap \<Longrightarrow>
        contents (put e s) = contents s @ [stored e]" using w Write by (simp add: keep_last_all)
    ultimately show ?thesis
      using Cons.IH [of "put e s" out] Cons.prems(2) Write w
      by (auto intro: subseq_order.trans)
  next
    case (Read n)
    note r = read_law [OF Cons.prems(1), of n]
    obtain xs s1 where get: "get n s = (xs, s1)" by fastforce
    with r have xs: "xs = take n (contents s)" "contents s1 = drop n (contents s)" "inv s1" by auto
    obtain ys where ys: "log_run put get ops s1 = (ys, s')" "out = xs @ ys"
      using Cons.prems(2) Read get by (auto split: prod.splits)
    note IH = Cons.IH [OF xs(3) ys(1)]
    have "subseq (xs @ (ys @ contents s')) (xs @ (contents s1 @ map stored (written ops)))"
      using IH by (simp add: subseq_append')
    moreover have "xs @ contents s1 = contents s" using xs by simp
    ultimately have "subseq (out @ contents s') (contents s @ map stored (written (op # ops)))"
      using ys(2) Read by (metis append_assoc written.simps(3))
    with IH ys(2) Read xs show ?thesis by auto
  qed
qed simp

text \<open>The implementation refines the abstract log, whose state is the list of its entries.\<close>

lemma run_refines:
  assumes "inv s" "log_run put get ops s = (out, s')"
  shows "log_run (\<lambda>e xs. keep_last cap (xs @ [stored e])) (\<lambda>n xs. (take n xs, drop n xs)) ops (contents s)
    = (out, contents s')"
  using assms
proof (induction ops arbitrary: s out)
  case (Cons op ops)
  show ?case
  proof (cases op)
    case (Write e)
    then show ?thesis using Cons.IH [of "put e s" out] Cons.prems write_law [OF Cons.prems(1), of e] by simp
  next
    case (Read n)
    obtain xs s1 where get: "get n s = (xs, s1)" by fastforce
    with Read Cons.prems(2) obtain ys where ys: "log_run put get ops s1 = (ys, s')" "out = xs @ ys"
      by (auto split: prod.splits)
    then show ?thesis using Read get read_law [OF Cons.prems(1), of n] Cons.IH [OF _ ys(1)] by simp
  qed
qed simp

lemma writes_keep_last:
  "inv s \<Longrightarrow> inv (fold put es s) \<and> contents (fold put es s) = keep_last cap (contents s @ map stored es)"
proof (induction es arbitrary: s)
  case (Cons e es)
  with write_law [OF Cons.prems, of e] show ?case by (simp add: keep_last_append)
qed (simp add: bounded keep_last_all)

end

end
