(* ===== verification/Event_Queue.thy ===== *)
theory Event_Queue
  imports Ring Values
begin

text \<open>
  The event sink of raw_stubs.c: the native library reports events through a callback that
  copies them into a static ring of 64 slots; OCaml polls them. An event that is too long
  or does not fit sets the overflow flag, which a poll reports once the queue is empty.
\<close>

section \<open>Data\<close>

definition EVENT_QUEUE_CAPACITY :: nat where "EVENT_QUEUE_CAPACITY = 64"
definition EVENT_NAME_CAPACITY :: nat where "EVENT_NAME_CAPACITY = 256"
definition EVENT_DATA_CAPACITY :: nat where "EVENT_DATA_CAPACITY = 4096"

record event_slot =
  name_length :: u32
  data_length :: u32
  e_name :: bytes
  e_data :: bytes

text \<open>The arguments of one callback: a pointer and a length, twice.\<close>

type_synonym event_call = "bytes \<times> u32 \<times> bytes \<times> u32"

text \<open>Native functions that insert text may report events before they return.\<close>

record 'w sink_api =
  createEventSink :: "'w \<Rightarrow> handle \<times> 'w"
  destroyEventSink :: "handle \<Rightarrow> 'w \<Rightarrow> event_call list \<times> 'w"
  createEditBuffer :: "u8 \<Rightarrow> handle \<Rightarrow> 'w \<Rightarrow> handle \<times> event_call list \<times> 'w"
  editBufferInsertText :: "handle \<Rightarrow> bytes \<Rightarrow> 'w \<Rightarrow> event_call list \<times> 'w"
  destroyEditBuffer :: "handle \<Rightarrow> 'w \<Rightarrow> event_call list \<times> 'w"

record 'w event_state =
  event_queue :: "nat \<Rightarrow> event_slot"
  event_queue_head :: u32
  event_queue_count :: u32
  event_queue_overflow :: bool
  event_sink_handle :: handle
  event_world :: 'w

definition zero_event_slot :: event_slot where
  "zero_event_slot = \<lparr>name_length = 0, data_length = 0,
     e_name = replicate EVENT_NAME_CAPACITY 0, e_data = replicate EVENT_DATA_CAPACITY 0\<rparr>"

definition init_event_state :: "'w \<Rightarrow> 'w event_state" where
  "init_event_state w = \<lparr>event_queue = (\<lambda>_. zero_event_slot), event_queue_head = 0,
     event_queue_count = 0, event_queue_overflow = False, event_sink_handle = 0, event_world = w\<rparr>"

section \<open>The queue\<close>

definition reset_event_queue :: "'w event_state \<Rightarrow> 'w event_state" where
  "reset_event_queue s =
     s\<lparr>event_queue_head := 0, event_queue_count := 0, event_queue_overflow := False\<rparr>"

text \<open>None: the copy leaves the source or the destination (of \<open>capacity\<close> bytes).\<close>

definition copy_event_bytes :: "bytes \<Rightarrow> nat \<Rightarrow> bytes \<Rightarrow> u32 \<Rightarrow> bytes option" where
  "copy_event_bytes destination capacity source len =
     (let n = unat len in
      if n > length source \<or> n > length destination then None
      else
        let copied = take n source @ drop n destination in
        if n < capacity then
          (if n < length copied then Some (copied[n := 0]) else None)
        else Some copied)"

definition raw_event_callback :: "event_call \<Rightarrow> 'w event_state \<Rightarrow> 'w event_state option" where
  "raw_event_callback = (\<lambda>(name_ptr, name_len, data_ptr, data_len) s.
     (if event_sink_handle s = 0 then Some s
      else if unat name_len > EVENT_NAME_CAPACITY \<or> unat data_len > EVENT_DATA_CAPACITY
           \<or> unat (event_queue_count s) = EVENT_QUEUE_CAPACITY
      then Some (s\<lparr>event_queue_overflow := True\<rparr>)
      else
        let tail = unat (event_queue_head s + event_queue_count s) mod EVENT_QUEUE_CAPACITY;
            slot = event_queue s tail in do {
          name \<leftarrow> copy_event_bytes (e_name slot) EVENT_NAME_CAPACITY name_ptr name_len;
          data \<leftarrow> copy_event_bytes (e_data slot) EVENT_DATA_CAPACITY data_ptr data_len;
          Some (s\<lparr>event_queue := (event_queue s)(tail := \<lparr>name_length = name_len,
                    data_length = data_len, e_name = name, e_data = data\<rparr>),
                  event_queue_count := event_queue_count s + 1\<rparr>)
        }))"

text \<open>The callbacks made during one native call, in order.\<close>

fun run_callbacks :: "event_call list \<Rightarrow> 'w event_state \<Rightarrow> 'w event_state option" where
  "run_callbacks [] s = Some s"
| "run_callbacks (c # cs) s = Option.bind (raw_event_callback c s) (run_callbacks cs)"

section \<open>The stubs\<close>

definition opentui_raw_event_sink_create ::
  "'w sink_api \<Rightarrow> bool \<Rightarrow> 'w event_state \<Rightarrow> (raw_status \<times> handle) outcome \<times> 'w event_state" where
  "opentui_raw_event_sink_create N oom s =
     (if event_sink_handle s \<noteq> 0 then (allocating oom (Invalid_argument, 0), s)
      else
        let s1 = reset_event_queue s;
            (handle, w) = createEventSink N (event_world s1);
            s2 = s1\<lparr>event_world := w\<rparr> in
        if handle = 0 then (allocating oom (Native_failure, 0), s2)
        else (allocating oom (Ok, handle), s2\<lparr>event_sink_handle := handle\<rparr>))"

definition opentui_raw_event_sink_destroy ::
  "'w sink_api \<Rightarrow> handle \<Rightarrow> 'w event_state \<Rightarrow> 'w event_state option" where
  "opentui_raw_event_sink_destroy N handle s =
     (if handle \<noteq> 0 \<and> handle = event_sink_handle s then
        let (events, w) = destroyEventSink N handle (event_world s) in do {
          s1 \<leftarrow> run_callbacks events (s\<lparr>event_world := w\<rparr>);
          Some (reset_event_queue (s1\<lparr>event_sink_handle := 0\<rparr>))
        }
      else Some s)"

text \<open>The polled event is removed only after its OCaml copy was allocated.\<close>

definition opentui_raw_event_sink_poll ::
  "bool \<Rightarrow> handle \<Rightarrow> 'w event_state
     \<Rightarrow> ((raw_status \<times> (bytes \<times> bytes) option) outcome \<times> 'w event_state) option" where
  "opentui_raw_event_sink_poll oom handle s =
     (if handle = 0 \<or> handle \<noteq> event_sink_handle s then Some (allocating oom (Stale_handle, None), s)
      else if event_queue_count s = 0 \<and> event_queue_overflow s then
        Some (allocating oom (Queue_overflow, None), s\<lparr>event_queue_overflow := False\<rparr>)
      else if event_queue_count s = 0 then Some (allocating oom (Ok, None), s)
      else
        let slot = event_queue s (unat (event_queue_head s)) in
        if unat (event_queue_head s) \<ge> EVENT_QUEUE_CAPACITY
           \<or> unat (name_length slot) > length (e_name slot)
           \<or> unat (data_length slot) > length (e_data slot) then None
        else if oom then Some (Out_of_memory, s)
        else Some (Returns (Ok, Some (take (unat (name_length slot)) (e_name slot),
                                      take (unat (data_length slot)) (e_data slot))),
                   s\<lparr>event_queue_head :=
                       of_nat (unat (event_queue_head s + 1) mod EVENT_QUEUE_CAPACITY),
                     event_queue_count := event_queue_count s - 1\<rparr>))"

definition opentui_raw_test_event_sink_emit ::
  "'w sink_api \<Rightarrow> 'w event_state \<Rightarrow> (bool \<times> 'w event_state) option" where
  "opentui_raw_test_event_sink_emit N s =
     (if event_sink_handle s = 0 then Some (False, s)
      else
        let (edit_buffer, events, w) = createEditBuffer N 1 (event_sink_handle s) (event_world s) in do {
          s1 \<leftarrow> run_callbacks events (s\<lparr>event_world := w\<rparr>);
          if edit_buffer = 0 then Some (False, s1)
          else
            let (events, w) = editBufferInsertText N edit_buffer [88] (event_world s1) in do {
              s2 \<leftarrow> run_callbacks events (s1\<lparr>event_world := w\<rparr>);
              let (events, w) = destroyEditBuffer N edit_buffer (event_world s2) in do {
                s3 \<leftarrow> run_callbacks events (s2\<lparr>event_world := w\<rparr>);
                Some (True, s3)
              }
            }
        })"

section \<open>The queue as a list of events\<close>

definition event_of :: "event_slot \<Rightarrow> bytes \<times> bytes" where
  "event_of slot = (take (unat (name_length slot)) (e_name slot), take (unat (data_length slot)) (e_data slot))"

definition slot_ok :: "event_slot \<Rightarrow> bool" where
  "slot_ok slot \<longleftrightarrow> length (e_name slot) = EVENT_NAME_CAPACITY \<and> length (e_data slot) = EVENT_DATA_CAPACITY
     \<and> unat (name_length slot) \<le> EVENT_NAME_CAPACITY \<and> unat (data_length slot) \<le> EVENT_DATA_CAPACITY"

definition event_inv :: "'w event_state \<Rightarrow> bool" where
  "event_inv s \<longleftrightarrow> unat (event_queue_head s) < EVENT_QUEUE_CAPACITY
     \<and> unat (event_queue_count s) \<le> EVENT_QUEUE_CAPACITY \<and> (\<forall>i. slot_ok (event_queue s i))"

definition queued :: "'w event_state \<Rightarrow> (bytes \<times> bytes) list" where
  "queued s = ring_list EVENT_QUEUE_CAPACITY (event_of \<circ> event_queue s)
     (unat (event_queue_head s)) (unat (event_queue_count s))"

definition event_fits :: "bytes \<times> bytes \<Rightarrow> bool" where
  "event_fits e \<longleftrightarrow> length (fst e) \<le> EVENT_NAME_CAPACITY \<and> length (snd e) \<le> EVENT_DATA_CAPACITY"

text \<open>The call that reports an event whole.\<close>

definition report :: "bytes \<times> bytes \<Rightarrow> event_call" where
  "report e = (fst e, of_nat (length (fst e)), snd e, of_nat (length (snd e)))"

lemma copy_event_bytes_spec:
  assumes "length destination = capacity" "unat len \<le> capacity" "unat len \<le> length source"
  shows "\<exists>out. copy_event_bytes destination capacity source len = Some out
    \<and> length out = capacity \<and> take (unat len) out = take (unat len) source"
  using assms by (auto simp: copy_event_bytes_def Let_def min_def)

lemma event_inv_init: "event_inv (init_event_state w)"
  by (simp add: event_inv_def init_event_state_def slot_ok_def zero_event_slot_def EVENT_QUEUE_CAPACITY_def)

lemma tail_index:
  assumes "event_inv s" "unat (event_queue_count s) < EVENT_QUEUE_CAPACITY"
  shows "unat (event_queue_head s + event_queue_count s) = unat (event_queue_head s) + unat (event_queue_count s)"
    "unat (event_queue_count s + 1) = Suc (unat (event_queue_count s))"
proof -
  have b: "unat (event_queue_head s) < 64" "unat (event_queue_count s) < 64"
    using assms by (simp_all add: event_inv_def EVENT_QUEUE_CAPACITY_def)
  then show "unat (event_queue_head s + event_queue_count s) = unat (event_queue_head s) + unat (event_queue_count s)"
    by (subst unat_add_lem [THEN iffD1]) simp_all
  show "unat (event_queue_count s + 1) = Suc (unat (event_queue_count s))"
    using b by (subst unat_add_lem [THEN iffD1]) simp_all
qed

lemma callback_spec:
  assumes inv: "event_inv s" and sink: "event_sink_handle s \<noteq> 0"
    and src: "unat nl \<le> length name" "unat dl \<le> length data"
  shows "\<exists>s'. raw_event_callback (name, nl, data, dl) s = Some s' \<and> event_inv s'
    \<and> event_sink_handle s' = event_sink_handle s \<and> event_world s' = event_world s
    \<and> (if unat nl \<le> EVENT_NAME_CAPACITY \<and> unat dl \<le> EVENT_DATA_CAPACITY
          \<and> length (queued s) < EVENT_QUEUE_CAPACITY
       then queued s' = queued s @ [(take (unat nl) name, take (unat dl) data)]
         \<and> event_queue_overflow s' = event_queue_overflow s
       else queued s' = queued s \<and> event_queue_overflow s')"
proof (cases "unat nl \<le> EVENT_NAME_CAPACITY \<and> unat dl \<le> EVENT_DATA_CAPACITY
    \<and> length (queued s) < EVENT_QUEUE_CAPACITY")
  case False
  then have full: "unat nl > EVENT_NAME_CAPACITY \<or> unat dl > EVENT_DATA_CAPACITY
      \<or> unat (event_queue_count s) = EVENT_QUEUE_CAPACITY"
    using inv by (auto simp: queued_def event_inv_def)
  have "raw_event_callback (name, nl, data, dl) s = Some (s\<lparr>event_queue_overflow := True\<rparr>)"
    unfolding raw_event_callback_def case_prod_conv if_not_P [OF sink] if_P [OF full] ..
  moreover have "event_inv (s\<lparr>event_queue_overflow := True\<rparr>)" using inv by (simp add: event_inv_def)
  moreover have "queued (s\<lparr>event_queue_overflow := True\<rparr>) = queued s" by (simp add: queued_def)
  ultimately show ?thesis using False by auto
next
  case True
  let ?h = "unat (event_queue_head s)" and ?c = "unat (event_queue_count s)"
  have room: "?c < EVENT_QUEUE_CAPACITY" using True by (simp add: queued_def)
  define tail where "tail = (?h + ?c) mod EVENT_QUEUE_CAPACITY"
  note index = tail_index [OF inv room]
  have ok: "slot_ok (event_queue s i)" for i using inv by (simp add: event_inv_def)
  obtain n where n: "copy_event_bytes (e_name (event_queue s tail)) EVENT_NAME_CAPACITY name nl = Some n"
    "length n = EVENT_NAME_CAPACITY" "take (unat nl) n = take (unat nl) name"
    using copy_event_bytes_spec [of "e_name (event_queue s tail)" EVENT_NAME_CAPACITY nl name]
      ok [of tail] True src(1) by (auto simp: slot_ok_def)
  obtain d where d: "copy_event_bytes (e_data (event_queue s tail)) EVENT_DATA_CAPACITY data dl = Some d"
    "length d = EVENT_DATA_CAPACITY" "take (unat dl) d = take (unat dl) data"
    using copy_event_bytes_spec [of "e_data (event_queue s tail)" EVENT_DATA_CAPACITY dl data]
      ok [of tail] True src(2) by (auto simp: slot_ok_def)
  define slot where "slot = \<lparr>name_length = nl, data_length = dl, e_name = n, e_data = d\<rparr>"
  define s' where "s' = s\<lparr>event_queue := (event_queue s)(tail := slot), event_queue_count := event_queue_count s + 1\<rparr>"
  have run: "raw_event_callback (name, nl, data, dl) s = Some s'"
    using sink True room n(1) d(1)
    by (simp add: raw_event_callback_def index(1) tail_def [symmetric] s'_def slot_def Let_def)
  have "event_inv s'"
    using inv room index(2) ok n(2) d(2) True
    by (auto simp: event_inv_def s'_def slot_ok_def slot_def)
  moreover have "queued s' = queued s @ [event_of slot]"
  proof -
    have "event_of \<circ> (event_queue s)(tail := slot) = (event_of \<circ> event_queue s)(tail := event_of slot)"
      by (auto simp: fun_eq_iff)
    then show ?thesis
      using ring_list_push [OF room, of "event_of \<circ> event_queue s" ?h "event_of slot"]
      by (simp add: queued_def s'_def index(2) tail_def)
  qed
  moreover have "event_of slot = (take (unat nl) name, take (unat dl) data)"
    using n(3) d(3) by (simp add: event_of_def slot_def)
  ultimately show ?thesis using True run by (auto simp: s'_def)
qed

lemma poll_spec:
  assumes inv: "event_inv s" and h: "handle \<noteq> 0" "handle = event_sink_handle s"
  shows "\<exists>s'. opentui_raw_event_sink_poll oom handle s = Some
      (case queued s of
         [] \<Rightarrow> (allocating oom (if event_queue_overflow s then Queue_overflow else Ok, None),
                s\<lparr>event_queue_overflow := False\<rparr>)
       | e # es \<Rightarrow> if oom then (Out_of_memory, s) else (Returns (Ok, Some e), s'))
    \<and> event_inv s' \<and> queued s' = tl (queued s) \<and> event_queue_overflow s' = event_queue_overflow s
    \<and> event_sink_handle s' = event_sink_handle s \<and> event_world s' = event_world s"
proof (cases "event_queue_count s = 0")
  case True
  then have "queued s = []" by (simp add: queued_def)
  moreover have "s\<lparr>event_queue_overflow := False\<rparr> = s" if "\<not> event_queue_overflow s" using that by simp
  ultimately show ?thesis using inv h True
    by (intro exI [of _ s]) (auto simp: opentui_raw_event_sink_poll_def)
next
  case False
  let ?h = "unat (event_queue_head s)" and ?c = "unat (event_queue_count s)"
  have c: "0 < ?c" using False by (simp add: unat_gt_0)
  have hb: "?h < EVENT_QUEUE_CAPACITY" and ok: "slot_ok (event_queue s ?h)" using inv by (simp_all add: event_inv_def)
  define s' where "s' = s\<lparr>event_queue_head := of_nat (unat (event_queue_head s + 1) mod EVENT_QUEUE_CAPACITY),
      event_queue_count := event_queue_count s - 1\<rparr>"
  have h1: "unat (event_queue_head s + 1) = ?h + 1"
    using hb by (subst unat_add_lem [THEN iffD1]) (simp_all add: EVENT_QUEUE_CAPACITY_def)
  have head: "unat (event_queue_head s') = (?h + 1) mod EVENT_QUEUE_CAPACITY"
    unfolding s'_def using h1 by (simp add: EVENT_QUEUE_CAPACITY_def unat_of_nat_32 take_bit_nat_eq_self)
  have count: "unat (event_queue_count s') = ?c - 1"
    using False by (simp add: s'_def unat_minus_one)
  have q: "queued s = event_of (event_queue s ?h) # queued s'"
    using ring_list_pop [OF c, of EVENT_QUEUE_CAPACITY "event_of \<circ> event_queue s" ?h] hb head count
    by (simp add: queued_def) (simp add: s'_def)
  have bounds: "\<not> ?h \<ge> EVENT_QUEUE_CAPACITY"
    "\<not> unat (name_length (event_queue s ?h)) > length (e_name (event_queue s ?h))"
    "\<not> unat (data_length (event_queue s ?h)) > length (e_data (event_queue s ?h))"
    using hb ok by (simp_all add: slot_ok_def)
  have run: "opentui_raw_event_sink_poll oom handle s =
      Some (if oom then (Out_of_memory, s) else (Returns (Ok, Some (event_of (event_queue s ?h))), s'))"
    using h False bounds by (simp add: opentui_raw_event_sink_poll_def event_of_def s'_def Let_def)
  have "event_inv s'"
    using inv head count unfolding event_inv_def by (auto simp: EVENT_QUEUE_CAPACITY_def) (simp add: s'_def)
  then show ?thesis using run q by (intro exI [of _ s']) (auto simp: s'_def)
qed

section \<open>The queue satisfies the contract\<close>

definition push_event :: "bytes \<times> bytes \<Rightarrow> 'w event_state \<Rightarrow> 'w event_state" where
  "push_event e s = the (raw_event_callback (report e) s)"

definition pop_event :: "'w event_state \<Rightarrow> ((bytes \<times> bytes) \<times> 'w event_state) option" where
  "pop_event s = (case opentui_raw_event_sink_poll False (event_sink_handle s) s of
      Some (Returns (Ok, Some e), s') \<Rightarrow> Some (e, s')
    | _ \<Rightarrow> None)"

definition sink_open :: "'w event_state \<Rightarrow> bool" where
  "sink_open s \<longleftrightarrow> event_inv s \<and> event_sink_handle s \<noteq> 0"

definition passable :: "bytes \<times> bytes \<Rightarrow> bool" where
  "passable e \<longleftrightarrow> length (fst e) \<le> UINT32_MAX \<and> length (snd e) \<le> UINT32_MAX"

lemma push_event_spec:
  assumes "sink_open s" "passable e"
  shows "raw_event_callback (report e) s = Some (push_event e s) \<and> sink_open (push_event e s)
    \<and> queued (push_event e s) =
      (if event_fits e \<and> length (queued s) < EVENT_QUEUE_CAPACITY then queued s @ [e] else queued s)"
proof -
  have n: "unat (of_nat (length (fst e)) :: u32) = length (fst e)"
    "unat (of_nat (length (snd e)) :: u32) = length (snd e)"
    using assms(2) by (auto simp: passable_def intro!: unat_of_nat_32)
  from callback_spec [of s "of_nat (length (fst e))" "fst e" "of_nat (length (snd e))" "snd e"] assms(1)
  obtain s' where s': "raw_event_callback (report e) s = Some s'" "event_inv s'"
      "event_sink_handle s' = event_sink_handle s"
      "queued s' = (if event_fits e \<and> length (queued s) < EVENT_QUEUE_CAPACITY then queued s @ [e] else queued s)"
    by (auto simp: n report_def sink_open_def event_fits_def split: if_splits)
  then show ?thesis using assms(1) by (simp add: push_event_def sink_open_def)
qed

lemma pop_event_spec:
  assumes "sink_open s"
  shows "case queued s of [] \<Rightarrow> pop_event s = None
    | e # es \<Rightarrow> \<exists>s'. pop_event s = Some (e, s') \<and> sink_open s' \<and> queued s' = es"
  using poll_spec [of s "event_sink_handle s" False] assms
  by (auto simp: pop_event_def sink_open_def split: list.split)

interpretation evq: fifo EVENT_QUEUE_CAPACITY sink_open queued passable event_fits push_event pop_event
proof
  fix s :: "'w event_state" and e :: "bytes \<times> bytes" and s' :: "'w event_state"
  show "sink_open s \<Longrightarrow> length (queued s) \<le> EVENT_QUEUE_CAPACITY"
    by (simp add: sink_open_def event_inv_def queued_def)
  show "sink_open s \<Longrightarrow> passable e \<Longrightarrow> sink_open (push_event e s)" using push_event_spec by blast
  show "sink_open s \<Longrightarrow> passable e \<Longrightarrow> queued (push_event e s) =
      (if event_fits e \<and> length (queued s) < EVENT_QUEUE_CAPACITY then queued s @ [e] else queued s)"
    using push_event_spec by blast
  show "sink_open s \<Longrightarrow> (pop_event s = None) = (queued s = [])"
    using pop_event_spec [of s] by (auto split: list.splits)
  show "sink_open s \<Longrightarrow> pop_event s = Some (e, s') \<Longrightarrow> sink_open s' \<and> queued s = e # queued s'"
    using pop_event_spec [of s] by (auto split: list.splits)
qed

end
