(* ===== verification/Event_Props.thy ===== *)
theory Event_Props
  imports Event_Queue
begin

text \<open>What the event sink promises: order, bounds, one report per overflow and no leak of
  events from one sink to the next.\<close>

text \<open>The native library passes pointers to at least the announced number of bytes.\<close>

definition call_ok :: "event_call \<Rightarrow> bool" where
  "call_ok = (\<lambda>(name, nl, data, dl). unat nl \<le> length name \<and> unat dl \<le> length data)"

inductive event_step :: "'w sink_api \<Rightarrow> 'w event_state \<Rightarrow> 'w event_state \<Rightarrow> bool" for N where
  "opentui_raw_event_sink_create N oom s = (r, s') \<Longrightarrow> event_step N s s'"
| "opentui_raw_event_sink_destroy N h s = Some s' \<Longrightarrow> event_step N s s'"
| "opentui_raw_event_sink_poll oom h s = Some (r, s') \<Longrightarrow> event_step N s s'"
| "opentui_raw_test_event_sink_emit N s = Some (b, s') \<Longrightarrow> event_step N s s'"
| "call_ok c \<Longrightarrow> raw_event_callback c s = Some s' \<Longrightarrow> event_step N s s'"

inductive event_reachable :: "'w sink_api \<Rightarrow> 'w \<Rightarrow> 'w event_state \<Rightarrow> bool" for N w0 where
  start: "event_reachable N w0 (init_event_state w0)"
| step: "event_reachable N w0 s \<Longrightarrow> event_step N s s' \<Longrightarrow> event_reachable N w0 s'"

definition sink_contract :: "'w sink_api \<Rightarrow> bool" where
  "sink_contract N \<longleftrightarrow>
     (\<forall>h w. list_all call_ok (fst (destroyEventSink N h w))) \<and>
     (\<forall>k h w. list_all call_ok (fst (snd (createEditBuffer N k h w)))) \<and>
     (\<forall>h t w. list_all call_ok (fst (editBufferInsertText N h t w))) \<and>
     (\<forall>h w. list_all call_ok (fst (destroyEditBuffer N h w)))"

definition event_good :: "'w event_state \<Rightarrow> bool" where
  "event_good s \<longleftrightarrow> event_inv s \<and> (event_sink_handle s = 0 \<longrightarrow> queued s = [] \<and> \<not> event_queue_overflow s)"

lemma event_inv_world [simp]:
  "event_inv (s\<lparr>event_world := w\<rparr>) = event_inv s" "event_inv (s\<lparr>event_sink_handle := h\<rparr>) = event_inv s"
  "queued (s\<lparr>event_world := w\<rparr>) = queued s" "queued (s\<lparr>event_sink_handle := h\<rparr>) = queued s"
  by (simp_all add: event_inv_def queued_def)

lemma event_good_world [simp]: "event_good (s\<lparr>event_world := w\<rparr>) = event_good s"
  by (simp add: event_good_def)

lemma reset_good: "event_inv s \<Longrightarrow> event_inv (reset_event_queue s) \<and> queued (reset_event_queue s) = []
    \<and> \<not> event_queue_overflow (reset_event_queue s)"
  by (simp add: event_inv_def queued_def reset_event_queue_def EVENT_QUEUE_CAPACITY_def)

lemma reset_sink [simp]: "event_sink_handle (reset_event_queue s) = event_sink_handle s"
  by (simp add: reset_event_queue_def)

lemma callback_good:
  assumes "event_good s" "call_ok c"
  shows "\<exists>s'. raw_event_callback c s = Some s' \<and> event_good s' \<and> event_sink_handle s' = event_sink_handle s"
proof (cases "event_sink_handle s = 0")
  case True
  then show ?thesis using assms(1) by (cases c) (simp add: raw_event_callback_def)
next
  case False
  obtain name nl data dl where c: "c = (name, nl, data, dl)" by (metis prod_cases4)
  from callback_spec [of s nl name dl data] assms False show ?thesis
    by (auto simp: c call_ok_def event_good_def split: if_splits)
qed

lemma run_callbacks_good:
  assumes "event_good s" "list_all call_ok cs"
  shows "\<exists>s'. run_callbacks cs s = Some s' \<and> event_good s' \<and> event_sink_handle s' = event_sink_handle s"
  using assms
proof (induction cs arbitrary: s)
  case (Cons c cs)
  from Cons.prems(2) have c: "call_ok c" "list_all call_ok cs" by simp_all
  from callback_good [OF Cons.prems(1) c(1)] obtain s1 where
    s1: "raw_event_callback c s = Some s1" "event_good s1" "event_sink_handle s1 = event_sink_handle s" by blast
  from Cons.IH [OF s1(2) c(2)] s1 show ?case by auto
qed simp

lemma destroy_good:
  assumes "sink_contract N" "event_good s"
  shows "\<exists>s'. opentui_raw_event_sink_destroy N h s = Some s' \<and> event_good s'
    \<and> (h \<noteq> 0 \<and> h = event_sink_handle s \<longrightarrow> event_sink_handle s' = 0)"
proof -
  obtain events w where d: "destroyEventSink N h (event_world s) = (events, w)" by force
  have "list_all call_ok events" using assms(1) d unfolding sink_contract_def by (metis fst_conv)
  then obtain s1 where "run_callbacks events (s\<lparr>event_world := w\<rparr>) = Some s1" "event_good s1"
    using run_callbacks_good [of "s\<lparr>event_world := w\<rparr>"] assms(2) by auto
  moreover from this have "event_inv (s1\<lparr>event_sink_handle := 0\<rparr>)" by (simp add: event_good_def)
  ultimately show ?thesis using d assms(2) reset_good [of "s1\<lparr>event_sink_handle := 0\<rparr>"]
    by (auto simp: opentui_raw_event_sink_destroy_def event_good_def)
qed

lemma sink_create_good:
  assumes "event_good s"
  shows "event_good (snd (opentui_raw_event_sink_create N oom s))"
  using assms reset_good [of s]
  by (auto simp: opentui_raw_event_sink_create_def event_good_def Let_def split: prod.split)

lemma poll_good:
  assumes "event_good s"
  shows "\<exists>r s'. opentui_raw_event_sink_poll oom h s = Some (r, s') \<and> event_good s'"
proof (cases "h \<noteq> 0 \<and> h = event_sink_handle s")
  case True
  have flag: "event_good (s\<lparr>event_queue_overflow := False\<rparr>)"
    using assms by (auto simp: event_good_def event_inv_def queued_def)
  from poll_spec [of s h oom] assms True flag show ?thesis
    by (cases "queued s") (auto simp: event_good_def)
next
  case False
  then show ?thesis using assms by (auto simp: opentui_raw_event_sink_poll_def)
qed

lemma emit_good:
  assumes N: "sink_contract N" and s: "event_good s"
  shows "\<exists>b s'. opentui_raw_test_event_sink_emit N s = Some (b, s') \<and> event_good s'"
proof (cases "event_sink_handle s = 0")
  case True
  then show ?thesis using s by (intro exI [of _ False] exI [of _ s]) (simp add: opentui_raw_test_event_sink_emit_def)
next
  case sink: False
  obtain eb e1 w1 where c: "createEditBuffer N 1 (event_sink_handle s) (event_world s) = (eb, e1, w1)"
    by (metis prod_cases3)
  have "list_all call_ok e1" using N c unfolding sink_contract_def by (metis fst_conv snd_conv)
  then obtain s1 where s1: "run_callbacks e1 (s\<lparr>event_world := w1\<rparr>) = Some s1" "event_good s1"
    using run_callbacks_good [of "s\<lparr>event_world := w1\<rparr>"] s by auto
  show ?thesis
  proof (cases "eb = 0")
    case True
    then show ?thesis using sink c s1
      by (intro exI [of _ False] exI [of _ s1]) (simp add: opentui_raw_test_event_sink_emit_def)
  next
    case eb: False
    obtain e2 w2 where i: "editBufferInsertText N eb [88] (event_world s1) = (e2, w2)" by force
    have "list_all call_ok e2" using N i unfolding sink_contract_def by (metis fst_conv)
    then obtain s2 where s2: "run_callbacks e2 (s1\<lparr>event_world := w2\<rparr>) = Some s2" "event_good s2"
      using run_callbacks_good [of "s1\<lparr>event_world := w2\<rparr>"] s1 by auto
    obtain e3 w3 where d: "destroyEditBuffer N eb (event_world s2) = (e3, w3)" by force
    have "list_all call_ok e3" using N d unfolding sink_contract_def by (metis fst_conv)
    then obtain s3 where s3: "run_callbacks e3 (s2\<lparr>event_world := w3\<rparr>) = Some s3" "event_good s3"
      using run_callbacks_good [of "s2\<lparr>event_world := w3\<rparr>"] s2 by auto
    show ?thesis using sink eb c s1 i s2 d s3
      by (intro exI [of _ True] exI [of _ s3]) (simp add: opentui_raw_test_event_sink_emit_def)
  qed
qed

lemma event_reachable_good:
  assumes N: "sink_contract N" and "event_reachable N w0 s"
  shows "event_good s"
  using assms(2)
proof (induction rule: event_reachable.induct)
  case start
  then show ?case by (simp add: event_good_def event_inv_init) (simp add: queued_def init_event_state_def)
next
  case (step s s')
  from step.hyps(2) show ?case
    by (cases rule: event_step.cases)
      (use sink_create_good [OF step.IH] destroy_good [OF N step.IH] poll_good [OF step.IH]
        emit_good [OF N step.IH] callback_good [OF step.IH] in \<open>metis option.inject prod.inject snd_conv\<close>)+
qed

text \<open>Polling \<open>n\<close> times.\<close>

fun poll_events :: "nat \<Rightarrow> 'w event_state \<Rightarrow> (bytes \<times> bytes) list" where
  "poll_events 0 s = []"
| "poll_events (Suc n) s = (case pop_event s of None \<Rightarrow> [] | Some (e, s') \<Rightarrow> e # poll_events n s')"

lemma poll_events_drain: "poll_events n s = fst (evq.drain n s)"
  by (induction n arbitrary: s) (auto split: option.split prod.split)

section \<open>Properties\<close>

text \<open>(C13) Events come out in the order they were reported: after a burst of events, polling
  yields what was queued before and then, in order, the reported events that are not too
  long, as far as the 64 slots reach.\<close>

theorem events_in_order:
  assumes "sink_contract N" "event_reachable N w0 s" "event_sink_handle s \<noteq> 0" "list_all passable es"
  shows "poll_events n (fold push_event es s) =
    take n (queued s @ take (EVENT_QUEUE_CAPACITY - length (queued s)) (filter event_fits es))"
proof -
  have "sink_open s" using event_reachable_good [OF assms(1,2)] assms(3) by (simp add: sink_open_def event_good_def)
  from evq.pushes_contents [OF this assms(4)] show ?thesis
    by (simp add: poll_events_drain evq.drain_contents)
qed

text \<open>(C30) In every reachable state a reported event is copied inside the slot's arrays: it is
  appended whole when it fits and a slot is free, and otherwise it is dropped and the
  overflow flag is set.\<close>

theorem callback_stores_or_flags:
  assumes "sink_contract N" "event_reachable N w0 s" "event_sink_handle s \<noteq> 0"
    and "unat nl \<le> length name" "unat dl \<le> length data"
  shows "\<exists>s'. raw_event_callback (name, nl, data, dl) s = Some s'
    \<and> (if unat nl \<le> 256 \<and> unat dl \<le> 4096 \<and> length (queued s) < 64
       then queued s' = queued s @ [(take (unat nl) name, take (unat dl) data)]
         \<and> event_queue_overflow s' = event_queue_overflow s
       else queued s' = queued s \<and> event_queue_overflow s')"
proof -
  have "event_inv s" using event_reachable_good [OF assms(1,2)] by (simp add: event_good_def)
  from callback_spec [OF this assms(3-5)] show ?thesis
    unfolding EVENT_QUEUE_CAPACITY_def EVENT_NAME_CAPACITY_def EVENT_DATA_CAPACITY_def by blast
qed

text \<open>(C29) A poll of the open sink returns the oldest event and removes it, leaves it queued
  when its OCaml copy cannot be allocated, and on an empty queue reports a past overflow
  once and then no event.\<close>

theorem poll_exact:
  assumes "sink_contract N" "event_reachable N w0 s" "event_sink_handle s \<noteq> 0"
  shows "\<exists>s'. opentui_raw_event_sink_poll oom (event_sink_handle s) s = Some
      (case queued s of
         [] \<Rightarrow> (allocating oom (if event_queue_overflow s then Queue_overflow else Ok, None),
                s\<lparr>event_queue_overflow := False\<rparr>)
       | e # es \<Rightarrow> if oom then (Out_of_memory, s) else (Returns (Ok, Some e), s'))
    \<and> queued s' = tl (queued s) \<and> event_queue_overflow s' = event_queue_overflow s"
proof -
  have "event_inv s" using event_reachable_good [OF assms(1,2)] by (simp add: event_good_def)
  from poll_spec [OF this assms(3) refl, of oom] show ?thesis by blast
qed

text \<open>(C31) No event survives its sink: while no sink is open the queue is empty and the flag
  clear, destroying the open sink empties both whatever the library reports meanwhile, and a
  new sink starts empty.\<close>

theorem sinks_isolated:
  assumes "sink_contract N" "event_reachable N w0 s"
  shows "(event_sink_handle s = 0 \<longrightarrow> queued s = [] \<and> \<not> event_queue_overflow s)
    \<and> (event_sink_handle s \<noteq> 0 \<longrightarrow>
        (\<exists>s'. opentui_raw_event_sink_destroy N (event_sink_handle s) s = Some s'
          \<and> event_sink_handle s' = 0 \<and> queued s' = [] \<and> \<not> event_queue_overflow s'))
    \<and> (\<forall>h s'. opentui_raw_event_sink_create N oom s = (Returns (Ok, h), s') \<longrightarrow>
        event_sink_handle s = 0 \<and> h \<noteq> 0 \<and> event_sink_handle s' = h \<and> queued s' = [] \<and> \<not> event_queue_overflow s')"
proof -
  have good: "event_good s" by (rule event_reachable_good [OF assms])
  have "\<exists>s'. opentui_raw_event_sink_destroy N (event_sink_handle s) s = Some s'
      \<and> event_sink_handle s' = 0 \<and> queued s' = [] \<and> \<not> event_queue_overflow s'" if "event_sink_handle s \<noteq> 0"
    using destroy_good [OF assms(1) good, of "event_sink_handle s"] that by (auto simp: event_good_def)
  moreover have "event_sink_handle s = 0 \<and> h \<noteq> 0 \<and> event_sink_handle s' = h \<and> queued s' = [] \<and> \<not> event_queue_overflow s'"
    if "opentui_raw_event_sink_create N oom s = (Returns (Ok, h), s')" for h s'
    using that reset_good [of s] good
    by (auto simp: opentui_raw_event_sink_create_def event_good_def allocating_def Let_def
        split: prod.splits if_splits)
  ultimately show ?thesis using good by (auto simp: event_good_def)
qed

section \<open>Witnesses\<close>

text \<open>A library that hands out sink 5 and reports nothing by itself.\<close>

definition toy_sink :: "unit sink_api" where
  "toy_sink = \<lparr>createEventSink = (\<lambda>w. (5, w)), destroyEventSink = (\<lambda>_ w. ([], w)),
     createEditBuffer = (\<lambda>_ _ w. (7, [], w)), editBufferInsertText = (\<lambda>_ _ w. ([], w)),
     destroyEditBuffer = (\<lambda>_ w. ([], w))\<rparr>"

lemma toy_sink_contract: "sink_contract toy_sink"
  by (simp add: sink_contract_def toy_sink_def)

definition toy_open :: "unit event_state" where
  "toy_open = (init_event_state ())\<lparr>event_sink_handle := 5\<rparr>"

lemma toy_open_reachable: "event_reachable toy_sink () toy_open"
proof (rule event_reachable.step [OF event_reachable.start event_step.intros(1)])
  show "opentui_raw_event_sink_create toy_sink False (init_event_state ()) = (Returns (Ok, 5), toy_open)"
    by (simp add: opentui_raw_event_sink_create_def toy_sink_def init_event_state_def
        reset_event_queue_def toy_open_def)
qed

lemma toy_open_sel: "event_sink_handle toy_open = 5" "queued toy_open = []" "\<not> event_queue_overflow toy_open"
  by (simp_all add: toy_open_def queued_def init_event_state_def)

theorem events_in_order_witness:
  "poll_events 2 (fold push_event [([1], []), ([2], [3])] toy_open) = [([1], []), ([2], [3])]"
proof -
  have open_sink: "event_sink_handle toy_open \<noteq> 0" by (simp add: toy_open_sel)
  have "list_all passable [([1], []), ([2], [3])]" by (simp add: passable_def)
  from events_in_order [OF toy_sink_contract toy_open_reachable open_sink this, of 2]
  show ?thesis by (simp only: toy_open_sel)
    (simp add: event_fits_def EVENT_NAME_CAPACITY_def EVENT_DATA_CAPACITY_def EVENT_QUEUE_CAPACITY_def)
qed

theorem callback_stores_or_flags_witness:
  "\<exists>s'. raw_event_callback ([1, 2], 2, [], 0) toy_open = Some s' \<and> queued s' = [([1, 2], [])]"
proof -
  have "event_sink_handle toy_open \<noteq> 0" "unat (2::u32) \<le> length [1::u8, 2]" "unat (0::u32) \<le> length ([]::bytes)"
    by (simp_all add: toy_open_sel)
  from callback_stores_or_flags [OF toy_sink_contract toy_open_reachable this]
  show ?thesis by (auto simp: toy_open_sel)
qed

theorem poll_exact_witness:
  "opentui_raw_event_sink_poll False 5 toy_open = Some (Returns (Ok, None), toy_open)"
proof -
  have "event_sink_handle toy_open \<noteq> 0" by (simp add: toy_open_sel)
  from poll_exact [OF toy_sink_contract toy_open_reachable this, of False]
  show ?thesis by (simp add: toy_open_sel)
qed

theorem sinks_isolated_witness:
  "\<exists>s'. opentui_raw_event_sink_destroy toy_sink 5 toy_open = Some s' \<and> event_sink_handle s' = 0"
  using sinks_isolated [OF toy_sink_contract toy_open_reachable, of False] by (auto simp: toy_open_sel)

end
