(* ===== verification/Native_Api.thy ===== *)
theory Native_Api
  imports Values
begin

text \<open>
  The native renderer library as a parameter of the renderer and buffer stubs: the functions of
  opentui_abi.h they call, in five records over the native world \<open>'w\<close>. The lookups of the
  buffers of a renderer and of the size of a buffer do not change the world; every other function
  may (a read of the dirty flag of the hit grid consumes its latch). The structs that cross the
  interface are modelled here too.
\<close>

section \<open>Structs\<close>

record cursor_style_options =
  o_style :: u8
  o_blinking :: u8
  o_color :: "color option"
  o_cursor :: u8

record cursor_state =
  c_x :: u32
  c_y :: u32
  c_visible :: bool
  c_style :: u8
  c_blinking :: bool
  c_r :: fp
  c_g :: fp
  c_b :: fp
  c_a :: fp

datatype render_status = Rendered | Skipped | Failed

fun render_status_code :: "render_status \<Rightarrow> nat" where
  "render_status_code Rendered = 0"
| "render_status_code Skipped = 1"
| "render_status_code Failed = 2"

record grid_options =
  draw_inner :: bool
  draw_outer :: bool

section \<open>Functions\<close>

record 'w renderer_api =
  createRenderer :: "u32 \<Rightarrow> u32 \<Rightarrow> u8 \<Rightarrow> u8 \<Rightarrow> ptr \<Rightarrow> 'w \<Rightarrow> handle \<times> 'w"
  setUseThread :: "handle \<Rightarrow> bool \<Rightarrow> 'w \<Rightarrow> 'w"
  destroyRenderer :: "handle \<Rightarrow> 'w \<Rightarrow> 'w"
  getCurrentBuffer :: "handle \<Rightarrow> 'w \<Rightarrow> handle"
  getNextBuffer :: "handle \<Rightarrow> 'w \<Rightarrow> handle"
  resizeRenderer :: "handle \<Rightarrow> u32 \<Rightarrow> u32 \<Rightarrow> 'w \<Rightarrow> 'w"
  writeOut :: "handle \<Rightarrow> bytes \<Rightarrow> 'w \<Rightarrow> 'w"
  queryTerminalCapabilities :: "handle \<Rightarrow> 'w \<Rightarrow> 'w"
  triggerNotification :: "handle \<Rightarrow> bytes \<Rightarrow> bytes option \<Rightarrow> 'w \<Rightarrow> bool \<times> 'w"
  render :: "handle \<Rightarrow> bool \<Rightarrow> 'w \<Rightarrow> u8 \<times> 'w"
  setBackgroundColor :: "handle \<Rightarrow> color \<Rightarrow> 'w \<Rightarrow> 'w"
  setCursorPosition :: "handle \<Rightarrow> i32 \<Rightarrow> i32 \<Rightarrow> bool \<Rightarrow> 'w \<Rightarrow> 'w"
  setCursorColor :: "handle \<Rightarrow> color \<Rightarrow> 'w \<Rightarrow> 'w"
  setCursorStyleOptions :: "handle \<Rightarrow> cursor_style_options \<Rightarrow> 'w \<Rightarrow> 'w"
  getCursorState :: "handle \<Rightarrow> 'w \<Rightarrow> cursor_state \<times> 'w"

record 'w split_api =
  setRenderOffset :: "handle \<Rightarrow> u32 \<Rightarrow> 'w \<Rightarrow> 'w"
  resetSplitScrollback :: "handle \<Rightarrow> u32 \<Rightarrow> u32 \<Rightarrow> 'w \<Rightarrow> u32 \<times> 'w"
  syncSplitScrollback :: "handle \<Rightarrow> u32 \<Rightarrow> 'w \<Rightarrow> u32 \<times> 'w"
  getSplitOutputOffset :: "handle \<Rightarrow> u32 \<Rightarrow> 'w \<Rightarrow> u32 \<times> 'w"
  setPendingSplitFooterTransition ::
    "handle \<Rightarrow> u8 \<Rightarrow> u32 \<Rightarrow> u32 \<Rightarrow> u32 \<Rightarrow> u32 \<Rightarrow> u32 \<Rightarrow> 'w \<Rightarrow> 'w"
  clearPendingSplitFooterTransition :: "handle \<Rightarrow> 'w \<Rightarrow> 'w"
  repaintSplitFooter :: "handle \<Rightarrow> u32 \<Rightarrow> bool \<Rightarrow> 'w \<Rightarrow> u64 \<times> 'w"
  commitSplitFooterSnapshot ::
    "handle \<Rightarrow> handle \<Rightarrow> u32 \<Rightarrow> bool \<Rightarrow> bool \<Rightarrow> u32 \<Rightarrow> bool \<Rightarrow> bool \<Rightarrow> bool \<Rightarrow> 'w \<Rightarrow> u64 \<times> 'w"

record 'w hit_api =
  addToHitGrid :: "handle \<Rightarrow> i32 \<Rightarrow> i32 \<Rightarrow> u32 \<Rightarrow> u32 \<Rightarrow> u32 \<Rightarrow> 'w \<Rightarrow> 'w"
  clearCurrentHitGrid :: "handle \<Rightarrow> 'w \<Rightarrow> 'w"
  clearNextHitGrid :: "handle \<Rightarrow> 'w \<Rightarrow> 'w"
  hitGridPushScissorRect :: "handle \<Rightarrow> i32 \<Rightarrow> i32 \<Rightarrow> u32 \<Rightarrow> u32 \<Rightarrow> 'w \<Rightarrow> 'w"
  hitGridPopScissorRect :: "handle \<Rightarrow> 'w \<Rightarrow> 'w"
  hitGridClearScissorRects :: "handle \<Rightarrow> 'w \<Rightarrow> 'w"
  addToCurrentHitGridClipped :: "handle \<Rightarrow> i32 \<Rightarrow> i32 \<Rightarrow> u32 \<Rightarrow> u32 \<Rightarrow> u32 \<Rightarrow> 'w \<Rightarrow> 'w"
  checkHit :: "handle \<Rightarrow> u32 \<Rightarrow> u32 \<Rightarrow> 'w \<Rightarrow> u32 \<times> 'w"
  getHitGridDirty :: "handle \<Rightarrow> 'w \<Rightarrow> bool \<times> 'w"

record 'w buffer_api =
  getBufferWidth :: "handle \<Rightarrow> 'w \<Rightarrow> u32"
  getBufferHeight :: "handle \<Rightarrow> 'w \<Rightarrow> u32"
  createOptimizedBuffer :: "u32 \<Rightarrow> u32 \<Rightarrow> bool \<Rightarrow> u8 \<Rightarrow> bytes \<Rightarrow> u32 \<Rightarrow> 'w \<Rightarrow> handle \<times> 'w"
  destroyOptimizedBuffer :: "handle \<Rightarrow> 'w \<Rightarrow> 'w"
  bufferResize :: "handle \<Rightarrow> u32 \<Rightarrow> u32 \<Rightarrow> 'w \<Rightarrow> 'w"
  bufferClear :: "handle \<Rightarrow> color \<Rightarrow> 'w \<Rightarrow> 'w"
  bufferWriteResolvedChars :: "handle \<Rightarrow> bytes \<Rightarrow> u32 \<Rightarrow> bool \<Rightarrow> 'w \<Rightarrow> (u32 \<times> bytes) \<times> 'w"
  bufferPushScissorRect :: "handle \<Rightarrow> i32 \<Rightarrow> i32 \<Rightarrow> u32 \<Rightarrow> u32 \<Rightarrow> 'w \<Rightarrow> 'w"
  bufferPopScissorRect :: "handle \<Rightarrow> 'w \<Rightarrow> 'w"
  bufferClearScissorRects :: "handle \<Rightarrow> 'w \<Rightarrow> 'w"
  bufferPushOpacity :: "handle \<Rightarrow> fp \<Rightarrow> 'w \<Rightarrow> 'w"
  bufferPopOpacity :: "handle \<Rightarrow> 'w \<Rightarrow> 'w"
  bufferGetCurrentOpacity :: "handle \<Rightarrow> 'w \<Rightarrow> fp \<times> 'w"
  bufferClearOpacity :: "handle \<Rightarrow> 'w \<Rightarrow> 'w"

record 'w draw_api =
  bufferSetCell :: "handle \<Rightarrow> u32 \<Rightarrow> u32 \<Rightarrow> u32 \<Rightarrow> color \<Rightarrow> color \<Rightarrow> u32 \<Rightarrow> 'w \<Rightarrow> 'w"
  bufferSetCellWithAlphaBlending ::
    "handle \<Rightarrow> u32 \<Rightarrow> u32 \<Rightarrow> u32 \<Rightarrow> color \<Rightarrow> color \<Rightarrow> u32 \<Rightarrow> 'w \<Rightarrow> 'w"
  bufferDrawText ::
    "handle \<Rightarrow> bytes \<Rightarrow> u32 \<Rightarrow> u32 \<Rightarrow> u32 \<Rightarrow> color \<Rightarrow> color \<Rightarrow> u32 \<Rightarrow> 'w \<Rightarrow> 'w"
  bufferDrawBox ::
    "handle \<Rightarrow> i32 \<Rightarrow> i32 \<Rightarrow> u32 \<Rightarrow> u32 \<Rightarrow> u32 list \<Rightarrow> u32 \<Rightarrow> color \<Rightarrow> color \<Rightarrow> color
       \<Rightarrow> bytes option \<Rightarrow> bytes option \<Rightarrow> 'w \<Rightarrow> 'w"
  bufferDrawTextBufferView :: "handle \<Rightarrow> handle \<Rightarrow> i32 \<Rightarrow> i32 \<Rightarrow> 'w \<Rightarrow> 'w"
  bufferFillRect :: "handle \<Rightarrow> u32 \<Rightarrow> u32 \<Rightarrow> u32 \<Rightarrow> u32 \<Rightarrow> color \<Rightarrow> 'w \<Rightarrow> 'w"
  bufferDrawGrayscaleBuffer ::
    "handle \<Rightarrow> i32 \<Rightarrow> i32 \<Rightarrow> fp list \<Rightarrow> u32 \<Rightarrow> u32 \<Rightarrow> color option \<Rightarrow> color option \<Rightarrow> 'w \<Rightarrow> 'w"
  bufferDrawGrayscaleBufferSupersampled ::
    "handle \<Rightarrow> i32 \<Rightarrow> i32 \<Rightarrow> fp list \<Rightarrow> u32 \<Rightarrow> u32 \<Rightarrow> color option \<Rightarrow> color option \<Rightarrow> 'w \<Rightarrow> 'w"
  drawFrameBuffer ::
    "handle \<Rightarrow> i32 \<Rightarrow> i32 \<Rightarrow> handle \<Rightarrow> u32 \<Rightarrow> u32 \<Rightarrow> u32 \<Rightarrow> u32 \<Rightarrow> 'w \<Rightarrow> 'w"
  bufferDrawGrid ::
    "handle \<Rightarrow> u32 list \<Rightarrow> color \<Rightarrow> color \<Rightarrow> i32 list \<Rightarrow> u32 \<Rightarrow> i32 list \<Rightarrow> u32 \<Rightarrow> grid_options
       \<Rightarrow> 'w \<Rightarrow> 'w"

record 'w raw_api =
  rn :: "'w renderer_api"
  sf :: "'w split_api"
  hg :: "'w hit_api"
  bf :: "'w buffer_api"
  dr :: "'w draw_api"

end
