(* ===== verification/Renderer.thy ===== *)
theory Renderer
  imports Span_Feed Native_Api
begin

text \<open>
  raw_stubs.c, the renderer half: creation, resizing, output, split footer, cursor and hit
  grid. The stubs keep no state of their own: they validate the handle and the arguments and
  forward to the native renderer, the parameter \<open>N\<close> over a native world \<open>'w\<close>. Getters
  do not change the world. Most stubs have a checked and an unchecked form.
\<close>

section \<open>Helpers\<close>

definition buffer_is_valid :: "'w raw_api \<Rightarrow> handle \<Rightarrow> 'w \<Rightarrow> bool" where
  "buffer_is_valid N handle w \<longleftrightarrow> handle \<noteq> 0 \<and> getBufferWidth (bf N) handle w \<noteq> 0"

definition optimized_buffer_is_valid :: "'w raw_api \<Rightarrow> handle \<Rightarrow> 'w \<Rightarrow> bool" where
  "optimized_buffer_is_valid N handle w \<longleftrightarrow> buffer_is_valid N handle w"

definition renderer_is_valid :: "'w raw_api \<Rightarrow> handle \<Rightarrow> 'w \<Rightarrow> bool" where
  "renderer_is_valid N handle w \<longleftrightarrow> handle \<noteq> 0 \<and> getCurrentBuffer (rn N) handle w \<noteq> 0"

definition renderer_buffers_have_dimensions ::
  "'w raw_api \<Rightarrow> handle \<Rightarrow> u32 \<Rightarrow> u32 \<Rightarrow> 'w \<Rightarrow> bool" where
  "renderer_buffers_have_dimensions N renderer width height w =
     (let current = getCurrentBuffer (rn N) renderer w; nxt = getNextBuffer (rn N) renderer w in
      current \<noteq> 0 \<and> nxt \<noteq> 0 \<and>
      getBufferWidth (bf N) current w = width \<and> getBufferHeight (bf N) current w = height \<and>
      getBufferWidth (bf N) nxt w = width \<and> getBufferHeight (bf N) nxt w = height)"

text \<open>lroundf: halves away from zero; here only on positive numbers.\<close>

definition lroundf :: "rat \<Rightarrow> int" where
  "lroundf r = (if 0 \<le> r then \<lfloor>r + 1 / 2\<rfloor> else - \<lfloor>1 / 2 - r\<rfloor>)"

text \<open>The float product \<open>channel * 255.0f\<close>, and the cast of a long to uint8_t.\<close>

definition cursor_channel :: "fp \<Rightarrow> u8" where
  "cursor_channel channel =
     (case channel of
        Fin r \<Rightarrow>
          if r \<le> 0 then 0
          else if r \<ge> 1 then 255
          else (case to_float (Fin (r * 255)) of Fin p \<Rightarrow> word_of_int (lroundf p) | _ \<Rightarrow> 0)
      | _ \<Rightarrow> 0)"

type_synonym cursor_report = "u32 \<times> u32 \<times> bool \<times> u8 \<times> bool \<times> u8 \<times> u8 \<times> u8 \<times> u8"

definition make_status_cursor_state ::
  "raw_status \<Rightarrow> cursor_state option \<Rightarrow> raw_status \<times> cursor_report" where
  "make_status_cursor_state status state =
     (status,
      case state of
        None \<Rightarrow> (0, 0, False, 3, False, 0, 0, 0, 0)
      | Some c \<Rightarrow> (c_x c, c_y c, c_visible c, c_style c, c_blinking c, cursor_channel (c_r c),
                   cursor_channel (c_g c), cursor_channel (c_b c), cursor_channel (c_a c)))"

text \<open>Bits 32 to 39 carry a render status, the low half an offset. The status field of these
  results is a plain int: a raw status, or a render status of the native library.\<close>

definition make_split_render_result :: "u64 \<Rightarrow> int \<times> u32" where
  "make_split_render_result packed =
     (uint (drop_bit 32 packed AND 0xff), ucast (packed AND 0xffffffff))"

definition make_status_count :: "raw_status \<Rightarrow> u32 \<Rightarrow> int \<times> u32" where
  "make_status_count status count = (status_code status, count)"

definition split_render_failed :: "int \<times> u32" where
  "split_render_failed = make_split_render_result (push_bit 32 (of_nat (render_status_code Failed)))"

text \<open>The bytecode entry points take their arguments as an array; the ones without a status
  leave through caml_invalid_argument when the count is wrong.\<close>

datatype 'a call = Result 'a | Raises_invalid_argument string

section \<open>Life cycle\<close>

text \<open>The optional feed: the stream of a live feed token, NULL for None. An error is the
  status the stub returns.\<close>

definition read_feed_pointer :: "(nat \<Rightarrow> feed_slot) \<Rightarrow> value \<Rightarrow> (raw_status + ptr) option" where
  "read_feed_pointer feed_table feed_value =
     (if is_block feed_value then
        if wosize_val feed_value \<noteq> 1 then Some (Inl Invalid_argument)
        else do {
          token_value \<leftarrow> field feed_value 0;
          if \<not> has_tag Custom_tag token_value then Some (Inl Invalid_argument)
          else do {
            token \<leftarrow> int32_val token_value;
            let feed_pointer = opentui_raw_span_feed_pointer feed_table token in
            Some (if feed_pointer = NULL then Inl Stale_handle else Inr feed_pointer)
          }
        }
      else do {
        n \<leftarrow> int_val feed_value;
        Some (if n \<noteq> 0 then Inl Invalid_argument else Inr NULL)
      })"

definition opentui_raw_renderer_create ::
  "'w raw_api \<Rightarrow> bool \<Rightarrow> (nat \<Rightarrow> feed_slot) \<Rightarrow> i32 \<Rightarrow> i32 \<Rightarrow> int \<Rightarrow> int \<Rightarrow> value \<Rightarrow> 'w
     \<Rightarrow> ((raw_status \<times> handle) outcome \<times> 'w) option" where
  "opentui_raw_renderer_create N oom feed_table width height buffered_value remote_value feed_value w =
     (let buffered_destination = to_int buffered_value; remote_mode = to_int remote_value in
      if nonpos32 width \<or> nonpos32 height then Some (allocating oom (Invalid_argument, 0), w)
      else if buffered_destination < 0 \<or> buffered_destination > 1 \<or> remote_mode < 0 \<or> remote_mode > 2
      then Some (allocating oom (Invalid_argument, 0), w)
      else do {
        feed \<leftarrow> read_feed_pointer feed_table feed_value;
        case feed of
          Inl status \<Rightarrow> Some (allocating oom (status, 0), w)
        | Inr feed_pointer \<Rightarrow>
            let (handle, w1) = createRenderer (rn N) width height (word_of_int buffered_destination)
                  (word_of_int remote_mode) feed_pointer w in
            if handle = 0 then Some (allocating oom (Native_failure, 0), w1)
            else Some (allocating oom (Ok, handle), setUseThread (rn N) handle False w1)
      })"

definition opentui_raw_renderer_resize ::
  "'w raw_api \<Rightarrow> handle \<Rightarrow> i32 \<Rightarrow> i32 \<Rightarrow> 'w \<Rightarrow> raw_status \<times> 'w" where
  "opentui_raw_renderer_resize N handle width height w =
     (if handle = 0 then (Stale_handle, w)
      else if nonpos32 width \<or> nonpos32 height then (Invalid_argument, w)
      else if getCurrentBuffer (rn N) handle w = 0 then (Stale_handle, w)
      else
        let w1 = resizeRenderer (rn N) handle width height w in
        (if \<not> renderer_buffers_have_dimensions N handle width height w1 then Native_failure else Ok, w1))"

text \<open>The length argument is cast to uint32_t: longer byte strings are cut.\<close>

definition opentui_raw_renderer_write_out ::
  "'w raw_api \<Rightarrow> handle \<Rightarrow> bytes \<Rightarrow> 'w \<Rightarrow> raw_status \<times> 'w" where
  "opentui_raw_renderer_write_out N handle bytes_value w =
     (if \<not> renderer_is_valid N handle w then (Stale_handle, w)
      else (Ok, writeOut (rn N) handle (take (unat (of_nat (length bytes_value) :: u32)) bytes_value) w))"

definition opentui_raw_renderer_query_terminal_capabilities ::
  "'w raw_api \<Rightarrow> handle \<Rightarrow> 'w \<Rightarrow> raw_status \<times> 'w" where
  "opentui_raw_renderer_query_terminal_capabilities N handle w =
     (if \<not> renderer_is_valid N handle w then (Stale_handle, w)
      else (Ok, queryTerminalCapabilities (rn N) handle w))"

definition opentui_raw_renderer_trigger_notification ::
  "'w raw_api \<Rightarrow> bool \<Rightarrow> handle \<Rightarrow> value \<Rightarrow> value \<Rightarrow> 'w
     \<Rightarrow> ((raw_status \<times> bool) outcome \<times> 'w) option" where
  "opentui_raw_renderer_trigger_notification N oom handle message_value title_value w =
     (if \<not> renderer_is_valid N handle w then Some (allocating oom (Stale_handle, False), w)
      else if \<not> has_tag String_tag message_value then Some (allocating oom (Invalid_argument, False), w)
      else do {
        message \<leftarrow> string_val message_value;
        case read_text_length message of
          None \<Rightarrow> Some (allocating oom (Invalid_argument, False), w)
        | Some _ \<Rightarrow>
            require (read_optional_text title_value)
              (Some (allocating oom (Invalid_argument, False), w))
              (\<lambda>title. let (triggered, w1) = triggerNotification (rn N) handle message title w in
                Some (allocating oom (Ok, triggered), w1))
      })"

definition opentui_raw_renderer_destroy :: "'w raw_api \<Rightarrow> handle \<Rightarrow> 'w \<Rightarrow> 'w" where
  "opentui_raw_renderer_destroy N handle w = (if handle \<noteq> 0 then destroyRenderer (rn N) handle w else w)"

definition opentui_raw_renderer_buffer ::
  "'w raw_api \<Rightarrow> bool \<Rightarrow> handle \<Rightarrow> bool \<Rightarrow> 'w \<Rightarrow> (raw_status \<times> handle) outcome" where
  "opentui_raw_renderer_buffer N oom renderer next_value w = allocating oom
     (if renderer = 0 then (Stale_handle, 0)
      else
        let buffer = (if next_value then getNextBuffer (rn N) renderer w else getCurrentBuffer (rn N) renderer w) in
        if buffer = 0 then (Stale_handle, 0) else (Ok, buffer))"

definition opentui_raw_renderer_render ::
  "'w raw_api \<Rightarrow> handle \<Rightarrow> bool \<Rightarrow> 'w \<Rightarrow> int \<times> 'w" where
  "opentui_raw_renderer_render N handle force w =
     (if handle = 0 then (int (render_status_code Failed), w)
      else let (status, w1) = render (rn N) handle force w in (uint status, w1))"

section \<open>Split footer\<close>

definition opentui_raw_renderer_set_render_offset ::
  "'w raw_api \<Rightarrow> handle \<Rightarrow> i32 \<Rightarrow> 'w \<Rightarrow> raw_status \<times> 'w" where
  "opentui_raw_renderer_set_render_offset N handle offset_value w =
     (if handle = 0 \<or> \<not> renderer_is_valid N handle w then (Stale_handle, w)
      else if neg32 offset_value then (Invalid_argument, w)
      else (Ok, setRenderOffset (sf N) handle offset_value w))"

definition opentui_raw_renderer_reset_split_scrollback ::
  "'w raw_api \<Rightarrow> bool \<Rightarrow> handle \<Rightarrow> i32 \<Rightarrow> i32 \<Rightarrow> 'w \<Rightarrow> (int \<times> u32) outcome \<times> 'w" where
  "opentui_raw_renderer_reset_split_scrollback N oom handle seed_rows pinned_render_offset w =
     (if handle = 0 \<or> \<not> renderer_is_valid N handle w
      then (allocating oom (make_status_count Stale_handle 0), w)
      else if neg32 seed_rows \<or> neg32 pinned_render_offset
      then (allocating oom (make_status_count Invalid_argument 0), w)
      else let (count, w1) = resetSplitScrollback (sf N) handle seed_rows pinned_render_offset w in
        (allocating oom (make_status_count Ok count), w1))"

definition opentui_raw_renderer_sync_split_scrollback ::
  "'w raw_api \<Rightarrow> bool \<Rightarrow> handle \<Rightarrow> i32 \<Rightarrow> 'w \<Rightarrow> (int \<times> u32) outcome \<times> 'w" where
  "opentui_raw_renderer_sync_split_scrollback N oom handle pinned_render_offset w =
     (if handle = 0 \<or> \<not> renderer_is_valid N handle w
      then (allocating oom (make_status_count Stale_handle 0), w)
      else if neg32 pinned_render_offset then (allocating oom split_render_failed, w)
      else let (count, w1) = syncSplitScrollback (sf N) handle pinned_render_offset w in
        (allocating oom (make_status_count Ok count), w1))"

definition opentui_raw_renderer_get_split_output_offset ::
  "'w raw_api \<Rightarrow> bool \<Rightarrow> handle \<Rightarrow> i32 \<Rightarrow> 'w \<Rightarrow> (int \<times> u32) outcome \<times> 'w" where
  "opentui_raw_renderer_get_split_output_offset N oom handle surface_offset w =
     (if handle = 0 \<or> \<not> renderer_is_valid N handle w
      then (allocating oom (make_status_count Stale_handle 0), w)
      else if neg32 surface_offset then (allocating oom (make_status_count Invalid_argument 0), w)
      else let (count, w1) = getSplitOutputOffset (sf N) handle surface_offset w in
        (allocating oom (make_status_count Ok count), w1))"

definition opentui_raw_renderer_set_pending_split_footer_transition ::
  "'w raw_api \<Rightarrow> handle \<Rightarrow> value \<Rightarrow> 'w \<Rightarrow> (raw_status \<times> 'w) option" where
  "opentui_raw_renderer_set_pending_split_footer_transition N handle transition_value w =
     (if handle = 0 \<or> \<not> renderer_is_valid N handle w then Some (Stale_handle, w)
      else if \<not> has_size 6 transition_value then Some (Invalid_argument, w)
      else do {
        mode \<leftarrow> int32_field transition_value 0;
        source_top_line \<leftarrow> int32_field transition_value 1;
        source_height \<leftarrow> int32_field transition_value 2;
        target_top_line \<leftarrow> int32_field transition_value 3;
        target_height \<leftarrow> int32_field transition_value 4;
        scroll_lines \<leftarrow> int32_field transition_value 5;
        if sint mode < 0 \<or> sint mode > 2 \<or> neg32 source_top_line \<or> neg32 source_height
           \<or> neg32 target_top_line \<or> neg32 target_height \<or> neg32 scroll_lines
        then Some (Invalid_argument, w)
        else Some (Ok, setPendingSplitFooterTransition (sf N) handle (ucast mode) source_top_line
               source_height target_top_line target_height scroll_lines w)
      })"

definition opentui_raw_renderer_clear_pending_split_footer_transition ::
  "'w raw_api \<Rightarrow> handle \<Rightarrow> 'w \<Rightarrow> raw_status \<times> 'w" where
  "opentui_raw_renderer_clear_pending_split_footer_transition N handle w =
     (if handle = 0 \<or> \<not> renderer_is_valid N handle w then (Stale_handle, w)
      else (Ok, clearPendingSplitFooterTransition (sf N) handle w))"

definition opentui_raw_renderer_repaint_split_footer ::
  "'w raw_api \<Rightarrow> bool \<Rightarrow> handle \<Rightarrow> i32 \<Rightarrow> bool \<Rightarrow> 'w \<Rightarrow> (int \<times> u32) outcome \<times> 'w" where
  "opentui_raw_renderer_repaint_split_footer N oom handle pinned_render_offset force w =
     (if handle = 0 \<or> \<not> renderer_is_valid N handle w then (allocating oom split_render_failed, w)
      else if neg32 pinned_render_offset then (allocating oom split_render_failed, w)
      else let (packed, w1) = repaintSplitFooter (sf N) handle pinned_render_offset force w in
        (allocating oom (make_split_render_result packed), w1))"

definition renderer_commit_split_footer_snapshot_impl ::
  "'w raw_api \<Rightarrow> bool \<Rightarrow> handle \<Rightarrow> handle \<Rightarrow> i32 \<Rightarrow> bool \<Rightarrow> bool \<Rightarrow> i32 \<Rightarrow> bool \<Rightarrow> bool \<Rightarrow> bool \<Rightarrow> 'w
     \<Rightarrow> (int \<times> u32) outcome \<times> 'w" where
  "renderer_commit_split_footer_snapshot_impl N oom handle snapshot row_columns start_on_new_line
     trailing_newline pinned_render_offset force begin_frame finalize_frame w =
     (if handle = 0 \<or> \<not> renderer_is_valid N handle w \<or> snapshot = 0
         \<or> \<not> optimized_buffer_is_valid N snapshot w
      then (allocating oom split_render_failed, w)
      else if neg32 row_columns \<or> neg32 pinned_render_offset then (allocating oom split_render_failed, w)
      else let (packed, w1) = commitSplitFooterSnapshot (sf N) handle snapshot row_columns start_on_new_line
                 trailing_newline pinned_render_offset force begin_frame finalize_frame w in
        (allocating oom (make_split_render_result packed), w1))"

definition opentui_raw_renderer_commit_split_footer_snapshot ::
  "'w raw_api \<Rightarrow> bool \<Rightarrow> handle \<Rightarrow> handle \<Rightarrow> i32 \<Rightarrow> bool \<Rightarrow> bool \<Rightarrow> i32 \<Rightarrow> bool \<Rightarrow> bool \<Rightarrow> bool \<Rightarrow> 'w
     \<Rightarrow> (int \<times> u32) outcome \<times> 'w" where
  "opentui_raw_renderer_commit_split_footer_snapshot N oom handle snapshot row_columns
     start_on_new_line trailing_newline pinned_render_offset force begin_frame finalize_frame w =
     renderer_commit_split_footer_snapshot_impl N oom handle snapshot row_columns
       start_on_new_line trailing_newline pinned_render_offset force begin_frame finalize_frame w"

definition opentui_raw_renderer_commit_split_footer_snapshot_bytecode ::
  "'w raw_api \<Rightarrow> bool \<Rightarrow> value list \<Rightarrow> 'w \<Rightarrow> ((int \<times> u32) outcome call \<times> 'w) option" where
  "opentui_raw_renderer_commit_split_footer_snapshot_bytecode N oom arguments w =
     (if length arguments \<noteq> 9
      then Some (Raises_invalid_argument ''opentui_raw_renderer_commit_split_footer_snapshot'', w)
      else do {
        handle \<leftarrow> int32_val (arguments ! 0);
        snapshot \<leftarrow> int32_val (arguments ! 1);
        row_columns \<leftarrow> int32_val (arguments ! 2);
        start_on_new_line \<leftarrow> bool_val (arguments ! 3);
        trailing_newline \<leftarrow> bool_val (arguments ! 4);
        pinned_render_offset \<leftarrow> int32_val (arguments ! 5);
        force \<leftarrow> bool_val (arguments ! 6);
        begin_frame \<leftarrow> bool_val (arguments ! 7);
        finalize_frame \<leftarrow> bool_val (arguments ! 8);
        let (r, w1) = renderer_commit_split_footer_snapshot_impl N oom handle snapshot row_columns
              start_on_new_line trailing_newline pinned_render_offset force begin_frame
              finalize_frame w in
        Some (Result r, w1)
      })"

section \<open>Background and cursor\<close>

definition opentui_raw_renderer_set_background_color ::
  "'w raw_api \<Rightarrow> handle \<Rightarrow> value \<Rightarrow> 'w \<Rightarrow> (raw_status \<times> 'w) option" where
  "opentui_raw_renderer_set_background_color N handle color_value w =
     (if \<not> renderer_is_valid N handle w then Some (Stale_handle, w)
      else require (read_color color_value) (Some (Invalid_argument, w))
        (\<lambda>c. Some (Ok, setBackgroundColor (rn N) handle c w)))"

definition opentui_raw_renderer_set_cursor_position ::
  "'w raw_api \<Rightarrow> handle \<Rightarrow> i32 \<Rightarrow> i32 \<Rightarrow> bool \<Rightarrow> 'w \<Rightarrow> raw_status \<times> 'w" where
  "opentui_raw_renderer_set_cursor_position N handle x y visible w =
     (if \<not> renderer_is_valid N handle w then (Stale_handle, w)
      else (Ok, setCursorPosition (rn N) handle x y visible w))"

definition opentui_raw_renderer_set_cursor_color ::
  "'w raw_api \<Rightarrow> handle \<Rightarrow> value \<Rightarrow> 'w \<Rightarrow> (raw_status \<times> 'w) option" where
  "opentui_raw_renderer_set_cursor_color N handle color_value w =
     (if \<not> renderer_is_valid N handle w then Some (Stale_handle, w)
      else require (read_color color_value) (Some (Invalid_argument, w))
        (\<lambda>c. Some (Ok, setCursorColor (rn N) handle c w)))"

definition opentui_raw_renderer_set_cursor_style_options ::
  "'w raw_api \<Rightarrow> handle \<Rightarrow> value \<Rightarrow> value \<Rightarrow> value \<Rightarrow> value \<Rightarrow> 'w \<Rightarrow> (raw_status \<times> 'w) option" where
  "opentui_raw_renderer_set_cursor_style_options N handle style_value blinking_value color_value
     cursor_value w =
     (if \<not> renderer_is_valid N handle w then Some (Stale_handle, w)
      else
        let invalid = Some (Invalid_argument, w) in
        require (read_optional_code style_value 3 255) invalid (\<lambda>style.
        require (read_optional_bool blinking_value) invalid (\<lambda>blinking.
        require (read_optional_color color_value) invalid (\<lambda>c.
        require (read_optional_code cursor_value 5 255) invalid (\<lambda>cursor.
          Some (Ok, setCursorStyleOptions (rn N) handle
            \<lparr>o_style = style, o_blinking = blinking, o_color = c, o_cursor = cursor\<rparr> w))))))"

definition opentui_raw_renderer_cursor_state ::
  "'w raw_api \<Rightarrow> bool \<Rightarrow> handle \<Rightarrow> 'w \<Rightarrow> (raw_status \<times> cursor_report) outcome \<times> 'w" where
  "opentui_raw_renderer_cursor_state N oom handle w =
     (if \<not> renderer_is_valid N handle w
      then (allocating oom (make_status_cursor_state Stale_handle None), w)
      else let (state, w1) = getCursorState (rn N) handle w in
        (allocating oom (make_status_cursor_state Ok (Some state)), w1))"

section \<open>Hit grid\<close>

definition renderer_add_to_hit_grid_impl ::
  "'w raw_api \<Rightarrow> handle \<Rightarrow> i32 \<Rightarrow> i32 \<Rightarrow> i32 \<Rightarrow> i32 \<Rightarrow> i32 \<Rightarrow> 'w \<Rightarrow> raw_status \<times> 'w" where
  "renderer_add_to_hit_grid_impl N handle x y width height ident w =
     (if \<not> renderer_is_valid N handle w then (Stale_handle, w)
      else if neg32 width \<or> neg32 height \<or> neg32 ident then (Invalid_argument, w)
      else (Ok, addToHitGrid (hg N) handle x y width height ident w))"

definition opentui_raw_renderer_add_to_hit_grid ::
  "'w raw_api \<Rightarrow> handle \<Rightarrow> i32 \<Rightarrow> i32 \<Rightarrow> i32 \<Rightarrow> i32 \<Rightarrow> i32 \<Rightarrow> 'w \<Rightarrow> raw_status \<times> 'w" where
  "opentui_raw_renderer_add_to_hit_grid N handle x y width height ident w =
     renderer_add_to_hit_grid_impl N handle x y width height ident w"

definition opentui_raw_renderer_add_to_hit_grid_bytecode ::
  "'w raw_api \<Rightarrow> value list \<Rightarrow> 'w \<Rightarrow> (raw_status \<times> 'w) option" where
  "opentui_raw_renderer_add_to_hit_grid_bytecode N arguments w =
     (if length arguments \<noteq> 6 then Some (Invalid_argument, w)
      else do {
        handle \<leftarrow> int32_val (arguments ! 0);
        x \<leftarrow> int32_val (arguments ! 1);
        y \<leftarrow> int32_val (arguments ! 2);
        width \<leftarrow> int32_val (arguments ! 3);
        height \<leftarrow> int32_val (arguments ! 4);
        ident \<leftarrow> int32_val (arguments ! 5);
        Some (renderer_add_to_hit_grid_impl N handle x y width height ident w)
      })"

definition renderer_add_to_hit_grid_unchecked_impl ::
  "'w raw_api \<Rightarrow> handle \<Rightarrow> i32 \<Rightarrow> i32 \<Rightarrow> i32 \<Rightarrow> i32 \<Rightarrow> i32 \<Rightarrow> 'w \<Rightarrow> 'w" where
  "renderer_add_to_hit_grid_unchecked_impl N handle x y width height ident w =
     addToHitGrid (hg N) handle x y width height ident w"

definition opentui_raw_renderer_add_to_hit_grid_unchecked ::
  "'w raw_api \<Rightarrow> handle \<Rightarrow> i32 \<Rightarrow> i32 \<Rightarrow> i32 \<Rightarrow> i32 \<Rightarrow> i32 \<Rightarrow> 'w \<Rightarrow> 'w" where
  "opentui_raw_renderer_add_to_hit_grid_unchecked N handle x y width height ident w =
     renderer_add_to_hit_grid_unchecked_impl N handle x y width height ident w"

definition opentui_raw_renderer_add_to_hit_grid_unchecked_bytecode ::
  "'w raw_api \<Rightarrow> value list \<Rightarrow> 'w \<Rightarrow> (unit call \<times> 'w) option" where
  "opentui_raw_renderer_add_to_hit_grid_unchecked_bytecode N arguments w =
     (if length arguments \<noteq> 6
      then Some (Raises_invalid_argument ''opentui_raw_renderer_add_to_hit_grid_unchecked'', w)
      else do {
        handle \<leftarrow> int32_val (arguments ! 0);
        x \<leftarrow> int32_val (arguments ! 1);
        y \<leftarrow> int32_val (arguments ! 2);
        width \<leftarrow> int32_val (arguments ! 3);
        height \<leftarrow> int32_val (arguments ! 4);
        ident \<leftarrow> int32_val (arguments ! 5);
        Some (Result (), renderer_add_to_hit_grid_unchecked_impl N handle x y width height ident w)
      })"

definition opentui_raw_renderer_clear_current_hit_grid :: "'w raw_api \<Rightarrow> handle \<Rightarrow> 'w \<Rightarrow> raw_status \<times> 'w" where
  "opentui_raw_renderer_clear_current_hit_grid N handle w =
     (if \<not> renderer_is_valid N handle w then (Stale_handle, w)
      else (Ok, clearCurrentHitGrid (hg N) handle w))"

definition opentui_raw_renderer_clear_current_hit_grid_unchecked :: "'w raw_api \<Rightarrow> handle \<Rightarrow> 'w \<Rightarrow> 'w" where
  "opentui_raw_renderer_clear_current_hit_grid_unchecked N handle w = clearCurrentHitGrid (hg N) handle w"

definition opentui_raw_renderer_clear_next_hit_grid :: "'w raw_api \<Rightarrow> handle \<Rightarrow> 'w \<Rightarrow> raw_status \<times> 'w" where
  "opentui_raw_renderer_clear_next_hit_grid N handle w =
     (if \<not> renderer_is_valid N handle w then (Stale_handle, w)
      else (Ok, clearNextHitGrid (hg N) handle w))"

definition opentui_raw_renderer_clear_next_hit_grid_unchecked :: "'w raw_api \<Rightarrow> handle \<Rightarrow> 'w \<Rightarrow> 'w" where
  "opentui_raw_renderer_clear_next_hit_grid_unchecked N handle w = clearNextHitGrid (hg N) handle w"

definition opentui_raw_renderer_hit_grid_push_scissor_rect ::
  "'w raw_api \<Rightarrow> handle \<Rightarrow> i32 \<Rightarrow> i32 \<Rightarrow> i32 \<Rightarrow> i32 \<Rightarrow> 'w \<Rightarrow> raw_status \<times> 'w" where
  "opentui_raw_renderer_hit_grid_push_scissor_rect N handle x y width height w =
     (if \<not> renderer_is_valid N handle w then (Stale_handle, w)
      else if neg32 width \<or> neg32 height then (Invalid_argument, w)
      else (Ok, hitGridPushScissorRect (hg N) handle x y width height w))"

definition opentui_raw_renderer_hit_grid_push_scissor_rect_unchecked ::
  "'w raw_api \<Rightarrow> handle \<Rightarrow> i32 \<Rightarrow> i32 \<Rightarrow> i32 \<Rightarrow> i32 \<Rightarrow> 'w \<Rightarrow> 'w" where
  "opentui_raw_renderer_hit_grid_push_scissor_rect_unchecked N handle x y width height w =
     hitGridPushScissorRect (hg N) handle x y width height w"

definition opentui_raw_renderer_hit_grid_pop_scissor_rect :: "'w raw_api \<Rightarrow> handle \<Rightarrow> 'w \<Rightarrow> raw_status \<times> 'w" where
  "opentui_raw_renderer_hit_grid_pop_scissor_rect N handle w =
     (if \<not> renderer_is_valid N handle w then (Stale_handle, w)
      else (Ok, hitGridPopScissorRect (hg N) handle w))"

definition opentui_raw_renderer_hit_grid_pop_scissor_rect_unchecked :: "'w raw_api \<Rightarrow> handle \<Rightarrow> 'w \<Rightarrow> 'w" where
  "opentui_raw_renderer_hit_grid_pop_scissor_rect_unchecked N handle w = hitGridPopScissorRect (hg N) handle w"

definition opentui_raw_renderer_hit_grid_clear_scissor_rects :: "'w raw_api \<Rightarrow> handle \<Rightarrow> 'w \<Rightarrow> raw_status \<times> 'w" where
  "opentui_raw_renderer_hit_grid_clear_scissor_rects N handle w =
     (if \<not> renderer_is_valid N handle w then (Stale_handle, w)
      else (Ok, hitGridClearScissorRects (hg N) handle w))"

definition opentui_raw_renderer_hit_grid_clear_scissor_rects_unchecked :: "'w raw_api \<Rightarrow> handle \<Rightarrow> 'w \<Rightarrow> 'w" where
  "opentui_raw_renderer_hit_grid_clear_scissor_rects_unchecked N handle w = hitGridClearScissorRects (hg N) handle w"

definition renderer_add_to_current_hit_grid_clipped_impl ::
  "'w raw_api \<Rightarrow> handle \<Rightarrow> i32 \<Rightarrow> i32 \<Rightarrow> i32 \<Rightarrow> i32 \<Rightarrow> i32 \<Rightarrow> 'w \<Rightarrow> raw_status \<times> 'w" where
  "renderer_add_to_current_hit_grid_clipped_impl N handle x y width height ident w =
     (if \<not> renderer_is_valid N handle w then (Stale_handle, w)
      else if neg32 width \<or> neg32 height \<or> neg32 ident then (Invalid_argument, w)
      else (Ok, addToCurrentHitGridClipped (hg N) handle x y width height ident w))"

definition opentui_raw_renderer_add_to_current_hit_grid_clipped ::
  "'w raw_api \<Rightarrow> handle \<Rightarrow> i32 \<Rightarrow> i32 \<Rightarrow> i32 \<Rightarrow> i32 \<Rightarrow> i32 \<Rightarrow> 'w \<Rightarrow> raw_status \<times> 'w" where
  "opentui_raw_renderer_add_to_current_hit_grid_clipped N handle x y width height ident w =
     renderer_add_to_current_hit_grid_clipped_impl N handle x y width height ident w"

definition opentui_raw_renderer_add_to_current_hit_grid_clipped_bytecode ::
  "'w raw_api \<Rightarrow> value list \<Rightarrow> 'w \<Rightarrow> (raw_status \<times> 'w) option" where
  "opentui_raw_renderer_add_to_current_hit_grid_clipped_bytecode N arguments w =
     (if length arguments \<noteq> 6 then Some (Invalid_argument, w)
      else do {
        handle \<leftarrow> int32_val (arguments ! 0);
        x \<leftarrow> int32_val (arguments ! 1);
        y \<leftarrow> int32_val (arguments ! 2);
        width \<leftarrow> int32_val (arguments ! 3);
        height \<leftarrow> int32_val (arguments ! 4);
        ident \<leftarrow> int32_val (arguments ! 5);
        Some (renderer_add_to_current_hit_grid_clipped_impl N handle x y width height ident w)
      })"

definition renderer_add_to_current_hit_grid_clipped_unchecked_impl ::
  "'w raw_api \<Rightarrow> handle \<Rightarrow> i32 \<Rightarrow> i32 \<Rightarrow> i32 \<Rightarrow> i32 \<Rightarrow> i32 \<Rightarrow> 'w \<Rightarrow> 'w" where
  "renderer_add_to_current_hit_grid_clipped_unchecked_impl N handle x y width height ident w =
     addToCurrentHitGridClipped (hg N) handle x y width height ident w"

definition opentui_raw_renderer_add_to_current_hit_grid_clipped_unchecked ::
  "'w raw_api \<Rightarrow> handle \<Rightarrow> i32 \<Rightarrow> i32 \<Rightarrow> i32 \<Rightarrow> i32 \<Rightarrow> i32 \<Rightarrow> 'w \<Rightarrow> 'w" where
  "opentui_raw_renderer_add_to_current_hit_grid_clipped_unchecked N handle x y width height ident w =
     renderer_add_to_current_hit_grid_clipped_unchecked_impl N handle x y width height ident w"

definition opentui_raw_renderer_add_to_current_hit_grid_clipped_unchecked_bytecode ::
  "'w raw_api \<Rightarrow> value list \<Rightarrow> 'w \<Rightarrow> (unit call \<times> 'w) option" where
  "opentui_raw_renderer_add_to_current_hit_grid_clipped_unchecked_bytecode N arguments w =
     (if length arguments \<noteq> 6
      then Some (Raises_invalid_argument ''opentui_raw_renderer_add_to_current_hit_grid_clipped_unchecked'', w)
      else do {
        handle \<leftarrow> int32_val (arguments ! 0);
        x \<leftarrow> int32_val (arguments ! 1);
        y \<leftarrow> int32_val (arguments ! 2);
        width \<leftarrow> int32_val (arguments ! 3);
        height \<leftarrow> int32_val (arguments ! 4);
        ident \<leftarrow> int32_val (arguments ! 5);
        Some (Result (), renderer_add_to_current_hit_grid_clipped_unchecked_impl N handle x y width height ident w)
      })"

definition opentui_raw_renderer_check_hit ::
  "'w raw_api \<Rightarrow> bool \<Rightarrow> handle \<Rightarrow> i32 \<Rightarrow> i32 \<Rightarrow> 'w \<Rightarrow> (int \<times> u32) outcome \<times> 'w" where
  "opentui_raw_renderer_check_hit N oom handle x y w =
     (if \<not> renderer_is_valid N handle w then (allocating oom (make_status_count Stale_handle 0), w)
      else if neg32 x \<or> neg32 y then (allocating oom (make_status_count Invalid_argument 0), w)
      else let (ident, w1) = checkHit (hg N) handle x y w in
        (allocating oom (make_status_count Ok ident), w1))"

text \<open>\<open>Val_int((int)id)\<close>: the identifier is read as a signed number.\<close>

definition opentui_raw_renderer_check_hit_unchecked ::
  "'w raw_api \<Rightarrow> handle \<Rightarrow> i32 \<Rightarrow> i32 \<Rightarrow> 'w \<Rightarrow> int \<times> 'w" where
  "opentui_raw_renderer_check_hit_unchecked N handle x y w =
     (let (ident, w1) = checkHit (hg N) handle x y w in (sint ident, w1))"

definition opentui_raw_renderer_get_hit_grid_dirty ::
  "'w raw_api \<Rightarrow> bool \<Rightarrow> handle \<Rightarrow> 'w \<Rightarrow> (raw_status \<times> bool) outcome \<times> 'w" where
  "opentui_raw_renderer_get_hit_grid_dirty N oom handle w =
     (if \<not> renderer_is_valid N handle w then (allocating oom (Stale_handle, False), w)
      else let (dirty, w1) = getHitGridDirty (hg N) handle w in (allocating oom (Ok, dirty), w1))"

definition opentui_raw_renderer_get_hit_grid_dirty_unchecked ::
  "'w raw_api \<Rightarrow> handle \<Rightarrow> 'w \<Rightarrow> bool \<times> 'w" where
  "opentui_raw_renderer_get_hit_grid_dirty_unchecked N handle w = getHitGridDirty (hg N) handle w"

end
