(* ===== verification/Buffers.thy ===== *)
theory Buffers
  imports Renderer
begin

text \<open>
  raw_stubs.c, the cell buffers: drawing, scissor and opacity stacks, and the two readers that
  copy an OCaml array to the C heap. The buffer half of the native library extends the
  renderer half (both share the size getters). The C heap is the ledger \<open>stat_heap\<close>, so
  that a leak or a double free of a copy is visible.
\<close>

section \<open>The C heap\<close>

text \<open>
  caml_stat_alloc returns a fresh block or raises Out_of_memory; caml_stat_free of a block
  that is not allocated is undefined. The ledger holds the blocks in use and the bytes of each.
\<close>

record stat_heap =
  h_live :: "(nat \<times> nat) list"
  h_next :: nat

definition caml_stat_alloc :: "bool \<Rightarrow> nat \<Rightarrow> stat_heap \<Rightarrow> nat outcome \<times> stat_heap" where
  "caml_stat_alloc oom nbytes h =
     (if oom then (Out_of_memory, h)
      else (Returns (h_next h), h\<lparr>h_live := (h_next h, nbytes) # h_live h, h_next := Suc (h_next h)\<rparr>))"

definition caml_stat_free :: "nat \<Rightarrow> stat_heap \<Rightarrow> stat_heap option" where
  "caml_stat_free block h =
     (if block \<in> fst ` set (h_live h)
      then Some (h\<lparr>h_live := filter (\<lambda>b. fst b \<noteq> block) (h_live h)\<rparr>)
      else None)"

text \<open>\<open>if (p != NULL) caml_stat_free(p);\<close>\<close>

fun free_if_not_null :: "nat option \<Rightarrow> stat_heap \<Rightarrow> stat_heap option" where
  "free_if_not_null None h = Some h"
| "free_if_not_null (Some block) h = caml_stat_free block h"

text \<open>Consecutive caml_stat_alloc calls: the flag \<open>oom k\<close> lets the k-th raise, which leaves
  the earlier blocks allocated.\<close>

fun alloc_all :: "(nat \<Rightarrow> bool) \<Rightarrow> nat list \<Rightarrow> stat_heap \<Rightarrow> nat list outcome \<times> stat_heap" where
  "alloc_all oom [] h = (Returns [], h)"
| "alloc_all oom (n # ns) h =
     (case caml_stat_alloc (oom 0) n h of
        (Out_of_memory, h1) \<Rightarrow> (Out_of_memory, h1)
      | (Returns block, h1) \<Rightarrow>
          (case alloc_all (\<lambda>k. oom (Suc k)) ns h1 of
             (Out_of_memory, h2) \<Rightarrow> (Out_of_memory, h2)
           | (Returns blocks, h2) \<Rightarrow> (Returns (block # blocks), h2)))"

fun free_all :: "nat list \<Rightarrow> stat_heap \<Rightarrow> stat_heap option" where
  "free_all [] h = Some h"
| "free_all (block # blocks) h = Option.bind (caml_stat_free block h) (free_all blocks)"

section \<open>Readers that allocate\<close>

text \<open>
  The result of an allocating reader: undefined, the Out_of_memory exception, false, or true
  with the block (None for NULL) and what it holds; beside it the heap.
\<close>

type_synonym 'a copied = "((nat option \<times> 'a list) option outcome \<times> stat_heap) option"

text \<open>The copy loop over the remaining \<open>n\<close> elements.\<close>

fun read_int32s :: "value \<Rightarrow> nat \<Rightarrow> nat \<Rightarrow> i32 list option option" where
  "read_int32s array_value index 0 = Some (Some [])"
| "read_int32s array_value index (Suc n) = do {
     element \<leftarrow> field array_value index;
     if \<not> has_tag Custom_tag element then Some None
     else do {
       x \<leftarrow> int32_val element;
       rest \<leftarrow> read_int32s array_value (Suc index) n;
       Some (map_option (\<lambda>xs. x # xs) rest)
     }
   }"

definition read_int32_array :: "bool \<Rightarrow> value \<Rightarrow> stat_heap \<Rightarrow> i32 copied" where
  "read_int32_array oom array_value h =
     (if \<not> has_tag 0 array_value then Some (Returns None, h)
      else
        let array_length = wosize_val array_value in
        if array_length > UINT32_MAX then Some (Returns None, h)
        else if array_length = 0 then Some (Returns (Some (None, [])), h)
        else
          case caml_stat_alloc oom (array_length * 4) h of
            (Out_of_memory, h1) \<Rightarrow> Some (Out_of_memory, h1)
          | (Returns block, h1) \<Rightarrow> do {
              r \<leftarrow> read_int32s array_value 0 array_length;
              case r of
                None \<Rightarrow> do { h2 \<leftarrow> caml_stat_free block h1; Some (Returns None, h2) }
              | Some xs \<Rightarrow> Some (Returns (Some (Some block, xs)), h1)
            })"

fun double_field :: "value \<Rightarrow> nat \<Rightarrow> fp option" where
  "double_field (Double_array xs) i = (if i < length xs then Some (xs ! i) else None)"
| "double_field _ i = None"

fun read_intensities :: "value \<Rightarrow> nat \<Rightarrow> nat \<Rightarrow> fp list option option" where
  "read_intensities array_value index 0 = Some (Some [])"
| "read_intensities array_value index (Suc n) = do {
     input \<leftarrow> double_field array_value index;
     if \<not> isfinite input then Some None
     else do {
       rest \<leftarrow> read_intensities array_value (Suc index) n;
       Some (map_option (\<lambda>xs. to_float input # xs) rest)
     }
   }"

definition read_grayscale_floatarray :: "bool \<Rightarrow> value \<Rightarrow> u32 \<Rightarrow> u32 \<Rightarrow> stat_heap \<Rightarrow> fp copied" where
  "read_grayscale_floatarray oom array_value width height h =
     (if \<not> has_tag Double_array_tag array_value then Some (Returns None, h)
      else
        let array_length = (of_nat (wosize_val array_value) :: u64);
            expected_length = (ucast width * ucast height :: u64) in
        if array_length \<noteq> expected_length \<or> unat expected_length > (2 ^ 64 - 1) div 4
        then Some (Returns None, h)
        else
          let copy = read_intensities array_value 0 (unat expected_length) in
          if expected_length = 0
          then do { r \<leftarrow> copy; Some (Returns (map_option (\<lambda>xs. (None, xs)) r), h) }
          else
            case caml_stat_alloc oom (unat expected_length * 4) h of
              (Out_of_memory, h1) \<Rightarrow> Some (Out_of_memory, h1)
            | (Returns block, h1) \<Rightarrow> do {
                r \<leftarrow> copy;
                case r of
                  None \<Rightarrow> do { h2 \<leftarrow> caml_stat_free block h1; Some (Returns None, h2) }
                | Some xs \<Rightarrow> Some (Returns (Some (Some block, xs)), h1)
              })"

section \<open>Size and cells\<close>

definition make_status_dimensions :: "raw_status \<Rightarrow> u32 \<Rightarrow> u32 \<Rightarrow> raw_status \<times> u32 \<times> u32" where
  "make_status_dimensions status width height = (status, width, height)"

definition opentui_raw_buffer_dimensions ::
  "'w raw_api \<Rightarrow> bool \<Rightarrow> handle \<Rightarrow> 'w \<Rightarrow> (raw_status \<times> u32 \<times> u32) outcome" where
  "opentui_raw_buffer_dimensions N oom handle w = allocating oom
     (if \<not> buffer_is_valid N handle w then make_status_dimensions Stale_handle 0 0
      else make_status_dimensions Ok (getBufferWidth (bf N) handle w) (getBufferHeight (bf N) handle w))"

definition opentui_raw_buffer_clear ::
  "'w raw_api \<Rightarrow> handle \<Rightarrow> value \<Rightarrow> 'w \<Rightarrow> (raw_status \<times> 'w) option" where
  "opentui_raw_buffer_clear N handle color_value w =
     (if \<not> buffer_is_valid N handle w then Some (Stale_handle, w)
      else require (read_color color_value) (Some (Invalid_argument, w))
        (\<lambda>background. Some (Ok, bufferClear (bf N) handle background w)))"

definition opentui_raw_buffer_set_cell ::
  "'w raw_api \<Rightarrow> handle \<Rightarrow> value \<Rightarrow> 'w \<Rightarrow> (raw_status \<times> 'w) option" where
  "opentui_raw_buffer_set_cell N handle cell_value w =
     (if \<not> buffer_is_valid N handle w then Some (Stale_handle, w)
      else if \<not> has_size 6 cell_value then Some (Invalid_argument, w)
      else do {
        x \<leftarrow> int32_field cell_value 0;
        y \<leftarrow> int32_field cell_value 1;
        character \<leftarrow> int32_field cell_value 2;
        let invalid = Some (Invalid_argument, w) in
        if neg32 x \<or> neg32 y then invalid
        else do {
          foreground_value \<leftarrow> field cell_value 3;
          require (read_color foreground_value) invalid (\<lambda>foreground. do {
            background_value \<leftarrow> field cell_value 4;
            require (read_color background_value) invalid (\<lambda>background. do {
              attributes \<leftarrow> int32_field cell_value 5;
              Some (Ok, bufferSetCell (dr N) handle x y character foreground background attributes w)
            })
          })
        }
      })"

definition opentui_raw_buffer_draw_text ::
  "'w raw_api \<Rightarrow> handle \<Rightarrow> value \<Rightarrow> 'w \<Rightarrow> (raw_status \<times> 'w) option" where
  "opentui_raw_buffer_draw_text N handle text_value w =
     (if \<not> buffer_is_valid N handle w then Some (Stale_handle, w)
      else if \<not> has_size 6 text_value then Some (Invalid_argument, w)
      else do {
        string_value \<leftarrow> field text_value 0;
        x \<leftarrow> int32_field text_value 1;
        y \<leftarrow> int32_field text_value 2;
        let invalid = Some (Invalid_argument, w) in
        if neg32 x \<or> neg32 y then invalid
        else do {
          foreground_value \<leftarrow> field text_value 3;
          require (read_color foreground_value) invalid (\<lambda>foreground. do {
            background_value \<leftarrow> field text_value 4;
            require (read_color background_value) invalid (\<lambda>background. do {
              text \<leftarrow> string_val string_value;
              case read_text_length text of
                None \<Rightarrow> invalid
              | Some string_length \<Rightarrow> do {
                  attributes \<leftarrow> int32_field text_value 5;
                  Some (Ok, bufferDrawText (dr N) handle text string_length x y foreground background
                         attributes w)
                }
            })
          })
        }
      })"

definition opentui_raw_buffer_draw_box ::
  "'w raw_api \<Rightarrow> handle \<Rightarrow> value \<Rightarrow> 'w \<Rightarrow> (raw_status \<times> 'w) option" where
  "opentui_raw_buffer_draw_box N handle box_value w =
     (if \<not> buffer_is_valid N handle w then Some (Stale_handle, w)
      else if \<not> has_size 11 box_value then Some (Invalid_argument, w)
      else do {
        x \<leftarrow> int32_field box_value 0;
        y \<leftarrow> int32_field box_value 1;
        width \<leftarrow> int32_field box_value 2;
        height \<leftarrow> int32_field box_value 3;
        let invalid = Some (Invalid_argument, w) in
        if neg32 width \<or> neg32 height then invalid
        else
          require (Option.bind (field box_value 4) read_border_chars) invalid (\<lambda>border_chars.
          require (Option.bind (field box_value 6) read_color) invalid (\<lambda>border_color.
          require (Option.bind (field box_value 7) read_color) invalid (\<lambda>background_color.
          require (Option.bind (field box_value 8) read_color) invalid (\<lambda>title_color.
          require (Option.bind (field box_value 9) read_optional_text) invalid (\<lambda>title.
          require (Option.bind (field box_value 10) read_optional_text) invalid (\<lambda>bottom_title. do {
            packed_options \<leftarrow> int32_field box_value 5;
            Some (Ok, bufferDrawBox (dr N) handle x y width height border_chars packed_options
                   border_color background_color title_color title bottom_title w)
          }))))))
      })"

definition opentui_raw_buffer_draw_text_buffer_view ::
  "'w raw_api \<Rightarrow> handle \<Rightarrow> handle \<Rightarrow> i32 \<Rightarrow> i32 \<Rightarrow> 'w \<Rightarrow> raw_status \<times> 'w" where
  "opentui_raw_buffer_draw_text_buffer_view N buffer_handle view_handle x y w =
     (if \<not> buffer_is_valid N buffer_handle w \<or> view_handle = 0 then (Stale_handle, w)
      else (Ok, bufferDrawTextBufferView (dr N) buffer_handle view_handle x y w))"

text \<open>The native call fills the caller's bytes in place; the new contents are the second result.\<close>

definition opentui_raw_buffer_write_resolved_chars ::
  "'w raw_api \<Rightarrow> bool \<Rightarrow> handle \<Rightarrow> bytes \<Rightarrow> bool \<Rightarrow> 'w \<Rightarrow> (int \<times> u32) outcome \<times> bytes \<times> 'w" where
  "opentui_raw_buffer_write_resolved_chars N oom handle output add_line_breaks w =
     (let output_length = length output in
      if \<not> buffer_is_valid N handle w then (allocating oom (make_status_count Stale_handle 0), output, w)
      else if output_length = 0 \<or> output_length > UINT32_MAX
      then (allocating oom (make_status_count Output_too_small 0), output, w)
      else
        let ((written, output1), w1) =
              bufferWriteResolvedChars (bf N) handle output (of_nat output_length) add_line_breaks w in
        if written = 0 then (allocating oom (make_status_count Output_too_small 0), output1, w1)
        else (allocating oom (make_status_count Ok written), output1, w1))"

section \<open>Buffers owned by OCaml\<close>

definition opentui_raw_optimized_buffer_as_buffer :: "handle \<Rightarrow> handle" where
  "opentui_raw_optimized_buffer_as_buffer handle = handle"

definition opentui_raw_optimized_buffer_create ::
  "'w raw_api \<Rightarrow> bool \<Rightarrow> i32 \<Rightarrow> i32 \<Rightarrow> bool \<Rightarrow> i32 \<Rightarrow> bytes \<Rightarrow> 'w
     \<Rightarrow> (raw_status \<times> handle) outcome \<times> 'w" where
  "opentui_raw_optimized_buffer_create N oom width height respect_alpha width_method ident w =
     (if nonpos32 width \<or> nonpos32 height \<or> (width_method \<noteq> 0 \<and> width_method \<noteq> 1)
      then (allocating oom (Invalid_argument, 0), w)
      else case read_text_length ident of
        None \<Rightarrow> (allocating oom (Invalid_argument, 0), w)
      | Some id_length \<Rightarrow>
          let (handle, w1) = createOptimizedBuffer (bf N) width height respect_alpha (ucast width_method)
                ident id_length w in
          if handle = 0 then (allocating oom (Native_failure, 0), w1)
          else (allocating oom (Ok, handle), w1))"

definition opentui_raw_optimized_buffer_destroy ::
  "'w raw_api \<Rightarrow> handle \<Rightarrow> 'w \<Rightarrow> 'w" where
  "opentui_raw_optimized_buffer_destroy N handle w =
     (if handle \<noteq> 0 then destroyOptimizedBuffer (bf N) handle w else w)"

definition opentui_raw_optimized_buffer_dimensions ::
  "'w raw_api \<Rightarrow> bool \<Rightarrow> handle \<Rightarrow> 'w \<Rightarrow> (raw_status \<times> u32 \<times> u32) outcome" where
  "opentui_raw_optimized_buffer_dimensions N oom handle w = allocating oom
     (if \<not> optimized_buffer_is_valid N handle w then make_status_dimensions Stale_handle 0 0
      else make_status_dimensions Ok (getBufferWidth (bf N) handle w) (getBufferHeight (bf N) handle w))"

definition opentui_raw_optimized_buffer_clear ::
  "'w raw_api \<Rightarrow> handle \<Rightarrow> value \<Rightarrow> 'w \<Rightarrow> (raw_status \<times> 'w) option" where
  "opentui_raw_optimized_buffer_clear N handle color_value w =
     (if \<not> optimized_buffer_is_valid N handle w then Some (Stale_handle, w)
      else require (read_color color_value) (Some (Invalid_argument, w))
        (\<lambda>background. Some (Ok, bufferClear (bf N) handle background w)))"

definition optimized_buffer_set_cell ::
  "'w raw_api \<Rightarrow> handle \<Rightarrow> value \<Rightarrow> bool \<Rightarrow> 'w \<Rightarrow> (raw_status \<times> 'w) option" where
  "optimized_buffer_set_cell N handle cell_value alpha_blending w =
     (if \<not> optimized_buffer_is_valid N handle w then Some (Stale_handle, w)
      else if \<not> has_size 6 cell_value then Some (Invalid_argument, w)
      else do {
        x \<leftarrow> int32_field cell_value 0;
        y \<leftarrow> int32_field cell_value 1;
        character \<leftarrow> int32_field cell_value 2;
        let invalid = Some (Invalid_argument, w) in
        if neg32 x \<or> neg32 y then invalid
        else do {
          foreground_value \<leftarrow> field cell_value 3;
          require (read_color foreground_value) invalid (\<lambda>foreground. do {
            background_value \<leftarrow> field cell_value 4;
            require (read_color background_value) invalid (\<lambda>background. do {
              attributes \<leftarrow> int32_field cell_value 5;
              Some (Ok,
                if alpha_blending
                then bufferSetCellWithAlphaBlending (dr N) handle x y character foreground background
                       attributes w
                else bufferSetCell (dr N) handle x y character foreground background attributes w)
            })
          })
        }
      })"

definition opentui_raw_optimized_buffer_set_cell ::
  "'w raw_api \<Rightarrow> handle \<Rightarrow> value \<Rightarrow> 'w \<Rightarrow> (raw_status \<times> 'w) option" where
  "opentui_raw_optimized_buffer_set_cell N handle cell_value w =
     optimized_buffer_set_cell N handle cell_value False w"

definition opentui_raw_optimized_buffer_set_cell_with_alpha_blending ::
  "'w raw_api \<Rightarrow> handle \<Rightarrow> value \<Rightarrow> 'w \<Rightarrow> (raw_status \<times> 'w) option" where
  "opentui_raw_optimized_buffer_set_cell_with_alpha_blending N handle cell_value w =
     optimized_buffer_set_cell N handle cell_value True w"

definition opentui_raw_optimized_buffer_draw_text ::
  "'w raw_api \<Rightarrow> handle \<Rightarrow> value \<Rightarrow> 'w \<Rightarrow> (raw_status \<times> 'w) option" where
  "opentui_raw_optimized_buffer_draw_text N handle text_value w =
     (if \<not> optimized_buffer_is_valid N handle w then Some (Stale_handle, w)
      else if \<not> has_size 6 text_value then Some (Invalid_argument, w)
      else do {
        string_value \<leftarrow> field text_value 0;
        x \<leftarrow> int32_field text_value 1;
        y \<leftarrow> int32_field text_value 2;
        let invalid = Some (Invalid_argument, w) in
        if neg32 x \<or> neg32 y then invalid
        else do {
          foreground_value \<leftarrow> field text_value 3;
          require (read_color foreground_value) invalid (\<lambda>foreground. do {
            background_value \<leftarrow> field text_value 4;
            require (read_color background_value) invalid (\<lambda>background. do {
              text \<leftarrow> string_val string_value;
              case read_text_length text of
                None \<Rightarrow> invalid
              | Some string_length \<Rightarrow> do {
                  attributes \<leftarrow> int32_field text_value 5;
                  Some (Ok, bufferDrawText (dr N) handle text string_length x y foreground background
                         attributes w)
                }
            })
          })
        }
      })"

definition opentui_raw_optimized_buffer_fill_rect ::
  "'w raw_api \<Rightarrow> handle \<Rightarrow> value \<Rightarrow> 'w \<Rightarrow> (raw_status \<times> 'w) option" where
  "opentui_raw_optimized_buffer_fill_rect N handle rect_value w =
     (if \<not> optimized_buffer_is_valid N handle w then Some (Stale_handle, w)
      else if \<not> has_size 5 rect_value then Some (Invalid_argument, w)
      else do {
        x \<leftarrow> int32_field rect_value 0;
        y \<leftarrow> int32_field rect_value 1;
        width \<leftarrow> int32_field rect_value 2;
        height \<leftarrow> int32_field rect_value 3;
        let invalid = Some (Invalid_argument, w) in
        if neg32 x \<or> neg32 y \<or> neg32 width \<or> neg32 height then invalid
        else require (Option.bind (field rect_value 4) read_color) invalid (\<lambda>background.
          Some (Ok, bufferFillRect (dr N) handle x y width height background w))
      })"

definition optimized_buffer_draw_grayscale_buffer ::
  "'w raw_api \<Rightarrow> bool \<Rightarrow> handle \<Rightarrow> value \<Rightarrow> bool \<Rightarrow> 'w \<times> stat_heap
     \<Rightarrow> (raw_status outcome \<times> 'w \<times> stat_heap) option" where
  "optimized_buffer_draw_grayscale_buffer N oom handle args_value supersampled = (\<lambda>(w, h).
     if \<not> optimized_buffer_is_valid N handle w then Some (Returns Stale_handle, w, h)
     else if \<not> has_size 7 args_value then Some (Returns Invalid_argument, w, h)
     else do {
       x \<leftarrow> int32_field args_value 0;
       y \<leftarrow> int32_field args_value 1;
       width \<leftarrow> int32_field args_value 3;
       height \<leftarrow> int32_field args_value 4;
       if neg32 width \<or> neg32 height then Some (Returns Invalid_argument, w, h)
       else do {
         intensities_value \<leftarrow> field args_value 2;
         (copied, h1) \<leftarrow> read_grayscale_floatarray oom intensities_value width height h;
         case copied of
           Out_of_memory \<Rightarrow> Some (Out_of_memory, w, h1)
         | Returns None \<Rightarrow> Some (Returns Invalid_argument, w, h1)
         | Returns (Some (intensities, samples)) \<Rightarrow>
             let invalid = do {
                   h2 \<leftarrow> free_if_not_null intensities h1;
                   Some (Returns Invalid_argument, w, h2) } in
             require (Option.bind (field args_value 5) read_optional_color) invalid (\<lambda>foreground.
             require (Option.bind (field args_value 6) read_optional_color) invalid (\<lambda>background.
               let w1 =
                 (if supersampled
                  then bufferDrawGrayscaleBufferSupersampled (dr N) handle x y samples width height
                         foreground background w
                  else bufferDrawGrayscaleBuffer (dr N) handle x y samples width height
                         foreground background w) in
               do { h2 \<leftarrow> free_if_not_null intensities h1; Some (Returns Ok, w1, h2) }))
       }
     })"

definition opentui_raw_optimized_buffer_draw_grayscale_buffer ::
  "'w raw_api \<Rightarrow> bool \<Rightarrow> handle \<Rightarrow> value \<Rightarrow> 'w \<times> stat_heap
     \<Rightarrow> (raw_status outcome \<times> 'w \<times> stat_heap) option" where
  "opentui_raw_optimized_buffer_draw_grayscale_buffer N oom handle args_value =
     optimized_buffer_draw_grayscale_buffer N oom handle args_value False"

definition opentui_raw_optimized_buffer_draw_grayscale_buffer_supersampled ::
  "'w raw_api \<Rightarrow> bool \<Rightarrow> handle \<Rightarrow> value \<Rightarrow> 'w \<times> stat_heap
     \<Rightarrow> (raw_status outcome \<times> 'w \<times> stat_heap) option" where
  "opentui_raw_optimized_buffer_draw_grayscale_buffer_supersampled N oom handle args_value =
     optimized_buffer_draw_grayscale_buffer N oom handle args_value True"

definition opentui_raw_optimized_buffer_draw_frame_buffer ::
  "'w raw_api \<Rightarrow> handle \<Rightarrow> value \<Rightarrow> 'w \<Rightarrow> (raw_status \<times> 'w) option" where
  "opentui_raw_optimized_buffer_draw_frame_buffer N target args_value w =
     (if \<not> has_size 7 args_value then Some (Invalid_argument, w)
      else do {
        source \<leftarrow> int32_field args_value 2;
        x \<leftarrow> int32_field args_value 0;
        y \<leftarrow> int32_field args_value 1;
        source_x \<leftarrow> int32_field args_value 3;
        source_y \<leftarrow> int32_field args_value 4;
        source_width \<leftarrow> int32_field args_value 5;
        source_height \<leftarrow> int32_field args_value 6;
        Some (
          if \<not> optimized_buffer_is_valid N target w \<or> \<not> optimized_buffer_is_valid N source w
          then (Stale_handle, w)
          else if neg32 source_x \<or> neg32 source_y \<or> neg32 source_width \<or> neg32 source_height
          then (Invalid_argument, w)
          else (Ok, drawFrameBuffer (dr N) target x y source source_x source_y source_width
                      source_height w))
      })"

definition opentui_raw_optimized_buffer_resize ::
  "'w raw_api \<Rightarrow> handle \<Rightarrow> i32 \<Rightarrow> i32 \<Rightarrow> 'w \<Rightarrow> raw_status \<times> 'w" where
  "opentui_raw_optimized_buffer_resize N handle width height w =
     (if \<not> optimized_buffer_is_valid N handle w then (Stale_handle, w)
      else if nonpos32 width \<or> nonpos32 height then (Invalid_argument, w)
      else (Ok, bufferResize (bf N) handle width height w))"

text \<open>\<open>count = count == 0 ? 0 : count - 1\<close>: n offsets bound n - 1 cells.\<close>

definition cell_count :: "u32 \<Rightarrow> u32" where
  "cell_count count = (if count = 0 then 0 else count - 1)"

text \<open>
  The stub allocates twice: \<open>oom1\<close> and \<open>oom2\<close> say which copy cannot be allocated. An
  exception from the second leaves without releasing the first.
\<close>

definition opentui_raw_optimized_buffer_draw_grid ::
  "'w raw_api \<Rightarrow> bool \<Rightarrow> bool \<Rightarrow> handle \<Rightarrow> value \<Rightarrow> 'w \<times> stat_heap
     \<Rightarrow> (raw_status outcome \<times> 'w \<times> stat_heap) option" where
  "opentui_raw_optimized_buffer_draw_grid N oom1 oom2 handle args_value = (\<lambda>(w, h).
     if \<not> optimized_buffer_is_valid N handle w then Some (Returns Stale_handle, w, h)
     else if \<not> has_size 7 args_value then Some (Returns Invalid_argument, w, h)
     else do {
       border_value \<leftarrow> field args_value 0;
       foreground_value \<leftarrow> field args_value 1;
       background_value \<leftarrow> field args_value 2;
       columns_value \<leftarrow> field args_value 3;
       rows_value \<leftarrow> field args_value 4;
       draw_inner_value \<leftarrow> field args_value 5;
       draw_outer_value \<leftarrow> field args_value 6;
       let invalid = Some (Returns Invalid_argument, w, h) in
       require (read_border_chars border_value) invalid (\<lambda>border_chars.
       require (read_color foreground_value) invalid (\<lambda>foreground.
       require (read_color background_value) invalid (\<lambda>background. do {
         (copied, h1) \<leftarrow> read_int32_array oom1 columns_value h;
         case copied of
           Out_of_memory \<Rightarrow> Some (Out_of_memory, w, h1)
         | Returns None \<Rightarrow> Some (Returns Invalid_argument, w, h1)
         | Returns (Some (columns, column_offsets)) \<Rightarrow> do {
             (copied, h2) \<leftarrow> read_int32_array oom2 rows_value h1;
             case copied of
               Out_of_memory \<Rightarrow> Some (Out_of_memory, w, h2)
             | Returns None \<Rightarrow> do {
                 h3 \<leftarrow> free_if_not_null columns h2;
                 Some (Returns Invalid_argument, w, h3)
               }
             | Returns (Some (rows, row_offsets)) \<Rightarrow>
                 let column_count = cell_count (of_nat (length column_offsets));
                     row_count = cell_count (of_nat (length row_offsets)) in
                 do {
                   inner \<leftarrow> bool_val draw_inner_value;
                   outer \<leftarrow> bool_val draw_outer_value;
                   let w1 = bufferDrawGrid (dr N) handle border_chars foreground background
                         column_offsets column_count row_offsets row_count
                         \<lparr>draw_inner = inner, draw_outer = outer\<rparr> w;
                   h3 \<leftarrow> free_if_not_null columns h2;
                   h4 \<leftarrow> free_if_not_null rows h3;
                   Some (Returns Ok, w1, h4)
                 }
           }
       })))
     })"

section \<open>The same operations on borrowed buffers\<close>

definition opentui_raw_buffer_draw_frame_buffer ::
  "'w raw_api \<Rightarrow> handle \<Rightarrow> value \<Rightarrow> 'w \<Rightarrow> (raw_status \<times> 'w) option" where
  "opentui_raw_buffer_draw_frame_buffer N target args_value w =
     opentui_raw_optimized_buffer_draw_frame_buffer N target args_value w"

definition opentui_raw_buffer_draw_grid ::
  "'w raw_api \<Rightarrow> bool \<Rightarrow> bool \<Rightarrow> handle \<Rightarrow> value \<Rightarrow> 'w \<times> stat_heap
     \<Rightarrow> (raw_status outcome \<times> 'w \<times> stat_heap) option" where
  "opentui_raw_buffer_draw_grid N oom1 oom2 handle args_value =
     opentui_raw_optimized_buffer_draw_grid N oom1 oom2 handle args_value"

definition opentui_raw_buffer_set_cell_with_alpha_blending ::
  "'w raw_api \<Rightarrow> handle \<Rightarrow> value \<Rightarrow> 'w \<Rightarrow> (raw_status \<times> 'w) option" where
  "opentui_raw_buffer_set_cell_with_alpha_blending N handle cell_value w =
     opentui_raw_optimized_buffer_set_cell_with_alpha_blending N handle cell_value w"

definition opentui_raw_buffer_fill_rect ::
  "'w raw_api \<Rightarrow> handle \<Rightarrow> value \<Rightarrow> 'w \<Rightarrow> (raw_status \<times> 'w) option" where
  "opentui_raw_buffer_fill_rect N handle rect_value w =
     opentui_raw_optimized_buffer_fill_rect N handle rect_value w"

definition opentui_raw_buffer_draw_grayscale_buffer ::
  "'w raw_api \<Rightarrow> bool \<Rightarrow> handle \<Rightarrow> value \<Rightarrow> 'w \<times> stat_heap
     \<Rightarrow> (raw_status outcome \<times> 'w \<times> stat_heap) option" where
  "opentui_raw_buffer_draw_grayscale_buffer N oom handle args_value =
     optimized_buffer_draw_grayscale_buffer N oom handle args_value False"

definition opentui_raw_buffer_draw_grayscale_buffer_supersampled ::
  "'w raw_api \<Rightarrow> bool \<Rightarrow> handle \<Rightarrow> value \<Rightarrow> 'w \<times> stat_heap
     \<Rightarrow> (raw_status outcome \<times> 'w \<times> stat_heap) option" where
  "opentui_raw_buffer_draw_grayscale_buffer_supersampled N oom handle args_value =
     optimized_buffer_draw_grayscale_buffer N oom handle args_value True"

section \<open>Scissor rectangles and opacity\<close>

definition opentui_raw_buffer_push_scissor_rect ::
  "'w raw_api \<Rightarrow> handle \<Rightarrow> value \<Rightarrow> 'w \<Rightarrow> (raw_status \<times> 'w) option" where
  "opentui_raw_buffer_push_scissor_rect N handle args_value w =
     (if \<not> has_size 4 args_value then Some (Invalid_argument, w)
      else do {
        x \<leftarrow> int32_field args_value 0;
        y \<leftarrow> int32_field args_value 1;
        width \<leftarrow> int32_field args_value 2;
        height \<leftarrow> int32_field args_value 3;
        Some (
          if \<not> buffer_is_valid N handle w \<or> neg32 width \<or> neg32 height
          then (if buffer_is_valid N handle w then Invalid_argument else Stale_handle, w)
          else (Ok, bufferPushScissorRect (bf N) handle x y width height w))
      })"

definition opentui_raw_buffer_pop_scissor_rect :: "'w raw_api \<Rightarrow> handle \<Rightarrow> 'w \<Rightarrow> raw_status \<times> 'w" where
  "opentui_raw_buffer_pop_scissor_rect N handle w =
     (if \<not> buffer_is_valid N handle w then (Stale_handle, w) else (Ok, bufferPopScissorRect (bf N) handle w))"

definition opentui_raw_buffer_clear_scissor_rects :: "'w raw_api \<Rightarrow> handle \<Rightarrow> 'w \<Rightarrow> raw_status \<times> 'w" where
  "opentui_raw_buffer_clear_scissor_rects N handle w =
     (if \<not> buffer_is_valid N handle w then (Stale_handle, w) else (Ok, bufferClearScissorRects (bf N) handle w))"

definition opentui_raw_buffer_push_opacity ::
  "'w raw_api \<Rightarrow> handle \<Rightarrow> value \<Rightarrow> 'w \<Rightarrow> (raw_status \<times> 'w) option" where
  "opentui_raw_buffer_push_opacity N handle opacity_value w =
     (let invalid = Some (if buffer_is_valid N handle w then Invalid_argument else Stale_handle, w) in
      if \<not> buffer_is_valid N handle w \<or> \<not> has_tag Double_tag opacity_value then invalid
      else do {
        opacity \<leftarrow> double_val opacity_value;
        if \<not> isfinite opacity then invalid
        else Some (Ok, bufferPushOpacity (bf N) handle (to_float opacity) w)
      })"

definition opentui_raw_buffer_pop_opacity :: "'w raw_api \<Rightarrow> handle \<Rightarrow> 'w \<Rightarrow> raw_status \<times> 'w" where
  "opentui_raw_buffer_pop_opacity N handle w =
     (if \<not> buffer_is_valid N handle w then (Stale_handle, w) else (Ok, bufferPopOpacity (bf N) handle w))"

definition opentui_raw_buffer_get_current_opacity ::
  "'w raw_api \<Rightarrow> bool \<Rightarrow> handle \<Rightarrow> 'w \<Rightarrow> fp outcome \<times> 'w" where
  "opentui_raw_buffer_get_current_opacity N oom handle w =
     (if \<not> buffer_is_valid N handle w then (allocating oom (Fin 1), w)
      else let (opacity, w1) = bufferGetCurrentOpacity (bf N) handle w in (allocating oom opacity, w1))"

definition opentui_raw_buffer_clear_opacity :: "'w raw_api \<Rightarrow> handle \<Rightarrow> 'w \<Rightarrow> raw_status \<times> 'w" where
  "opentui_raw_buffer_clear_opacity N handle w =
     (if \<not> buffer_is_valid N handle w then (Stale_handle, w) else (Ok, bufferClearOpacity (bf N) handle w))"

end
