(* ===== verification/Raw_Safety.thy ===== *)
theory Raw_Safety
  imports Buffers
begin

text \<open>
  Safety of the renderer and buffer stubs. \<open>audited_raw\<close> wraps the native library and
  records whether a call was made with arguments outside what the library is specified for:
  a handle it would not accept, an extent that is not a non-negative int32, a color that is
  not four bytes, an array shorter than its count. \<open>raw_call\<close> and \<open>raw_step\<close> run the
  stubs with any arguments and any allocation failures.
\<close>

section \<open>What the native library is specified for\<close>

abbreviation positive :: "u32 \<Rightarrow> bool" where "positive x \<equiv> \<not> nonpos32 x"
abbreviation extent :: "u32 \<Rightarrow> bool" where "extent x \<equiv> \<not> neg32 x"

definition color_ok :: "color \<Rightarrow> bool" where
  "color_ok c \<longleftrightarrow> length c = 4 \<and> (\<forall>x \<in> set c. unat x \<le> 255)"

definition border_ok :: "u32 list \<Rightarrow> bool" where
  "border_ok cs \<longleftrightarrow> length cs = 11 \<and> (\<forall>x \<in> set cs. extent x)"

text \<open>Offsets of a grid: \<open>n\<close> cells lie between \<open>n + 1\<close> offsets.\<close>

definition offsets_ok :: "i32 list \<Rightarrow> u32 \<Rightarrow> bool" where
  "offsets_ok xs n \<longleftrightarrow> unat n = length xs - 1"

definition text_ok :: "bytes \<Rightarrow> bool" where
  "text_ok t \<longleftrightarrow> length t \<le> UINT32_MAX"

definition cursor_options_ok :: "cursor_style_options \<Rightarrow> bool" where
  "cursor_options_ok c \<longleftrightarrow>
     (unat (o_style c) \<le> 3 \<or> o_style c = 255) \<and> (unat (o_blinking c) \<le> 1 \<or> o_blinking c = 255) \<and>
     (unat (o_cursor c) \<le> 5 \<or> o_cursor c = 255) \<and> pred_option color_ok (o_color c)"

section \<open>The audit\<close>

text \<open>A world and the flag that a call was outside its specification.\<close>

definition audit :: "('w \<Rightarrow> bool) \<Rightarrow> ('w \<Rightarrow> 'w) \<Rightarrow> 'w \<times> bool \<Rightarrow> 'w \<times> bool" where
  "audit pre f = (\<lambda>(w, misuse). (f w, misuse \<or> \<not> pre w))"

definition audit_result :: "('w \<Rightarrow> bool) \<Rightarrow> ('w \<Rightarrow> 'a \<times> 'w) \<Rightarrow> 'w \<times> bool \<Rightarrow> 'a \<times> 'w \<times> bool" where
  "audit_result pre f = (\<lambda>(w, misuse). let (r, w') = f w in (r, w', misuse \<or> \<not> pre w))"

definition audited_raw :: "'w raw_api \<Rightarrow> ('w \<times> bool) raw_api" where
  "audited_raw N = \<lparr>
    rn = \<lparr>
      createRenderer = (\<lambda>x y d m p. audit_result (\<lambda>_. positive x \<and> positive y \<and> unat
        d \<le> 1 \<and> unat m \<le> 2) (createRenderer (rn N) x y d m p)),
      setUseThread = (\<lambda>h b. audit (\<lambda>_. h \<noteq> 0) (setUseThread (rn N) h b)),
      destroyRenderer = (\<lambda>h. audit (\<lambda>_. h \<noteq> 0) (destroyRenderer (rn N) h)),
      getCurrentBuffer = (\<lambda>h s. getCurrentBuffer (rn N) h (fst s)),
      getNextBuffer = (\<lambda>h s. getNextBuffer (rn N) h (fst s)),
      resizeRenderer = (\<lambda>h x y. audit (\<lambda>w. renderer_is_valid N h w \<and> positive x \<and>
        positive y) (resizeRenderer (rn N) h x y)),
      writeOut = (\<lambda>h t. audit (\<lambda>w. renderer_is_valid N h w \<and> text_ok t) (writeOut (rn N)
        h t)),
      queryTerminalCapabilities = (\<lambda>h. audit (\<lambda>w. renderer_is_valid N h w)
        (queryTerminalCapabilities (rn N) h)),
      triggerNotification = (\<lambda>h t u. audit_result (\<lambda>w. renderer_is_valid N h w \<and> text_ok
        t \<and> pred_option text_ok u) (triggerNotification (rn N) h t u)),
      render = (\<lambda>h f. audit_result (\<lambda>_. h \<noteq> 0) (render (rn N) h f)),
      setBackgroundColor = (\<lambda>h c. audit (\<lambda>w. renderer_is_valid N h w \<and> color_ok c)
        (setBackgroundColor (rn N) h c)),
      setCursorPosition = (\<lambda>h x y v. audit (\<lambda>w. renderer_is_valid N h w) (setCursorPosition
        (rn N) h x y v)),
      setCursorColor = (\<lambda>h c. audit (\<lambda>w. renderer_is_valid N h w \<and> color_ok c)
        (setCursorColor (rn N) h c)),
      setCursorStyleOptions = (\<lambda>h c. audit (\<lambda>w. renderer_is_valid N h w \<and>
        cursor_options_ok c) (setCursorStyleOptions (rn N) h c)),
      getCursorState = (\<lambda>h. audit_result (\<lambda>w. renderer_is_valid N h w) (getCursorState (rn N) h))\<rparr>,
    sf = \<lparr>
      setRenderOffset = (\<lambda>h x. audit (\<lambda>w. renderer_is_valid N h w \<and> extent x)
        (setRenderOffset (sf N) h x)),
      resetSplitScrollback = (\<lambda>h x y. audit_result (\<lambda>w. renderer_is_valid N h w \<and> extent
        x \<and> extent y) (resetSplitScrollback (sf N) h x y)),
      syncSplitScrollback = (\<lambda>h x. audit_result (\<lambda>w. renderer_is_valid N h w \<and> extent x)
        (syncSplitScrollback (sf N) h x)),
      getSplitOutputOffset = (\<lambda>h x. audit_result (\<lambda>w. renderer_is_valid N h w \<and> extent x)
        (getSplitOutputOffset (sf N) h x)),
      setPendingSplitFooterTransition = (\<lambda>h m a b c d e. audit (\<lambda>w. renderer_is_valid N h w
        \<and> unat m \<le> 2 \<and> extent a \<and> extent b \<and> extent c \<and> extent d \<and> extent e)
        (setPendingSplitFooterTransition (sf N) h m a b c d e)),
      clearPendingSplitFooterTransition = (\<lambda>h. audit (\<lambda>w. renderer_is_valid N h w)
        (clearPendingSplitFooterTransition (sf N) h)),
      repaintSplitFooter = (\<lambda>h x f. audit_result (\<lambda>w. renderer_is_valid N h w \<and> extent x)
        (repaintSplitFooter (sf N) h x f)),
      commitSplitFooterSnapshot = (\<lambda>h s x a b y f g k. audit_result (\<lambda>w. renderer_is_valid N h
        w \<and> buffer_is_valid N s w \<and> extent x \<and> extent y) (commitSplitFooterSnapshot (sf N) h s x
        a b y f g k))\<rparr>,
    hg = \<lparr>
      addToHitGrid = (\<lambda>h x y a b i. audit (\<lambda>w. renderer_is_valid N h w \<and> extent a \<and>
        extent b \<and> extent i) (addToHitGrid (hg N) h x y a b i)),
      clearCurrentHitGrid = (\<lambda>h. audit (\<lambda>w. renderer_is_valid N h w) (clearCurrentHitGrid (hg
        N) h)),
      clearNextHitGrid = (\<lambda>h. audit (\<lambda>w. renderer_is_valid N h w) (clearNextHitGrid (hg N) h)),
      hitGridPushScissorRect = (\<lambda>h x y a b. audit (\<lambda>w. renderer_is_valid N h w \<and> extent a
        \<and> extent b) (hitGridPushScissorRect (hg N) h x y a b)),
      hitGridPopScissorRect = (\<lambda>h. audit (\<lambda>w. renderer_is_valid N h w) (hitGridPopScissorRect
        (hg N) h)),
      hitGridClearScissorRects = (\<lambda>h. audit (\<lambda>w. renderer_is_valid N h w)
        (hitGridClearScissorRects (hg N) h)),
      addToCurrentHitGridClipped = (\<lambda>h x y a b i. audit (\<lambda>w. renderer_is_valid N h w \<and>
        extent a \<and> extent b \<and> extent i) (addToCurrentHitGridClipped (hg N) h x y a b i)),
      checkHit = (\<lambda>h x y. audit_result (\<lambda>w. renderer_is_valid N h w \<and> extent x \<and> extent y)
        (checkHit (hg N) h x y)),
      getHitGridDirty = (\<lambda>h. audit_result (\<lambda>w. renderer_is_valid N h w) (getHitGridDirty (hg N) h))\<rparr>,
    bf = \<lparr>
      getBufferWidth = (\<lambda>h s. getBufferWidth (bf N) h (fst s)),
      getBufferHeight = (\<lambda>h s. getBufferHeight (bf N) h (fst s)),
      createOptimizedBuffer = (\<lambda>x y b m t n. audit_result (\<lambda>_. positive x \<and> positive y
        \<and> unat m \<le> 1 \<and> unat n = length t) (createOptimizedBuffer (bf N) x y b m t n)),
      destroyOptimizedBuffer = (\<lambda>h. audit (\<lambda>_. h \<noteq> 0) (destroyOptimizedBuffer (bf N)
        h)),
      bufferResize = (\<lambda>h x y. audit (\<lambda>w. buffer_is_valid N h w \<and> positive x \<and>
        positive y) (bufferResize (bf N) h x y)),
      bufferClear = (\<lambda>h c. audit (\<lambda>w. buffer_is_valid N h w \<and> color_ok c) (bufferClear
        (bf N) h c)),
      bufferWriteResolvedChars = (\<lambda>h t n b. audit_result (\<lambda>w. buffer_is_valid N h w \<and>
        unat n = length t \<and> t \<noteq> []) (bufferWriteResolvedChars (bf N) h t n b)),
      bufferPushScissorRect = (\<lambda>h x y a b. audit (\<lambda>w. buffer_is_valid N h w \<and> extent a
        \<and> extent b) (bufferPushScissorRect (bf N) h x y a b)),
      bufferPopScissorRect = (\<lambda>h. audit (\<lambda>w. buffer_is_valid N h w) (bufferPopScissorRect (bf
        N) h)),
      bufferClearScissorRects = (\<lambda>h. audit (\<lambda>w. buffer_is_valid N h w)
        (bufferClearScissorRects (bf N) h)),
      bufferPushOpacity = (\<lambda>h x. audit (\<lambda>w. buffer_is_valid N h w \<and> \<not> isnan x)
        (bufferPushOpacity (bf N) h x)),
      bufferPopOpacity = (\<lambda>h. audit (\<lambda>w. buffer_is_valid N h w) (bufferPopOpacity (bf N) h)),
      bufferGetCurrentOpacity = (\<lambda>h. audit_result (\<lambda>w. buffer_is_valid N h w)
        (bufferGetCurrentOpacity (bf N) h)),
      bufferClearOpacity = (\<lambda>h. audit (\<lambda>w. buffer_is_valid N h w) (bufferClearOpacity (bf N)
        h))\<rparr>,
    dr = \<lparr>
      bufferSetCell = (\<lambda>h x y ch c d a. audit (\<lambda>w. buffer_is_valid N h w \<and> extent x
        \<and> extent y \<and> color_ok c \<and> color_ok d) (bufferSetCell (dr N) h x y ch c d a)),
      bufferSetCellWithAlphaBlending = (\<lambda>h x y ch c d a. audit (\<lambda>w. buffer_is_valid N h w
        \<and> extent x \<and> extent y \<and> color_ok c \<and> color_ok d) (bufferSetCellWithAlphaBlending (dr
        N) h x y ch c d a)),
      bufferDrawText = (\<lambda>h t n x y c d a. audit (\<lambda>w. buffer_is_valid N h w \<and> unat n =
        length t \<and> extent x \<and> extent y \<and> color_ok c \<and> color_ok d) (bufferDrawText (dr N) h t
        n x y c d a)),
      bufferDrawBox = (\<lambda>h x y a b cs p c d e t u. audit (\<lambda>w. buffer_is_valid N h w \<and>
        extent a \<and> extent b \<and> border_ok cs \<and> color_ok c \<and> color_ok d \<and> color_ok e
        \<and> pred_option text_ok t \<and> pred_option text_ok u) (bufferDrawBox (dr N) h x y a b cs p c d e t
        u)),
      bufferDrawTextBufferView = (\<lambda>h v x y. audit (\<lambda>w. buffer_is_valid N h w \<and> v \<noteq>
        0) (bufferDrawTextBufferView (dr N) h v x y)),
      bufferFillRect = (\<lambda>h x y a b c. audit (\<lambda>w. buffer_is_valid N h w \<and> extent x \<and>
        extent y \<and> extent a \<and> extent b \<and> color_ok c) (bufferFillRect (dr N) h x y a b c)),
      bufferDrawGrayscaleBuffer = (\<lambda>h x y xs a b c d. audit (\<lambda>w. buffer_is_valid N h w \<and>
        extent a \<and> extent b \<and> length xs = unat a * unat b \<and> pred_option color_ok c \<and>
        pred_option color_ok d) (bufferDrawGrayscaleBuffer (dr N) h x y xs a b c d)),
      bufferDrawGrayscaleBufferSupersampled = (\<lambda>h x y xs a b c d. audit (\<lambda>w. buffer_is_valid N
        h w \<and> extent a \<and> extent b \<and> length xs = unat a * unat b \<and> pred_option color_ok c
        \<and> pred_option color_ok d) (bufferDrawGrayscaleBufferSupersampled (dr N) h x y xs a b c d)),
      drawFrameBuffer = (\<lambda>h x y s a b c d. audit (\<lambda>w. buffer_is_valid N h w \<and>
        buffer_is_valid N s w \<and> extent a \<and> extent b \<and> extent c \<and> extent d) (drawFrameBuffer
        (dr N) h x y s a b c d)),
      bufferDrawGrid = (\<lambda>h cs c d xs m ys n opts. audit (\<lambda>w. buffer_is_valid N h w \<and>
        border_ok cs \<and> color_ok c \<and> color_ok d \<and> offsets_ok xs m \<and> offsets_ok ys n)
        (bufferDrawGrid (dr N) h cs c d xs m ys n opts))\<rparr>\<rparr>"

section \<open>Running the stubs\<close>

text \<open>The stubs that answer with a status alone.\<close>

inductive raw_call :: "'w raw_api \<Rightarrow> 'w \<Rightarrow> raw_status \<Rightarrow> 'w \<Rightarrow> bool" for N where
  "opentui_raw_renderer_resize N h x y w = (st, w') \<Longrightarrow> raw_call N w st w'"
| "opentui_raw_renderer_write_out N h t w = (st, w') \<Longrightarrow> raw_call N w st w'"
| "opentui_raw_renderer_query_terminal_capabilities N h w = (st, w') \<Longrightarrow>
     raw_call N w st w'"
| "opentui_raw_renderer_set_render_offset N h x w = (st, w') \<Longrightarrow> raw_call N w st w'"
| "opentui_raw_renderer_set_pending_split_footer_transition N h v w = Some (st, w') \<Longrightarrow>
     raw_call N w st w'"
| "opentui_raw_renderer_clear_pending_split_footer_transition N h w = (st, w') \<Longrightarrow>
     raw_call N w st w'"
| "opentui_raw_renderer_set_background_color N h v w = Some (st, w') \<Longrightarrow>
     raw_call N w st w'"
| "opentui_raw_renderer_set_cursor_position N h x y b w = (st, w') \<Longrightarrow> raw_call N w st w'"
| "opentui_raw_renderer_set_cursor_color N h v w = Some (st, w') \<Longrightarrow> raw_call N w st w'"
| "opentui_raw_renderer_set_cursor_style_options N h v1 v2 v3 v4 w = Some (st, w') \<Longrightarrow>
     raw_call N w st w'"
| "opentui_raw_renderer_add_to_hit_grid N h x y a b i w = (st, w') \<Longrightarrow> raw_call N w st w'"
| "opentui_raw_renderer_add_to_hit_grid_bytecode N vs w = Some (st, w') \<Longrightarrow>
     raw_call N w st w'"
| "opentui_raw_renderer_clear_current_hit_grid N h w = (st, w') \<Longrightarrow> raw_call N w st w'"
| "opentui_raw_renderer_clear_next_hit_grid N h w = (st, w') \<Longrightarrow> raw_call N w st w'"
| "opentui_raw_renderer_hit_grid_push_scissor_rect N h x y a b w = (st, w') \<Longrightarrow>
     raw_call N w st w'"
| "opentui_raw_renderer_hit_grid_pop_scissor_rect N h w = (st, w') \<Longrightarrow> raw_call N w st w'"
| "opentui_raw_renderer_hit_grid_clear_scissor_rects N h w = (st, w') \<Longrightarrow>
     raw_call N w st w'"
| "opentui_raw_renderer_add_to_current_hit_grid_clipped N h x y a b i w = (st, w') \<Longrightarrow>
     raw_call N w st w'"
| "opentui_raw_renderer_add_to_current_hit_grid_clipped_bytecode N vs w = Some (st, w') \<Longrightarrow>
     raw_call N w st w'"
| "opentui_raw_buffer_clear N h v w = Some (st, w') \<Longrightarrow> raw_call N w st w'"
| "opentui_raw_buffer_set_cell N h v w = Some (st, w') \<Longrightarrow> raw_call N w st w'"
| "opentui_raw_buffer_draw_text N h v w = Some (st, w') \<Longrightarrow> raw_call N w st w'"
| "opentui_raw_buffer_draw_box N h v w = Some (st, w') \<Longrightarrow> raw_call N w st w'"
| "opentui_raw_buffer_draw_text_buffer_view N h k x y w = (st, w') \<Longrightarrow> raw_call N w st w'"
| "opentui_raw_optimized_buffer_clear N h v w = Some (st, w') \<Longrightarrow> raw_call N w st w'"
| "opentui_raw_optimized_buffer_set_cell N h v w = Some (st, w') \<Longrightarrow> raw_call N w st w'"
| "opentui_raw_optimized_buffer_set_cell_with_alpha_blending N h v w = Some (st, w') \<Longrightarrow>
     raw_call N w st w'"
| "opentui_raw_optimized_buffer_draw_text N h v w = Some (st, w') \<Longrightarrow> raw_call N w st w'"
| "opentui_raw_optimized_buffer_fill_rect N h v w = Some (st, w') \<Longrightarrow> raw_call N w st w'"
| "opentui_raw_optimized_buffer_draw_frame_buffer N h v w = Some (st, w') \<Longrightarrow>
     raw_call N w st w'"
| "opentui_raw_optimized_buffer_resize N h x y w = (st, w') \<Longrightarrow> raw_call N w st w'"
| "opentui_raw_buffer_draw_frame_buffer N h v w = Some (st, w') \<Longrightarrow> raw_call N w st w'"
| "opentui_raw_buffer_set_cell_with_alpha_blending N h v w = Some (st, w') \<Longrightarrow>
     raw_call N w st w'"
| "opentui_raw_buffer_fill_rect N h v w = Some (st, w') \<Longrightarrow> raw_call N w st w'"
| "opentui_raw_buffer_push_scissor_rect N h v w = Some (st, w') \<Longrightarrow> raw_call N w st w'"
| "opentui_raw_buffer_pop_scissor_rect N h w = (st, w') \<Longrightarrow> raw_call N w st w'"
| "opentui_raw_buffer_clear_scissor_rects N h w = (st, w') \<Longrightarrow> raw_call N w st w'"
| "opentui_raw_buffer_push_opacity N h v w = Some (st, w') \<Longrightarrow> raw_call N w st w'"
| "opentui_raw_buffer_pop_opacity N h w = (st, w') \<Longrightarrow> raw_call N w st w'"
| "opentui_raw_buffer_clear_opacity N h w = (st, w') \<Longrightarrow> raw_call N w st w'"

text \<open>
  All stubs with checks, with any arguments. (The unchecked stubs of the hit grid validate nothing, so
  no step is one of them; how they relate to the checked ones is a property of its own. The
  lookups of the buffers of a renderer and of the size of a buffer change nothing.)
\<close>

inductive raw_step :: "'w raw_api \<Rightarrow> 'w \<times> stat_heap \<Rightarrow> 'w \<times> stat_heap \<Rightarrow> bool" for N where
  "raw_call N w st w' \<Longrightarrow> raw_step N (w, s) (w', s)"
| "opentui_raw_renderer_create N oom F x y d m v w = Some (r, w') \<Longrightarrow>
     raw_step N (w, s) (w', s)"
| "opentui_raw_renderer_trigger_notification N oom h v1 v2 w = Some (r, w') \<Longrightarrow>
     raw_step N (w, s) (w', s)"
| "opentui_raw_renderer_render N h b w = (r, w') \<Longrightarrow> raw_step N (w, s) (w', s)"
| "opentui_raw_renderer_reset_split_scrollback N oom h x y w = (r, w') \<Longrightarrow>
     raw_step N (w, s) (w', s)"
| "opentui_raw_renderer_sync_split_scrollback N oom h x w = (r, w') \<Longrightarrow>
     raw_step N (w, s) (w', s)"
| "opentui_raw_renderer_repaint_split_footer N oom h x b w = (r, w') \<Longrightarrow>
     raw_step N (w, s) (w', s)"
| "opentui_raw_renderer_commit_split_footer_snapshot N oom h k x b1 b2 y b3 b4 b5 w = (r, w') \<Longrightarrow>
     raw_step N (w, s) (w', s)"
| "opentui_raw_renderer_commit_split_footer_snapshot_bytecode N oom vs w = Some (r, w') \<Longrightarrow>
     raw_step N (w, s) (w', s)"
| "opentui_raw_optimized_buffer_create N oom x y b m t w = (r, w') \<Longrightarrow>
     raw_step N (w, s) (w', s)"
| "raw_step N (w, s) (opentui_raw_renderer_destroy N h w, s)"
| "raw_step N (w, s) (opentui_raw_optimized_buffer_destroy N h w, s)"
| "opentui_raw_renderer_get_split_output_offset N oom h x w = (r, w') \<Longrightarrow>
     raw_step N (w, s) (w', s)"
| "opentui_raw_renderer_cursor_state N oom h w = (r, w') \<Longrightarrow> raw_step N (w, s) (w', s)"
| "opentui_raw_renderer_check_hit N oom h x y w = (r, w') \<Longrightarrow> raw_step N (w, s) (w', s)"
| "opentui_raw_renderer_get_hit_grid_dirty N oom h w = (r, w') \<Longrightarrow> raw_step N (w, s) (w', s)"
| "opentui_raw_buffer_write_resolved_chars N oom h t b w = (r, t', w') \<Longrightarrow>
     raw_step N (w, s) (w', s)"
| "opentui_raw_buffer_get_current_opacity N oom h w = (r, w') \<Longrightarrow> raw_step N (w, s) (w', s)"
| "opentui_raw_buffer_draw_grid N oom1 oom2 h v (w, s) = Some (r, w', s') \<Longrightarrow>
     raw_step N (w, s) (w', s')"
| "opentui_raw_optimized_buffer_draw_grid N oom1 oom2 h v (w, s) = Some (r, w', s') \<Longrightarrow>
     raw_step N (w, s) (w', s')"
| "opentui_raw_buffer_draw_grayscale_buffer N oom h v (w, s) = Some (r, w', s') \<Longrightarrow>
     raw_step N (w, s) (w', s')"
| "opentui_raw_buffer_draw_grayscale_buffer_supersampled N oom h v (w, s) = Some (r, w', s') \<Longrightarrow>
     raw_step N (w, s) (w', s')"
| "opentui_raw_optimized_buffer_draw_grayscale_buffer N oom h v (w, s) = Some (r, w', s') \<Longrightarrow>
     raw_step N (w, s) (w', s')"
| "opentui_raw_optimized_buffer_draw_grayscale_buffer_supersampled N oom h v (w, s) = Some (r, w', s') \<Longrightarrow>
     raw_step N (w, s) (w', s')"

definition empty_heap :: stat_heap where
  "empty_heap = \<lparr>h_live = [], h_next = 0\<rparr>"

inductive raw_reachable :: "'w raw_api \<Rightarrow> 'w \<Rightarrow> 'w \<times> stat_heap \<Rightarrow> bool" for N w0 where
  start: "raw_reachable N w0 (w0, empty_heap)"
| step: "raw_reachable N w0 s \<Longrightarrow> raw_step N s s' \<Longrightarrow> raw_reachable N w0 s'"

section \<open>The readers return what the library accepts\<close>

lemma read_channels_ok:
  "read_channels v i n = Some (Some c) \<Longrightarrow>
     length c = n \<and> (\<forall>x \<in> set c. unat x \<le> 255)"
proof (induction n arbitrary: i c)
  case (Suc n)
  from Suc.prems obtain k r where r: "read_channels v (Suc i) n = Some (Some r)"
    and k: "\<not> k < 0" "\<not> 255 < k" and c: "c = word_of_int k # r"
    by (auto simp: bind_eq_Some_conv split: if_splits)
  have "unat (word_of_int k :: u16) = nat k" using k by (simp add: unat_eq_nat_uint uint_word_of_int_eq take_bit_int_eq_self)
  with Suc.IH [OF r] c k show ?case by auto
qed simp

lemma read_color_ok: "read_color v = Some (Some c) \<Longrightarrow> color_ok c"
  unfolding read_color_def color_ok_def by (auto dest: read_channels_ok split: if_splits)

lemma uint_le_255: "uint (x :: u16) \<le> 255 \<longleftrightarrow> unat x \<le> 255"
proof -
  have "uint x \<le> 255 \<longleftrightarrow> int (unat x) \<le> int 255" by simp
  then show ?thesis by (simp only: of_nat_le_iff)
qed

lemma channel_small: "\<not> k < 0 \<Longrightarrow> \<not> 255 < k \<Longrightarrow> uint (word_of_int k :: u16) = k"
  by (simp add: uint_word_of_int_eq take_bit_int_eq_self)

lemma read_color_block:
  assumes "read_color v = Some (Some c)" shows "\<exists>t vs. v = Block t vs"
proof -
  have "read_channels v 0 (Suc 3) = Some (Some c)"
    using assms by (simp add: read_color_def del: read_channels.simps split: if_splits)
  then obtain x where "field v 0 = Some x" unfolding read_channels.simps bind_eq_Some_conv by blast
  then show ?thesis by (cases v) auto
qed

lemma read_channels_exact:
  "i + n \<le> length vs \<Longrightarrow> read_channels (Block t vs) i n = Some (Some c) \<longleftrightarrow>
     (\<forall>x \<in> set c. unat x \<le> 255) \<and> length c = n \<and> take n (drop i vs) = map (\<lambda>x. Long (uint x)) c"
proof (induction n arbitrary: i c)
  case (Suc n)
  then have i: "i < length vs" "Suc i + n \<le> length vs" by simp_all
  have d: "drop i vs = vs ! i # drop (Suc i) vs" using i(1) by (rule Cons_nth_drop_Suc [symmetric])
  show ?case
  proof (cases c)
    case (Cons x r)
    show ?thesis
      using Suc.IH [OF i(2), of r] i(1) Cons d
      by (cases "vs ! i") (auto simp: bind_eq_Some_conv channel_small simp flip: uint_le_255)
  qed (use i(1) in \<open>auto simp: bind_eq_Some_conv split: if_splits\<close>)
qed (auto)

lemma read_color_iff:
  "read_color v = Some (Some c) \<longleftrightarrow> color_ok c \<and> (\<exists>t. v = Block t (map (\<lambda>x. Long (uint x)) c))"
proof (cases v)
  case (Block t vs)
  show ?thesis
  proof (cases "length vs = 4")
    case True
    then show ?thesis using read_channels_exact [of 0 4 vs t c]
      by (auto simp: Block read_color_def color_ok_def)
  qed (auto simp: Block read_color_def color_ok_def)
qed (use read_color_block in \<open>fastforce+\<close>)

lemma read_optional_color_ok: "read_optional_color v = Some (Some c) \<Longrightarrow> pred_option color_ok c"
  unfolding read_optional_color_def
  by (auto simp: bind_eq_Some_conv dest: read_color_ok split: if_splits)

lemma read_codepoints_ok:
  "read_codepoints v i n = Some (Some c) \<Longrightarrow>
     length c = n \<and> (\<forall>x \<in> set c. extent x)"
  by (induction n arbitrary: i c) (auto simp: bind_eq_Some_conv split: if_splits)

lemma read_border_chars_ok: "read_border_chars v = Some (Some c) \<Longrightarrow> border_ok c"
  unfolding read_border_chars_def border_ok_def by (auto dest: read_codepoints_ok split: if_splits)

lemma read_text_length_iff:
  "read_text_length t = Some n \<longleftrightarrow> text_ok t \<and> n = of_nat (length t)"
  by (auto simp: read_text_length_def text_ok_def)

lemma read_text_length_ok: "read_text_length t = Some n \<Longrightarrow> text_ok t \<and> unat n = length t"
  by (auto simp: read_text_length_iff text_ok_def unat_of_nat_32)

lemma read_optional_text_ok: "read_optional_text v = Some (Some t) \<Longrightarrow> pred_option text_ok t"
  unfolding read_optional_text_def
  by (auto simp: bind_eq_Some_conv read_text_length_iff split: if_splits option.splits)

lemma unat_byte: "0 \<le> n \<Longrightarrow> n \<le> 255 \<Longrightarrow> unat (word_of_int n :: u8) = nat n"
  by (simp add: unat_eq_nat_uint uint_word_of_int_eq take_bit_int_eq_self)

lemma read_optional_code_ok:
  assumes "read_optional_code v m s = Some (Some c)" "m \<le> 255"
  shows "unat c \<le> nat m \<or> c = s"
proof -
  have "c = s \<or> (\<exists>n. \<not> (n < 0 \<or> n > m) \<and> c = word_of_int n)"
    using assms(1) unfolding read_optional_code_def
    by (auto simp only: bind_eq_Some_conv option.inject option.distinct split: if_splits)
  then show ?thesis using assms(2) by (auto simp: unat_byte)
qed

lemma read_int32s_ok: "read_int32s v i n = Some (Some xs) \<Longrightarrow> length xs = n"
  by (induction n arbitrary: i xs) (auto simp: bind_eq_Some_conv split: if_splits)

lemma read_intensities_ok: "read_intensities v i n = Some (Some xs) \<Longrightarrow> length xs = n"
  by (induction n arbitrary: i xs) (auto simp: bind_eq_Some_conv split: if_splits)

lemma pixels_fit: "unat (ucast (a :: u32) * ucast b :: u64) = unat a * unat (b :: u32)"
proof -
  have "unat a * unat b < 4294967296 * 4294967296"
    using unat_32_less [of a] unat_32_less [of b] by (intro mult_strict_mono') auto
  then have "unat (ucast a :: u64) * unat (ucast b :: u64) < 2 ^ LENGTH(64)" by simp
  from iffD1 [OF unat_mult_lem this] show ?thesis by simp
qed

lemma read_int32s_exact:
  "i + n \<le> length xs \<Longrightarrow> read_int32s (Block t (map Int32 xs)) i n = Some (Some (take n (drop i xs)))"
proof (induction n arbitrary: i)
  case (Suc n)
  then have "drop i xs = xs ! i # drop (Suc i) xs" by (simp add: Cons_nth_drop_Suc)
  with Suc show ?case by simp
qed simp

lemma read_intensities_exact:
  "i + n \<le> length xs \<Longrightarrow> read_intensities (Double_array xs) i n = Some (
     if \<forall>x \<in> set (take n (drop i xs)). isfinite x then Some (map to_float (take n (drop i xs))) else None)"
proof (induction n arbitrary: i)
  case (Suc n)
  then have "drop i xs = xs ! i # drop (Suc i) xs" by (simp add: Cons_nth_drop_Suc)
  with Suc show ?case by simp
qed simp

text \<open>The heap ledger: blocks are fresh, so a copy just made can be released.\<close>

definition heap_ok :: "stat_heap \<Rightarrow> bool" where
  "heap_ok s \<longleftrightarrow> (\<forall>b \<in> set (h_live s). fst b < h_next s)"

fun copy_spec :: "bool \<Rightarrow> nat \<Rightarrow> 'a list option option \<Rightarrow> stat_heap
    \<Rightarrow> (nat option \<times> 'a list) option outcome \<Rightarrow> stat_heap \<Rightarrow> bool" where
  "copy_spec oom k copy s Out_of_memory s' \<longleftrightarrow> oom \<and> s' = s"
| "copy_spec oom k copy s (Returns None) s' \<longleftrightarrow> h_live s' = h_live s"
| "copy_spec oom k copy s (Returns (Some (b, xs))) s' \<longleftrightarrow> copy = Some (Some xs)
     \<and> (if xs = [] then b = None \<and> s' = s
        else b = Some (h_next s) \<and> h_live s' = (h_next s, k) # h_live s)"

lemma free_fresh:
  assumes "heap_ok s"
  shows "caml_stat_free (h_next s) (s\<lparr>h_live := (h_next s, k) # h_live s, h_next := Suc (h_next s)\<rparr>)
    = Some (s\<lparr>h_next := Suc (h_next s)\<rparr>)"
proof -
  have "filter (\<lambda>b. fst b \<noteq> h_next s) (h_live s) = h_live s"
    using assms by (auto simp: heap_ok_def filter_id_conv)
  then show ?thesis by (simp add: caml_stat_free_def)
qed

lemma heap_ok_next:
  "heap_ok s \<Longrightarrow> heap_ok (s\<lparr>h_next := Suc (h_next s)\<rparr>)"
  "heap_ok s \<Longrightarrow>
     heap_ok (s\<lparr>h_live := (h_next s, k) # h_live s, h_next := Suc (h_next s)\<rparr>)"
  by (auto simp: heap_ok_def intro: less_SucI)

lemma copy_step:
  assumes "(case caml_stat_alloc oom k s of
      (Out_of_memory, h1) \<Rightarrow> Some (Out_of_memory, h1)
    | (Returns block, h1) \<Rightarrow> do {
        r \<leftarrow> copy;
        case r of
          None \<Rightarrow> do { h2 \<leftarrow> caml_stat_free block h1; Some (Returns None, h2) }
        | Some xs \<Rightarrow> Some (Returns (Some (Some block, xs)), h1)
      }) = Some (r, s')" "heap_ok s" "copy \<noteq> Some (Some [])"
  shows "heap_ok s' \<and> copy_spec oom k copy s r s'"
proof (cases oom)
  case True
  then show ?thesis using assms by (auto simp: caml_stat_alloc_def)
next
  case False
  with assms obtain c where c: "copy = Some c" by (cases copy) (auto simp: caml_stat_alloc_def)
  show ?thesis
    using False assms c by (cases c) (auto simp: caml_stat_alloc_def free_fresh heap_ok_next)
qed

lemma read_int32_array_spec:
  assumes "read_int32_array oom v s = Some (r, s')" "heap_ok s"
  shows "heap_ok s' \<and> copy_spec oom (wosize_val v * 4) (read_int32s v 0 (wosize_val v)) s r s'
    \<and> (\<forall>b xs. r = Returns (Some (b, xs)) \<longrightarrow> length xs = wosize_val v \<and> wosize_val v \<le> UINT32_MAX)"
proof (cases "has_tag 0 v \<and> \<not> wosize_val v > UINT32_MAX \<and> wosize_val v \<noteq> 0")
  case True
  then have *: "read_int32s v 0 (wosize_val v) \<noteq> Some (Some [])" by (auto dest: read_int32s_ok)
  from True assms(1) have "heap_ok s' \<and> copy_spec oom (wosize_val v * 4) (read_int32s v 0 (wosize_val v)) s r s'"
    unfolding read_int32_array_def Let_def by (intro copy_step [OF _ assms(2) *]) simp
  with True show ?thesis by (auto dest: read_int32s_ok)
next
  case False
  with assms show ?thesis unfolding read_int32_array_def by (auto simp: Let_def split: if_splits)
qed

lemma read_grayscale_floatarray_spec:
  assumes "read_grayscale_floatarray oom v a b s = Some (r, s')" "heap_ok s"
  shows "heap_ok s' \<and> copy_spec oom (unat a * unat b * 4) (read_intensities v 0 (unat a * unat b)) s r s'"
proof -
  let ?n = "ucast a * ucast b :: u64"
  have n: "?n = 0 \<longleftrightarrow> unat a * unat b = 0" by (simp only: pixels_fit [symmetric] unsigned_eq_0_iff)
  consider "r = Returns None" "s' = s"
    | "?n = 0" "r = Returns (Some (None, []))" "s' = s"
    | "?n \<noteq> 0" "(case caml_stat_alloc oom (unat ?n * 4) s of
        (Out_of_memory, h1) \<Rightarrow> Some (Out_of_memory, h1)
      | (Returns block, h1) \<Rightarrow> do {
          r \<leftarrow> read_intensities v 0 (unat ?n);
          case r of
            None \<Rightarrow> do { h2 \<leftarrow> caml_stat_free block h1; Some (Returns None, h2) }
          | Some xs \<Rightarrow> Some (Returns (Some (Some block, xs)), h1)
        }) = Some (r, s')"
    using assms(1) unfolding read_grayscale_floatarray_def Let_def by (auto split: if_splits)
  then show ?thesis
  proof cases
    case 3
    then have "read_intensities v 0 (unat ?n) \<noteq> Some (Some [])"
      using n by (auto simp: pixels_fit dest: read_intensities_ok)
    from copy_step [OF 3(2) assms(2) this] show ?thesis by (simp only: pixels_fit)
  qed (use assms(2) n in auto)
qed

lemma read_grayscale_length:
  assumes "read_grayscale_floatarray oom v a b s = Some (Returns (Some (p, xs)), s')" "heap_ok s"
  shows "length xs = unat a * unat b"
  using read_grayscale_floatarray_spec [OF assms] by (auto dest: read_intensities_ok)

lemma read_style_ok: "read_optional_code v 3 255 = Some (Some c) \<Longrightarrow> unat c \<le> 3 \<or> c = 255"
  using read_optional_code_ok [of v 3 255 c] by simp

lemma read_pointer_ok: "read_optional_code v 5 255 = Some (Some c) \<Longrightarrow> unat c \<le> 5 \<or> c = 255"
  using read_optional_code_ok [of v 5 255 c] by simp

lemma read_optional_bool_ok: "read_optional_bool v = Some (Some c) \<Longrightarrow> unat c \<le> 1 \<or> c = 255"
  using read_optional_code_ok [of v 1 255 c] by (simp add: read_optional_bool_def)

lemma take_length_ok: "min (length t) (unat (of_nat (length t) :: u32)) \<le> 4294967295"
  using unat_32_less [of "of_nat (length t)"] by simp

lemma to_float_not_nan: "isfinite x \<Longrightarrow> \<not> isnan (to_float x)"
  by (cases x) (simp_all add: Let_def)

lemma mode_ok:
  assumes "\<not> sint x < 0" "\<not> 2 < sint x" shows "unat (ucast (x :: i32) :: u8) \<le> 2"
proof -
  have "unat x \<le> 2" using unat_small [of x 2] assms by simp
  then show ?thesis by (simp add: unsigned_ucast_eq take_bit_nat_eq_self)
qed

lemma length_fits: "\<not> 4294967295 < length t \<Longrightarrow> unat (of_nat (length t) :: u32) = length t"
  by (rule unat_of_nat_32) simp

lemma width_method_ok: "x = 0 \<or> x = 1 \<Longrightarrow> unat (ucast (x :: i32) :: u8) \<le> 1"
  by auto

lemmas reader_ok = read_color_ok read_optional_color_ok read_border_chars_ok
  read_optional_text_ok read_style_ok read_pointer_ok read_optional_bool_ok

section \<open>No stub calls outside the specification\<close>

lemma audited_simps [simp]:
  "\<And>x y d m p. createRenderer (rn (audited_raw N)) x y d m p = audit_result (\<lambda>_. positive x \<and> positive y \<and> unat d \<le> 1 \<and> unat m \<le> 2) (createRenderer (rn N) x y d m p)"
  "\<And>h b. setUseThread (rn (audited_raw N)) h b = audit (\<lambda>_. h \<noteq> 0) (setUseThread (rn N) h b)"
  "\<And>h. destroyRenderer (rn (audited_raw N)) h = audit (\<lambda>_. h \<noteq> 0) (destroyRenderer (rn N) h)"
  "\<And>h s. getCurrentBuffer (rn (audited_raw N)) h s = getCurrentBuffer (rn N) h (fst s)"
  "\<And>h s. getNextBuffer (rn (audited_raw N)) h s = getNextBuffer (rn N) h (fst s)"
  "\<And>h s. getBufferWidth (bf (audited_raw N)) h s = getBufferWidth (bf N) h (fst s)"
  "\<And>h s. getBufferHeight (bf (audited_raw N)) h s = getBufferHeight (bf N) h (fst s)"
  "\<And>h x y. resizeRenderer (rn (audited_raw N)) h x y = audit (\<lambda>w. renderer_is_valid N h w \<and> positive x \<and> positive y) (resizeRenderer (rn N) h x y)"
  "\<And>h t. writeOut (rn (audited_raw N)) h t = audit (\<lambda>w. renderer_is_valid N h w \<and> text_ok t) (writeOut (rn N) h t)"
  "\<And>h. queryTerminalCapabilities (rn (audited_raw N)) h = audit (\<lambda>w. renderer_is_valid N h w) (queryTerminalCapabilities (rn N) h)"
  "\<And>h t u. triggerNotification (rn (audited_raw N)) h t u = audit_result (\<lambda>w. renderer_is_valid N h w \<and> text_ok t \<and> pred_option text_ok u) (triggerNotification (rn N) h t u)"
  "\<And>h f. render (rn (audited_raw N)) h f = audit_result (\<lambda>_. h \<noteq> 0) (render (rn N) h f)"
  "\<And>h x. setRenderOffset (sf (audited_raw N)) h x = audit (\<lambda>w. renderer_is_valid N h w \<and> extent x) (setRenderOffset (sf N) h x)"
  "\<And>h x y. resetSplitScrollback (sf (audited_raw N)) h x y = audit_result (\<lambda>w. renderer_is_valid N h w \<and> extent x \<and> extent y) (resetSplitScrollback (sf N) h x y)"
  "\<And>h x. syncSplitScrollback (sf (audited_raw N)) h x = audit_result (\<lambda>w. renderer_is_valid N h w \<and> extent x) (syncSplitScrollback (sf N) h x)"
  "\<And>h x. getSplitOutputOffset (sf (audited_raw N)) h x = audit_result (\<lambda>w. renderer_is_valid N h w \<and> extent x) (getSplitOutputOffset (sf N) h x)"
  "\<And>h m a b c d e. setPendingSplitFooterTransition (sf (audited_raw N)) h m a b c d e = audit (\<lambda>w. renderer_is_valid N h w \<and> unat m \<le> 2 \<and> extent a \<and> extent b \<and> extent c \<and> extent d \<and> extent e) (setPendingSplitFooterTransition (sf N) h m a b c d e)"
  "\<And>h. clearPendingSplitFooterTransition (sf (audited_raw N)) h = audit (\<lambda>w. renderer_is_valid N h w) (clearPendingSplitFooterTransition (sf N) h)"
  "\<And>h x f. repaintSplitFooter (sf (audited_raw N)) h x f = audit_result (\<lambda>w. renderer_is_valid N h w \<and> extent x) (repaintSplitFooter (sf N) h x f)"
  "\<And>h s x a b y f g k. commitSplitFooterSnapshot (sf (audited_raw N)) h s x a b y f g k = audit_result (\<lambda>w. renderer_is_valid N h w \<and> buffer_is_valid N s w \<and> extent x \<and> extent y) (commitSplitFooterSnapshot (sf N) h s x a b y f g k)"
  "\<And>h c. setBackgroundColor (rn (audited_raw N)) h c = audit (\<lambda>w. renderer_is_valid N h w \<and> color_ok c) (setBackgroundColor (rn N) h c)"
  "\<And>h x y v. setCursorPosition (rn (audited_raw N)) h x y v = audit (\<lambda>w. renderer_is_valid N h w) (setCursorPosition (rn N) h x y v)"
  "\<And>h c. setCursorColor (rn (audited_raw N)) h c = audit (\<lambda>w. renderer_is_valid N h w \<and> color_ok c) (setCursorColor (rn N) h c)"
  "\<And>h c. setCursorStyleOptions (rn (audited_raw N)) h c = audit (\<lambda>w. renderer_is_valid N h w \<and> cursor_options_ok c) (setCursorStyleOptions (rn N) h c)"
  "\<And>h. getCursorState (rn (audited_raw N)) h = audit_result (\<lambda>w. renderer_is_valid N h w) (getCursorState (rn N) h)"
  "\<And>h x y a b i. addToHitGrid (hg (audited_raw N)) h x y a b i = audit (\<lambda>w. renderer_is_valid N h w \<and> extent a \<and> extent b \<and> extent i) (addToHitGrid (hg N) h x y a b i)"
  "\<And>h. clearCurrentHitGrid (hg (audited_raw N)) h = audit (\<lambda>w. renderer_is_valid N h w) (clearCurrentHitGrid (hg N) h)"
  "\<And>h. clearNextHitGrid (hg (audited_raw N)) h = audit (\<lambda>w. renderer_is_valid N h w) (clearNextHitGrid (hg N) h)"
  "\<And>h x y a b. hitGridPushScissorRect (hg (audited_raw N)) h x y a b = audit (\<lambda>w. renderer_is_valid N h w \<and> extent a \<and> extent b) (hitGridPushScissorRect (hg N) h x y a b)"
  "\<And>h. hitGridPopScissorRect (hg (audited_raw N)) h = audit (\<lambda>w. renderer_is_valid N h w) (hitGridPopScissorRect (hg N) h)"
  "\<And>h. hitGridClearScissorRects (hg (audited_raw N)) h = audit (\<lambda>w. renderer_is_valid N h w) (hitGridClearScissorRects (hg N) h)"
  "\<And>h x y a b i. addToCurrentHitGridClipped (hg (audited_raw N)) h x y a b i = audit (\<lambda>w. renderer_is_valid N h w \<and> extent a \<and> extent b \<and> extent i) (addToCurrentHitGridClipped (hg N) h x y a b i)"
  "\<And>h x y. checkHit (hg (audited_raw N)) h x y = audit_result (\<lambda>w. renderer_is_valid N h w \<and> extent x \<and> extent y) (checkHit (hg N) h x y)"
  "\<And>h. getHitGridDirty (hg (audited_raw N)) h = audit_result (\<lambda>w. renderer_is_valid N h w) (getHitGridDirty (hg N) h)"
  "\<And>h c. bufferClear (bf (audited_raw N)) h c = audit (\<lambda>w. buffer_is_valid N h w \<and> color_ok c) (bufferClear (bf N) h c)"
  "\<And>h x y ch c d a. bufferSetCell (dr (audited_raw N)) h x y ch c d a = audit (\<lambda>w. buffer_is_valid N h w \<and> extent x \<and> extent y \<and> color_ok c \<and> color_ok d) (bufferSetCell (dr N) h x y ch c d a)"
  "\<And>h x y ch c d a. bufferSetCellWithAlphaBlending (dr (audited_raw N)) h x y ch c d a = audit (\<lambda>w. buffer_is_valid N h w \<and> extent x \<and> extent y \<and> color_ok c \<and> color_ok d) (bufferSetCellWithAlphaBlending (dr N) h x y ch c d a)"
  "\<And>h t n x y c d a. bufferDrawText (dr (audited_raw N)) h t n x y c d a = audit (\<lambda>w. buffer_is_valid N h w \<and> unat n = length t \<and> extent x \<and> extent y \<and> color_ok c \<and> color_ok d) (bufferDrawText (dr N) h t n x y c d a)"
  "\<And>h x y a b cs p c d e t u. bufferDrawBox (dr (audited_raw N)) h x y a b cs p c d e t u = audit (\<lambda>w. buffer_is_valid N h w \<and> extent a \<and> extent b \<and> border_ok cs \<and> color_ok c \<and> color_ok d \<and> color_ok e \<and> pred_option text_ok t \<and> pred_option text_ok u) (bufferDrawBox (dr N) h x y a b cs p c d e t u)"
  "\<And>h v x y. bufferDrawTextBufferView (dr (audited_raw N)) h v x y = audit (\<lambda>w. buffer_is_valid N h w \<and> v \<noteq> 0) (bufferDrawTextBufferView (dr N) h v x y)"
  "\<And>h t n b. bufferWriteResolvedChars (bf (audited_raw N)) h t n b = audit_result (\<lambda>w. buffer_is_valid N h w \<and> unat n = length t \<and> t \<noteq> []) (bufferWriteResolvedChars (bf N) h t n b)"
  "\<And>x y b m t n. createOptimizedBuffer (bf (audited_raw N)) x y b m t n = audit_result (\<lambda>_. positive x \<and> positive y \<and> unat m \<le> 1 \<and> unat n = length t) (createOptimizedBuffer (bf N) x y b m t n)"
  "\<And>h. destroyOptimizedBuffer (bf (audited_raw N)) h = audit (\<lambda>_. h \<noteq> 0) (destroyOptimizedBuffer (bf N) h)"
  "\<And>h x y a b c. bufferFillRect (dr (audited_raw N)) h x y a b c = audit (\<lambda>w. buffer_is_valid N h w \<and> extent x \<and> extent y \<and> extent a \<and> extent b \<and> color_ok c) (bufferFillRect (dr N) h x y a b c)"
  "\<And>h x y xs a b c d. bufferDrawGrayscaleBuffer (dr (audited_raw N)) h x y xs a b c d = audit (\<lambda>w. buffer_is_valid N h w \<and> extent a \<and> extent b \<and> length xs = unat a * unat b \<and> pred_option color_ok c \<and> pred_option color_ok d) (bufferDrawGrayscaleBuffer (dr N) h x y xs a b c d)"
  "\<And>h x y xs a b c d. bufferDrawGrayscaleBufferSupersampled (dr (audited_raw N)) h x y xs a b c d = audit (\<lambda>w. buffer_is_valid N h w \<and> extent a \<and> extent b \<and> length xs = unat a * unat b \<and> pred_option color_ok c \<and> pred_option color_ok d) (bufferDrawGrayscaleBufferSupersampled (dr N) h x y xs a b c d)"
  "\<And>h x y s a b c d. drawFrameBuffer (dr (audited_raw N)) h x y s a b c d = audit (\<lambda>w. buffer_is_valid N h w \<and> buffer_is_valid N s w \<and> extent a \<and> extent b \<and> extent c \<and> extent d) (drawFrameBuffer (dr N) h x y s a b c d)"
  "\<And>h x y. bufferResize (bf (audited_raw N)) h x y = audit (\<lambda>w. buffer_is_valid N h w \<and> positive x \<and> positive y) (bufferResize (bf N) h x y)"
  "\<And>h cs c d xs m ys n opts. bufferDrawGrid (dr (audited_raw N)) h cs c d xs m ys n opts = audit (\<lambda>w. buffer_is_valid N h w \<and> border_ok cs \<and> color_ok c \<and> color_ok d \<and> offsets_ok xs m \<and> offsets_ok ys n) (bufferDrawGrid (dr N) h cs c d xs m ys n opts)"
  "\<And>h x y a b. bufferPushScissorRect (bf (audited_raw N)) h x y a b = audit (\<lambda>w. buffer_is_valid N h w \<and> extent a \<and> extent b) (bufferPushScissorRect (bf N) h x y a b)"
  "\<And>h. bufferPopScissorRect (bf (audited_raw N)) h = audit (\<lambda>w. buffer_is_valid N h w) (bufferPopScissorRect (bf N) h)"
  "\<And>h. bufferClearScissorRects (bf (audited_raw N)) h = audit (\<lambda>w. buffer_is_valid N h w) (bufferClearScissorRects (bf N) h)"
  "\<And>h x. bufferPushOpacity (bf (audited_raw N)) h x = audit (\<lambda>w. buffer_is_valid N h w \<and> \<not> isnan x) (bufferPushOpacity (bf N) h x)"
  "\<And>h. bufferPopOpacity (bf (audited_raw N)) h = audit (\<lambda>w. buffer_is_valid N h w) (bufferPopOpacity (bf N) h)"
  "\<And>h. bufferGetCurrentOpacity (bf (audited_raw N)) h = audit_result (\<lambda>w. buffer_is_valid N h w) (bufferGetCurrentOpacity (bf N) h)"
  "\<And>h. bufferClearOpacity (bf (audited_raw N)) h = audit (\<lambda>w. buffer_is_valid N h w) (bufferClearOpacity (bf N) h)"
  by (simp_all add: audited_raw_def)

lemma audited_valid [simp]:
  "buffer_is_valid (audited_raw N) h s = buffer_is_valid N h (fst s)"
  "optimized_buffer_is_valid (audited_raw N) h s = buffer_is_valid N h (fst s)"
  "renderer_is_valid (audited_raw N) h s = renderer_is_valid N h (fst s)"
  by (simp_all add: buffer_is_valid_def optimized_buffer_is_valid_def renderer_is_valid_def)

lemma audit_misuse [simp]: "snd (audit pre f s) \<longleftrightarrow> snd s \<or> \<not> pre (fst s)"
  by (simp add: audit_def case_prod_beta)

lemma audit_result_misuse [simp]:
  "snd (snd (audit_result pre f s)) \<longleftrightarrow> snd s \<or> \<not> pre (fst s)"
  by (simp add: audit_result_def case_prod_beta Let_def)

lemmas stub_defs =
  opentui_raw_renderer_resize_def opentui_raw_renderer_write_out_def
  opentui_raw_renderer_query_terminal_capabilities_def opentui_raw_renderer_set_render_offset_def
  opentui_raw_renderer_set_pending_split_footer_transition_def
  opentui_raw_renderer_clear_pending_split_footer_transition_def
  opentui_raw_renderer_set_background_color_def opentui_raw_renderer_set_cursor_position_def
  opentui_raw_renderer_set_cursor_color_def opentui_raw_renderer_set_cursor_style_options_def
  opentui_raw_renderer_add_to_hit_grid_def opentui_raw_renderer_add_to_hit_grid_bytecode_def
  opentui_raw_renderer_clear_current_hit_grid_def opentui_raw_renderer_clear_next_hit_grid_def
  opentui_raw_renderer_hit_grid_push_scissor_rect_def
  opentui_raw_renderer_hit_grid_pop_scissor_rect_def
  opentui_raw_renderer_hit_grid_clear_scissor_rects_def
  opentui_raw_renderer_add_to_current_hit_grid_clipped_def
  opentui_raw_renderer_add_to_current_hit_grid_clipped_bytecode_def
  opentui_raw_buffer_clear_def opentui_raw_buffer_set_cell_def opentui_raw_buffer_draw_text_def
  opentui_raw_buffer_draw_box_def opentui_raw_buffer_draw_text_buffer_view_def
  opentui_raw_optimized_buffer_clear_def opentui_raw_optimized_buffer_set_cell_def
  opentui_raw_optimized_buffer_set_cell_with_alpha_blending_def
  opentui_raw_optimized_buffer_draw_text_def opentui_raw_optimized_buffer_fill_rect_def
  opentui_raw_optimized_buffer_draw_frame_buffer_def opentui_raw_optimized_buffer_resize_def
  opentui_raw_buffer_draw_frame_buffer_def opentui_raw_buffer_set_cell_with_alpha_blending_def
  opentui_raw_buffer_fill_rect_def opentui_raw_buffer_push_scissor_rect_def
  opentui_raw_buffer_pop_scissor_rect_def opentui_raw_buffer_clear_scissor_rects_def
  opentui_raw_buffer_push_opacity_def opentui_raw_buffer_pop_opacity_def
  opentui_raw_buffer_clear_opacity_def
  renderer_add_to_hit_grid_impl_def renderer_add_to_current_hit_grid_clipped_impl_def
  optimized_buffer_set_cell_def

lemmas other_defs =
  opentui_raw_renderer_create_def opentui_raw_renderer_trigger_notification_def
  opentui_raw_renderer_render_def opentui_raw_renderer_reset_split_scrollback_def
  opentui_raw_renderer_sync_split_scrollback_def opentui_raw_renderer_repaint_split_footer_def
  opentui_raw_renderer_commit_split_footer_snapshot_def
  opentui_raw_renderer_commit_split_footer_snapshot_bytecode_def
  opentui_raw_optimized_buffer_create_def opentui_raw_renderer_get_split_output_offset_def
  opentui_raw_renderer_cursor_state_def opentui_raw_renderer_check_hit_def
  opentui_raw_renderer_get_hit_grid_dirty_def opentui_raw_buffer_write_resolved_chars_def
  opentui_raw_buffer_get_current_opacity_def
  renderer_commit_split_footer_snapshot_impl_def

lemmas read_unfolds = Let_def bind_eq_Some_conv require_eq_Some case_sum_eq_Some case_option_eq_Some
  case_outcome_eq_Some case_prod_beta
  read_text_length_def

lemmas spec_unfolds = take_length_ok to_float_not_nan cursor_options_ok_def mode_ok length_fits
  text_ok_def width_method_ok unat_byte renderer_is_valid_def

lemma raw_call_audited: "raw_call (audited_raw N) s st s' \<Longrightarrow> snd s' = snd s"
  by (erule raw_call.cases; hypsubst?; auto simp: stub_defs read_unfolds spec_unfolds
      split: if_splits option.splits dest!: reader_ok)

text \<open>The two drawing stubs that copy arrays.\<close>

lemma draw_grayscale_audited:
  assumes "optimized_buffer_draw_grayscale_buffer (audited_raw N) oom h v b (w, s) = Some (r, w', s')"
    and "heap_ok s"
  shows "snd w' = snd w"
  using assms unfolding optimized_buffer_draw_grayscale_buffer_def
  by (auto simp: read_unfolds split: if_splits
      dest!: read_optional_color_ok dest: read_grayscale_length)

lemma offsets_copied:
  assumes "read_int32_array oom v s = Some (Returns (Some (b, xs)), s')" "heap_ok s"
  shows "offsets_ok xs (cell_count (of_nat (length xs))) \<and> heap_ok s'"
proof -
  let ?n = "of_nat (length xs) :: u32"
  have spec: "heap_ok s'" "length xs \<le> 4294967295"
    using read_int32_array_spec [OF assms] by auto
  then have n: "unat ?n = length xs" by (intro unat_of_nat_32) auto
  have "unat (cell_count ?n) = length xs - 1"
  proof (cases "?n = 0")
    case True
    then show ?thesis using n by (simp add: cell_count_def)
  next
    case False
    then show ?thesis using n unat_minus_one [OF False] by (simp add: cell_count_def)
  qed
  with spec show ?thesis by (simp add: offsets_ok_def)
qed

lemma draw_grid_audited:
  assumes "opentui_raw_optimized_buffer_draw_grid (audited_raw N) oom1 oom2 h v (w, s) = Some (r, w', s')"
    and "heap_ok s"
  shows "snd w' = snd w"
  using assms unfolding opentui_raw_optimized_buffer_draw_grid_def
  by (auto simp: read_unfolds split: if_splits
      dest!: read_color_ok read_border_chars_ok offsets_copied)

section \<open>The copies on the C heap\<close>

lemma filter_fresh: "heap_ok s \<Longrightarrow> h_next s \<le> b \<Longrightarrow> filter (\<lambda>x. fst x \<noteq> b) (h_live s) = h_live s"
  by (auto simp: heap_ok_def filter_id_conv)

lemma free_ok: "free_if_not_null p s = Some s' \<Longrightarrow> heap_ok s \<Longrightarrow> heap_ok s'"
  by (cases p) (fastforce simp: caml_stat_free_def heap_ok_def split: if_splits)+

lemma stat_free_top:
  "caml_stat_free (h_next s) s1 = Some s' \<Longrightarrow> h_live s1 = (h_next s, k) # h_live s \<Longrightarrow>
     heap_ok s \<Longrightarrow>
     h_live s' = h_live s"
  by (auto simp: caml_stat_free_def filter_fresh split: if_splits)

lemma free_live:
  "free_if_not_null p s = Some s' \<Longrightarrow>
     h_live s' = (case p of None \<Rightarrow> h_live s | Some b \<Rightarrow> filter (\<lambda>x. fst x \<noteq> b) (h_live s))"
  by (cases p) (auto simp: caml_stat_free_def split: if_splits)

section \<open>Allocating and releasing several blocks\<close>

lemma alloc_all_spec:
  assumes "alloc_all oom ns h = (r, h1)" "heap_ok h"
  shows "heap_ok h1 \<and> (case r of
      Returns bs \<Rightarrow> bs = [h_next h..<h_next h + length ns] \<and> h_live h1 = rev (zip bs ns) @ h_live h
    | Out_of_memory \<Rightarrow> \<exists>k. oom k)"
  using assms
proof (induction oom ns h arbitrary: r h1 rule: alloc_all.induct)
  case (2 oom n ns h)
  show ?case
  proof (cases "oom 0")
    case True
    with 2 show ?thesis by (auto simp: caml_stat_alloc_def)
  next
    case False
    let ?h = "h\<lparr>h_live := (h_next h, n) # h_live h, h_next := Suc (h_next h)\<rparr>"
    obtain r' h' where r': "alloc_all (\<lambda>k. oom (Suc k)) ns ?h = (r', h')" by fastforce
    have IH: "heap_ok h' \<and> (case r' of
        Returns bs \<Rightarrow> bs = [Suc (h_next h)..<Suc (h_next h) + length ns]
          \<and> h_live h' = rev (zip bs ns) @ h_live ?h
      | Out_of_memory \<Rightarrow> \<exists>k. oom (Suc k))"
      using "2.IH" [of "Returns (h_next h)" ?h "h_next h", OF _ _ r'] False heap_ok_next(2) [OF "2.prems"(2)]
      by (cases r') (simp_all add: caml_stat_alloc_def)
    have u: "[k..<Suc (k + l)] = k # [Suc k..<Suc (k + l)]" for k l
      by (simp add: upt_conv_Cons del: upt_Suc)
    show ?thesis
      using "2.prems"(1) False IH r'
      by (cases r') (auto simp: caml_stat_alloc_def u simp del: upt_Suc)
  qed
qed simp

lemma free_all_spec:
  "distinct bs \<Longrightarrow> set bs \<subseteq> fst ` set (h_live h) \<Longrightarrow>
     \<exists>h'. free_all bs h = Some h' \<and> h_live h' = filter (\<lambda>x. fst x \<notin> set bs) (h_live h) \<and> h_next h' = h_next h"
proof (induction bs arbitrary: h)
  case (Cons b bs)
  let ?h = "h\<lparr>h_live := filter (\<lambda>x. fst x \<noteq> b) (h_live h)\<rparr>"
  have "set bs \<subseteq> fst ` set (h_live ?h)"
  proof
    fix x assume "x \<in> set bs"
    with Cons.prems have "x \<noteq> b" "x \<in> fst ` set (h_live h)" by auto
    then show "x \<in> fst ` set (h_live ?h)" by (fastforce simp: image_iff)
  qed
  from Cons.IH [OF _ this] Cons.prems(1) obtain h' where "free_all bs ?h = Some h'"
    "h_live h' = filter (\<lambda>x. fst x \<notin> set bs) (h_live ?h)" "h_next h' = h_next h" by auto
  with Cons.prems show ?case by (auto simp: caml_stat_free_def intro!: filter_cong)
qed simp

lemma alloc_free:
  assumes "alloc_all oom ns h = (Returns bs, h1)" "heap_ok h"
  shows "\<exists>h2. free_all bs h1 = Some h2 \<and> h_live h2 = h_live h \<and> heap_ok h2"
proof -
  have bs: "bs = [h_next h..<h_next h + length ns]" and l: "h_live h1 = rev (zip bs ns) @ h_live h"
    and ok: "heap_ok h1" using alloc_all_spec [OF assms] by auto
  have z: "set (zip bs ns) = set (rev (zip bs ns))" "fst ` set (zip bs ns) = set bs"
    using bs by (simp_all add: map_fst_zip flip: set_map)
  then have "set bs \<subseteq> fst ` set (h_live h1)" by (auto simp: l)
  with bs obtain h2 where h2: "free_all bs h1 = Some h2"
    "h_live h2 = filter (\<lambda>x. fst x \<notin> set bs) (h_live h1)" "h_next h2 = h_next h1"
    using free_all_spec [of bs h1] by auto
  have old: "filter (\<lambda>x. fst x \<notin> set bs) (h_live h) = h_live h"
    using assms(2) bs by (fastforce simp: heap_ok_def filter_id_conv)
  have new: "filter (\<lambda>x. fst x \<notin> set bs) (rev (zip bs ns)) = []"
    by (auto simp: filter_empty_conv dest: set_zip_leftD)
  have "h_live h2 = h_live h" by (simp add: h2(2) l old new)
  moreover have "heap_ok h2" using ok h2 by (auto simp: heap_ok_def)
  ultimately show ?thesis using h2(1) by blast
qed

lemma alloc_never: "\<exists>bs h1. alloc_all (\<lambda>_. False) ns h = (Returns bs, h1)"
  by (induction "\<lambda>_ :: nat. False" ns h rule: alloc_all.induct)
    (auto simp: caml_stat_alloc_def split: outcome.splits prod.splits)

lemma alloc_free_live:
  "fst (alloc_all oom ns h) = Returns bs \<Longrightarrow> free_all bs (snd (alloc_all oom ns h)) = Some h2 \<Longrightarrow>
     heap_ok h \<Longrightarrow> h_live h2 = h_live h"
  using alloc_free [of oom ns h bs "snd (alloc_all oom ns h)"] by (auto simp: prod_eq_iff)

lemma free_pair:
  assumes "heap_ok h" "heap_ok h1" "h_live h1 = (h_next h, j) # h_live h"
    and "h_live h2 = (h_next h1, k) # h_live h1"
    and "caml_stat_free (h_next h) h2 = Some h3" "caml_stat_free (h_next h1) h3 = Some h4"
  shows "h_live h4 = h_live h"
proof -
  have "h_next h < h_next h1" using assms(2,3) by (auto simp: heap_ok_def)
  then show ?thesis
    using free_live [of "Some (h_next h)" h2 h3] free_live [of "Some (h_next h1)" h3 h4] assms
    by (simp add: filter_fresh)
qed

lemma no_pair: "(\<forall>x y. v \<noteq> Some (x, y)) \<longleftrightarrow> v = None"
  by (cases v) auto

lemma free_copy:
  assumes "copy_spec oom k copy s (Returns (Some (p, xs))) s1" "heap_ok s" "free_if_not_null p s1 = Some s2"
  shows "h_live s2 = h_live s"
  using assms(1,2) free_live [OF assms(3)] by (auto simp: filter_fresh split: if_splits)

lemma draw_grayscale_heap:
  assumes "optimized_buffer_draw_grayscale_buffer N oom h v b (w, s) = Some (r, w', s')" "heap_ok s"
  shows "heap_ok s' \<and> h_live s' = h_live s"
  using assms unfolding optimized_buffer_draw_grayscale_buffer_def
  by (auto simp: read_unfolds no_pair split: if_splits
      dest!: read_grayscale_floatarray_spec dest: free_ok free_copy)

text \<open>Two copies, released in the order they were made.\<close>

lemma free_two:
  assumes "copy_spec oom1 k1 copy1 s (Returns (Some (p, xs))) s1" "heap_ok s"
    and "copy_spec oom2 k2 copy2 s1 (Returns (Some (q, ys))) s2" "heap_ok s1"
    and "free_if_not_null p s2 = Some s3" "free_if_not_null q s3 = Some s4"
  shows "h_live s4 = h_live s"
  using assms(1-4) free_live [OF assms(5)] free_live [OF assms(6)]
  by (auto simp: filter_fresh heap_ok_def filter_id_conv split: if_splits)

lemma free_first:
  assumes "copy_spec oom1 k1 copy1 s (Returns (Some (p, xs))) s1" "heap_ok s"
    and "h_live s2 = h_live s1" "free_if_not_null p s2 = Some s3"
  shows "h_live s3 = h_live s"
  using assms(1-3) free_live [OF assms(4)] by (auto simp: filter_fresh split: if_splits)

lemma draw_grid_heap:
  assumes "opentui_raw_optimized_buffer_draw_grid N oom1 oom2 h v (w, s) = Some (r, w', s')" "heap_ok s"
  shows "heap_ok s' \<and> (h_live s' = h_live s
    \<or> r = Out_of_memory \<and> oom2 \<and> (\<exists>k. h_live s' = (h_next s, k) # h_live s))"
  using assms unfolding opentui_raw_optimized_buffer_draw_grid_def
  by (auto simp: read_unfolds no_pair filter_fresh split: if_splits
      dest!: read_int32_array_spec dest: free_ok free_two free_first stat_free_top)

section \<open>Every step is inside the specification\<close>

lemmas alias_defs =
  opentui_raw_buffer_draw_grid_def opentui_raw_buffer_draw_grayscale_buffer_def
  opentui_raw_buffer_draw_grayscale_buffer_supersampled_def
  opentui_raw_optimized_buffer_draw_grayscale_buffer_def
  opentui_raw_optimized_buffer_draw_grayscale_buffer_supersampled_def

lemmas unchecked_defs =
  opentui_raw_renderer_destroy_def opentui_raw_optimized_buffer_destroy_def
  opentui_raw_renderer_add_to_hit_grid_unchecked_def renderer_add_to_hit_grid_unchecked_impl_def
  opentui_raw_renderer_clear_current_hit_grid_unchecked_def
  opentui_raw_renderer_clear_next_hit_grid_unchecked_def
  opentui_raw_renderer_hit_grid_push_scissor_rect_unchecked_def
  opentui_raw_renderer_hit_grid_pop_scissor_rect_unchecked_def
  opentui_raw_renderer_hit_grid_clear_scissor_rects_unchecked_def
  opentui_raw_renderer_add_to_current_hit_grid_clipped_unchecked_def
  renderer_add_to_current_hit_grid_clipped_unchecked_impl_def

lemma raw_step_audited:
  "raw_step (audited_raw N) (w, s) (w', s') \<Longrightarrow> heap_ok s \<Longrightarrow>
     snd w' = snd w \<and> heap_ok s'"
  by (erule raw_step.cases; auto simp: alias_defs unchecked_defs other_defs read_unfolds spec_unfolds
      split: if_splits option.splits dest!: reader_ok
      dest: draw_grid_audited draw_grid_heap draw_grayscale_audited draw_grayscale_heap raw_call_audited)

lemma raw_reachable_audited:
  "raw_reachable (audited_raw N) w0 s \<Longrightarrow> snd (fst s) = snd w0 \<and> heap_ok (snd s)"
proof (induction rule: raw_reachable.induct)
  case (step s s')
  then show ?case using raw_step_audited [of N "fst s" "snd s" "fst s'" "snd s'"] by simp
qed (simp add: empty_heap_def heap_ok_def)

end
