(* ===== verification/Raw_Props.thy ===== *)
theory Raw_Props
  imports Raw_Safety Span_Feed_Props
begin

text \<open>
  Properties of the renderer and buffer stubs: no native call outside its specification, refused
  calls without effect, the unchecked and bytecode forms against the checked ones, exact
  behaviour of the stubs that compute something, and the copies on the C heap.
\<close>

section \<open>Library\<close>

lemma raw_call_refused:
  "raw_call N w st w' \<Longrightarrow> st \<in> {Ok, Native_failure} \<or> st \<in> {Invalid_argument, Stale_handle} \<and> w' = w"
  by (erule raw_call.cases; auto simp: stub_defs alias_defs read_unfolds
      split: if_splits option.splits)

text \<open>The rounding error of the cast to float below \<open>2 ^ 24\<close> quanta.\<close>

lemma round_f32_error:
  assumes "n \<le> 253" "\<bar>r\<bar> < 2 ^ 24 * (2 ^ n * (1 / 2 ^ 149))"
  shows "\<bar>round_f32 r - r\<bar> \<le> 2 ^ n / 2 ^ 150"
proof -
  obtain k where k: "k \<le> n" and q: "f32_quantum 253 (1 / 2 ^ 149) r = 2 ^ k * (1 / 2 ^ 149)"
    using f32_quantum_le [OF assms] by blast
  define q where "q = (2 ^ k * (1 / 2 ^ 149) :: rat)"
  have q0: "0 < q" by (simp add: q_def)
  have "(2 :: rat) ^ k \<le> 2 ^ n" using k by (intro power_increasing) auto
  then have qn: "q / 2 \<le> 2 ^ n / 2 ^ 150" by (simp add: q_def)
  have "\<bar>of_int (round_even (r / q)) - r / q\<bar> \<le> 1 / 2"
    using round_even_bounds [of "r / q"] by linarith
  then have "\<bar>of_int (round_even (r / q)) - r / q\<bar> * q \<le> 1 / 2 * q"
    using q0 by (intro mult_right_mono) auto
  moreover have "round_f32 r - r = (of_int (round_even (r / q)) - r / q) * q"
    unfolding round_f32_def Let_def q q_def [symmetric] using q0 by (simp add: field_simps)
  ultimately have "\<bar>round_f32 r - r\<bar> \<le> q / 2" using q0 by (simp add: abs_mult)
  with qn show ?thesis by linarith
qed

lemma lroundf_near: "\<bar>p - of_int k\<bar> < 1 / 2 \<Longrightarrow> 0 \<le> p \<Longrightarrow> lroundf p = k"
proof -
  assume *: "\<bar>p - of_int k\<bar> < 1 / 2" "0 \<le> p"
  have "of_int k \<le> p + 1 / 2" "p + 1 / 2 < of_int k + 1" using *(1) by linarith+
  then have "\<lfloor>p + 1 / 2\<rfloor> = k" by (rule floor_unique)
  with *(2) show ?thesis by (simp add: lroundf_def)
qed

lemma round_f32_nonneg: "0 \<le> r \<Longrightarrow> 0 \<le> round_f32 r"
proof -
  assume r: "0 \<le> r"
  obtain k where q: "f32_quantum 253 (1 / 2 ^ 149) r = 2 ^ k * (1 / 2 ^ 149)"
    using f32_quantum_pow2 by blast
  have "0 \<le> round_even (r / (2 ^ k * (1 / 2 ^ 149)))" using r by (intro round_even_ge_int) simp
  then show ?thesis unfolding round_f32_def Let_def q by simp
qed

lemma cursor_product:
  assumes "0 < r" "r < 1"
  obtains p where "to_float (Fin (r * 255)) = Fin p" "\<bar>p - r * 255\<bar> \<le> 1 / 2 ^ 17" "0 \<le> p"
proof -
  have "\<bar>r * 255\<bar> < 2 ^ 24 * (2 ^ 133 * (1 / 2 ^ 149))" using assms by (simp add: abs_mult)
  from round_f32_error [OF _ this] have e: "\<bar>round_f32 (r * 255) - r * 255\<bar> \<le> 1 / 2 ^ 17" by simp
  have "\<bar>r * 255\<bar> \<le> FLT_MAX" using assms by (simp add: FLT_MAX_def abs_mult)
  from to_float_in_range [OF this] e show thesis
    by (rule that) (use assms in \<open>simp add: round_f32_nonneg\<close>)
qed

lemma cursor_channel_inside:
  assumes "0 < r" "r < 1"
  obtains n where "cursor_channel (Fin r) = word_of_int n" "0 \<le> n" "n \<le> 255"
    "\<bar>of_int n - 255 * r\<bar> \<le> 1 / 2 + 1 / 2 ^ 17"
proof -
  obtain p where p: "to_float (Fin (r * 255)) = Fin p" "\<bar>p - r * 255\<bar> \<le> 1 / 2 ^ 17" "0 \<le> p"
    using cursor_product [OF assms] .
  define n where "n = lroundf p"
  have n: "of_int n \<le> p + 1 / 2" "p + 1 / 2 < of_int n + 1"
    using p(3) floor_correct [of "p + 1 / 2"] by (simp_all add: n_def lroundf_def)
  have p2: "\<bar>p - r * 255\<bar> \<le> 1 / 131072" using p(2) by simp
  have "of_int n < (of_int 256 :: rat)" using n p2 assms unfolding of_int_numeral by linarith
  then have 1: "n \<le> 255" by (simp only: of_int_less_iff)
  have "of_int (- 1) < (of_int n :: rat)" using n p(3) by simp
  then have 2: "0 \<le> n" by (simp only: of_int_less_iff)
  have "\<bar>of_int n - 255 * r\<bar> \<le> 1 / 2 + 1 / 131072" using n p2 by linarith
  then have 3: "\<bar>of_int n - 255 * r\<bar> \<le> 1 / 2 + 1 / 2 ^ 17" by simp
  have "cursor_channel (Fin r) = word_of_int n"
    unfolding cursor_channel_def using assms p(1) by (simp add: n_def del: to_float.simps)
  with 1 2 3 show thesis by (intro that)
qed

lemma cursor_channel_byte:
  assumes "0 < k" "k < (255 :: nat)"
  shows "cursor_channel (to_float (Fin (of_nat k / 255))) = of_nat k"
proof -
  define r where "r = round_f32 (of_nat k / 255)"
  have k: "1 / 255 \<le> (of_nat k / 255 :: rat)" "of_nat k / 255 \<le> (254 / 255 :: rat)"
    using assms by (simp_all add: divide_right_mono flip: of_nat_Suc)
  then have "\<bar>of_nat k / 255 :: rat\<bar> < 2 ^ 24 * (2 ^ 125 * (1 / 2 ^ 149))" by simp
  from round_f32_error [OF _ this] have e: "\<bar>r - of_nat k / 255\<bar> \<le> 1 / 2 ^ 25" by (simp add: r_def)
  have f: "to_float (Fin (of_nat k / 255)) = Fin r"
    unfolding r_def by (rule to_float_in_range) (use k in \<open>simp add: FLT_MAX_def\<close>)
  have e2: "\<bar>r - of_nat k / 255\<bar> \<le> 1 / 33554432" using e by simp
  have r: "0 < r" "r < 1" using e2 k by linarith+
  obtain n where n: "cursor_channel (Fin r) = word_of_int n" "\<bar>of_int n - 255 * r\<bar> \<le> 1 / 2 + 1 / 2 ^ 17"
    using cursor_channel_inside [OF r] by metis
  obtain p where p: "to_float (Fin (r * 255)) = Fin p" "\<bar>p - r * 255\<bar> \<le> 1 / 2 ^ 17" "0 \<le> p"
    using cursor_product [OF r] .
  have "\<bar>p - r * 255\<bar> \<le> 1 / 131072" using p(2) by simp
  then have "\<bar>p - of_int (int k)\<bar> < 1 / 2" using e2 unfolding of_int_of_nat_eq by linarith
  then have "lroundf p = int k" using p(3) by (rule lroundf_near)
  then show ?thesis unfolding f cursor_channel_def using r p(1) by (simp del: to_float.simps)
qed

lemma read_int32_array_exact:
  assumes "heap_ok s" "length xs \<le> 4294967295"
  shows "\<exists>p s'. read_int32_array False (Block 0 (map Int32 xs)) s = Some (Returns (Some (p, xs)), s')
    \<and> heap_ok s' \<and> (xs = [] \<and> p = None \<and> s' = s
      \<or> p = Some (h_next s) \<and> h_next s' = Suc (h_next s) \<and> h_live s' = (h_next s, 4 * length xs) # h_live s)"
  using assms unfolding read_int32_array_def
  by (auto simp: Let_def caml_stat_alloc_def read_int32s_exact heap_ok_next)

lemma cell_count_length:
  assumes "length zs \<le> 4294967295" shows "cell_count (of_nat (length zs)) = of_nat (length zs - 1)"
proof (cases "length zs = 0")
  case False
  have "unat (of_nat (length zs) :: u32) = length zs" using assms by (intro unat_of_nat_32) auto
  with False have "(of_nat (length zs) :: u32) \<noteq> 0" by (metis unat_0)
  moreover obtain m where "length zs = Suc m" using False by (cases "length zs") auto
  ultimately show ?thesis by (simp add: cell_count_def)
qed (simp add: cell_count_def)

lemma area_eq:
  assumes "n < 2 ^ 54" shows "(of_nat n :: u64) = ucast (a :: u32) * ucast b \<longleftrightarrow> n = unat a * unat (b :: u32)"
proof -
  have "unat (of_nat n :: u64) = n" using assms by (simp add: unat_of_nat take_bit_nat_eq_self)
  then show ?thesis using pixels_fit [of a b] by (metis word_unat_eq_iff)
qed

lemma read_grayscale_exact:
  assumes "xs \<noteq> []" "length xs < 2 ^ 54" "heap_ok s"
  shows "\<exists>s'. read_grayscale_floatarray False (Double_array xs) a b s = Some (Returns (
    if length xs = unat a * unat b \<and> (\<forall>x \<in> set xs. isfinite x)
    then Some (Some (h_next s), map to_float xs) else None), s')"
proof (cases "length xs = unat a * unat b")
  case True
  then have n: "unat (ucast a * ucast b :: u64) = length xs" by (simp only: pixels_fit)
  then have "(ucast a * ucast b :: u64) \<noteq> 0" using assms(1) by (metis length_0_conv unat_0)
  with True n assms show ?thesis
    unfolding read_grayscale_floatarray_def Let_def
    by (simp add: area_eq [OF assms(2)] read_intensities_exact caml_stat_alloc_def free_fresh)
next
  case False
  then show ?thesis unfolding read_grayscale_floatarray_def Let_def
    by (simp add: area_eq [OF assms(2)])
qed

lemma raw_step_heap: "raw_step N (w, s) (w', s') \<Longrightarrow> heap_ok s \<Longrightarrow> heap_ok s'"
  by (erule raw_step.cases; auto simp: alias_defs dest: draw_grid_heap draw_grayscale_heap)

lemma raw_reachable_heap: "raw_reachable N w0 s \<Longrightarrow> heap_ok (snd s)"
proof (induction rule: raw_reachable.induct)
  case (step s s')
  then show ?case using raw_step_heap [of N "fst s" "snd s" "fst s'" "snd s'"] by simp
qed (simp add: empty_heap_def heap_ok_def)

section \<open>Properties\<close>

text \<open>(C3) Whatever checked stubs OCaml calls, in any order, with any arguments and any allocation
  failures, no native renderer or buffer function is called with a handle, extent, color, option,
  text or array outside its specification. The lookups by which handles are checked are
  specified for every handle: a stale one answers 0. The unchecked stubs of the hit grid are not
  among the steps: they pass on what they are given.\<close>

theorem raw_calls_in_specification:
  assumes "raw_reachable (audited_raw N) (w0, False) ((w, bad), s)"
  shows "\<not> bad"
  using raw_reachable_audited [OF assms] by simp

text \<open>(C20) A status stub that answers \<open>Invalid_argument\<close> or \<open>Stale_handle\<close> has not touched
  the native state, and these are its only answers besides \<open>Ok\<close> and \<open>Native_failure\<close>.\<close>

theorem refused_calls_change_nothing:
  assumes "raw_call N w st w'"
  shows "st \<in> {Ok, Native_failure} \<or> st \<in> {Invalid_argument, Stale_handle} \<and> w' = w"
  using assms by (rule raw_call_refused)

text \<open>A cursor color component is rounded to the nearest byte of its value clamped to the
  unit interval, within the error of one float product; in particular the float nearest to
  \<open>k / 255\<close> is reported as \<open>k\<close>, so colors survive the native round trip.\<close>

theorem cursor_channel_exact:
  "\<bar>of_nat (unat (cursor_channel (Fin r))) - 255 * max 0 (min 1 r)\<bar> \<le> 1 / 2 + 1 / 2 ^ 17
   \<and> (k \<le> 255 \<longrightarrow> cursor_channel (to_float (Fin (of_nat k / 255))) = of_nat k)"
proof (rule conjI)
  show "\<bar>of_nat (unat (cursor_channel (Fin r))) - 255 * max 0 (min 1 r)\<bar> \<le> 1 / 2 + 1 / 2 ^ 17"
  proof (cases "0 < r \<and> r < 1")
    case True
    then obtain n where "cursor_channel (Fin r) = word_of_int n" "0 \<le> n" "n \<le> 255"
      "\<bar>of_int n - 255 * r\<bar> \<le> 1 / 2 + 1 / 2 ^ 17" using cursor_channel_inside by metis
    with True show ?thesis by (simp add: unat_byte)
  qed (auto simp: cursor_channel_def)
  show "k \<le> 255 \<longrightarrow> cursor_channel (to_float (Fin (of_nat k / 255))) = of_nat k"
  proof (cases "k = 0 \<or> k = 255")
    case True
    have "to_float (Fin 0) = Fin 0" "to_float (Fin 1) = Fin 1" using to_float_int [of 0] to_float_int [of 1] by simp_all
    with True show ?thesis by (auto simp: cursor_channel_def simp del: to_float.simps)
  next
    case False
    then show ?thesis by (intro impI cursor_channel_byte) auto
  qed
qed

text \<open>(C36) On a live renderer and non-negative extents every unchecked hit-grid stub, and each of
  the four bytecode entry points of the hit grid, makes the change of the checked stub, which
  answers \<open>Ok\<close>; the two reads return the same identifier (as a signed number) and the same flag.\<close>

theorem unchecked_agree:
  assumes "renderer_is_valid N h w" "extent a" "extent b" "extent i"
  shows
    "opentui_raw_renderer_add_to_hit_grid N h x y a b i w
       = (Ok, opentui_raw_renderer_add_to_hit_grid_unchecked N h x y a b i w)
     \<and> opentui_raw_renderer_add_to_hit_grid_bytecode N (map Int32 [h, x, y, a, b, i]) w
       = Some (Ok, opentui_raw_renderer_add_to_hit_grid_unchecked N h x y a b i w)
     \<and> opentui_raw_renderer_add_to_hit_grid_unchecked_bytecode N (map Int32 [h, x, y, a, b, i]) w
       = Some (Result (), opentui_raw_renderer_add_to_hit_grid_unchecked N h x y a b i w)
     \<and> opentui_raw_renderer_add_to_current_hit_grid_clipped N h x y a b i w
       = (Ok, opentui_raw_renderer_add_to_current_hit_grid_clipped_unchecked N h x y a b i w)
     \<and> opentui_raw_renderer_add_to_current_hit_grid_clipped_bytecode N (map Int32 [h, x, y, a, b, i]) w
       = Some (Ok, opentui_raw_renderer_add_to_current_hit_grid_clipped_unchecked N h x y a b i w)
     \<and> opentui_raw_renderer_add_to_current_hit_grid_clipped_unchecked_bytecode N (map Int32 [h, x, y, a, b, i]) w
       = Some (Result (), opentui_raw_renderer_add_to_current_hit_grid_clipped_unchecked N h x y a b i w)
     \<and> opentui_raw_renderer_hit_grid_push_scissor_rect N h x y a b w
       = (Ok, opentui_raw_renderer_hit_grid_push_scissor_rect_unchecked N h x y a b w)
     \<and> opentui_raw_renderer_hit_grid_pop_scissor_rect N h w
       = (Ok, opentui_raw_renderer_hit_grid_pop_scissor_rect_unchecked N h w)
     \<and> opentui_raw_renderer_hit_grid_clear_scissor_rects N h w
       = (Ok, opentui_raw_renderer_hit_grid_clear_scissor_rects_unchecked N h w)
     \<and> opentui_raw_renderer_clear_current_hit_grid N h w
       = (Ok, opentui_raw_renderer_clear_current_hit_grid_unchecked N h w)
     \<and> opentui_raw_renderer_clear_next_hit_grid N h w
       = (Ok, opentui_raw_renderer_clear_next_hit_grid_unchecked N h w)
     \<and> (let (ident, w') = opentui_raw_renderer_check_hit_unchecked N h a b w in
        opentui_raw_renderer_check_hit N False h a b w
          = (Returns (make_status_count Ok (word_of_int ident)), w'))
     \<and> (let (dirty, w') = opentui_raw_renderer_get_hit_grid_dirty_unchecked N h w in
        opentui_raw_renderer_get_hit_grid_dirty N False h w = (Returns (Ok, dirty), w'))"
  using assms
  by (simp add: stub_defs unchecked_defs opentui_raw_renderer_check_hit_def
      opentui_raw_renderer_check_hit_unchecked_def opentui_raw_renderer_get_hit_grid_dirty_def
      opentui_raw_renderer_get_hit_grid_dirty_unchecked_def Let_def case_prod_beta
      opentui_raw_renderer_add_to_hit_grid_unchecked_bytecode_def
      opentui_raw_renderer_add_to_current_hit_grid_clipped_unchecked_bytecode_def)

text \<open>(C26) A resize answers \<open>Ok\<close> exactly when both buffers of the renderer, as OCaml can look
  them up and measure them, have the new size afterwards.\<close>

theorem resize_exact:
  assumes "renderer_is_valid N h w" "positive x" "positive y"
    and "opentui_raw_renderer_resize N h x y w = (st, w')"
  shows "st = Ok \<longleftrightarrow> (\<forall>next_value. \<exists>b. opentui_raw_renderer_buffer N False h next_value w' = Returns (Ok, b)
      \<and> opentui_raw_buffer_dimensions N False b w' = Returns (Ok, x, y))"
proof -
  have "x \<noteq> 0" using assms(2) by (auto simp: nonpos32_def)
  with assms show ?thesis
    unfolding opentui_raw_renderer_resize_def renderer_is_valid_def
    by (auto simp: renderer_buffers_have_dimensions_def Let_def all_bool_eq buffer_is_valid_def
        opentui_raw_renderer_buffer_def opentui_raw_buffer_dimensions_def make_status_dimensions_def
        split: if_splits)
qed

text \<open>The packed result of the native library decodes to its render status and offset.\<close>

theorem split_result_roundtrip:
  "make_split_render_result (push_bit 32 (ucast (status :: u8)) OR ucast (position :: u32))
     = (uint status, position)
   \<and> split_render_failed = (int (render_status_code Failed), 0)"
proof -
  let ?p = "push_bit 32 (ucast status) OR ucast position :: u64"
  have m: "(0xff :: u64) = mask 8" "(0xffffffff :: u64) = mask 32"
    by (simp_all add: mask_eq_exp_minus_1)
  have "drop_bit 32 ?p AND 0xff = ucast status" unfolding m
    by (rule bit_word_eqI) (auto simp: bit_simps dest: bit_imp_le_length)
  moreover have "(ucast (?p AND 0xffffffff) :: u32) = position" unfolding m
    by (rule bit_word_eqI) (auto simp: bit_simps)
  moreover have "uint (ucast status :: u64) = uint status"
    by (rule uint_up_ucast) (simp add: is_up)
  ultimately show ?thesis
    by (simp add: make_split_render_result_def split_render_failed_def)
qed

text \<open>A color is accepted exactly when it is a block of four immediate integers in
  0..255, and then it decodes to them.\<close>

theorem read_color_exact:
  "read_color v = Some (Some c) \<longleftrightarrow> color_ok c \<and> (\<exists>t. v = Block t (map (\<lambda>x. Long (uint x)) c))"
  by (rule read_color_iff)

text \<open>(C32) When the feed passed to renderer creation is accepted, the pointer handed to the native
  library is NULL for None, and otherwise the stream of a live feed, which exists.\<close>

theorem renderer_feed_exists:
  assumes "stream_protocol N Q" "Q {} w0"
    and "feed_reachable (audited N) \<lparr>native = w0, existing = {}, misuse = False\<rparr> s"
    and "read_feed_pointer (feeds s) v = Some (Inr feed)"
  shows "if is_long v then feed = NULL else feed \<in> existing (world s) \<and> feed \<noteq> NULL"
proof -
  have "existing (world s) = live_streams s"
    using audited_reachable [OF assms(1-3)] by simp
  with assms(4) show ?thesis
    by (auto simp: read_feed_pointer_def opentui_raw_span_feed_pointer_def bind_eq_Some_conv Let_def
        split: if_splits option.splits dest: live_stream)
qed

text \<open>(C27) Drawing a grid with decoded colors and border passes the offsets of the two OCaml
  arrays unchanged, with a cell count one less than their length (0 for an empty array), and
  releases both copies.\<close>

theorem draw_grid_exact:
  assumes "buffer_is_valid N h w" "heap_ok s"
    and "read_border_chars border = Some (Some bc)" "read_color f = Some (Some fc)"
    and "read_color g = Some (Some gc)" "length xs \<le> UINT32_MAX" "length ys \<le> UINT32_MAX"
  shows "\<exists>s'. opentui_raw_buffer_draw_grid N False False h (Block t [border, f, g,
        Block 0 (map Int32 xs), Block 0 (map Int32 ys), Val_bool inner, Val_bool outer]) (w, s)
      = Some (Returns Ok, bufferDrawGrid (dr N) h bc fc gc xs (of_nat (length xs - 1)) ys
          (of_nat (length ys - 1)) \<lparr>draw_inner = inner, draw_outer = outer\<rparr> w, s')
    \<and> h_live s' = h_live s"
proof -
  obtain p s1 where 1: "read_int32_array False (Block 0 (map Int32 xs)) s = Some (Returns (Some (p, xs)), s1)"
    "heap_ok s1" "xs = [] \<and> p = None \<and> s1 = s
      \<or> p = Some (h_next s) \<and> h_next s1 = Suc (h_next s) \<and> h_live s1 = (h_next s, 4 * length xs) # h_live s"
    using read_int32_array_exact [OF assms(2,6)] by auto
  obtain q s2 where 2: "read_int32_array False (Block 0 (map Int32 ys)) s1 = Some (Returns (Some (q, ys)), s2)"
    "heap_ok s2" "ys = [] \<and> q = None \<and> s2 = s1
      \<or> q = Some (h_next s1) \<and> h_next s2 = Suc (h_next s1) \<and> h_live s2 = (h_next s1, 4 * length ys) # h_live s1"
    using read_int32_array_exact [OF 1(2) assms(7)] by auto
  have n: "cell_count (of_nat (length zs)) = of_nat (length zs - 1)" if "length zs \<le> 4294967295" for zs :: "i32 list"
    using that by (rule cell_count_length)
  obtain s3 where 3: "free_if_not_null p s2 = Some s3"
    using 1(3) 2(3) by (cases p) (auto simp: caml_stat_free_def)
  obtain s4 where 4: "free_if_not_null q s3 = Some s4"
    using 1(3) 2(3) free_live [OF 3] by (cases q) (auto simp: caml_stat_free_def split: if_splits)
  have "h_live s4 = h_live s"
    using 1(3) 2(3) free_live [OF 3] free_live [OF 4] assms(2) by (auto simp: filter_fresh)
  with 1(1) 2(1) 3 4 assms show ?thesis
    by (simp add: opentui_raw_buffer_draw_grid_def opentui_raw_optimized_buffer_draw_grid_def
        optimized_buffer_is_valid_def n del: Val_bool_def)
qed

text \<open>(C40) Neither drawing stub keeps a copy on the C heap, whatever its arguments, unless the second
  allocation of \<open>draw_grid\<close> raises, which loses exactly the first copy.\<close>

theorem draw_copies_released:
  assumes "raw_reachable N w0 (w, s)"
  shows "(optimized_buffer_draw_grayscale_buffer N oom h v b (w, s) = Some (r, w', s') \<longrightarrow>
        h_live s' = h_live s)
    \<and> (opentui_raw_optimized_buffer_draw_grid N oom1 oom2 h v (w, s) = Some (r, w', s') \<longrightarrow>
        h_live s' = h_live s \<or> r = Out_of_memory \<and> oom2 \<and> (\<exists>k. h_live s' = (h_next s, k) # h_live s))"
  using raw_reachable_heap [OF assms] draw_grayscale_heap draw_grid_heap by fastforce

text \<open>(C37) Drawing intensities with absent or decoded colors answers \<open>Ok\<close> exactly when the
  argument is a float array of \<open>width * height\<close> finite numbers, which are passed on rounded to
  float, in order; otherwise it answers \<open>Invalid_argument\<close> and draws nothing. An empty area is
  always refused: no OCaml value is an empty float array.\<close>

theorem grayscale_exact:
  assumes "buffer_is_valid N h w" "heap_ok s" "extent width" "extent height" "wf_value samples"
    and "read_optional_color f = Some (Some fc)" "read_optional_color g = Some (Some gc)"
    and "opentui_raw_buffer_draw_grayscale_buffer N False h (Block t [Int32 x, Int32 y, samples,
        Int32 width, Int32 height, f, g]) (w, s) = Some (r, w', s')"
  shows "case samples of
      Double_array xs \<Rightarrow>
        if length xs = unat width * unat height \<and> (\<forall>x \<in> set xs. isfinite x)
        then r = Returns Ok
          \<and> w' = bufferDrawGrayscaleBuffer (dr N) h x y (map to_float xs) width height fc gc w
        else r = Returns Invalid_argument \<and> w' = w
    | _ \<Rightarrow> r = Returns Invalid_argument \<and> w' = w"
proof -
  let ?n = "unat width * unat height"
  obtain c s1 where c: "read_grayscale_floatarray False samples width height s = Some (c, s1)"
    and r: "case c of Out_of_memory \<Rightarrow> False | Returns None \<Rightarrow> r = Returns Invalid_argument \<and> w' = w
      | Returns (Some (p, zs)) \<Rightarrow> r = Returns Ok
          \<and> w' = bufferDrawGrayscaleBuffer (dr N) h x y zs width height fc gc w"
    using assms(1-7) assms(8) read_grayscale_floatarray_spec [OF _ assms(2)]
    by (fastforce simp: opentui_raw_buffer_draw_grayscale_buffer_def
        optimized_buffer_draw_grayscale_buffer_def optimized_buffer_is_valid_def read_unfolds)
  have no_tag: "r = Returns Invalid_argument \<and> w' = w" if "\<not> has_tag Double_array_tag samples"
    using r c that by (auto simp: read_grayscale_floatarray_def)
  show ?thesis
  proof (cases samples)
    case (Double_array xs)
    then have "xs \<noteq> []" "length xs < 2 ^ 54" using assms(5) by simp_all
    with c r Double_array show ?thesis
      using read_grayscale_exact [OF _ _ assms(2), of xs width height] by (auto split: if_splits)
  qed (use no_tag assms(5) in auto)
qed

section \<open>A concrete native library\<close>

text \<open>One renderer (handle 1) with two buffers (2 and 3); the world is the size of the buffers,
  and only a resize changes it.\<close>

definition toy_raw :: "(u32 \<times> u32) raw_api" where
  "toy_raw = \<lparr>
    rn = \<lparr>createRenderer = \<lambda>x y d m p w. (1, (x, y)), setUseThread = \<lambda>h b w. w,
      destroyRenderer = \<lambda>h w. w, getCurrentBuffer = \<lambda>h w. if h = 1 then 2 else 0,
      getNextBuffer = \<lambda>h w. if h = 1 then 3 else 0, resizeRenderer = \<lambda>h x y w. (x, y),
      writeOut = \<lambda>h t w. w, queryTerminalCapabilities = \<lambda>h w. w,
      triggerNotification = \<lambda>h t u w. (True, w), render = \<lambda>h f w. (0, w),
      setBackgroundColor = \<lambda>h c w. w, setCursorPosition = \<lambda>h x y v w. w,
      setCursorColor = \<lambda>h c w. w, setCursorStyleOptions = \<lambda>h c w. w,
      getCursorState = \<lambda>h w. (\<lparr>c_x = 0, c_y = 0, c_visible = True, c_style = 0, c_blinking = False,
        c_r = Fin 1, c_g = Fin 0, c_b = Fin 0, c_a = Fin 1\<rparr>, w)\<rparr>,
    sf = \<lparr>setRenderOffset = \<lambda>h x w. w, resetSplitScrollback = \<lambda>h x y w. (x, w),
      syncSplitScrollback = \<lambda>h x w. (x, w), getSplitOutputOffset = \<lambda>h x w. (x, w),
      setPendingSplitFooterTransition = \<lambda>h m a b c d e w. w,
      clearPendingSplitFooterTransition = \<lambda>h w. w, repaintSplitFooter = \<lambda>h x f w. (0, w),
      commitSplitFooterSnapshot = \<lambda>h s x a b y f g k w. (0, w)\<rparr>,
    hg = \<lparr>addToHitGrid = \<lambda>h x y a b i w. w, clearCurrentHitGrid = \<lambda>h w. w,
      clearNextHitGrid = \<lambda>h w. w, hitGridPushScissorRect = \<lambda>h x y a b w. w,
      hitGridPopScissorRect = \<lambda>h w. w, hitGridClearScissorRects = \<lambda>h w. w,
      addToCurrentHitGridClipped = \<lambda>h x y a b i w. w, checkHit = \<lambda>h x y w. (0, w),
      getHitGridDirty = \<lambda>h w. (False, w)\<rparr>,
    bf = \<lparr>getBufferWidth = \<lambda>h w. if h = 2 \<or> h = 3 then fst w else 0,
      getBufferHeight = \<lambda>h w. if h = 2 \<or> h = 3 then snd w else 0,
      createOptimizedBuffer = \<lambda>x y b m t n w. (0, w), destroyOptimizedBuffer = \<lambda>h w. w,
      bufferResize = \<lambda>h x y w. (x, y), bufferClear = \<lambda>h c w. w,
      bufferWriteResolvedChars = \<lambda>h t n b w. ((0, t), w), bufferPushScissorRect = \<lambda>h x y a b w. w,
      bufferPopScissorRect = \<lambda>h w. w, bufferClearScissorRects = \<lambda>h w. w,
      bufferPushOpacity = \<lambda>h x w. w, bufferPopOpacity = \<lambda>h w. w,
      bufferGetCurrentOpacity = \<lambda>h w. (Fin 1, w), bufferClearOpacity = \<lambda>h w. w\<rparr>,
    dr = \<lparr>bufferSetCell = \<lambda>h x y ch c d a w. w,
      bufferSetCellWithAlphaBlending = \<lambda>h x y ch c d a w. w,
      bufferDrawText = \<lambda>h t n x y c d a w. w,
      bufferDrawBox = \<lambda>h x y a b cs p c d e t u w. w, bufferDrawTextBufferView = \<lambda>h v x y w. w,
      bufferFillRect = \<lambda>h x y a b c w. w, bufferDrawGrayscaleBuffer = \<lambda>h x y xs a b c d w. w,
      bufferDrawGrayscaleBufferSupersampled = \<lambda>h x y xs a b c d w. w,
      drawFrameBuffer = \<lambda>h x y s a b c d w. w,
      bufferDrawGrid = \<lambda>h cs c d xs m ys n opts w. w\<rparr>\<rparr>"

lemma toy_valid: "buffer_is_valid toy_raw 2 (8, 4)" "renderer_is_valid toy_raw 1 w"
  by (simp_all add: buffer_is_valid_def renderer_is_valid_def toy_raw_def)

lemma toy_resize:
  "opentui_raw_renderer_resize N 1 20 10 w = (st, w') \<Longrightarrow> raw_reachable N w0 (w, s) \<Longrightarrow>
     raw_reachable N w0 (w', s)"
  by (blast intro: raw_call.intros raw_step.intros raw_reachable.intros)

lemma toy_heap: "heap_ok empty_heap"
  by (simp add: heap_ok_def empty_heap_def)

theorem raw_calls_in_specification_witness:
  "\<not> snd (snd (opentui_raw_renderer_resize (audited_raw toy_raw) 1 20 10 ((8, 4), False)))"
proof -
  obtain st w bad where r: "opentui_raw_renderer_resize (audited_raw toy_raw) 1 20 10 ((8, 4), False) = (st, w, bad)"
    by (cases "opentui_raw_renderer_resize (audited_raw toy_raw) 1 20 10 ((8, 4), False)") auto
  have "\<not> bad"
    by (rule raw_calls_in_specification [OF toy_resize [OF r raw_reachable.start]])
  with r show ?thesis by simp
qed

theorem refused_calls_change_nothing_witness:
  "opentui_raw_renderer_resize toy_raw 7 20 10 (8, 4) = (Stale_handle, (8, 4))"
proof -
  obtain w where r: "opentui_raw_renderer_resize toy_raw 7 20 10 (8, 4) = (Stale_handle, w)"
    by (simp add: opentui_raw_renderer_resize_def toy_raw_def nonpos32_def)
  have "raw_call toy_raw (8, 4) Stale_handle w" using r by (rule raw_call.intros)
  from refused_calls_change_nothing [OF this] r show ?thesis by simp
qed

theorem cursor_channel_exact_witness: "cursor_channel (to_float (Fin (of_nat 200 / 255))) = of_nat 200"
  using cursor_channel_exact [of 0 200] by simp

theorem unchecked_agree_witness:
  "opentui_raw_renderer_add_to_hit_grid_bytecode toy_raw (map Int32 [1, 2, 3, 4, 5, 6]) (8, 4)
     = Some (Ok, opentui_raw_renderer_add_to_hit_grid_unchecked toy_raw 1 2 3 4 5 6 (8, 4))"
  using unchecked_agree [OF toy_valid(2), of 4 5 6 2 3 "(8, 4)"] by (simp add: neg32_def)

theorem resize_exact_witness:
  "fst (opentui_raw_renderer_resize toy_raw 1 20 10 (8, 4)) = Ok \<longleftrightarrow>
    (\<forall>next_value. \<exists>b. opentui_raw_renderer_buffer toy_raw False 1 next_value (20, 10) = Returns (Ok, b)
      \<and> opentui_raw_buffer_dimensions toy_raw False b (20, 10) = Returns (Ok, 20, 10))"
proof -
  have p: "positive 20" "positive 10" by (simp_all add: nonpos32_def)
  have "snd (opentui_raw_renderer_resize toy_raw 1 20 10 (8, 4)) = (20, 10)"
    using p by (simp add: opentui_raw_renderer_resize_def toy_raw_def Let_def)
  then show ?thesis
    using resize_exact [OF toy_valid(2) p, of "(8, 4)"] by (metis prod.collapse)
qed

lemma toy_border: "read_border_chars (Block 0 (replicate 11 (Int32 9472)))
    = Some (Some (replicate 11 9472))"
  by (simp add: read_border_chars_def neg32_def numeral_eq_Suc)

lemma toy_color: "read_color (Block 0 [Long 1, Long 2, Long 3, Long 4]) = Some (Some [1, 2, 3, 4])"
  by (rule iffD2 [OF read_color_iff]) (simp add: color_ok_def)

theorem draw_grid_exact_witness:
  "\<exists>s'. opentui_raw_buffer_draw_grid toy_raw False False 2
      (Block 0 [Block 0 (replicate 11 (Int32 9472)), Block 0 [Long 1, Long 2, Long 3, Long 4],
        Block 0 [Long 1, Long 2, Long 3, Long 4], Block 0 (map Int32 [0, 4, 8]),
        Block 0 (map Int32 []), Val_bool True, Val_bool False]) ((8, 4), empty_heap)
    = Some (Returns Ok, (8, 4), s') \<and> h_live s' = []"
  using draw_grid_exact [OF toy_valid(1) toy_heap toy_border toy_color toy_color,
      of "[0, 4, 8]" "[]" 0 True False]
  by (simp add: toy_raw_def empty_heap_def del: Val_bool_def)

theorem draw_copies_released_witness:
  "\<exists>s'. opentui_raw_optimized_buffer_draw_grid toy_raw False True 2
      (Block 0 [Block 0 (replicate 11 (Int32 9472)), Block 0 [Long 1, Long 2, Long 3, Long 4],
        Block 0 [Long 1, Long 2, Long 3, Long 4], Block 0 (map Int32 [0, 4, 8]),
        Block 0 (map Int32 [1]), Val_bool True, Val_bool False]) ((8, 4), empty_heap)
    = Some (Out_of_memory, (8, 4), s') \<and> (h_live s' = [] \<or> (\<exists>k. h_live s' = [(0, k)]))"
proof -
  let ?v = "Block 0 [Block 0 (replicate 11 (Int32 9472)), Block 0 [Long 1, Long 2, Long 3, Long 4],
        Block 0 [Long 1, Long 2, Long 3, Long 4], Block 0 (map Int32 [0, 4, 8]),
        Block 0 (map Int32 [1]), Val_bool True, Val_bool False]"
  obtain s' where r: "opentui_raw_optimized_buffer_draw_grid toy_raw False True 2 ?v ((8, 4), empty_heap)
      = Some (Out_of_memory, (8, 4), s')"
    using toy_valid(1)
    by (simp add: opentui_raw_optimized_buffer_draw_grid_def optimized_buffer_is_valid_def
        toy_border toy_color read_int32_array_def caml_stat_alloc_def empty_heap_def Let_def
        numeral_3_eq_3 del: Val_bool_def)
  have "raw_reachable toy_raw (8, 4) ((8, 4), empty_heap)" by (rule raw_reachable.start)
  from draw_copies_released [OF this] r show ?thesis by (fastforce simp: empty_heap_def)
qed

theorem grayscale_exact_witness:
  "\<exists>s'. opentui_raw_buffer_draw_grayscale_buffer toy_raw False 2
     (Block 0 [Int32 0, Int32 0, Double_array [Fin 1, NaN], Int32 2, Int32 1, Val_none, Val_none])
     ((8, 4), empty_heap) = Some (Returns Invalid_argument, (8, 4), s')"
proof -
  have none: "read_optional_color Val_none = Some (Some None)" by (simp add: read_optional_color_def)
  have e: "extent 2" "extent 1" by (simp_all add: neg32_def)
  obtain r w s' where r: "opentui_raw_buffer_draw_grayscale_buffer toy_raw False 2
      (Block 0 [Int32 0, Int32 0, Double_array [Fin 1, NaN], Int32 2, Int32 1, Val_none, Val_none])
      ((8, 4), empty_heap) = Some (r, w, s')"
    using toy_valid(1) none e read_grayscale_exact [of "[Fin 1, NaN]" empty_heap 2 1] toy_heap
    by (auto simp: opentui_raw_buffer_draw_grayscale_buffer_def optimized_buffer_draw_grayscale_buffer_def
        optimized_buffer_is_valid_def simp del: Val_none_def)
  from grayscale_exact [OF toy_valid(1) toy_heap e _ none none r] r show ?thesis by simp
qed

lemma toy_feed_stream: "f_stream toy_feed = 8"
  by (simp add: toy_feed_def)

theorem renderer_feed_exists_witness:
  "read_feed_pointer (feeds (toy_state \<lparr>native = True, existing = {8}, misuse = False\<rparr>))
     (Val_some (Int32 65537)) = Some (Inr 8) \<and> (8 :: ptr) \<in> {8}"
proof -
  let ?s = "toy_state \<lparr>native = True, existing = {8}, misuse = False\<rparr>"
  have p: "read_feed_pointer (feeds ?s) (Val_some (Int32 65537)) = Some (Inr 8)"
    by (simp add: read_feed_pointer_def opentui_raw_span_feed_pointer_def toy_lookup toy_state_def
        toy_feed_stream)
  from renderer_feed_exists [OF toy_protocol toy_order_start toy_audit_reachable p]
  show ?thesis using p by (simp add: toy_state_def)
qed

end
