(* ===== verification/Image.thy ===== *)
theory Image
  imports Buffers
begin

text \<open>
  image_stubs.c: snapshots of the cell arrays of a buffer, decoded images, and the image and color
  matrix drawing calls. The native library is a parameter in two records: the image registry over
  \<open>'w\<close>, and the cell part over \<open>'w\<close> and the memory of the cell arrays, which the
  stubs read and write directly through the pointers the library hands out.
\<close>

section \<open>The native library and the cell memory\<close>

record image_info =
  i_width :: u32
  i_height :: u32
  i_source_width :: u32
  i_source_height :: u32
  i_format :: u32
  i_color_status :: u32
  i_orientation :: u32
  i_has_alpha :: u32

definition zero_image_info :: image_info where
  "zero_image_info = \<lparr>i_width = 0, i_height = 0, i_source_width = 0, i_source_height = 0,
     i_format = 0, i_color_status = 0, i_orientation = 0, i_has_alpha = 0\<rparr>"

record image_draw_options =
  d_x :: i32
  d_y :: i32
  d_size :: "u32 \<times> u32"
  d_pixels :: "u32 \<times> u32"
  d_source :: "u32 \<times> u32"
  d_source_size :: "u32 \<times> u32"
  d_protocol :: u32

text \<open>Arrays of 32-bit and 16-bit words by their address.\<close>

record cell_memory =
  m32 :: "ptr \<Rightarrow> u32 list"
  m16 :: "ptr \<Rightarrow> u16 list"

record 'w image_api =
  imageInfo :: "bytes \<Rightarrow> 'w \<Rightarrow> u32 \<times> image_info"
  imageDecode :: "bytes \<Rightarrow> 'w \<Rightarrow> u32 \<times> handle \<times> 'w"
  imageCreateFromRgba :: "bytes \<Rightarrow> u32 \<Rightarrow> u32 \<Rightarrow> u32 \<Rightarrow> 'w \<Rightarrow> u32 \<times> handle \<times> 'w"
  imageDestroy :: "handle \<Rightarrow> 'w \<Rightarrow> 'w"
  imageRetain :: "handle \<Rightarrow> 'w \<Rightarrow> u32 \<times> handle \<times> 'w"
  imageGetInfo :: "handle \<Rightarrow> 'w \<Rightarrow> u32 \<times> image_info"
  imageMaterialize :: "handle \<Rightarrow> 'w \<Rightarrow> u32 \<times> 'w"
  imageEnsureEncodedPng :: "handle \<Rightarrow> 'w \<Rightarrow> u32 \<times> 'w"
  imageClone :: "handle \<Rightarrow> 'w \<Rightarrow> u32 \<times> handle \<times> 'w"
  imageCopyPixels :: "handle \<Rightarrow> bytes \<Rightarrow> u32 \<Rightarrow> u8 \<Rightarrow> 'w \<Rightarrow> u32 \<times> bytes"
  imageResize :: "handle \<Rightarrow> u32 \<Rightarrow> u32 \<Rightarrow> u32 \<Rightarrow> 'w \<Rightarrow> u32 \<times> handle \<times> 'w"
  imageExtract :: "handle \<Rightarrow> u32 \<Rightarrow> u32 \<Rightarrow> u32 \<Rightarrow> u32 \<Rightarrow> 'w \<Rightarrow> u32 \<times> handle \<times> 'w"
  imageExtend :: "handle \<Rightarrow> u32 \<Rightarrow> u32 \<Rightarrow> u32 \<Rightarrow> u32 \<Rightarrow> bytes \<Rightarrow> 'w \<Rightarrow> u32 \<times> handle \<times> 'w"
  imageTransform :: "handle \<Rightarrow> u32 \<Rightarrow> 'w \<Rightarrow> u32 \<times> handle \<times> 'w"
  imageComposite :: "handle \<Rightarrow> handle \<Rightarrow> i32 \<Rightarrow> i32 \<Rightarrow> u32 \<Rightarrow> u8 \<Rightarrow> 'w \<Rightarrow> u32 \<times> handle \<times> 'w"

text \<open>The size getters and cell pointers depend on the library, not on the cell contents.\<close>

record 'w cell_api =
  cellWidth :: "handle \<Rightarrow> 'w \<Rightarrow> u32"
  cellHeight :: "handle \<Rightarrow> 'w \<Rightarrow> u32"
  bufferGetCharPtr :: "handle \<Rightarrow> 'w \<Rightarrow> ptr"
  bufferGetFgPtr :: "handle \<Rightarrow> 'w \<Rightarrow> ptr"
  bufferGetBgPtr :: "handle \<Rightarrow> 'w \<Rightarrow> ptr"
  bufferGetAttributesPtr :: "handle \<Rightarrow> 'w \<Rightarrow> ptr"
  bufferDrawImage :: "handle \<Rightarrow> handle \<Rightarrow> image_draw_options \<Rightarrow> 'w \<times> cell_memory \<Rightarrow> 'w \<times> cell_memory"
  bufferColorMatrix ::
    "handle \<Rightarrow> fp list \<Rightarrow> fp list \<Rightarrow> u32 \<Rightarrow> fp \<Rightarrow> u8 \<Rightarrow> 'w \<times> cell_memory \<Rightarrow> 'w \<times> cell_memory"
  bufferColorMatrixUniform ::
    "handle \<Rightarrow> fp list \<Rightarrow> fp \<Rightarrow> u8 \<Rightarrow> 'w \<times> cell_memory \<Rightarrow> 'w \<times> cell_memory"

section \<open>Readers\<close>

definition is_bytes :: "value \<Rightarrow> bool" where
  "is_bytes v \<longleftrightarrow> has_tag String_tag v"

definition read_u32 :: "value \<Rightarrow> u32 option option" where
  "read_u32 v =
     (if \<not> has_tag Custom_tag v then Some None
      else do {
        signed_value \<leftarrow> int32_val v;
        Some (if neg32 signed_value then None else Some signed_value)
      })"

definition read_i32 :: "value \<Rightarrow> i32 option option" where
  "read_i32 v = (if \<not> has_tag Custom_tag v then Some None else map_option Some (int32_val v))"

definition read_byte_array :: "value \<Rightarrow> bytes option option" where
  "read_byte_array v =
     (if \<not> is_bytes v then Some None
      else do {
        source \<leftarrow> string_val v;
        Some (if length source \<noteq> 4 then None else Some source)
      })"

definition read_floatarray :: "bool \<Rightarrow> value \<Rightarrow> nat \<Rightarrow> stat_heap \<Rightarrow> fp copied" where
  "read_floatarray oom array_value expected_length h =
     (if \<not> has_tag Double_array_tag array_value then Some (Returns None, h)
      else
        let array_length = wosize_val array_value in
        if expected_length \<noteq> 0 \<and> array_length \<noteq> expected_length then Some (Returns None, h)
        else if array_length > (2 ^ 64 - 1) div 4 then Some (Returns None, h)
        else
          let copy = read_intensities array_value 0 array_length in
          if array_length = 0
          then do { r \<leftarrow> copy; Some (Returns (map_option (\<lambda>xs. (None, xs)) r), h) }
          else
            case caml_stat_alloc oom (array_length * 4) h of
              (Out_of_memory, h1) \<Rightarrow> Some (Out_of_memory, h1)
            | (Returns block, h1) \<Rightarrow> do {
                r \<leftarrow> copy;
                case r of
                  None \<Rightarrow> do { h2 \<leftarrow> caml_stat_free block h1; Some (Returns None, h2) }
                | Some xs \<Rightarrow> Some (Returns (Some (Some block, xs)), h1)
              })"

definition cells_valid :: "'w cell_api \<Rightarrow> handle \<Rightarrow> 'w \<Rightarrow> bool" where
  "cells_valid C handle w \<longleftrightarrow> handle \<noteq> 0 \<and> cellWidth C handle w \<noteq> 0"

definition make_int32_array :: "i32 list \<Rightarrow> value" where
  "make_int32_array xs = Block 0 (map Int32 xs)"

definition is_int32_array :: "value \<Rightarrow> bool" where
  "is_int32_array v \<longleftrightarrow> has_tag 0 v"

definition read_int32_array_values :: "value \<Rightarrow> nat \<Rightarrow> i32 list option option" where
  "read_int32_array_values array_value expected_length =
     (if \<not> is_int32_array array_value \<or> wosize_val array_value \<noteq> expected_length then Some None
      else read_int32s array_value 0 expected_length)"

text \<open>The copy loops over the first \<open>n\<close> cells; an access outside the array is undefined.\<close>

definition load_cells :: "'a list \<Rightarrow> nat \<Rightarrow> 'a list option" where
  "load_cells xs n = (if n \<le> length xs then Some (take n xs) else None)"

definition store_cells :: "'a list \<Rightarrow> 'a list \<Rightarrow> 'a list option" where
  "store_cells xs vs = (if length vs \<le> length xs then Some (vs @ drop (length vs) xs) else None)"

section \<open>Snapshots\<close>

text \<open>\<open>(size_t)width * (size_t)height\<close>\<close>

definition cell_total :: "u32 \<Rightarrow> u32 \<Rightarrow> nat" where
  "cell_total width height = unat (ucast width * ucast height :: u64)"

definition area_overflows :: "u32 \<Rightarrow> u32 \<Rightarrow> bool" where
  "area_overflows width height \<longleftrightarrow> height \<noteq> 0 \<and> width > (- 1) div height"

definition empty_snapshot :: "value" where
  "empty_snapshot = Block 0 (replicate 4 (Block 0 []))"

definition opentui_raw_buffer_snapshot ::
  "'w cell_api \<Rightarrow> (nat \<Rightarrow> bool) \<Rightarrow> bool \<Rightarrow> bool \<Rightarrow> handle \<Rightarrow> 'w \<times> cell_memory \<times> stat_heap
     \<Rightarrow> ((raw_status \<times> value) outcome \<times> stat_heap) option" where
  "opentui_raw_buffer_snapshot C oom oom_arrays oom_result handle = (\<lambda>(w, m, h).
     let width = cellWidth C handle w; height = cellHeight C handle w in
     if \<not> cells_valid C handle w \<or> area_overflows width height
     then Some (allocating oom_result (Stale_handle, empty_snapshot), h)
     else
       let cells = cell_total width height in
       if cells > (2 ^ 64 - 1) div 4
       then Some (allocating oom_result (Output_too_small, empty_snapshot), h)
       else
         let colors = cells * 4;
             chars = bufferGetCharPtr C handle w; foreground = bufferGetFgPtr C handle w;
             background = bufferGetBgPtr C handle w; attributes = bufferGetAttributesPtr C handle w in
         if chars = NULL \<or> foreground = NULL \<or> background = NULL \<or> attributes = NULL
         then Some (allocating oom_result (Stale_handle, empty_snapshot), h)
         else
           case alloc_all oom [cells * 4, colors * 4, colors * 4, cells * 4] h of
             (Out_of_memory, h1) \<Rightarrow> Some (Out_of_memory, h1)
           | (Returns blocks, h1) \<Rightarrow> do {
               char_values \<leftarrow> load_cells (m32 m chars) cells;
               attribute_values \<leftarrow> load_cells (m32 m attributes) cells;
               foreground_values \<leftarrow> load_cells (m16 m foreground) colors;
               background_values \<leftarrow> load_cells (m16 m background) colors;
               if oom_arrays then Some (Out_of_memory, h1)
               else do {
                 h2 \<leftarrow> free_all blocks h1;
                 Some (allocating oom_result (Ok, Block 0 [
                   make_int32_array char_values,
                   make_int32_array (map ucast foreground_values),
                   make_int32_array (map ucast background_values),
                   make_int32_array attribute_values]), h2)
               }
             })"

definition opentui_raw_buffer_restore ::
  "'w cell_api \<Rightarrow> (nat \<Rightarrow> bool) \<Rightarrow> handle \<Rightarrow> value \<Rightarrow> 'w \<times> cell_memory \<times> stat_heap
     \<Rightarrow> (raw_status outcome \<times> cell_memory \<times> stat_heap) option" where
  "opentui_raw_buffer_restore C oom handle snapshot_value = (\<lambda>(w, m, h).
     if \<not> has_size 4 snapshot_value then Some (Returns Invalid_argument, m, h)
     else if \<not> cells_valid C handle w then Some (Returns Stale_handle, m, h)
     else
       let width = cellWidth C handle w; height = cellHeight C handle w in
       if area_overflows width height then Some (Returns Invalid_argument, m, h)
       else
         let cells = cell_total width height in
         if cells > (2 ^ 64 - 1) div 4 then Some (Returns Invalid_argument, m, h)
         else
           let colors = cells * 4 in
           case alloc_all oom [cells * 4, colors * 4, colors * 4, cells * 4] h of
             (Out_of_memory, h1) \<Rightarrow> Some (Out_of_memory, m, h1)
           | (Returns blocks, h1) \<Rightarrow>
               let finish = (\<lambda>status m1. do {
                     h2 \<leftarrow> free_all blocks h1;
                     Some (Returns status, m1, h2) });
                   invalid = finish Invalid_argument m;
                   read = (\<lambda>i n. Option.bind (field snapshot_value i) (\<lambda>v. read_int32_array_values v n)) in
               require (read 0 cells) invalid (\<lambda>chars.
               require (read 1 colors) invalid (\<lambda>foreground.
               require (read 2 colors) invalid (\<lambda>background.
               require (read 3 cells) invalid (\<lambda>attributes.
                 let native_chars = bufferGetCharPtr C handle w;
                     native_foreground = bufferGetFgPtr C handle w;
                     native_background = bufferGetBgPtr C handle w;
                     native_attributes = bufferGetAttributesPtr C handle w in
                 if native_chars = NULL \<or> native_foreground = NULL \<or> native_background = NULL
                    \<or> native_attributes = NULL
                 then invalid
                 else do {
                   cs \<leftarrow> store_cells (m32 m native_chars) chars;
                   let m1 = m\<lparr>m32 := (m32 m)(native_chars := cs)\<rparr>;
                   as \<leftarrow> store_cells (m32 m1 native_attributes) attributes;
                   let m2 = m1\<lparr>m32 := (m32 m1)(native_attributes := as)\<rparr>;
                   fs \<leftarrow> store_cells (m16 m2 native_foreground) (map ucast foreground);
                   let m3 = m2\<lparr>m16 := (m16 m2)(native_foreground := fs)\<rparr>;
                   bs \<leftarrow> store_cells (m16 m3 native_background) (map ucast background);
                   finish Ok (m3\<lparr>m16 := (m16 m3)(native_background := bs)\<rparr>)
                 })))))"

section \<open>Decoded images\<close>

text \<open>Image statuses are numbers of the native library; 7 is its invalid argument. The C code
  returns them through a conversion to int.\<close>

definition make_image_handle :: "u32 \<Rightarrow> handle \<Rightarrow> int \<times> handle" where
  "make_image_handle status handle = (sint status, handle)"

definition make_status_info :: "u32 \<Rightarrow> image_info \<Rightarrow> int \<times> image_info" where
  "make_status_info status info = (sint status, info)"

definition encoded_ok :: "bytes \<Rightarrow> bool" where
  "encoded_ok b \<longleftrightarrow> b \<noteq> [] \<and> length b \<le> UINT32_MAX"

definition opentui_raw_image_info ::
  "'w image_api \<Rightarrow> bool \<Rightarrow> value \<Rightarrow> 'w \<Rightarrow> (int \<times> image_info) outcome option" where
  "opentui_raw_image_info I oom bytes_value w =
     (if \<not> is_bytes bytes_value then Some (allocating oom (make_status_info 7 zero_image_info))
      else do {
        b \<leftarrow> string_val bytes_value;
        if \<not> encoded_ok b then Some (allocating oom (make_status_info 7 zero_image_info))
        else let (status, info) = imageInfo I b w in Some (allocating oom (make_status_info status info))
      })"

definition opentui_raw_image_decode ::
  "'w image_api \<Rightarrow> bool \<Rightarrow> value \<Rightarrow> 'w \<Rightarrow> ((int \<times> handle) outcome \<times> 'w) option" where
  "opentui_raw_image_decode I oom bytes_value w =
     (if \<not> is_bytes bytes_value then Some (allocating oom (make_image_handle 7 0), w)
      else do {
        b \<leftarrow> string_val bytes_value;
        if \<not> encoded_ok b then Some (allocating oom (make_image_handle 7 0), w)
        else let (status, handle, w1) = imageDecode I b w in
          Some (allocating oom (make_image_handle status handle), w1)
      })"

definition opentui_raw_image_create_from_rgba ::
  "'w image_api \<Rightarrow> bool \<Rightarrow> value \<Rightarrow> value \<Rightarrow> value \<Rightarrow> value \<Rightarrow> 'w
     \<Rightarrow> ((int \<times> handle) outcome \<times> 'w) option" where
  "opentui_raw_image_create_from_rgba I oom pixels_value width_value height_value stride_value w =
     (let invalid = Some (allocating oom (make_image_handle 7 0), w) in
      if \<not> is_bytes pixels_value then invalid
      else
        require (read_u32 width_value) invalid (\<lambda>width.
        require (read_u32 height_value) invalid (\<lambda>height.
        require (read_u32 stride_value) invalid (\<lambda>stride. do {
          pixels \<leftarrow> string_val pixels_value;
          let (status, handle, w1) = imageCreateFromRgba I pixels width height stride w in
          Some (allocating oom (make_image_handle status handle), w1)
        }))))"

definition opentui_raw_image_destroy :: "'w image_api \<Rightarrow> handle \<Rightarrow> 'w \<Rightarrow> 'w" where
  "opentui_raw_image_destroy I handle w = imageDestroy I handle w"

definition image_unary_handle ::
  "bool \<Rightarrow> handle \<Rightarrow> (handle \<Rightarrow> 'w \<Rightarrow> u32 \<times> handle \<times> 'w) \<Rightarrow> 'w \<Rightarrow> (int \<times> handle) outcome \<times> 'w" where
  "image_unary_handle oom handle operation w =
     (let (status, output, w1) = operation handle w in
      (allocating oom (make_image_handle status output), w1))"

definition opentui_raw_image_retain ::
  "'w image_api \<Rightarrow> bool \<Rightarrow> handle \<Rightarrow> 'w \<Rightarrow> (int \<times> handle) outcome \<times> 'w" where
  "opentui_raw_image_retain I oom handle w =
     (let (status, output, w1) = imageRetain I handle w in
      (allocating oom (make_image_handle status output), w1))"

definition opentui_raw_image_get_info ::
  "'w image_api \<Rightarrow> bool \<Rightarrow> handle \<Rightarrow> 'w \<Rightarrow> (int \<times> image_info) outcome" where
  "opentui_raw_image_get_info I oom handle w =
     (let (status, info) = imageGetInfo I handle w in allocating oom (make_status_info status info))"

definition opentui_raw_image_materialize :: "'w image_api \<Rightarrow> handle \<Rightarrow> 'w \<Rightarrow> int \<times> 'w" where
  "opentui_raw_image_materialize I handle w =
     (let (status, w1) = imageMaterialize I handle w in (sint status, w1))"

definition opentui_raw_image_ensure_encoded_png :: "'w image_api \<Rightarrow> handle \<Rightarrow> 'w \<Rightarrow> int \<times> 'w" where
  "opentui_raw_image_ensure_encoded_png I handle w =
     (let (status, w1) = imageEnsureEncodedPng I handle w in (sint status, w1))"

definition opentui_raw_image_clone ::
  "'w image_api \<Rightarrow> bool \<Rightarrow> handle \<Rightarrow> 'w \<Rightarrow> (int \<times> handle) outcome \<times> 'w" where
  "opentui_raw_image_clone I oom handle w = image_unary_handle oom handle (imageClone I) w"

text \<open>The native call fills the destination; its new contents are the second result.\<close>

definition opentui_raw_image_copy_pixels ::
  "'w image_api \<Rightarrow> handle \<Rightarrow> value \<Rightarrow> value \<Rightarrow> value \<Rightarrow> 'w \<Rightarrow> (int \<times> value) option" where
  "opentui_raw_image_copy_pixels I handle destination_value stride_value bgra_value w =
     (if \<not> is_bytes destination_value then Some (7, destination_value)
      else require (read_u32 stride_value) (Some (7, destination_value)) (\<lambda>stride.
        if \<not> is_long bgra_value then Some (7, destination_value)
        else do {
          bgra \<leftarrow> long_val bgra_value;
          if bgra \<noteq> 0 \<and> bgra \<noteq> 1 then Some (7, destination_value)
          else do {
            destination \<leftarrow> string_val destination_value;
            let (status, filled) = imageCopyPixels I handle destination stride (word_of_int bgra) w in
            Some (sint status, Str filled)
          }
        }))"

text \<open>Field(args, i) passed to a reader.\<close>

definition field_u32 :: "value \<Rightarrow> nat \<Rightarrow> u32 option option" where
  "field_u32 v i = Option.bind (field v i) read_u32"

definition field_i32 :: "value \<Rightarrow> nat \<Rightarrow> i32 option option" where
  "field_i32 v i = Option.bind (field v i) read_i32"

definition opentui_raw_image_resize ::
  "'w image_api \<Rightarrow> bool \<Rightarrow> handle \<Rightarrow> value \<Rightarrow> 'w \<Rightarrow> ((int \<times> handle) outcome \<times> 'w) option" where
  "opentui_raw_image_resize I oom handle args_value w =
     (let invalid = Some (allocating oom (make_image_handle 7 0), w) in
      if \<not> has_size 3 args_value then invalid
      else
        require (field_u32 args_value 0) invalid (\<lambda>width.
        require (field_u32 args_value 1) invalid (\<lambda>height.
        require (field_u32 args_value 2) invalid (\<lambda>kernel.
          let (status, output, w1) = imageResize I handle width height kernel w in
          Some (allocating oom (make_image_handle status output), w1)))))"

definition opentui_raw_image_extract ::
  "'w image_api \<Rightarrow> bool \<Rightarrow> handle \<Rightarrow> value \<Rightarrow> 'w \<Rightarrow> ((int \<times> handle) outcome \<times> 'w) option" where
  "opentui_raw_image_extract I oom handle args_value w =
     (let invalid = Some (allocating oom (make_image_handle 7 0), w) in
      if \<not> has_size 4 args_value then invalid
      else
        require (field_u32 args_value 0) invalid (\<lambda>left.
        require (field_u32 args_value 1) invalid (\<lambda>top.
        require (field_u32 args_value 2) invalid (\<lambda>width.
        require (field_u32 args_value 3) invalid (\<lambda>height.
          let (status, output, w1) = imageExtract I handle left top width height w in
          Some (allocating oom (make_image_handle status output), w1))))))"

definition opentui_raw_image_extend ::
  "'w image_api \<Rightarrow> bool \<Rightarrow> handle \<Rightarrow> value \<Rightarrow> 'w \<Rightarrow> ((int \<times> handle) outcome \<times> 'w) option" where
  "opentui_raw_image_extend I oom handle args_value w =
     (let invalid = Some (allocating oom (make_image_handle 7 0), w) in
      if \<not> has_size 5 args_value then invalid
      else
        require (field_u32 args_value 0) invalid (\<lambda>top.
        require (field_u32 args_value 1) invalid (\<lambda>right.
        require (field_u32 args_value 2) invalid (\<lambda>bottom.
        require (field_u32 args_value 3) invalid (\<lambda>left.
        require (Option.bind (field args_value 4) read_byte_array) invalid (\<lambda>background.
          let (status, output, w1) = imageExtend I handle top right bottom left background w in
          Some (allocating oom (make_image_handle status output), w1)))))))"

definition opentui_raw_image_transform ::
  "'w image_api \<Rightarrow> bool \<Rightarrow> handle \<Rightarrow> value \<Rightarrow> 'w \<Rightarrow> ((int \<times> handle) outcome \<times> 'w) option" where
  "opentui_raw_image_transform I oom handle operation_value w =
     require (read_u32 operation_value) (Some (allocating oom (make_image_handle 7 0), w)) (\<lambda>operation.
       let (status, output, w1) = imageTransform I handle operation w in
       Some (allocating oom (make_image_handle status output), w1))"

text \<open>An immediate integer in \<open>lo..hi\<close>.\<close>

definition read_immediate :: "value \<Rightarrow> int \<Rightarrow> int \<Rightarrow> int option option" where
  "read_immediate v lo hi =
     (if \<not> is_long v then Some None
      else do { n \<leftarrow> long_val v; Some (if n < lo \<or> n > hi then None else Some n) })"

definition opentui_raw_image_composite ::
  "'w image_api \<Rightarrow> bool \<Rightarrow> handle \<Rightarrow> handle \<Rightarrow> value \<Rightarrow> 'w
     \<Rightarrow> ((int \<times> handle) outcome \<times> 'w) option" where
  "opentui_raw_image_composite I oom base overlay args_value w =
     (let invalid = Some (allocating oom (make_image_handle 7 0), w) in
      if \<not> has_size 4 args_value then invalid
      else
        require (field_i32 args_value 0) invalid (\<lambda>left.
        require (field_i32 args_value 1) invalid (\<lambda>top.
        require (field_u32 args_value 2) invalid (\<lambda>blend.
        require (Option.bind (field args_value 3) (\<lambda>v. read_immediate v 0 255)) invalid (\<lambda>opacity.
          let (status, output, w1) =
                imageComposite I base overlay left top blend (word_of_int opacity) w in
          Some (allocating oom (make_image_handle status output), w1))))))"

section \<open>Drawing images and color matrices\<close>

definition opentui_raw_buffer_draw_image ::
  "'w cell_api \<Rightarrow> handle \<Rightarrow> value \<Rightarrow> 'w \<times> cell_memory \<Rightarrow> (int \<times> 'w \<times> cell_memory) option" where
  "opentui_raw_buffer_draw_image C buffer args_value s =
     (if \<not> has_size 12 args_value then Some (1, s)
      else
        require (field_i32 args_value 0) (Some (1, s)) (\<lambda>x.
        require (field_i32 args_value 1) (Some (1, s)) (\<lambda>y.
        require (field_u32 args_value 2) (Some (1, s)) (\<lambda>width.
        require (field_u32 args_value 3) (Some (1, s)) (\<lambda>height.
        require (field_u32 args_value 4) (Some (1, s)) (\<lambda>pixel_width.
        require (field_u32 args_value 5) (Some (1, s)) (\<lambda>pixel_height.
        require (field_u32 args_value 6) (Some (1, s)) (\<lambda>source_x.
        require (field_u32 args_value 7) (Some (1, s)) (\<lambda>source_y.
        require (field_u32 args_value 8) (Some (1, s)) (\<lambda>source_width.
        require (field_u32 args_value 9) (Some (1, s)) (\<lambda>source_height.
        require (field_u32 args_value 10) (Some (1, s)) (\<lambda>protocol. do {
          image_value \<leftarrow> field args_value 11;
          if protocol > 3 \<or> \<not> has_tag Custom_tag image_value then Some (1, s)
          else if \<not> cells_valid C buffer (fst s) then Some (2, s)
          else do {
            image \<leftarrow> int32_val image_value;
            Some (0, bufferDrawImage C buffer image
              \<lparr>d_x = x, d_y = y, d_size = (width, height), d_pixels = (pixel_width, pixel_height),
               d_source = (source_x, source_y), d_source_size = (source_width, source_height),
               d_protocol = protocol\<rparr> s)
          }
        }))))))))))))"

text \<open>Matrix and mask: \<open>Some (Returns None)\<close> after everything copied has been released.\<close>

definition read_matrix_and_mask ::
  "bool \<Rightarrow> bool \<Rightarrow> value \<Rightarrow> value \<Rightarrow> stat_heap
     \<Rightarrow> (((nat option \<times> fp list) \<times> (nat option \<times> fp list) \<times> u32) option outcome \<times> stat_heap) option" where
  "read_matrix_and_mask oom1 oom2 matrix_value mask_value h = do {
     (copied, h1) \<leftarrow> read_floatarray oom1 matrix_value 16 h;
     case copied of
       Out_of_memory \<Rightarrow> Some (Out_of_memory, h1)
     | Returns None \<Rightarrow> Some (Returns None, h1)
     | Returns (Some matrix) \<Rightarrow> do {
         (copied, h2) \<leftarrow> read_floatarray oom2 mask_value 0 h1;
         case copied of
           Out_of_memory \<Rightarrow> Some (Out_of_memory, h2)
         | Returns None \<Rightarrow> do {
             h3 \<leftarrow> free_if_not_null (fst matrix) h2;
             Some (Returns None, h3)
           }
         | Returns (Some cell_mask) \<Rightarrow>
             let mask_length = length (snd cell_mask) in
             if mask_length mod 3 \<noteq> 0 \<or> mask_length div 3 > UINT32_MAX
             then do {
               h3 \<leftarrow> free_if_not_null (fst matrix) h2;
               h4 \<leftarrow> free_if_not_null (fst cell_mask) h3;
               Some (Returns None, h4)
             }
             else Some (Returns (Some (matrix, cell_mask, of_nat (mask_length div 3))), h2)
       }
   }"

definition opentui_raw_buffer_color_matrix ::
  "'w cell_api \<Rightarrow> bool \<Rightarrow> bool \<Rightarrow> handle \<Rightarrow> value \<Rightarrow> value \<Rightarrow> value \<Rightarrow> value
     \<Rightarrow> ('w \<times> cell_memory) \<times> stat_heap \<Rightarrow> (int outcome \<times> ('w \<times> cell_memory) \<times> stat_heap) option" where
  "opentui_raw_buffer_color_matrix C oom1 oom2 buffer matrix_value mask_value strength_value
     target_value = (\<lambda>(s, h). do {
     (copied, h1) \<leftarrow> read_matrix_and_mask oom1 oom2 matrix_value mask_value h;
     case copied of
       Out_of_memory \<Rightarrow> Some (Out_of_memory, s, h1)
     | Returns None \<Rightarrow> Some (Returns 1, s, h1)
     | Returns (Some (matrix, cell_mask, mask_count)) \<Rightarrow>
         let finish = (\<lambda>status s1. do {
               h2 \<leftarrow> free_if_not_null (fst matrix) h1;
               h3 \<leftarrow> free_if_not_null (fst cell_mask) h2;
               Some (Returns status, s1, h3) }) in
         if \<not> has_tag Double_tag strength_value then finish 1 s
         else require (read_immediate target_value 1 3) (finish 1 s) (\<lambda>target.
           if \<not> cells_valid C buffer (fst s) then finish 2 s
           else do {
             strength \<leftarrow> double_val strength_value;
             finish 0 (bufferColorMatrix C buffer (snd matrix) (snd cell_mask) mask_count
               (to_float strength) (word_of_int target) s)
           })
   })"

definition opentui_raw_buffer_color_matrix_uniform ::
  "'w cell_api \<Rightarrow> bool \<Rightarrow> handle \<Rightarrow> value \<Rightarrow> value \<Rightarrow> value
     \<Rightarrow> ('w \<times> cell_memory) \<times> stat_heap \<Rightarrow> (int outcome \<times> ('w \<times> cell_memory) \<times> stat_heap) option" where
  "opentui_raw_buffer_color_matrix_uniform C oom buffer matrix_value strength_value
     target_value = (\<lambda>(s, h). do {
     (copied, h1) \<leftarrow> read_floatarray oom matrix_value 16 h;
     case copied of
       Out_of_memory \<Rightarrow> Some (Out_of_memory, s, h1)
     | Returns None \<Rightarrow> Some (Returns 1, s, h1)
     | Returns (Some matrix) \<Rightarrow>
         let finish = (\<lambda>status s1. do {
               h2 \<leftarrow> free_if_not_null (fst matrix) h1;
               Some (Returns status, s1, h2) }) in
         if \<not> has_tag Double_tag strength_value then finish 1 s
         else require (read_immediate target_value 1 3) (finish 1 s) (\<lambda>target.
           if \<not> cells_valid C buffer (fst s) then finish 2 s
           else do {
             strength \<leftarrow> double_val strength_value;
             finish 0 (bufferColorMatrixUniform C buffer (snd matrix) (to_float strength)
               (word_of_int target) s)
           })
   })"

end
