(* ===== verification/Image_Props.thy ===== *)
theory Image_Props
  imports Image Raw_Safety
begin

text \<open>
  Properties of the snapshot, restore and color matrix stubs: the round trip, refusal without
  effect, exact conditions for a native call, and the copies on the C heap.
\<close>

section \<open>Library\<close>

lemma load_cells_eq: "load_cells xs n = Some ys \<longleftrightarrow> n \<le> length xs \<and> ys = take n xs"
  by (auto simp: load_cells_def)

lemma store_cells_eq: "store_cells xs vs = Some ys \<longleftrightarrow> length vs \<le> length xs \<and> ys = vs @ drop (length vs) xs"
  by (auto simp: store_cells_def)

lemma read_int32s_all: "read_int32s (Block t (map Int32 xs)) 0 (length xs) = Some (Some xs)"
  using read_int32s_exact [of 0 "length xs" xs t] by simp

lemma read_values_array:
  "read_int32_array_values (make_int32_array xs) n = Some (if length xs = n then Some xs else None)"
  by (auto simp: read_int32_array_values_def make_int32_array_def is_int32_array_def read_int32s_all)

lemma ucast_16_32: "ucast (ucast (x :: u16) :: i32) = x"
  by (rule bit_word_eqI) (simp add: bit_simps)

lemma ucast_comp: "(ucast :: i32 \<Rightarrow> u16) \<circ> ucast = id"
  by (rule ext) (simp add: ucast_16_32)

definition matrix_and_mask :: "value \<Rightarrow> value \<Rightarrow> fp list \<Rightarrow> fp list \<Rightarrow> bool" where
  "matrix_and_mask matrix_value mask_value ms xs \<longleftrightarrow>
     matrix_value = Double_array ms \<and> length ms = 16 \<and> (\<forall>x \<in> set ms. isfinite x)
     \<and> mask_value = Double_array xs \<and> 3 dvd length xs \<and> length xs div 3 \<le> UINT32_MAX
     \<and> (\<forall>x \<in> set xs. isfinite x)"

text \<open>Well-formed arguments of the color matrix stub, and what they decode to.\<close>

definition matrix_arguments :: "value \<Rightarrow> value \<Rightarrow> value \<Rightarrow> value \<Rightarrow> fp list \<Rightarrow> fp list \<Rightarrow> fp \<Rightarrow> int \<Rightarrow> bool" where
  "matrix_arguments matrix_value mask_value strength_value target_value ms xs st t \<longleftrightarrow>
     matrix_and_mask matrix_value mask_value ms xs \<and> strength_value = Double st \<and> target_value = Long t \<and> 1 \<le> t \<and> t \<le> 3"

lemma read_floatarray_spec:
  assumes "read_floatarray oom v n h = Some (r, h')" "heap_ok h" "wf_value v"
  shows "heap_ok h' \<and> (case r of
      Out_of_memory \<Rightarrow> oom \<and> h' = h
    | Returns None \<Rightarrow> h_live h' = h_live h \<and>
        \<not> (\<exists>xs. v = Double_array xs \<and> (n \<noteq> 0 \<longrightarrow> length xs = n) \<and> (\<forall>x \<in> set xs. isfinite x))
    | Returns (Some (p, ys)) \<Rightarrow> \<exists>xs. v = Double_array xs \<and> (n \<noteq> 0 \<longrightarrow> length xs = n)
        \<and> (\<forall>x \<in> set xs. isfinite x) \<and> ys = map to_float xs
        \<and> p = Some (h_next h) \<and> h_live h' = (h_next h, length xs * 4) # h_live h)"
proof (cases v)
  case (Double_array xs)
  then have "length xs < 2 ^ 54" "xs \<noteq> []" using assms(3) by auto
  with assms(1,2) Double_array show ?thesis
    unfolding read_floatarray_def
    by (auto simp: Let_def caml_stat_alloc_def read_intensities_exact free_fresh heap_ok_next
        split: if_splits)
qed (use assms in \<open>auto simp: read_floatarray_def\<close>)

lemma read_matrix_and_mask_spec:
  assumes "read_matrix_and_mask oom1 oom2 mv kv h = Some (r, h')" "heap_ok h" "wf_value mv" "wf_value kv"
  shows "case r of
      Out_of_memory \<Rightarrow> True
    | Returns None \<Rightarrow> h_live h' = h_live h \<and> \<not> (\<exists>ms xs. matrix_and_mask mv kv ms xs)
    | Returns (Some ((p, ys), (q, zs), count)) \<Rightarrow> (\<exists>ms xs. matrix_and_mask mv kv ms xs
        \<and> ys = map to_float ms \<and> zs = map to_float xs \<and> count = of_nat (length xs div 3))
        \<and> (\<forall>h2 h3. free_if_not_null p h' = Some h2 \<longrightarrow> free_if_not_null q h2 = Some h3 \<longrightarrow>
             h_live h3 = h_live h)"
proof -
  obtain c h1 where c: "read_floatarray oom1 mv 16 h = Some (c, h1)"
    using assms(1) by (auto simp: read_matrix_and_mask_def bind_eq_Some_conv)
  note spec1 = read_floatarray_spec [OF c assms(2,3)]
  show ?thesis
  proof (cases c)
    case Out_of_memory
    then show ?thesis using assms(1) c by (auto simp: read_matrix_and_mask_def)
  next
    case (Returns copied)
    show ?thesis
    proof (cases copied)
      case None
      then show ?thesis using assms(1) c Returns spec1
        by (auto simp: read_matrix_and_mask_def matrix_and_mask_def)
    next
      case (Some matrix)
      then obtain p ys where py: "copied = Some (p, ys)" by (cases matrix) auto
      with spec1 Returns obtain ms where ms: "mv = Double_array ms" "length ms = 16"
        "\<forall>x \<in> set ms. isfinite x" "ys = map to_float ms" "p = Some (h_next h)"
        "h_live h1 = (h_next h, length ms * 4) # h_live h" and ok: "heap_ok h1" by auto
      obtain d h2 where d: "read_floatarray oom2 kv 0 h1 = Some (d, h2)"
        using assms(1) c Returns py by (auto simp: read_matrix_and_mask_def bind_eq_Some_conv)
      note spec2 = read_floatarray_spec [OF d ok assms(4)]
      have step: "(case d of
          Out_of_memory \<Rightarrow> Some (Out_of_memory, h2)
        | Returns None \<Rightarrow> do { h3 \<leftarrow> free_if_not_null p h2; Some (Returns None, h3) }
        | Returns (Some k) \<Rightarrow>
            if length (snd k) mod 3 \<noteq> 0 \<or> length (snd k) div 3 > UINT32_MAX
            then do { h3 \<leftarrow> free_if_not_null p h2; h4 \<leftarrow> free_if_not_null (fst k) h3; Some (Returns None, h4) }
            else Some (Returns (Some ((p, ys), k, of_nat (length (snd k) div 3))), h2)) = Some (r, h')"
        using assms(1) c Returns py d
        by (cases d) (auto simp: read_matrix_and_mask_def Let_def split: option.splits)
      show ?thesis
      proof (cases d)
        case Out_of_memory
        with step show ?thesis by simp
      next
        case d2: (Returns m)
        show ?thesis
        proof (cases m)
          case None
          with step d2 obtain h3 where f: "free_if_not_null p h2 = Some h3" "r = Returns None" "h' = h3"
            by (auto simp: bind_eq_Some_conv)
          have "h_live h2 = (h_next h, length ms * 4) # h_live h" using spec2 d2 None ms(6) by simp
          then have "h_live h3 = h_live h" using free_live [OF f(1)] ms(5) assms(2) by (simp add: filter_fresh)
          moreover have "\<not> matrix_and_mask mv kv ms' xs" for ms' xs
            using spec2 d2 None by (auto simp: matrix_and_mask_def)
          ultimately show ?thesis using f by simp
        next
          case (Some k)
          then obtain q zs where k: "m = Some (q, zs)" by (cases k) auto
          with spec2 d2 obtain xs where xs: "kv = Double_array xs" "\<forall>x \<in> set xs. isfinite x"
            "zs = map to_float xs" "q = Some (h_next h1)" "h_live h2 = (h_next h1, length xs * 4) # h_live h1"
            by auto
          have both: "free_if_not_null p h2 = Some h3 \<Longrightarrow> free_if_not_null q h3 = Some h4 \<Longrightarrow>
              h_live h4 = h_live h" for h3 h4
            unfolding ms(5) xs(4) free_if_not_null.simps by (rule free_pair [OF assms(2) ok ms(6) xs(5)])
          show ?thesis
          proof (cases "3 dvd length xs \<and> length xs div 3 \<le> UINT32_MAX")
            case True
            then have res: "r = Returns (Some ((p, ys), (q, zs), of_nat (length xs div 3)))" "h' = h2"
              using step True unfolding d2 k xs(3) outcome.case option.case fst_conv snd_conv length_map
              by (simp_all add: mod_eq_0_iff_dvd not_less)
            have "matrix_and_mask mv kv ms xs"
              unfolding matrix_and_mask_def using ms(1-3) xs(1,2) True by blast
            with ms(4) xs(3) both show ?thesis unfolding res outcome.case option.case prod.case by blast
          next
            case False
            then have bad: "length zs mod 3 \<noteq> 0 \<or> length zs div 3 > UINT32_MAX"
              unfolding xs(3) mod_eq_0_iff_dvd by (simp add: not_le del: One_nat_def)
            have "do { h3 \<leftarrow> free_if_not_null p h2; h4 \<leftarrow> free_if_not_null q h3; Some (Returns None, h4) }
                = Some (r, h')"
              using step unfolding d2 k outcome.case option.case fst_conv snd_conv if_P [OF bad] .
            then obtain h3 h4 where freed: "free_if_not_null p h2 = Some h3" "free_if_not_null q h3 = Some h4"
              and res: "r = Returns None" "h' = h4" by (auto simp: bind_eq_Some_conv)
            have "\<not> matrix_and_mask mv kv ms' xs'" for ms' xs'
              using xs(1) False by (auto simp: matrix_and_mask_def)
            with both [OF freed] show ?thesis unfolding res outcome.case option.case by blast
          qed
        qed
      qed
    qed
  qed
qed

text \<open>The checks of the color matrix stubs, in the order of the code.\<close>

lemma matrix_checks_cases:
  assumes "(if \<not> has_tag Double_tag strength_value then fail (1 :: int)
      else require (read_immediate target_value 1 3) (fail 1) (\<lambda>target.
        if \<not> valid then fail 2
        else do { strength \<leftarrow> double_val strength_value; draw strength target })) = Some y"
    and "wf_value strength_value"
  obtains (bad) "fail 1 = Some y" "\<not> (\<exists>st t. strength_value = Double st \<and> target_value = Long t \<and> 1 \<le> t \<and> t \<le> 3)"
  | (stale) "fail 2 = Some y" "\<not> valid"
  | (ok) st t where "strength_value = Double st" "target_value = Long t" "1 \<le> t" "t \<le> 3" "valid"
      "draw st t = Some y"
proof (cases "\<exists>st t. strength_value = Double st \<and> target_value = Long t \<and> 1 \<le> t \<and> t \<le> 3")
  case True
  with assms(1) show ?thesis by (auto simp: read_immediate_def split: if_splits intro: stale ok)
next
  case False
  with assms have "fail 1 = Some y"
    by (cases strength_value; cases target_value) (auto simp: read_immediate_def split: if_splits)
  with False show ?thesis by (blast intro: bad)
qed

section \<open>Properties\<close>

text \<open>(C8) A snapshot of one buffer can be put back into any live buffer, the same one or
  another, in any later state of the library: one of the same number of cells gets every
  character, attribute and color of the snapshot, whatever was drawn in it, and nothing outside
  its cell arrays changes; one of another number of cells is refused and keeps its contents.\<close>

theorem snapshot_restore_roundtrip:
  fixes C :: "'w cell_api"
  defines "chars \<equiv> bufferGetCharPtr C" and "attrs \<equiv> bufferGetAttributesPtr C"
    and "fg \<equiv> bufferGetFgPtr C" and "bg \<equiv> bufferGetBgPtr C"
    and "cells \<equiv> \<lambda>b w. cell_total (cellWidth C b w) (cellHeight C b w)"
  assumes snap: "opentui_raw_buffer_snapshot C oom oom_arrays oom_result b (w, m, h)
      = Some (Returns (Ok, snapshot), h1)"
    and "heap_ok h2" and target: "cells_valid C t w'" "\<not> area_overflows (cellWidth C t w') (cellHeight C t w')"
      "cells t w' \<le> (2 ^ 64 - 1) div 4"
    and pointers: "chars t w' \<noteq> NULL" "attrs t w' \<noteq> NULL" "fg t w' \<noteq> NULL" "bg t w' \<noteq> NULL"
      "chars t w' \<noteq> attrs t w'" "fg t w' \<noteq> bg t w'"
    and room: "cells t w' \<le> length (m32 m' (chars t w'))" "cells t w' \<le> length (m32 m' (attrs t w'))"
      "cells t w' * 4 \<le> length (m16 m' (fg t w'))" "cells t w' * 4 \<le> length (m16 m' (bg t w'))"
  defines "n \<equiv> cells b w"
  shows "\<exists>m'' h3. opentui_raw_buffer_restore C (\<lambda>_. False) t snapshot (w', m', h2)
      = Some (Returns (if cells t w' = n then Ok else Invalid_argument), m'', h3)
    \<and> (cells t w' \<noteq> n \<longrightarrow> m'' = m')
    \<and> (cells t w' = n \<longrightarrow>
      m32 m'' = (m32 m')(chars t w' := take n (m32 m (chars b w)) @ drop n (m32 m' (chars t w')),
        attrs t w' := take n (m32 m (attrs b w)) @ drop n (m32 m' (attrs t w')))
      \<and> m16 m'' = (m16 m')(fg t w' := take (n * 4) (m16 m (fg b w)) @ drop (n * 4) (m16 m' (fg t w')),
        bg t w' := take (n * 4) (m16 m (bg b w)) @ drop (n * 4) (m16 m' (bg t w'))))"
proof -
  let ?n' = "cells t w'"
  from snap have 3: "n \<le> length (m32 m (chars b w))" "n \<le> length (m32 m (attrs b w))"
    "n * 4 \<le> length (m16 m (fg b w))" "n * 4 \<le> length (m16 m (bg b w))"
    and 4: "snapshot = Block 0 [make_int32_array (take n (m32 m (chars b w))),
      make_int32_array (map ucast (take (n * 4) (m16 m (fg b w)))),
      make_int32_array (map ucast (take (n * 4) (m16 m (bg b w)))),
      make_int32_array (take n (m32 m (attrs b w)))]"
    unfolding opentui_raw_buffer_snapshot_def chars_def attrs_def fg_def bg_def n_def cells_def
    by (auto simp: Let_def load_cells_eq bind_eq_Some_conv allocating_def
        split: if_splits outcome.splits prod.splits)
  obtain bs h3 where a: "alloc_all (\<lambda>_. False) [?n' * 4, ?n' * 4 * 4, ?n' * 4 * 4, ?n' * 4] h2 = (Returns bs, h3)"
    using alloc_never by blast
  obtain h4 where f: "free_all bs h3 = Some h4" using alloc_free [OF a assms(7)] by blast
  note unfolds = opentui_raw_buffer_restore_def chars_def attrs_def fg_def bg_def cells_def
  show ?thesis
  proof (cases "?n' = n")
    case True
    have "opentui_raw_buffer_restore C (\<lambda>_. False) t snapshot (w', m', h2) = Some (Returns Ok,
        m'\<lparr>m32 := (m32 m')(chars t w' := take n (m32 m (chars b w)) @ drop n (m32 m' (chars t w')),
          attrs t w' := take n (m32 m (attrs b w)) @ drop n (m32 m' (attrs t w'))),
         m16 := (m16 m')(fg t w' := take (n * 4) (m16 m (fg b w)) @ drop (n * 4) (m16 m' (fg t w')),
          bg t w' := take (n * 4) (m16 m (bg b w)) @ drop (n * 4) (m16 m' (bg t w')))\<rparr>, h4)"
      using target pointers room 3 a f unfolding True
      unfolding unfolds 4 using True
      by (simp add: Let_def read_values_array store_cells_def ucast_comp n_def cells_def
          del: alloc_all.simps)
    then show ?thesis using True by (intro exI conjI) auto
  next
    case False
    have "opentui_raw_buffer_restore C (\<lambda>_. False) t snapshot (w', m', h2)
        = Some (Returns Invalid_argument, m', h4)"
      using target 3 a f False
      unfolding unfolds 4
      by (simp add: Let_def read_values_array n_def cells_def del: alloc_all.simps)
    then show ?thesis using False by auto
  qed
qed

text \<open>(C19) A restore that does not answer \<open>Ok\<close> leaves every cell as it was, and neither a
  snapshot nor a restore keeps a copy on the C heap unless it leaves through an exception.\<close>

theorem restore_all_or_nothing:
  assumes "heap_ok h"
  shows "opentui_raw_buffer_restore C oom b v (w, m, h) = Some (r, m', h') \<Longrightarrow>
      (r = Returns Ok \<or> m' = m) \<and> (r \<noteq> Out_of_memory \<longrightarrow> h_live h' = h_live h)
      \<and> r \<in> {Returns Ok, Returns Invalid_argument, Returns Stale_handle, Out_of_memory}"
  unfolding opentui_raw_buffer_restore_def
  by (auto simp: read_unfolds simp del: alloc_all.simps split: if_splits outcome.splits prod.splits
      dest: alloc_free_live [OF _ _ assms])

text \<open>(C28) The color matrix is applied exactly when the matrix is a float array of 16 finite
  numbers, the mask a float array of finite triples, the strength a float, the target 1, 2 or 3
  and the buffer live; then the library gets these numbers rounded to float and the count of
  triples. Otherwise nothing is drawn. The copies are released unless an allocation raises.\<close>

theorem color_matrix_exact:
  assumes "opentui_raw_buffer_color_matrix C oom1 oom2 b matrix_value mask_value strength_value
      target_value (s, h) = Some (r, s', h')"
    and "heap_ok h" "wf_value matrix_value" "wf_value mask_value" "wf_value strength_value"
  shows "(r = Returns 0 \<longrightarrow> cells_valid C b (fst s) \<and>
        (\<exists>ms xs st t. matrix_arguments matrix_value mask_value strength_value target_value ms xs st t
          \<and> s' = bufferColorMatrix C b (map to_float ms) (map to_float xs) (of_nat (length xs div 3))
               (to_float st) (word_of_int t) s))
    \<and> (r \<noteq> Returns 0 \<longrightarrow> s' = s \<and> (r = Out_of_memory \<or> r = Returns 2 \<and> \<not> cells_valid C b (fst s) \<or>
        r = Returns 1 \<and> \<not> (\<exists>ms xs st t.
          matrix_arguments matrix_value mask_value strength_value target_value ms xs st t)))
    \<and> (r \<noteq> Out_of_memory \<longrightarrow> h_live h' = h_live h)"
proof -
  obtain c h1 where c: "read_matrix_and_mask oom1 oom2 matrix_value mask_value h = Some (c, h1)"
    using assms(1) by (auto simp: opentui_raw_buffer_color_matrix_def bind_eq_Some_conv)
  note spec = read_matrix_and_mask_spec [OF c assms(2-4)]
  show ?thesis
  proof (cases c)
    case Out_of_memory
    with assms(1) c show ?thesis by (simp add: opentui_raw_buffer_color_matrix_def)
  next
    case c1: (Returns copied)
    show ?thesis
    proof (cases copied)
      case None
      with assms(1) c c1 spec show ?thesis
        by (auto simp: opentui_raw_buffer_color_matrix_def matrix_arguments_def)
    next
      case (Some triple)
      then obtain p ys q zs count where t: "copied = Some ((p, ys), (q, zs), count)"
        by (cases triple) auto
      then obtain ms xs where args: "matrix_and_mask matrix_value mask_value ms xs"
        "ys = map to_float ms" "zs = map to_float xs" "count = of_nat (length xs div 3)"
        and released: "\<And>h2 h3. free_if_not_null p h1 = Some h2 \<Longrightarrow> free_if_not_null q h2 = Some h3 \<Longrightarrow>
          h_live h3 = h_live h" using spec unfolding c1 t outcome.case option.case prod.case by blast
      let ?finish = "\<lambda>status s1. do {
          h2 \<leftarrow> free_if_not_null p h1; h3 \<leftarrow> free_if_not_null q h2; Some (Returns status, s1, h3) }"
      have finish: "?finish status s1 = Some (r, s', h') \<Longrightarrow> r = Returns status \<and> s' = s1 \<and> h_live h' = h_live h"
        for status :: int and s1 using released by (auto simp: bind_eq_Some_conv)
      have run: "(if \<not> has_tag Double_tag strength_value then ?finish 1 s
          else require (read_immediate target_value 1 3) (?finish 1 s) (\<lambda>target.
            if \<not> cells_valid C b (fst s) then ?finish 2 s
            else do {
              strength \<leftarrow> double_val strength_value;
              ?finish 0 (bufferColorMatrix C b ys zs count (to_float strength) (word_of_int target) s)
            })) = Some (r, s', h')"
        using assms(1)
        unfolding opentui_raw_buffer_color_matrix_def c c1 t Let_def prod.case bind.bind_lunit
          outcome.case option.case fst_conv snd_conv by simp
      show ?thesis
        using run assms(5)
      proof (cases rule: matrix_checks_cases)
        case bad
        with finish [OF bad(1)] show ?thesis by (auto simp: matrix_arguments_def)
      next
        case stale
        with finish [OF stale(1)] show ?thesis by simp
      next
        case (ok st t)
        then have "matrix_arguments matrix_value mask_value strength_value target_value ms xs st t"
          using args(1) by (simp add: matrix_arguments_def)
        with finish [OF ok(6)] ok(5) args(2-) show ?thesis by auto
      qed
    qed
  qed
qed

section \<open>Witnesses\<close>

text \<open>Buffers 2 and 3 of two cells in a row, and 4 of one; a color matrix is recorded in the
  world. The arrays of buffer \<open>b\<close> are at the addresses from \<open>10 * (b - 2) + 1\<close>.\<close>

definition toy_cells :: "(u32 \<times> nat) cell_api" where
  "toy_cells = \<lparr>cellWidth = \<lambda>b w. if b = 2 \<or> b = 3 then 2 else if b = 4 then 1 else 0,
     cellHeight = \<lambda>b w. if b = 2 \<or> b = 3 \<or> b = 4 then 1 else 0,
     bufferGetCharPtr = \<lambda>b w. if b = 2 then 1 else if b = 3 then 11 else 21,
     bufferGetFgPtr = \<lambda>b w. if b = 2 then 2 else if b = 3 then 12 else 22,
     bufferGetBgPtr = \<lambda>b w. if b = 2 then 3 else if b = 3 then 13 else 23,
     bufferGetAttributesPtr = \<lambda>b w. if b = 2 then 4 else if b = 3 then 14 else 24,
     bufferDrawImage = \<lambda>b i d s. s,
     bufferColorMatrix = \<lambda>b ms xs n st t (w, m). ((n, length ms), m),
     bufferColorMatrixUniform = \<lambda>b ms st t s. s\<rparr>"

definition toy_memory :: "u32 \<Rightarrow> u16 \<Rightarrow> cell_memory" where
  "toy_memory c x = \<lparr>m32 = \<lambda>p. if p = 1 then [c, 66] else [0, 1], m16 = \<lambda>p. [x, 2, 3, 4, 5, 6, 7, 8]\<rparr>"

lemma toy_snapshot:
  "\<exists>v h. opentui_raw_buffer_snapshot toy_cells (\<lambda>_. False) False False 2 ((0, 0), toy_memory 65 1, empty_heap)
     = Some (Returns (Ok, v), h)"
  by (simp add: opentui_raw_buffer_snapshot_def toy_cells_def toy_memory_def cells_valid_def Let_def
      area_overflows_def cell_total_def load_cells_def empty_heap_def caml_stat_alloc_def
      caml_stat_free_def allocating_def)

lemma toy_pointers:
  "bufferGetCharPtr toy_cells 2 w = 1" "bufferGetCharPtr toy_cells 3 w = 11"
  "bufferGetFgPtr toy_cells 2 w = 2" "bufferGetFgPtr toy_cells 3 w = 12"
  "bufferGetBgPtr toy_cells 2 w = 3" "bufferGetBgPtr toy_cells 3 w = 13"
  "bufferGetAttributesPtr toy_cells 2 w = 4" "bufferGetAttributesPtr toy_cells 3 w = 14"
  by (simp_all add: toy_cells_def)

lemma toy_memory_at:
  "m32 (toy_memory c x) 1 = [c, 66]" "m32 (toy_memory c x) 4 = [0, 1]" "m32 (toy_memory c x) 11 = [0, 1]"
  "m32 (toy_memory c x) 14 = [0, 1]" "m16 (toy_memory c x) p = [x, 2, 3, 4, 5, 6, 7, 8]"
  by (simp_all add: toy_memory_def)

text \<open>The snapshot of buffer 2 goes into buffer 3, drawn differently and of the same size, and is
  refused by buffer 4, which has one cell.\<close>

lemma snapshot_restore_roundtrip_witness:
  "\<exists>v h1 m'' h3 h4.
     opentui_raw_buffer_snapshot toy_cells (\<lambda>_. False) False False 2 ((0, 0), toy_memory 65 1, empty_heap)
       = Some (Returns (Ok, v), h1)
     \<and> opentui_raw_buffer_restore toy_cells (\<lambda>_. False) 3 v ((0, 0), toy_memory 32 9, empty_heap)
       = Some (Returns Ok, m'', h3)
     \<and> m32 m'' 11 = [65, 66] \<and> m16 m'' 12 = [1, 2, 3, 4, 5, 6, 7, 8]
     \<and> opentui_raw_buffer_restore toy_cells (\<lambda>_. False) 4 v ((0, 0), toy_memory 32 9, empty_heap)
       = Some (Returns Invalid_argument, toy_memory 32 9, h4)"
proof -
  obtain v h1 where s: "opentui_raw_buffer_snapshot toy_cells (\<lambda>_. False) False False 2
      ((0, 0), toy_memory 65 1, empty_heap) = Some (Returns (Ok, v), h1)" using toy_snapshot by blast
  have ok: "heap_ok empty_heap" by (simp add: heap_ok_def empty_heap_def)
  have sizes: "cells_valid toy_cells t (0, 0) \<longleftrightarrow> t \<in> {2, 3, 4}"
    "cell_total (cellWidth toy_cells 2 (0, 0)) (cellHeight toy_cells 2 (0, 0)) = 2"
    "cell_total (cellWidth toy_cells 3 (0, 0)) (cellHeight toy_cells 3 (0, 0)) = 2"
    "cell_total (cellWidth toy_cells 4 (0, 0)) (cellHeight toy_cells 4 (0, 0)) = 1"
    "\<not> area_overflows (cellWidth toy_cells t (0, 0)) (cellHeight toy_cells t (0, 0))"
    "length (m32 (toy_memory c x) p) = 2" "length (m16 (toy_memory c x) p) = 8" for t c x p
    by (auto simp: toy_cells_def toy_memory_def cell_total_def cells_valid_def area_overflows_def)
  have pointers: "bufferGetCharPtr toy_cells t (0, 0) \<noteq> NULL" "bufferGetAttributesPtr toy_cells t (0, 0) \<noteq> NULL"
    "bufferGetFgPtr toy_cells t (0, 0) \<noteq> NULL" "bufferGetBgPtr toy_cells t (0, 0) \<noteq> NULL"
    "bufferGetCharPtr toy_cells t (0, 0) \<noteq> bufferGetAttributesPtr toy_cells t (0, 0)"
    "bufferGetFgPtr toy_cells t (0, 0) \<noteq> bufferGetBgPtr toy_cells t (0, 0)" for t
    by (auto simp: toy_cells_def)
  note put = snapshot_restore_roundtrip
    [OF s ok, where w' = "(0, 0)" and m' = "toy_memory 32 9", OF _ sizes(5) _ pointers, unfolded sizes]
  obtain m'' h3 where 3: "opentui_raw_buffer_restore toy_cells (\<lambda>_. False) 3 v
       ((0, 0), toy_memory 32 9, empty_heap) = Some (Returns Ok, m'', h3)"
      and m: "m32 m'' = (m32 (toy_memory 32 9))(11 := [65, 66], 14 := [0, 1])"
        "m16 m'' = (m16 (toy_memory 32 9))(12 := [1, 2, 3, 4, 5, 6, 7, 8], 13 := [1, 2, 3, 4, 5, 6, 7, 8])"
    using put [of 3] unfolding sizes toy_pointers toy_memory_at by auto
  obtain h4 where 4: "opentui_raw_buffer_restore toy_cells (\<lambda>_. False) 4 v
       ((0, 0), toy_memory 32 9, empty_heap) = Some (Returns Invalid_argument, toy_memory 32 9, h4)"
    using put [of 4] unfolding sizes by auto
  from s 3 4 m show ?thesis by fastforce
qed

lemma restore_all_or_nothing_witness:
  "opentui_raw_buffer_restore toy_cells (\<lambda>_. False) 2 (Block 0 []) ((0, 0), toy_memory 65 1, empty_heap)
     = Some (Returns Invalid_argument, toy_memory 65 1, empty_heap)
   \<and> h_live empty_heap = h_live (empty_heap :: stat_heap)"
proof -
  have r: "opentui_raw_buffer_restore toy_cells (\<lambda>_. False) 2 (Block 0 [])
      ((0, 0), toy_memory 65 1, empty_heap) = Some (Returns Invalid_argument, toy_memory 65 1, empty_heap)"
    by (simp add: opentui_raw_buffer_restore_def)
  have "heap_ok empty_heap" by (simp add: heap_ok_def empty_heap_def)
  from restore_all_or_nothing [OF this r] r show ?thesis by simp
qed

lemma color_matrix_exact_witness:
  "\<exists>h'. opentui_raw_buffer_color_matrix toy_cells False False 2 (Double_array (replicate 16 (Fin 0)))
      (Double_array [Fin 0, Fin 0, Fin 1]) (Double (Fin 1)) (Long 3) (((0, 0), toy_memory 65 1), empty_heap)
     = Some (Returns 0, ((1, 16), toy_memory 65 1), h') \<and> h_live h' = []"
proof -
  have e: "\<exists>s' h'. opentui_raw_buffer_color_matrix toy_cells False False 2 (Double_array (replicate 16 (Fin 0)))
      (Double_array [Fin 0, Fin 0, Fin 1]) (Double (Fin 1)) (Long 3) (((0, 0), toy_memory 65 1), empty_heap)
     = Some (Returns 0, s', h')"
    by (simp add: opentui_raw_buffer_color_matrix_def read_matrix_and_mask_def read_floatarray_def
        toy_cells_def Let_def caml_stat_alloc_def caml_stat_free_def empty_heap_def read_immediate_def
        cells_valid_def read_intensities_exact)
  then obtain s' h' where r: "opentui_raw_buffer_color_matrix toy_cells False False 2
      (Double_array (replicate 16 (Fin 0))) (Double_array [Fin 0, Fin 0, Fin 1]) (Double (Fin 1)) (Long 3)
      (((0, 0), toy_memory 65 1), empty_heap) = Some (Returns 0, s', h')" by blast
  have ok: "heap_ok empty_heap" by (simp add: heap_ok_def empty_heap_def)
  from color_matrix_exact [OF r ok] r show ?thesis
    by (auto simp: matrix_arguments_def matrix_and_mask_def toy_cells_def empty_heap_def)
qed

end
