(* ===== verification/Text_Api.thy ===== *)
theory Text_Api
  imports Buffers
begin

text \<open>
  The native library as text_buffer_stubs.c, syntax_style_stubs.c and capability_stubs.c see it:
  the structs of opentui_abi.h that cross the interface, and one field per native function over
  a native world \<open>'w\<close>. A pointer and its length are a list; a pointer that may be NULL is an
  option. Every function may change the world, also a getter (wrapping is lazy).
\<close>

section \<open>Structs\<close>

record measure_result =
  m_line_count :: u32
  m_width_cols_max :: u32

record line_info =
  start_cols :: "u32 list"
  width_cols :: "u32 list"
  sources :: "u32 list"
  wraps :: "u32 list"
  width_cols_max :: u32

record styled_chunk =
  c_text :: bytes
  c_fg :: "color option"
  c_bg :: "color option"
  c_attributes :: u32
  c_link :: "bytes option"

record highlight =
  hl_start :: u32
  hl_end :: u32
  hl_style_id :: u32
  hl_priority :: u8
  hl_ref :: u16

text \<open>A borrowed string: its pointer, its length, and the bytes that can be read there.\<close>

record borrowed_string =
  b_ptr :: ptr
  b_len :: u64
  b_bytes :: bytes

record capabilities =
  cap_kitty_keyboard :: bool
  cap_kitty_graphics :: bool
  cap_rgb :: bool
  cap_ansi256 :: bool
  cap_unicode :: u8
  cap_sgr_pixels :: bool
  cap_color_scheme_updates :: bool
  cap_explicit_width :: bool
  cap_scaled_text :: bool
  cap_sixel :: bool
  cap_focus_tracking :: bool
  cap_sync :: bool
  cap_bracketed_paste :: bool
  cap_hyperlinks :: bool
  cap_osc52 :: bool
  cap_notifications :: bool
  cap_explicit_cursor_positioning :: bool
  cap_remote :: bool
  cap_multiplexer :: u8
  cap_image_protocol :: u8
  cap_term_name :: borrowed_string
  cap_term_version :: borrowed_string
  cap_term_from_xtversion :: bool
  cap_osc52_support :: u8

section \<open>Native functions\<close>

record 'w text_buffer_api =
  createTextBuffer :: "u8 \<Rightarrow> 'w \<Rightarrow> handle \<times> 'w"
  destroyTextBuffer :: "handle \<Rightarrow> 'w \<Rightarrow> 'w"
  textBufferClear :: "handle \<Rightarrow> 'w \<Rightarrow> 'w"
  textBufferReset :: "handle \<Rightarrow> 'w \<Rightarrow> 'w"
  textBufferAppend :: "handle \<Rightarrow> bytes option \<Rightarrow> u32 \<Rightarrow> 'w \<Rightarrow> 'w"
  textBufferGetByteSize :: "handle \<Rightarrow> 'w \<Rightarrow> u32 \<times> 'w"
  textBufferGetLength :: "handle \<Rightarrow> 'w \<Rightarrow> u32 \<times> 'w"
  textBufferGetLineCount :: "handle \<Rightarrow> 'w \<Rightarrow> u32 \<times> 'w"
  textBufferRegisterMemBuffer :: "handle \<Rightarrow> bytes option \<Rightarrow> u32 \<Rightarrow> bool \<Rightarrow> 'w \<Rightarrow> u16 \<times> 'w"
  textBufferReplaceMemBuffer ::
    "handle \<Rightarrow> u8 \<Rightarrow> bytes option \<Rightarrow> u32 \<Rightarrow> bool \<Rightarrow> 'w \<Rightarrow> bool \<times> 'w"
  textBufferSetTextFromMem :: "handle \<Rightarrow> u8 \<Rightarrow> 'w \<Rightarrow> 'w"
  textBufferLoadFile :: "handle \<Rightarrow> bytes \<Rightarrow> u32 \<Rightarrow> 'w \<Rightarrow> bool \<times> 'w"
  textBufferGetTabWidth :: "handle \<Rightarrow> 'w \<Rightarrow> u8 \<times> 'w"
  textBufferSetTabWidth :: "handle \<Rightarrow> u8 \<Rightarrow> 'w \<Rightarrow> 'w"

record 'w text_style_api =
  textBufferSetStyledText :: "handle \<Rightarrow> styled_chunk list \<Rightarrow> u32 \<Rightarrow> 'w \<Rightarrow> 'w"
  textBufferClearAllHighlights :: "handle \<Rightarrow> 'w \<Rightarrow> 'w"
  textBufferAddHighlightByCharRange :: "handle \<Rightarrow> highlight \<Rightarrow> 'w \<Rightarrow> 'w"
  textBufferAddHighlight :: "handle \<Rightarrow> u32 \<Rightarrow> highlight \<Rightarrow> 'w \<Rightarrow> 'w"
  textBufferRemoveHighlightsByRef :: "handle \<Rightarrow> u16 \<Rightarrow> 'w \<Rightarrow> 'w"
  textBufferClearLineHighlights :: "handle \<Rightarrow> u32 \<Rightarrow> 'w \<Rightarrow> 'w"
  textBufferSetDefaultFg :: "handle \<Rightarrow> color option \<Rightarrow> 'w \<Rightarrow> 'w"
  textBufferSetDefaultBg :: "handle \<Rightarrow> color option \<Rightarrow> 'w \<Rightarrow> 'w"
  textBufferSetDefaultAttributes :: "handle \<Rightarrow> u32 option \<Rightarrow> 'w \<Rightarrow> 'w"
  textBufferResetDefaults :: "handle \<Rightarrow> 'w \<Rightarrow> 'w"
  textBufferSetSyntaxStyle :: "handle \<Rightarrow> handle \<Rightarrow> 'w \<Rightarrow> bool \<times> 'w"
  createSyntaxStyle :: "'w \<Rightarrow> handle \<times> 'w"
  destroySyntaxStyle :: "handle \<Rightarrow> 'w \<Rightarrow> 'w"
  syntaxStyleRegister ::
    "handle \<Rightarrow> bytes \<Rightarrow> u32 \<Rightarrow> color option \<Rightarrow> color option \<Rightarrow> u32 \<Rightarrow> 'w \<Rightarrow> u32 \<times> 'w"
  syntaxStyleResolveByName :: "handle \<Rightarrow> bytes \<Rightarrow> u32 \<Rightarrow> 'w \<Rightarrow> u32 \<times> 'w"
  syntaxStyleGetStyleCount :: "handle \<Rightarrow> 'w \<Rightarrow> u32 \<times> 'w"

text \<open>GetSelectedText fills the output; its new contents are part of the result.\<close>

record 'w text_view_api =
  createTextBufferView :: "handle \<Rightarrow> 'w \<Rightarrow> handle \<times> 'w"
  destroyTextBufferView :: "handle \<Rightarrow> 'w \<Rightarrow> 'w"
  textBufferViewSetWrapWidth :: "handle \<Rightarrow> u32 \<Rightarrow> 'w \<Rightarrow> 'w"
  textBufferViewSetWrapMode :: "handle \<Rightarrow> u8 \<Rightarrow> 'w \<Rightarrow> 'w"
  textBufferViewSetFirstLineOffset :: "handle \<Rightarrow> u32 \<Rightarrow> 'w \<Rightarrow> 'w"
  textBufferViewSetSelection ::
    "handle \<Rightarrow> u32 \<Rightarrow> u32 \<Rightarrow> color option \<Rightarrow> color option \<Rightarrow> 'w \<Rightarrow> 'w"
  textBufferViewUpdateSelection :: "handle \<Rightarrow> u32 \<Rightarrow> color option \<Rightarrow> color option \<Rightarrow> 'w \<Rightarrow> 'w"
  textBufferViewResetSelection :: "handle \<Rightarrow> 'w \<Rightarrow> 'w"
  textBufferViewGetSelectionInfo :: "handle \<Rightarrow> 'w \<Rightarrow> u64 \<times> 'w"
  textBufferViewSetLocalSelection ::
    "handle \<Rightarrow> i32 \<Rightarrow> i32 \<Rightarrow> i32 \<Rightarrow> i32 \<Rightarrow> color option \<Rightarrow> color option \<Rightarrow> 'w \<Rightarrow> bool \<times> 'w"
  textBufferViewUpdateLocalSelection ::
    "handle \<Rightarrow> i32 \<Rightarrow> i32 \<Rightarrow> i32 \<Rightarrow> i32 \<Rightarrow> color option \<Rightarrow> color option \<Rightarrow> 'w \<Rightarrow> bool \<times> 'w"
  textBufferViewResetLocalSelection :: "handle \<Rightarrow> 'w \<Rightarrow> 'w"
  textBufferViewGetSelectedText :: "handle \<Rightarrow> bytes \<Rightarrow> u32 \<Rightarrow> 'w \<Rightarrow> (u32 \<times> bytes) \<times> 'w"

record 'w text_viewport_api =
  textBufferViewSetViewportSize :: "handle \<Rightarrow> u32 \<Rightarrow> u32 \<Rightarrow> 'w \<Rightarrow> 'w"
  textBufferViewSetViewport :: "handle \<Rightarrow> u32 \<Rightarrow> u32 \<Rightarrow> u32 \<Rightarrow> u32 \<Rightarrow> 'w \<Rightarrow> 'w"
  textBufferViewGetVirtualLineCount :: "handle \<Rightarrow> 'w \<Rightarrow> u32 \<times> 'w"
  textBufferViewSetTabIndicator :: "handle \<Rightarrow> u32 \<Rightarrow> 'w \<Rightarrow> 'w"
  textBufferViewSetTabIndicatorColor :: "handle \<Rightarrow> color \<Rightarrow> 'w \<Rightarrow> 'w"
  textBufferViewSetTruncate :: "handle \<Rightarrow> bool \<Rightarrow> 'w \<Rightarrow> 'w"
  textBufferViewMeasureForDimensions ::
    "handle \<Rightarrow> u32 \<Rightarrow> u32 \<Rightarrow> 'w \<Rightarrow> measure_result option \<times> 'w"
  textBufferViewGetLineInfoDirect :: "handle \<Rightarrow> 'w \<Rightarrow> line_info \<times> 'w"
  textBufferViewGetLogicalLineInfoDirect :: "handle \<Rightarrow> 'w \<Rightarrow> line_info \<times> 'w"
  createNativeRenderable :: "'w \<Rightarrow> handle \<times> 'w"
  destroyNativeRenderable :: "handle \<Rightarrow> 'w \<Rightarrow> 'w"
  nativeRenderableSetMeasureTarget :: "handle \<Rightarrow> u32 \<Rightarrow> handle \<Rightarrow> 'w \<Rightarrow> bool \<times> 'w"

record 'w text_api =
  tb :: "'w text_buffer_api"
  ts :: "'w text_style_api"
  tv :: "'w text_view_api"
  tp :: "'w text_viewport_api"

record 'w capability_api =
  getTerminalCapabilities :: "handle \<Rightarrow> 'w \<Rightarrow> capabilities"
  processCapabilityResponse :: "handle \<Rightarrow> bytes option \<Rightarrow> u32 \<Rightarrow> 'w \<Rightarrow> 'w"

end
