(* ===== verification/Text_Buffer.thy ===== *)
theory Text_Buffer
  imports Text_Api
begin

text \<open>
  text_buffer_stubs.c, the buffer half (contents, memory buffers, styled text, highlights,
  defaults), and syntax_style_stubs.c. The color readers of both files are those of
  Values.thy, line by line. A zero handle is stale; every other handle is the native library's
  to check.
\<close>

section \<open>Readers\<close>

definition is_string_value :: "value \<Rightarrow> bool" where
  "is_string_value value_to_check \<longleftrightarrow> has_tag String_tag value_to_check"

definition read_byte_bigarray :: "byte_bigarray \<Rightarrow> (bytes option \<times> u32) option" where
  "read_byte_bigarray array =
     (if num_dims array \<noteq> 1 \<or> sint (dim array ! 0) < 0 \<or> unat (dim array ! 0) > UINT32_MAX then None
      else
        let length' = ucast (dim array ! 0) in
        Some (if length' = 0 then None else Some (ba_data array), length'))"

definition read_byte_array_status :: "byte_bigarray \<Rightarrow> raw_status + bytes option \<times> u32" where
  "read_byte_array_status array =
     (case read_byte_bigarray array of None \<Rightarrow> Inl Invalid_argument | Some r \<Rightarrow> Inr r)"

text \<open>None or a string; the pointer is NULL for None only.\<close>

definition is_option_string :: "value \<Rightarrow> bytes option option option" where
  "is_option_string option_value =
     (if option_value = Val_none then Some (Some None)
      else if \<not> has_size 1 option_value then Some None
      else do {
        string_value \<leftarrow> field option_value 0;
        if \<not> is_string_value string_value then Some None
        else map_option (\<lambda>b. Some (Some b)) (string_val string_value)
      })"

section \<open>Buffers and their contents\<close>

definition opentui_raw_text_buffer_create ::
  "'w text_api \<Rightarrow> bool \<Rightarrow> i32 \<Rightarrow> 'w \<Rightarrow> (raw_status \<times> handle) outcome \<times> 'w" where
  "opentui_raw_text_buffer_create N oom width_method w =
     (if neg32 width_method \<or> sint width_method > 1 then (allocating oom (Invalid_argument, 0), w)
      else
        let (handle, w1) = createTextBuffer (tb N) (ucast width_method) w in
        (allocating oom (if handle = 0 then (Native_failure, 0) else (Ok, handle)), w1))"

definition opentui_raw_text_buffer_destroy :: "'w text_api \<Rightarrow> handle \<Rightarrow> 'w \<Rightarrow> 'w" where
  "opentui_raw_text_buffer_destroy N handle w =
     (if handle \<noteq> 0 then destroyTextBuffer (tb N) handle w else w)"

definition opentui_raw_text_buffer_clear :: "'w text_api \<Rightarrow> handle \<Rightarrow> 'w \<Rightarrow> raw_status \<times> 'w" where
  "opentui_raw_text_buffer_clear N handle w =
     (if handle = 0 then (Stale_handle, w) else (Ok, textBufferClear (tb N) handle w))"

definition opentui_raw_text_buffer_reset :: "'w text_api \<Rightarrow> handle \<Rightarrow> 'w \<Rightarrow> raw_status \<times> 'w" where
  "opentui_raw_text_buffer_reset N handle w =
     (if handle = 0 then (Stale_handle, w) else (Ok, textBufferReset (tb N) handle w))"

definition opentui_raw_text_buffer_append ::
  "'w text_api \<Rightarrow> handle \<Rightarrow> byte_bigarray \<Rightarrow> 'w \<Rightarrow> raw_status \<times> 'w" where
  "opentui_raw_text_buffer_append N handle array w =
     (if handle = 0 then (Stale_handle, w)
      else
        case read_byte_bigarray array of
          None \<Rightarrow> (Invalid_argument, w)
        | Some (data, length') \<Rightarrow>
            let (before, w1) = textBufferGetByteSize (tb N) handle w;
                w2 = textBufferAppend (tb N) handle data length' w1;
                (after, w3) = textBufferGetByteSize (tb N) handle w2 in
            (if length' \<noteq> 0 \<and> after = before then Native_failure else Ok, w3))"

definition opentui_raw_text_buffer_register_mem_buffer ::
  "'w text_api \<Rightarrow> bool \<Rightarrow> handle \<Rightarrow> byte_bigarray \<Rightarrow> bool \<Rightarrow> 'w \<Rightarrow> (raw_status \<times> i32) outcome \<times> 'w" where
  "opentui_raw_text_buffer_register_mem_buffer N oom handle array owned w =
     (if handle = 0 then (allocating oom (Stale_handle, -1), w)
      else
        case read_byte_array_status array of
          Inl read_status \<Rightarrow> (allocating oom (read_status, -1), w)
        | Inr (data, length') \<Rightarrow>
            let (mem_id, w1) = textBufferRegisterMemBuffer (tb N) handle data length' owned w in
            (allocating oom (if mem_id = - 1 then (Native_failure, -1) else (Ok, ucast mem_id)), w1))"

definition opentui_raw_text_buffer_replace_mem_buffer ::
  "'w text_api \<Rightarrow> handle \<Rightarrow> i32 \<Rightarrow> byte_bigarray \<Rightarrow> bool \<Rightarrow> 'w \<Rightarrow> raw_status \<times> 'w" where
  "opentui_raw_text_buffer_replace_mem_buffer N handle mem_id array owned w =
     (if handle = 0 then (Stale_handle, w)
      else if neg32 mem_id \<or> sint mem_id > 255 then (Invalid_argument, w)
      else
        case read_byte_array_status array of
          Inl read_status \<Rightarrow> (read_status, w)
        | Inr (data, length') \<Rightarrow>
            let (replaced, w1) =
                  textBufferReplaceMemBuffer (tb N) handle (ucast mem_id) data length' owned w in
            (if \<not> replaced then Native_failure else Ok, w1))"

definition opentui_raw_text_buffer_set_text_from_mem ::
  "'w text_api \<Rightarrow> handle \<Rightarrow> i32 \<Rightarrow> i32 \<Rightarrow> 'w \<Rightarrow> raw_status \<times> 'w" where
  "opentui_raw_text_buffer_set_text_from_mem N handle mem_id expected_byte_size w =
     (if handle = 0 then (Stale_handle, w)
      else if neg32 mem_id \<or> sint mem_id > 255 then (Invalid_argument, w)
      else
        let w1 = textBufferSetTextFromMem (tb N) handle (ucast mem_id) w;
            (byte_size, w2) = textBufferGetByteSize (tb N) handle w1 in
        (if byte_size \<noteq> expected_byte_size then Native_failure else Ok, w2))"

definition opentui_raw_text_buffer_length ::
  "'w text_api \<Rightarrow> bool \<Rightarrow> handle \<Rightarrow> 'w \<Rightarrow> (raw_status \<times> i32) outcome \<times> 'w" where
  "opentui_raw_text_buffer_length N oom handle w =
     (if handle = 0 then (allocating oom (Stale_handle, 0), w)
      else let (n, w1) = textBufferGetLength (tb N) handle w in (allocating oom (Ok, n), w1))"

definition opentui_raw_text_buffer_byte_size ::
  "'w text_api \<Rightarrow> bool \<Rightarrow> handle \<Rightarrow> 'w \<Rightarrow> (raw_status \<times> i32) outcome \<times> 'w" where
  "opentui_raw_text_buffer_byte_size N oom handle w =
     (if handle = 0 then (allocating oom (Stale_handle, 0), w)
      else let (n, w1) = textBufferGetByteSize (tb N) handle w in (allocating oom (Ok, n), w1))"

definition opentui_raw_text_buffer_line_count ::
  "'w text_api \<Rightarrow> bool \<Rightarrow> handle \<Rightarrow> 'w \<Rightarrow> (raw_status \<times> i32) outcome \<times> 'w" where
  "opentui_raw_text_buffer_line_count N oom handle w =
     (if handle = 0 then (allocating oom (Stale_handle, 0), w)
      else let (n, w1) = textBufferGetLineCount (tb N) handle w in (allocating oom (Ok, n), w1))"

definition opentui_raw_text_buffer_load_file ::
  "'w text_api \<Rightarrow> handle \<Rightarrow> value \<Rightarrow> 'w \<Rightarrow> (raw_status \<times> 'w) option" where
  "opentui_raw_text_buffer_load_file N handle path_value w =
     (if handle = 0 then Some (Stale_handle, w)
      else if \<not> is_string_value path_value then Some (Invalid_argument, w)
      else do {
        path \<leftarrow> string_val path_value;
        if length path > UINT32_MAX then Some (Invalid_argument, w)
        else
          let (loaded, w1) = textBufferLoadFile (tb N) handle path (of_nat (length path)) w in
          Some (if loaded then Ok else Native_failure, w1)
      })"

definition opentui_raw_text_buffer_get_tab_width ::
  "'w text_api \<Rightarrow> bool \<Rightarrow> handle \<Rightarrow> 'w \<Rightarrow> (raw_status \<times> i32) outcome \<times> 'w" where
  "opentui_raw_text_buffer_get_tab_width N oom handle w =
     (if handle = 0 then (allocating oom (Stale_handle, 0), w)
      else let (n, w1) = textBufferGetTabWidth (tb N) handle w in (allocating oom (Ok, ucast n), w1))"

definition opentui_raw_text_buffer_set_tab_width ::
  "'w text_api \<Rightarrow> handle \<Rightarrow> i32 \<Rightarrow> 'w \<Rightarrow> raw_status \<times> 'w" where
  "opentui_raw_text_buffer_set_tab_width N handle width w =
     (if handle = 0 then (Stale_handle, w)
      else if neg32 width \<or> sint width > 255 then (Invalid_argument, w)
      else (Ok, textBufferSetTabWidth (tb N) handle (ucast width) w))"

section \<open>Styled text\<close>

text \<open>The first pass: the length of a list of cons cells, false for anything else.\<close>

fun count_chunks :: "value \<Rightarrow> u64 \<Rightarrow> u32 option" where
  "count_chunks (Long n) count = (if n = 0 then Some (ucast count) else None)"
| "count_chunks (Block t [x, next_cell]) count =
     (if t \<noteq> 0 then None
      else if count + 1 > 0xffffffff then None
      else count_chunks next_cell (count + 1))"
| "count_chunks _ count = None"

text \<open>The body of the second pass.\<close>

definition read_styled_chunk :: "value \<Rightarrow> styled_chunk option option" where
  "read_styled_chunk chunk =
     (if \<not> has_tag 0 chunk \<or> wosize_val chunk \<noteq> 5 then Some None
      else do {
        text_value \<leftarrow> field chunk 0;
        if \<not> is_string_value text_value then Some None
        else
          require (Option.bind (field chunk 1) read_optional_color) (Some None) (\<lambda>fg.
          require (Option.bind (field chunk 2) read_optional_color) (Some None) (\<lambda>bg. do {
            attributes_value \<leftarrow> field chunk 3;
            if is_long attributes_value then Some None
            else
              require (Option.bind (field chunk 4) is_option_string) (Some None) (\<lambda>link. do {
                text \<leftarrow> string_val text_value;
                attributes \<leftarrow> int32_val attributes_value;
                Some (Some \<lparr>c_text = text, c_fg = fg, c_bg = bg, c_attributes = attributes, c_link = link\<rparr>)
              })
          }))
      })"

fun read_chunk_cells :: "value \<Rightarrow> nat \<Rightarrow> styled_chunk list option option" where
  "read_chunk_cells cursor 0 = Some (Some [])"
| "read_chunk_cells cursor (Suc n) = do {
     chunk_value \<leftarrow> field cursor 0;
     require (read_styled_chunk chunk_value) (Some None) (\<lambda>chunk. do {
       next_cell \<leftarrow> field cursor 1;
       rest \<leftarrow> read_chunk_cells next_cell n;
       Some (map_option (\<lambda>chunks. chunk # chunks) rest)
     })
   }"

text \<open>The three arrays are allocated for a non-empty list and released when a chunk is refused.\<close>

definition read_styled_chunks ::
  "(nat \<Rightarrow> bool) \<Rightarrow> value \<Rightarrow> stat_heap
     \<Rightarrow> ((nat list \<times> styled_chunk list \<times> u32) option outcome \<times> stat_heap) option" where
  "read_styled_chunks oom list_value h =
     (case count_chunks list_value 0 of
        None \<Rightarrow> Some (Returns None, h)
      | Some count \<Rightarrow>
          if count = 0 then Some (Returns (Some ([], [], 0)), h)
          else
            case alloc_all oom [56 * unat count, 8 * unat count, 8 * unat count] h of
              (Out_of_memory, h1) \<Rightarrow> Some (Out_of_memory, h1)
            | (Returns blocks, h1) \<Rightarrow>
                require (read_chunk_cells list_value (unat count))
                  (map_option (\<lambda>h2. (Returns None, h2)) (free_all blocks h1))
                  (\<lambda>chunks. Some (Returns (Some (blocks, chunks, count)), h1)))"

definition opentui_raw_text_buffer_set_styled_text ::
  "'w text_api \<Rightarrow> (nat \<Rightarrow> bool) \<Rightarrow> handle \<Rightarrow> value \<Rightarrow> 'w \<times> stat_heap
     \<Rightarrow> (raw_status outcome \<times> 'w \<times> stat_heap) option" where
  "opentui_raw_text_buffer_set_styled_text N oom handle chunks_value = (\<lambda>(w, h).
     if handle = 0 then Some (Returns Stale_handle, w, h)
     else if chunks_value = Val_emptylist
     then Some (Returns Ok, textBufferClearAllHighlights (ts N) handle (textBufferClear (tb N) handle w), h)
     else do {
       (r, h1) \<leftarrow> read_styled_chunks oom chunks_value h;
       case r of
         Out_of_memory \<Rightarrow> Some (Out_of_memory, w, h1)
       | Returns None \<Rightarrow> Some (Returns Invalid_argument, w, h1)
       | Returns (Some (blocks, styled, count)) \<Rightarrow> do {
           let w1 = textBufferSetStyledText (ts N) handle styled count w;
           h2 \<leftarrow> free_all blocks h1;
           Some (Returns Ok, w1, h2)
         }
     })"

section \<open>Highlights\<close>

definition opentui_raw_text_buffer_clear_all_highlights ::
  "'w text_api \<Rightarrow> handle \<Rightarrow> 'w \<Rightarrow> raw_status \<times> 'w" where
  "opentui_raw_text_buffer_clear_all_highlights N handle w =
     (if handle = 0 then (Stale_handle, w) else (Ok, textBufferClearAllHighlights (ts N) handle w))"

text \<open>\<open>int priority = Long_val(...)\<close> converts to int before the range test.\<close>

definition read_highlight :: "value \<Rightarrow> highlight option option" where
  "read_highlight highlight_value =
     (if \<not> has_size 5 highlight_value then Some None
      else do {
        priority_value \<leftarrow> field highlight_value 3;
        reference_value \<leftarrow> field highlight_value 4;
        if \<not> is_long priority_value \<or> \<not> is_long reference_value then Some None
        else do {
          priority \<leftarrow> int_val priority_value;
          reference \<leftarrow> int_val reference_value;
          if priority < 0 \<or> priority > 255 \<or> reference < 0 \<or> reference > 65535 then Some None
          else do {
            start \<leftarrow> int32_field highlight_value 0;
            end' \<leftarrow> int32_field highlight_value 1;
            style_id \<leftarrow> int32_field highlight_value 2;
            Some (Some \<lparr>hl_start = start, hl_end = end', hl_style_id = style_id,
              hl_priority = word_of_int priority, hl_ref = word_of_int reference\<rparr>)
          }
        }
      })"

definition opentui_raw_text_buffer_add_highlight_by_char_range ::
  "'w text_api \<Rightarrow> handle \<Rightarrow> value \<Rightarrow> 'w \<Rightarrow> (raw_status \<times> 'w) option" where
  "opentui_raw_text_buffer_add_highlight_by_char_range N handle highlight_value w =
     (if handle = 0 then Some (Stale_handle, w)
      else require (read_highlight highlight_value) (Some (Invalid_argument, w)) (\<lambda>highlight.
        Some (Ok, textBufferAddHighlightByCharRange (ts N) handle highlight w)))"

definition opentui_raw_text_buffer_add_highlight ::
  "'w text_api \<Rightarrow> handle \<Rightarrow> value \<Rightarrow> value \<Rightarrow> 'w \<Rightarrow> (raw_status \<times> 'w) option" where
  "opentui_raw_text_buffer_add_highlight N handle line_value highlight_value w =
     (if handle = 0 then Some (Stale_handle, w)
      else if \<not> has_tag Custom_tag line_value then Some (Invalid_argument, w)
      else require (read_highlight highlight_value) (Some (Invalid_argument, w)) (\<lambda>highlight. do {
        line \<leftarrow> int32_val line_value;
        Some (if neg32 line then (Invalid_argument, w)
              else (Ok, textBufferAddHighlight (ts N) handle line highlight w))
      }))"

definition opentui_raw_text_buffer_remove_highlights_by_ref ::
  "'w text_api \<Rightarrow> handle \<Rightarrow> value \<Rightarrow> 'w \<Rightarrow> (raw_status \<times> 'w) option" where
  "opentui_raw_text_buffer_remove_highlights_by_ref N handle reference_value w =
     (if handle = 0 then Some (Stale_handle, w)
      else if \<not> is_long reference_value then Some (Invalid_argument, w)
      else do {
        reference \<leftarrow> long_val reference_value;
        Some (if reference < 0 \<or> reference > 65535 then (Invalid_argument, w)
              else (Ok, textBufferRemoveHighlightsByRef (ts N) handle (word_of_int reference) w))
      })"

definition opentui_raw_text_buffer_clear_line_highlights ::
  "'w text_api \<Rightarrow> handle \<Rightarrow> value \<Rightarrow> 'w \<Rightarrow> (raw_status \<times> 'w) option" where
  "opentui_raw_text_buffer_clear_line_highlights N handle line_value w =
     (if handle = 0 then Some (Stale_handle, w)
      else if \<not> has_tag Custom_tag line_value then Some (Invalid_argument, w)
      else do {
        line \<leftarrow> int32_val line_value;
        Some (if neg32 line then (Invalid_argument, w)
              else (Ok, textBufferClearLineHighlights (ts N) handle line w))
      })"

section \<open>Defaults and the syntax style of a buffer\<close>

definition opentui_raw_text_buffer_set_default_fg ::
  "'w text_api \<Rightarrow> handle \<Rightarrow> value \<Rightarrow> 'w \<Rightarrow> (raw_status \<times> 'w) option" where
  "opentui_raw_text_buffer_set_default_fg N handle color_value w =
     (if handle = 0 then Some (Stale_handle, w)
      else require (read_optional_color color_value) (Some (Invalid_argument, w)) (\<lambda>color.
        Some (Ok, textBufferSetDefaultFg (ts N) handle color w)))"

definition opentui_raw_text_buffer_set_default_bg ::
  "'w text_api \<Rightarrow> handle \<Rightarrow> value \<Rightarrow> 'w \<Rightarrow> (raw_status \<times> 'w) option" where
  "opentui_raw_text_buffer_set_default_bg N handle color_value w =
     (if handle = 0 then Some (Stale_handle, w)
      else require (read_optional_color color_value) (Some (Invalid_argument, w)) (\<lambda>color.
        Some (Ok, textBufferSetDefaultBg (ts N) handle color w)))"

definition opentui_raw_text_buffer_set_default_attributes ::
  "'w text_api \<Rightarrow> handle \<Rightarrow> value \<Rightarrow> 'w \<Rightarrow> (raw_status \<times> 'w) option" where
  "opentui_raw_text_buffer_set_default_attributes N handle attributes_value w =
     (if handle = 0 then Some (Stale_handle, w)
      else if attributes_value = Val_none
      then Some (Ok, textBufferSetDefaultAttributes (ts N) handle None w)
      else if \<not> has_size 1 attributes_value then Some (Invalid_argument, w)
      else do {
        inner \<leftarrow> field attributes_value 0;
        if is_long inner then Some (Invalid_argument, w)
        else do {
          attributes \<leftarrow> int32_val inner;
          Some (Ok, textBufferSetDefaultAttributes (ts N) handle (Some attributes) w)
        }
      })"

definition opentui_raw_text_buffer_reset_defaults ::
  "'w text_api \<Rightarrow> handle \<Rightarrow> 'w \<Rightarrow> raw_status \<times> 'w" where
  "opentui_raw_text_buffer_reset_defaults N handle w =
     (if handle = 0 then (Stale_handle, w) else (Ok, textBufferResetDefaults (ts N) handle w))"

text \<open>The style is read before its shape is tested: an argument that is neither None nor a
  block of an int32 is undefined.\<close>

definition opentui_raw_text_buffer_set_syntax_style ::
  "'w text_api \<Rightarrow> handle \<Rightarrow> value \<Rightarrow> 'w \<Rightarrow> (raw_status \<times> 'w) option" where
  "opentui_raw_text_buffer_set_syntax_style N handle style_value w = do {
     style \<leftarrow> if style_value = Val_none then Some 0 else int32_field style_value 0;
     if handle = 0 then Some (Stale_handle, w)
     else if style_value \<noteq> Val_none \<and> \<not> has_size 1 style_value then Some (Invalid_argument, w)
     else
       let (applied, w1) = textBufferSetSyntaxStyle (ts N) handle style w in
       Some (if \<not> applied then Native_failure else Ok, w1)
   }"

section \<open>Syntax styles (syntax_style_stubs.c)\<close>

definition opentui_raw_syntax_style_create ::
  "'w text_api \<Rightarrow> bool \<Rightarrow> 'w \<Rightarrow> (raw_status \<times> handle) outcome \<times> 'w" where
  "opentui_raw_syntax_style_create N oom w =
     (let (handle, w1) = createSyntaxStyle (ts N) w in
      (allocating oom (if handle = 0 then (Native_failure, 0) else (Ok, handle)), w1))"

definition opentui_raw_syntax_style_destroy :: "'w text_api \<Rightarrow> handle \<Rightarrow> 'w \<Rightarrow> 'w" where
  "opentui_raw_syntax_style_destroy N handle w =
     (if handle \<noteq> 0 then destroySyntaxStyle (ts N) handle w else w)"

text \<open>The length of the name is cast to uint32_t.\<close>

definition opentui_raw_syntax_style_register ::
  "'w text_api \<Rightarrow> bool \<Rightarrow> handle \<Rightarrow> value \<Rightarrow> value \<Rightarrow> value \<Rightarrow> value \<Rightarrow> 'w
     \<Rightarrow> ((raw_status \<times> u32) outcome \<times> 'w) option" where
  "opentui_raw_syntax_style_register N oom handle name_value fg_value bg_value attributes_value w =
     (let invalid = Some (allocating oom (Invalid_argument, 0), w) in
      if handle = 0 \<or> \<not> is_string_value name_value \<or> is_long attributes_value then invalid
      else
        require (read_optional_color fg_value) invalid (\<lambda>fg.
        require (read_optional_color bg_value) invalid (\<lambda>bg. do {
          name \<leftarrow> string_val name_value;
          attributes \<leftarrow> int32_val attributes_value;
          let (style_id, w1) =
                syntaxStyleRegister (ts N) handle name (of_nat (length name)) fg bg attributes w in
          Some (allocating oom (if style_id = 0 then (Native_failure, 0) else (Ok, style_id)), w1)
        })))"

definition opentui_raw_syntax_style_resolve ::
  "'w text_api \<Rightarrow> bool \<Rightarrow> handle \<Rightarrow> value \<Rightarrow> 'w \<Rightarrow> ((raw_status \<times> u32) outcome \<times> 'w) option" where
  "opentui_raw_syntax_style_resolve N oom handle name_value w =
     (if handle = 0 \<or> \<not> is_string_value name_value then Some (allocating oom (Invalid_argument, 0), w)
      else do {
        name \<leftarrow> string_val name_value;
        let (style_id, w1) = syntaxStyleResolveByName (ts N) handle name (of_nat (length name)) w;
        Some (allocating oom (Ok, style_id), w1)
      })"

definition opentui_raw_syntax_style_count ::
  "'w text_api \<Rightarrow> bool \<Rightarrow> handle \<Rightarrow> 'w \<Rightarrow> (raw_status \<times> u32) outcome \<times> 'w" where
  "opentui_raw_syntax_style_count N oom handle w =
     (if handle = 0 then (allocating oom (Stale_handle, 0), w)
      else let (n, w1) = syntaxStyleGetStyleCount (ts N) handle w in (allocating oom (Ok, n), w1))"

end
