(* ===== verification/Text_View.thy ===== *)
theory Text_View
  imports Text_Buffer
begin

text \<open>
  text_buffer_stubs.c, the view half (wrapping, selections, viewport, measuring, line info) and
  the native renderables, and capability_stubs.c.
\<close>

section \<open>Views\<close>

definition opentui_raw_text_buffer_view_create ::
  "'w text_api \<Rightarrow> bool \<Rightarrow> handle \<Rightarrow> 'w \<Rightarrow> (raw_status \<times> handle) outcome \<times> 'w" where
  "opentui_raw_text_buffer_view_create N oom buffer w =
     (if buffer = 0 then (allocating oom (Stale_handle, 0), w)
      else
        let (handle, w1) = createTextBufferView (tv N) buffer w in
        (allocating oom (if handle = 0 then (Native_failure, 0) else (Ok, handle)), w1))"

definition opentui_raw_text_buffer_view_destroy :: "'w text_api \<Rightarrow> handle \<Rightarrow> 'w \<Rightarrow> 'w" where
  "opentui_raw_text_buffer_view_destroy N handle w =
     (if handle \<noteq> 0 then destroyTextBufferView (tv N) handle w else w)"

definition opentui_raw_text_buffer_view_set_wrap_width ::
  "'w text_api \<Rightarrow> handle \<Rightarrow> i32 \<Rightarrow> 'w \<Rightarrow> raw_status \<times> 'w" where
  "opentui_raw_text_buffer_view_set_wrap_width N handle width w =
     (if handle = 0 then (Stale_handle, w)
      else if neg32 width then (Invalid_argument, w)
      else (Ok, textBufferViewSetWrapWidth (tv N) handle width w))"

definition opentui_raw_text_buffer_view_set_wrap_mode ::
  "'w text_api \<Rightarrow> handle \<Rightarrow> i32 \<Rightarrow> 'w \<Rightarrow> raw_status \<times> 'w" where
  "opentui_raw_text_buffer_view_set_wrap_mode N handle mode w =
     (if handle = 0 then (Stale_handle, w)
      else if neg32 mode \<or> sint mode > 2 then (Invalid_argument, w)
      else (Ok, textBufferViewSetWrapMode (tv N) handle (ucast mode) w))"

definition opentui_raw_text_buffer_view_set_first_line_offset ::
  "'w text_api \<Rightarrow> handle \<Rightarrow> i32 \<Rightarrow> 'w \<Rightarrow> raw_status \<times> 'w" where
  "opentui_raw_text_buffer_view_set_first_line_offset N handle line_offset w =
     (if handle = 0 then (Stale_handle, w)
      else if neg32 line_offset then (Invalid_argument, w)
      else (Ok, textBufferViewSetFirstLineOffset (tv N) handle line_offset w))"

section \<open>Selections\<close>

definition opentui_raw_text_buffer_view_set_selection ::
  "'w text_api \<Rightarrow> handle \<Rightarrow> i32 \<Rightarrow> i32 \<Rightarrow> value \<Rightarrow> value \<Rightarrow> 'w \<Rightarrow> (raw_status \<times> 'w) option" where
  "opentui_raw_text_buffer_view_set_selection N handle start end' background_value foreground_value w =
     (if handle = 0 then Some (Stale_handle, w)
      else if neg32 start \<or> neg32 end' then Some (Invalid_argument, w)
      else
        require (read_optional_color background_value) (Some (Invalid_argument, w)) (\<lambda>background.
        require (read_optional_color foreground_value) (Some (Invalid_argument, w)) (\<lambda>foreground.
          Some (Ok, textBufferViewSetSelection (tv N) handle start end' background foreground w))))"

definition opentui_raw_text_buffer_view_update_selection ::
  "'w text_api \<Rightarrow> handle \<Rightarrow> i32 \<Rightarrow> value \<Rightarrow> value \<Rightarrow> 'w \<Rightarrow> (raw_status \<times> 'w) option" where
  "opentui_raw_text_buffer_view_update_selection N handle end' background_value foreground_value w =
     (if handle = 0 then Some (Stale_handle, w)
      else if neg32 end' then Some (Invalid_argument, w)
      else
        require (read_optional_color background_value) (Some (Invalid_argument, w)) (\<lambda>background.
        require (read_optional_color foreground_value) (Some (Invalid_argument, w)) (\<lambda>foreground.
          Some (Ok, textBufferViewUpdateSelection (tv N) handle end' background foreground w))))"

definition opentui_raw_text_buffer_view_reset_selection ::
  "'w text_api \<Rightarrow> handle \<Rightarrow> 'w \<Rightarrow> raw_status \<times> 'w" where
  "opentui_raw_text_buffer_view_reset_selection N handle w =
     (if handle = 0 then (Stale_handle, w) else (Ok, textBufferViewResetSelection (tv N) handle w))"

text \<open>UINT64_MAX stands for no selection.\<close>

definition opentui_raw_text_buffer_view_get_selection_info ::
  "'w text_api \<Rightarrow> bool \<Rightarrow> handle \<Rightarrow> 'w \<Rightarrow> i64 outcome \<times> 'w" where
  "opentui_raw_text_buffer_view_get_selection_info N oom handle w =
     (if handle = 0 then (allocating oom (- 1), w)
      else let (info, w1) = textBufferViewGetSelectionInfo (tv N) handle w in (allocating oom info, w1))"

definition local_selection_arguments ::
  "handle \<Rightarrow> value
     \<Rightarrow> (raw_status + i32 \<times> i32 \<times> i32 \<times> i32 \<times> color option \<times> color option) option" where
  "local_selection_arguments handle coordinates_value =
     (if \<not> has_size 6 coordinates_value then Some (Inl Invalid_argument)
      else do {
        anchor_x \<leftarrow> int32_field coordinates_value 0;
        anchor_y \<leftarrow> int32_field coordinates_value 1;
        focus_x \<leftarrow> int32_field coordinates_value 2;
        focus_y \<leftarrow> int32_field coordinates_value 3;
        background_value \<leftarrow> field coordinates_value 4;
        foreground_value \<leftarrow> field coordinates_value 5;
        if handle = 0 then Some (Inl Stale_handle)
        else
          require (read_optional_color background_value) (Some (Inl Invalid_argument)) (\<lambda>background.
          require (read_optional_color foreground_value) (Some (Inl Invalid_argument)) (\<lambda>foreground.
            Some (Inr (anchor_x, anchor_y, focus_x, focus_y, background, foreground))))
      })"

definition opentui_raw_text_buffer_view_set_local_selection ::
  "'w text_api \<Rightarrow> bool \<Rightarrow> handle \<Rightarrow> value \<Rightarrow> 'w \<Rightarrow> ((raw_status \<times> bool) outcome \<times> 'w) option" where
  "opentui_raw_text_buffer_view_set_local_selection N oom handle coordinates_value w = do {
     arguments \<leftarrow> local_selection_arguments handle coordinates_value;
     case arguments of
       Inl status \<Rightarrow> Some (allocating oom (status, False), w)
     | Inr (anchor_x, anchor_y, focus_x, focus_y, background, foreground) \<Rightarrow>
         let (changed, w1) = textBufferViewSetLocalSelection (tv N) handle anchor_x anchor_y
               focus_x focus_y background foreground w in
         Some (allocating oom (Ok, changed), w1)
   }"

definition opentui_raw_text_buffer_view_update_local_selection ::
  "'w text_api \<Rightarrow> bool \<Rightarrow> handle \<Rightarrow> value \<Rightarrow> 'w \<Rightarrow> ((raw_status \<times> bool) outcome \<times> 'w) option" where
  "opentui_raw_text_buffer_view_update_local_selection N oom handle coordinates_value w = do {
     arguments \<leftarrow> local_selection_arguments handle coordinates_value;
     case arguments of
       Inl status \<Rightarrow> Some (allocating oom (status, False), w)
     | Inr (anchor_x, anchor_y, focus_x, focus_y, background, foreground) \<Rightarrow>
         let (changed, w1) = textBufferViewUpdateLocalSelection (tv N) handle anchor_x anchor_y
               focus_x focus_y background foreground w in
         Some (allocating oom (Ok, changed), w1)
   }"

definition opentui_raw_text_buffer_view_reset_local_selection ::
  "'w text_api \<Rightarrow> handle \<Rightarrow> 'w \<Rightarrow> raw_status \<times> 'w" where
  "opentui_raw_text_buffer_view_reset_local_selection N handle w =
     (if handle = 0 then (Stale_handle, w) else (Ok, textBufferViewResetLocalSelection (tv N) handle w))"

text \<open>The output bytes after the call are part of the result.\<close>

definition opentui_raw_text_buffer_view_get_selected_text ::
  "'w text_api \<Rightarrow> bool \<Rightarrow> handle \<Rightarrow> bytes \<Rightarrow> i32 \<Rightarrow> 'w \<Rightarrow> (raw_status \<times> u32) outcome \<times> bytes \<times> 'w" where
  "opentui_raw_text_buffer_view_get_selected_text N oom handle output length' w =
     (if handle = 0 then (allocating oom (Stale_handle, 0), output, w)
      else if neg32 length' \<or> nat (sint length') > length output
      then (allocating oom (Invalid_argument, 0), output, w)
      else
        let ((copied, output1), w1) = textBufferViewGetSelectedText (tv N) handle output length' w in
        (allocating oom (Ok, copied), output1, w1))"

section \<open>Viewport and display options\<close>

definition opentui_raw_text_buffer_view_set_viewport_size ::
  "'w text_api \<Rightarrow> handle \<Rightarrow> i32 \<Rightarrow> i32 \<Rightarrow> 'w \<Rightarrow> raw_status \<times> 'w" where
  "opentui_raw_text_buffer_view_set_viewport_size N handle width height w =
     (if handle = 0 then (Stale_handle, w)
      else if neg32 width \<or> neg32 height then (Invalid_argument, w)
      else (Ok, textBufferViewSetViewportSize (tp N) handle width height w))"

definition opentui_raw_text_buffer_view_set_viewport ::
  "'w text_api \<Rightarrow> handle \<Rightarrow> i32 \<Rightarrow> i32 \<Rightarrow> i32 \<Rightarrow> i32 \<Rightarrow> 'w \<Rightarrow> raw_status \<times> 'w" where
  "opentui_raw_text_buffer_view_set_viewport N handle x y width height w =
     (if handle = 0 then (Stale_handle, w)
      else if neg32 x \<or> neg32 y \<or> neg32 width \<or> neg32 height then (Invalid_argument, w)
      else (Ok, textBufferViewSetViewport (tp N) handle x y width height w))"

definition opentui_raw_text_buffer_view_get_virtual_line_count ::
  "'w text_api \<Rightarrow> bool \<Rightarrow> handle \<Rightarrow> 'w \<Rightarrow> (raw_status \<times> i32) outcome \<times> 'w" where
  "opentui_raw_text_buffer_view_get_virtual_line_count N oom handle w =
     (if handle = 0 then (allocating oom (Stale_handle, 0), w)
      else
        let (count, w1) = textBufferViewGetVirtualLineCount (tp N) handle w in
        (allocating oom (Ok, count), w1))"

definition opentui_raw_text_buffer_view_set_tab_indicator ::
  "'w text_api \<Rightarrow> handle \<Rightarrow> i32 \<Rightarrow> 'w \<Rightarrow> raw_status \<times> 'w" where
  "opentui_raw_text_buffer_view_set_tab_indicator N handle indicator w =
     (if handle = 0 then (Stale_handle, w)
      else if neg32 indicator then (Invalid_argument, w)
      else (Ok, textBufferViewSetTabIndicator (tp N) handle indicator w))"

definition opentui_raw_text_buffer_view_set_tab_indicator_color ::
  "'w text_api \<Rightarrow> handle \<Rightarrow> value \<Rightarrow> 'w \<Rightarrow> (raw_status \<times> 'w) option" where
  "opentui_raw_text_buffer_view_set_tab_indicator_color N handle color_value w =
     (if handle = 0 then Some (Stale_handle, w)
      else require (read_color color_value) (Some (Invalid_argument, w)) (\<lambda>color.
        Some (Ok, textBufferViewSetTabIndicatorColor (tp N) handle color w)))"

definition opentui_raw_text_buffer_view_set_truncate ::
  "'w text_api \<Rightarrow> handle \<Rightarrow> bool \<Rightarrow> 'w \<Rightarrow> raw_status \<times> 'w" where
  "opentui_raw_text_buffer_view_set_truncate N handle truncate_value w =
     (if handle = 0 then (Stale_handle, w)
      else (Ok, textBufferViewSetTruncate (tp N) handle truncate_value w))"

section \<open>Measuring and line information\<close>

definition opentui_raw_text_buffer_view_measure_for_dimensions ::
  "'w text_api \<Rightarrow> bool \<Rightarrow> handle \<Rightarrow> i32 \<Rightarrow> i32 \<Rightarrow> 'w \<Rightarrow> (raw_status \<times> u32 \<times> u32) outcome \<times> 'w" where
  "opentui_raw_text_buffer_view_measure_for_dimensions N oom handle width height w =
     (if handle = 0 then (allocating oom (Stale_handle, 0, 0), w)
      else if neg32 width \<or> neg32 height then (allocating oom (Invalid_argument, 0, 0), w)
      else
        case textBufferViewMeasureForDimensions (tp N) handle width height w of
          (None, w1) \<Rightarrow> (allocating oom (Native_failure, 0, 0), w1)
        | (Some result, w1) \<Rightarrow> (allocating oom (Ok, m_line_count result, m_width_cols_max result), w1))"

definition copy_u32_array :: "u32 list \<Rightarrow> value" where
  "copy_u32_array xs = Block 0 (map Int32 xs)"

definition make_status_line_info ::
  "raw_status \<Rightarrow> line_info option \<Rightarrow> raw_status \<times> value \<times> value \<times> value \<times> value \<times> i32" where
  "make_status_line_info status info =
     (case info of
        None \<Rightarrow> (status, Block 0 [], Block 0 [], Block 0 [], Block 0 [], 0)
      | Some i \<Rightarrow> (status, copy_u32_array (start_cols i), copy_u32_array (width_cols i),
                   copy_u32_array (sources i), copy_u32_array (wraps i), width_cols_max i))"

definition opentui_raw_text_buffer_view_get_line_info ::
  "'w text_api \<Rightarrow> bool \<Rightarrow> handle \<Rightarrow> 'w
     \<Rightarrow> (raw_status \<times> value \<times> value \<times> value \<times> value \<times> i32) outcome \<times> 'w" where
  "opentui_raw_text_buffer_view_get_line_info N oom handle w =
     (if handle = 0 then (allocating oom (make_status_line_info Stale_handle None), w)
      else
        let (result, w1) = textBufferViewGetLineInfoDirect (tp N) handle w in
        (allocating oom (make_status_line_info Ok (Some result)), w1))"

definition opentui_raw_text_buffer_view_get_logical_line_info ::
  "'w text_api \<Rightarrow> bool \<Rightarrow> handle \<Rightarrow> 'w
     \<Rightarrow> (raw_status \<times> value \<times> value \<times> value \<times> value \<times> i32) outcome \<times> 'w" where
  "opentui_raw_text_buffer_view_get_logical_line_info N oom handle w =
     (if handle = 0 then (allocating oom (make_status_line_info Stale_handle None), w)
      else
        let (result, w1) = textBufferViewGetLogicalLineInfoDirect (tp N) handle w in
        (allocating oom (make_status_line_info Ok (Some result)), w1))"

section \<open>Native renderables\<close>

definition opentui_raw_native_renderable_create ::
  "'w text_api \<Rightarrow> bool \<Rightarrow> 'w \<Rightarrow> (raw_status \<times> handle) outcome \<times> 'w" where
  "opentui_raw_native_renderable_create N oom w =
     (let (handle, w1) = createNativeRenderable (tp N) w in
      (allocating oom (if handle = 0 then (Native_failure, 0) else (Ok, handle)), w1))"

definition opentui_raw_native_renderable_destroy :: "'w text_api \<Rightarrow> handle \<Rightarrow> 'w \<Rightarrow> 'w" where
  "opentui_raw_native_renderable_destroy N handle w =
     (if handle \<noteq> 0 then destroyNativeRenderable (tp N) handle w else w)"

definition opentui_raw_native_renderable_set_measure_target ::
  "'w text_api \<Rightarrow> handle \<Rightarrow> u32 \<Rightarrow> handle \<Rightarrow> 'w \<Rightarrow> raw_status \<times> 'w" where
  "opentui_raw_native_renderable_set_measure_target N renderable kind target w =
     (if renderable = 0 then (Stale_handle, w)
      else if kind = 0 \<and> target \<noteq> 0 then (Invalid_argument, w)
      else if kind = 1 \<and> target = 0 then (Invalid_argument, w)
      else if kind > 1 then (Invalid_argument, w)
      else
        let (applied, w1) = nativeRenderableSetMeasureTarget (tp N) renderable kind target w in
        (if \<not> applied then Native_failure else Ok, w1))"

definition opentui_raw_native_renderable_clear_measure_target ::
  "'w text_api \<Rightarrow> handle \<Rightarrow> 'w \<Rightarrow> raw_status \<times> 'w" where
  "opentui_raw_native_renderable_clear_measure_target N renderable w =
     (if renderable = 0 then (Stale_handle, w)
      else
        let (applied, w1) = nativeRenderableSetMeasureTarget (tp N) renderable 0 0 w in
        (if \<not> applied then Native_failure else Ok, w1))"

section \<open>Terminal capabilities (capability_stubs.c)\<close>

definition valid_borrowed_string :: "borrowed_string \<Rightarrow> bool" where
  "valid_borrowed_string source \<longleftrightarrow>
     \<not> (unat (b_len source) > UINT32_MAX \<or> b_len source \<noteq> 0 \<and> b_ptr source = NULL)"

text \<open>The copy reads \<open>b_len\<close> bytes behind the pointer.\<close>

definition copy_native_string :: "borrowed_string \<Rightarrow> value option option" where
  "copy_native_string source =
     (if unat (b_len source) > UINT32_MAX \<or> b_len source \<noteq> 0 \<and> b_ptr source = NULL then Some None
      else if unat (b_len source) > length (b_bytes source) then None
      else Some (Some (Str (take (unat (b_len source)) (b_bytes source)))))"

definition make_status_capabilities ::
  "raw_status \<Rightarrow> capabilities \<Rightarrow> value \<Rightarrow> value \<Rightarrow> raw_status \<times> value" where
  "make_status_capabilities status c name version =
     (status,
      if status = Ok then Val_some (Block 0 [
        Val_bool (cap_kitty_keyboard c), Val_bool (cap_kitty_graphics c), Val_bool (cap_rgb c),
        Val_bool (cap_ansi256 c), Long (uint (cap_unicode c)), Val_bool (cap_sgr_pixels c),
        Val_bool (cap_color_scheme_updates c), Val_bool (cap_explicit_width c),
        Val_bool (cap_scaled_text c), Val_bool (cap_sixel c), Val_bool (cap_focus_tracking c),
        Val_bool (cap_sync c), Val_bool (cap_bracketed_paste c), Val_bool (cap_hyperlinks c),
        Val_bool (cap_osc52 c), Val_bool (cap_notifications c),
        Val_bool (cap_explicit_cursor_positioning c), Val_bool (cap_remote c),
        Long (uint (cap_multiplexer c)), Long (uint (cap_image_protocol c)), name, version,
        Val_bool (cap_term_from_xtversion c), Long (uint (cap_osc52_support c))])
      else Val_none)"

text \<open>Both copies are checked again; a refusal there cannot happen.\<close>

definition opentui_raw_renderer_capabilities ::
  "'w raw_api \<Rightarrow> 'w capability_api \<Rightarrow> bool \<Rightarrow> handle \<Rightarrow> 'w \<Rightarrow> (raw_status \<times> value) outcome option" where
  "opentui_raw_renderer_capabilities N C oom renderer w =
     (if \<not> renderer_is_valid N renderer w then Some (allocating oom (Stale_handle, Val_none))
      else
        let c = getTerminalCapabilities C renderer w;
            failed = Some (allocating oom (Native_failure, Val_none)) in
        if \<not> valid_borrowed_string (cap_term_name c) \<or> \<not> valid_borrowed_string (cap_term_version c)
        then failed
        else
          require (copy_native_string (cap_term_name c)) failed (\<lambda>name.
          require (copy_native_string (cap_term_version c)) failed (\<lambda>version.
            Some (allocating oom (make_status_capabilities Ok c name version)))))"

definition opentui_raw_process_capability_response ::
  "'w raw_api \<Rightarrow> 'w capability_api \<Rightarrow> handle \<Rightarrow> bytes \<Rightarrow> 'w \<Rightarrow> raw_status \<times> 'w" where
  "opentui_raw_process_capability_response N C renderer response_value w =
     (if \<not> renderer_is_valid N renderer w then (Stale_handle, w)
      else if length response_value > UINT32_MAX then (Invalid_argument, w)
      else
        let response = (if length response_value = 0 then None else Some response_value) in
        (Ok, processCapabilityResponse C renderer response (of_nat (length response_value)) w))"

end
