(* ===== verification/Text_Props.thy ===== *)
theory Text_Props
  imports Text_View Raw_Safety
begin

text \<open>
  Properties of the text stubs: no native call outside its specification, and styled text.
  \<open>audited_text\<close> wraps the native library and records a call with a zero handle, a byte
  range that does not fit its array, a color that is not four bytes, a number outside its range.
\<close>

section \<open>What the native library is specified for\<close>

definition slice_ok :: "bytes option \<Rightarrow> u32 \<Rightarrow> bool" where
  "slice_ok d n \<longleftrightarrow> (case d of None \<Rightarrow> n = 0 | Some b \<Rightarrow> n \<noteq> 0 \<and> unat n = length b)"

definition chunk_ok :: "styled_chunk \<Rightarrow> bool" where
  "chunk_ok c \<longleftrightarrow> pred_option color_ok (c_fg c) \<and> pred_option color_ok (c_bg c)"

definition chunks_ok :: "styled_chunk list \<Rightarrow> u32 \<Rightarrow> bool" where
  "chunks_ok cs n \<longleftrightarrow> unat n = length cs \<and> (\<forall>c \<in> set cs. chunk_ok c)"

definition audited_text :: "'w text_api \<Rightarrow> ('w \<times> bool) text_api" where
  "audited_text N = \<lparr>
    tb = \<lparr>
      createTextBuffer = (\<lambda>m. audit_result (\<lambda>_. unat m \<le> 1) (createTextBuffer
        (tb N) m)),
      destroyTextBuffer = (\<lambda>h. audit (\<lambda>_. h \<noteq> 0) (destroyTextBuffer (tb N)
        h)),
      textBufferClear = (\<lambda>h. audit (\<lambda>_. h \<noteq> 0) (textBufferClear (tb N) h)),
      textBufferReset = (\<lambda>h. audit (\<lambda>_. h \<noteq> 0) (textBufferReset (tb N) h)),
      textBufferAppend = (\<lambda>h d n. audit (\<lambda>_. h \<noteq> 0 \<and> slice_ok d n)
        (textBufferAppend (tb N) h d n)),
      textBufferGetByteSize = (\<lambda>h. audit_result (\<lambda>_. h \<noteq> 0)
        (textBufferGetByteSize (tb N) h)),
      textBufferGetLength = (\<lambda>h. audit_result (\<lambda>_. h \<noteq> 0)
        (textBufferGetLength (tb N) h)),
      textBufferGetLineCount = (\<lambda>h. audit_result (\<lambda>_. h \<noteq> 0)
        (textBufferGetLineCount (tb N) h)),
      textBufferRegisterMemBuffer = (\<lambda>h d n b. audit_result (\<lambda>_. h \<noteq> 0
        \<and> slice_ok d n) (textBufferRegisterMemBuffer (tb N) h d n b)),
      textBufferReplaceMemBuffer = (\<lambda>h i d n b. audit_result (\<lambda>_. h \<noteq> 0
        \<and> slice_ok d n) (textBufferReplaceMemBuffer (tb N) h i d n b)),
      textBufferSetTextFromMem = (\<lambda>h i. audit (\<lambda>_. h \<noteq> 0)
        (textBufferSetTextFromMem (tb N) h i)),
      textBufferLoadFile = (\<lambda>h p n. audit_result (\<lambda>_. h \<noteq> 0 \<and> unat n
        = length p) (textBufferLoadFile (tb N) h p n)),
      textBufferGetTabWidth = (\<lambda>h. audit_result (\<lambda>_. h \<noteq> 0)
        (textBufferGetTabWidth (tb N) h)),
      textBufferSetTabWidth = (\<lambda>h i. audit (\<lambda>_. h \<noteq> 0)
        (textBufferSetTabWidth (tb N) h i))\<rparr>,
    ts = \<lparr>
      textBufferSetStyledText = (\<lambda>h cs n. audit (\<lambda>_. h \<noteq> 0 \<and>
        chunks_ok cs n) (textBufferSetStyledText (ts N) h cs n)),
      textBufferClearAllHighlights = (\<lambda>h. audit (\<lambda>_. h \<noteq> 0)
        (textBufferClearAllHighlights (ts N) h)),
      textBufferAddHighlightByCharRange = (\<lambda>h x. audit (\<lambda>_. h \<noteq> 0)
        (textBufferAddHighlightByCharRange (ts N) h x)),
      textBufferAddHighlight = (\<lambda>h l x. audit (\<lambda>_. h \<noteq> 0 \<and> extent l)
        (textBufferAddHighlight (ts N) h l x)),
      textBufferRemoveHighlightsByRef = (\<lambda>h i. audit (\<lambda>_. h \<noteq> 0)
        (textBufferRemoveHighlightsByRef (ts N) h i)),
      textBufferClearLineHighlights = (\<lambda>h l. audit (\<lambda>_. h \<noteq> 0 \<and>
        extent l) (textBufferClearLineHighlights (ts N) h l)),
      textBufferSetDefaultFg = (\<lambda>h c. audit (\<lambda>_. h \<noteq> 0 \<and> pred_option
        color_ok c) (textBufferSetDefaultFg (ts N) h c)),
      textBufferSetDefaultBg = (\<lambda>h c. audit (\<lambda>_. h \<noteq> 0 \<and> pred_option
        color_ok c) (textBufferSetDefaultBg (ts N) h c)),
      textBufferSetDefaultAttributes = (\<lambda>h a. audit (\<lambda>_. h \<noteq> 0)
        (textBufferSetDefaultAttributes (ts N) h a)),
      textBufferResetDefaults = (\<lambda>h. audit (\<lambda>_. h \<noteq> 0)
        (textBufferResetDefaults (ts N) h)),
      textBufferSetSyntaxStyle = (\<lambda>h k. audit_result (\<lambda>_. h \<noteq> 0)
        (textBufferSetSyntaxStyle (ts N) h k)),
      createSyntaxStyle = (audit_result (\<lambda>_. True) (createSyntaxStyle (ts N))),
      destroySyntaxStyle = (\<lambda>h. audit (\<lambda>_. h \<noteq> 0) (destroySyntaxStyle (ts
        N) h)),
      syntaxStyleRegister = (\<lambda>h t n c d a. audit_result (\<lambda>_. h \<noteq> 0 \<and>
        n = of_nat (length t) \<and> pred_option color_ok c \<and> pred_option color_ok d)
        (syntaxStyleRegister (ts N) h t n c d a)),
      syntaxStyleResolveByName = (\<lambda>h t n. audit_result (\<lambda>_. h \<noteq> 0 \<and>
        n = of_nat (length t)) (syntaxStyleResolveByName (ts N) h t n)),
      syntaxStyleGetStyleCount = (\<lambda>h. audit_result (\<lambda>_. h \<noteq> 0)
        (syntaxStyleGetStyleCount (ts N) h))\<rparr>,
    tv = \<lparr>
      createTextBufferView = (\<lambda>h. audit_result (\<lambda>_. h \<noteq> 0)
        (createTextBufferView (tv N) h)),
      destroyTextBufferView = (\<lambda>h. audit (\<lambda>_. h \<noteq> 0)
        (destroyTextBufferView (tv N) h)),
      textBufferViewSetWrapWidth = (\<lambda>h x. audit (\<lambda>_. h \<noteq> 0 \<and> extent
        x) (textBufferViewSetWrapWidth (tv N) h x)),
      textBufferViewSetWrapMode = (\<lambda>h m. audit (\<lambda>_. h \<noteq> 0 \<and> unat m
        \<le> 2) (textBufferViewSetWrapMode (tv N) h m)),
      textBufferViewSetFirstLineOffset = (\<lambda>h x. audit (\<lambda>_. h \<noteq> 0 \<and>
        extent x) (textBufferViewSetFirstLineOffset (tv N) h x)),
      textBufferViewSetSelection = (\<lambda>h x y c d. audit (\<lambda>_. h \<noteq> 0 \<and>
        extent x \<and> extent y \<and> pred_option color_ok c \<and> pred_option color_ok d)
        (textBufferViewSetSelection (tv N) h x y c d)),
      textBufferViewUpdateSelection = (\<lambda>h y c d. audit (\<lambda>_. h \<noteq> 0 \<and>
        extent y \<and> pred_option color_ok c \<and> pred_option color_ok d)
        (textBufferViewUpdateSelection (tv N) h y c d)),
      textBufferViewResetSelection = (\<lambda>h. audit (\<lambda>_. h \<noteq> 0)
        (textBufferViewResetSelection (tv N) h)),
      textBufferViewGetSelectionInfo = (\<lambda>h. audit_result (\<lambda>_. h \<noteq> 0)
        (textBufferViewGetSelectionInfo (tv N) h)),
      textBufferViewSetLocalSelection = (\<lambda>h x y a b c d. audit_result (\<lambda>_. h
        \<noteq> 0 \<and> pred_option color_ok c \<and> pred_option color_ok d)
        (textBufferViewSetLocalSelection (tv N) h x y a b c d)),
      textBufferViewUpdateLocalSelection = (\<lambda>h x y a b c d. audit_result (\<lambda>_. h
        \<noteq> 0 \<and> pred_option color_ok c \<and> pred_option color_ok d)
        (textBufferViewUpdateLocalSelection (tv N) h x y a b c d)),
      textBufferViewResetLocalSelection = (\<lambda>h. audit (\<lambda>_. h \<noteq> 0)
        (textBufferViewResetLocalSelection (tv N) h)),
      textBufferViewGetSelectedText = (\<lambda>h t n. audit_result (\<lambda>_. h \<noteq> 0
        \<and> unat n \<le> length t) (textBufferViewGetSelectedText (tv N) h t n))\<rparr>,
    tp = \<lparr>
      textBufferViewSetViewportSize = (\<lambda>h x y. audit (\<lambda>_. h \<noteq> 0 \<and>
        extent x \<and> extent y) (textBufferViewSetViewportSize (tp N) h x y)),
      textBufferViewSetViewport = (\<lambda>h x y a b. audit (\<lambda>_. h \<noteq> 0 \<and>
        extent x \<and> extent y \<and> extent a \<and> extent b) (textBufferViewSetViewport (tp
        N) h x y a b)),
      textBufferViewGetVirtualLineCount = (\<lambda>h. audit_result (\<lambda>_. h \<noteq> 0)
        (textBufferViewGetVirtualLineCount (tp N) h)),
      textBufferViewSetTabIndicator = (\<lambda>h x. audit (\<lambda>_. h \<noteq> 0 \<and>
        extent x) (textBufferViewSetTabIndicator (tp N) h x)),
      textBufferViewSetTabIndicatorColor = (\<lambda>h c. audit (\<lambda>_. h \<noteq> 0 \<and>
        color_ok c) (textBufferViewSetTabIndicatorColor (tp N) h c)),
      textBufferViewSetTruncate = (\<lambda>h b. audit (\<lambda>_. h \<noteq> 0)
        (textBufferViewSetTruncate (tp N) h b)),
      textBufferViewMeasureForDimensions = (\<lambda>h x y. audit_result (\<lambda>_. h \<noteq>
        0 \<and> extent x \<and> extent y) (textBufferViewMeasureForDimensions (tp N) h x y)),
      textBufferViewGetLineInfoDirect = (\<lambda>h. audit_result (\<lambda>_. h \<noteq> 0)
        (textBufferViewGetLineInfoDirect (tp N) h)),
      textBufferViewGetLogicalLineInfoDirect = (\<lambda>h. audit_result (\<lambda>_. h \<noteq>
        0) (textBufferViewGetLogicalLineInfoDirect (tp N) h)),
      createNativeRenderable = (audit_result (\<lambda>_. True) (createNativeRenderable (tp N))),
      destroyNativeRenderable = (\<lambda>h. audit (\<lambda>_. h \<noteq> 0)
        (destroyNativeRenderable (tp N) h)),
      nativeRenderableSetMeasureTarget = (\<lambda>h k t. audit_result (\<lambda>_. h \<noteq> 0
        \<and> (k = 0 \<and> t = 0 \<or> k = 1 \<and> t \<noteq> 0))
        (nativeRenderableSetMeasureTarget (tp N) h k t))\<rparr>\<rparr>"

lemma audited_text_simps [simp]:
  "\<And>m. createTextBuffer (tb (audited_text N)) m = audit_result (\<lambda>_. unat m \<le> 1)
     (createTextBuffer (tb N) m)"
  "\<And>h. destroyTextBuffer (tb (audited_text N)) h = audit (\<lambda>_. h \<noteq> 0)
     (destroyTextBuffer (tb N) h)"
  "\<And>h. textBufferClear (tb (audited_text N)) h = audit (\<lambda>_. h \<noteq> 0)
     (textBufferClear (tb N) h)"
  "\<And>h. textBufferReset (tb (audited_text N)) h = audit (\<lambda>_. h \<noteq> 0)
     (textBufferReset (tb N) h)"
  "\<And>h d n. textBufferAppend (tb (audited_text N)) h d n = audit (\<lambda>_. h \<noteq> 0
     \<and> slice_ok d n) (textBufferAppend (tb N) h d n)"
  "\<And>h. textBufferGetByteSize (tb (audited_text N)) h = audit_result (\<lambda>_. h \<noteq> 0)
     (textBufferGetByteSize (tb N) h)"
  "\<And>h. textBufferGetLength (tb (audited_text N)) h = audit_result (\<lambda>_. h \<noteq> 0)
     (textBufferGetLength (tb N) h)"
  "\<And>h. textBufferGetLineCount (tb (audited_text N)) h = audit_result (\<lambda>_. h \<noteq> 0)
     (textBufferGetLineCount (tb N) h)"
  "\<And>h d n b. textBufferRegisterMemBuffer (tb (audited_text N)) h d n b = audit_result
     (\<lambda>_. h \<noteq> 0 \<and> slice_ok d n) (textBufferRegisterMemBuffer (tb N) h d n b)"
  "\<And>h i d n b. textBufferReplaceMemBuffer (tb (audited_text N)) h i d n b = audit_result
     (\<lambda>_. h \<noteq> 0 \<and> slice_ok d n) (textBufferReplaceMemBuffer (tb N) h i d n b)"
  "\<And>h i. textBufferSetTextFromMem (tb (audited_text N)) h i = audit (\<lambda>_. h \<noteq>
     0) (textBufferSetTextFromMem (tb N) h i)"
  "\<And>h p n. textBufferLoadFile (tb (audited_text N)) h p n = audit_result (\<lambda>_. h
     \<noteq> 0 \<and> unat n = length p) (textBufferLoadFile (tb N) h p n)"
  "\<And>h. textBufferGetTabWidth (tb (audited_text N)) h = audit_result (\<lambda>_. h \<noteq> 0)
     (textBufferGetTabWidth (tb N) h)"
  "\<And>h i. textBufferSetTabWidth (tb (audited_text N)) h i = audit (\<lambda>_. h \<noteq> 0)
     (textBufferSetTabWidth (tb N) h i)"
  "\<And>h cs n. textBufferSetStyledText (ts (audited_text N)) h cs n = audit (\<lambda>_. h
     \<noteq> 0 \<and> chunks_ok cs n) (textBufferSetStyledText (ts N) h cs n)"
  "\<And>h. textBufferClearAllHighlights (ts (audited_text N)) h = audit (\<lambda>_. h \<noteq>
     0) (textBufferClearAllHighlights (ts N) h)"
  "\<And>h x. textBufferAddHighlightByCharRange (ts (audited_text N)) h x = audit (\<lambda>_. h
     \<noteq> 0) (textBufferAddHighlightByCharRange (ts N) h x)"
  "\<And>h l x. textBufferAddHighlight (ts (audited_text N)) h l x = audit (\<lambda>_. h
     \<noteq> 0 \<and> extent l) (textBufferAddHighlight (ts N) h l x)"
  "\<And>h i. textBufferRemoveHighlightsByRef (ts (audited_text N)) h i = audit (\<lambda>_. h
     \<noteq> 0) (textBufferRemoveHighlightsByRef (ts N) h i)"
  "\<And>h l. textBufferClearLineHighlights (ts (audited_text N)) h l = audit (\<lambda>_. h
     \<noteq> 0 \<and> extent l) (textBufferClearLineHighlights (ts N) h l)"
  "\<And>h c. textBufferSetDefaultFg (ts (audited_text N)) h c = audit (\<lambda>_. h \<noteq> 0
     \<and> pred_option color_ok c) (textBufferSetDefaultFg (ts N) h c)"
  "\<And>h c. textBufferSetDefaultBg (ts (audited_text N)) h c = audit (\<lambda>_. h \<noteq> 0
     \<and> pred_option color_ok c) (textBufferSetDefaultBg (ts N) h c)"
  "\<And>h a. textBufferSetDefaultAttributes (ts (audited_text N)) h a = audit (\<lambda>_. h
     \<noteq> 0) (textBufferSetDefaultAttributes (ts N) h a)"
  "\<And>h. textBufferResetDefaults (ts (audited_text N)) h = audit (\<lambda>_. h \<noteq> 0)
     (textBufferResetDefaults (ts N) h)"
  "\<And>h k. textBufferSetSyntaxStyle (ts (audited_text N)) h k = audit_result (\<lambda>_. h
     \<noteq> 0) (textBufferSetSyntaxStyle (ts N) h k)"
  "createSyntaxStyle (ts (audited_text N)) = audit_result (\<lambda>_. True) (createSyntaxStyle
     (ts N))"
  "\<And>h. destroySyntaxStyle (ts (audited_text N)) h = audit (\<lambda>_. h \<noteq> 0)
     (destroySyntaxStyle (ts N) h)"
  "\<And>h t n c d a. syntaxStyleRegister (ts (audited_text N)) h t n c d a = audit_result
     (\<lambda>_. h \<noteq> 0 \<and> n = of_nat (length t) \<and> pred_option color_ok c \<and>
     pred_option color_ok d) (syntaxStyleRegister (ts N) h t n c d a)"
  "\<And>h t n. syntaxStyleResolveByName (ts (audited_text N)) h t n = audit_result (\<lambda>_. h \<noteq> 0
     \<and> n = of_nat (length t)) (syntaxStyleResolveByName (ts N) h t n)"
  "\<And>h. syntaxStyleGetStyleCount (ts (audited_text N)) h = audit_result (\<lambda>_. h \<noteq> 0)
     (syntaxStyleGetStyleCount (ts N) h)"
  "\<And>h. createTextBufferView (tv (audited_text N)) h = audit_result (\<lambda>_. h \<noteq>
     0) (createTextBufferView (tv N) h)"
  "\<And>h. destroyTextBufferView (tv (audited_text N)) h = audit (\<lambda>_. h \<noteq> 0)
     (destroyTextBufferView (tv N) h)"
  "\<And>h x. textBufferViewSetWrapWidth (tv (audited_text N)) h x = audit (\<lambda>_. h
     \<noteq> 0 \<and> extent x) (textBufferViewSetWrapWidth (tv N) h x)"
  "\<And>h m. textBufferViewSetWrapMode (tv (audited_text N)) h m = audit (\<lambda>_. h \<noteq>
     0 \<and> unat m \<le> 2) (textBufferViewSetWrapMode (tv N) h m)"
  "\<And>h x. textBufferViewSetFirstLineOffset (tv (audited_text N)) h x = audit (\<lambda>_. h
     \<noteq> 0 \<and> extent x) (textBufferViewSetFirstLineOffset (tv N) h x)"
  "\<And>h x y c d. textBufferViewSetSelection (tv (audited_text N)) h x y c d = audit
     (\<lambda>_. h \<noteq> 0 \<and> extent x \<and> extent y \<and> pred_option color_ok c
     \<and> pred_option color_ok d) (textBufferViewSetSelection (tv N) h x y c d)"
  "\<And>h y c d. textBufferViewUpdateSelection (tv (audited_text N)) h y c d = audit
     (\<lambda>_. h \<noteq> 0 \<and> extent y \<and> pred_option color_ok c \<and> pred_option
     color_ok d) (textBufferViewUpdateSelection (tv N) h y c d)"
  "\<And>h. textBufferViewResetSelection (tv (audited_text N)) h = audit (\<lambda>_. h \<noteq>
     0) (textBufferViewResetSelection (tv N) h)"
  "\<And>h. textBufferViewGetSelectionInfo (tv (audited_text N)) h = audit_result (\<lambda>_. h \<noteq> 0)
     (textBufferViewGetSelectionInfo (tv N) h)"
  "\<And>h x y a b c d. textBufferViewSetLocalSelection (tv (audited_text N)) h x y a b c d =
     audit_result (\<lambda>_. h \<noteq> 0 \<and> pred_option color_ok c \<and> pred_option
     color_ok d) (textBufferViewSetLocalSelection (tv N) h x y a b c d)"
  "\<And>h x y a b c d. textBufferViewUpdateLocalSelection (tv (audited_text N)) h x y a b c d =
     audit_result (\<lambda>_. h \<noteq> 0 \<and> pred_option color_ok c \<and> pred_option
     color_ok d) (textBufferViewUpdateLocalSelection (tv N) h x y a b c d)"
  "\<And>h. textBufferViewResetLocalSelection (tv (audited_text N)) h = audit (\<lambda>_. h
     \<noteq> 0) (textBufferViewResetLocalSelection (tv N) h)"
  "\<And>h t n. textBufferViewGetSelectedText (tv (audited_text N)) h t n = audit_result
     (\<lambda>_. h \<noteq> 0 \<and> unat n \<le> length t) (textBufferViewGetSelectedText (tv
     N) h t n)"
  "\<And>h x y. textBufferViewSetViewportSize (tp (audited_text N)) h x y = audit (\<lambda>_. h
     \<noteq> 0 \<and> extent x \<and> extent y) (textBufferViewSetViewportSize (tp N) h x y)"
  "\<And>h x y a b. textBufferViewSetViewport (tp (audited_text N)) h x y a b = audit
     (\<lambda>_. h \<noteq> 0 \<and> extent x \<and> extent y \<and> extent a \<and> extent b)
     (textBufferViewSetViewport (tp N) h x y a b)"
  "\<And>h. textBufferViewGetVirtualLineCount (tp (audited_text N)) h = audit_result (\<lambda>_.
     h \<noteq> 0) (textBufferViewGetVirtualLineCount (tp N) h)"
  "\<And>h x. textBufferViewSetTabIndicator (tp (audited_text N)) h x = audit (\<lambda>_. h
     \<noteq> 0 \<and> extent x) (textBufferViewSetTabIndicator (tp N) h x)"
  "\<And>h c. textBufferViewSetTabIndicatorColor (tp (audited_text N)) h c = audit (\<lambda>_. h
     \<noteq> 0 \<and> color_ok c) (textBufferViewSetTabIndicatorColor (tp N) h c)"
  "\<And>h b. textBufferViewSetTruncate (tp (audited_text N)) h b = audit (\<lambda>_. h \<noteq>
     0) (textBufferViewSetTruncate (tp N) h b)"
  "\<And>h x y. textBufferViewMeasureForDimensions (tp (audited_text N)) h x y = audit_result
     (\<lambda>_. h \<noteq> 0 \<and> extent x \<and> extent y)
     (textBufferViewMeasureForDimensions (tp N) h x y)"
  "\<And>h. textBufferViewGetLineInfoDirect (tp (audited_text N)) h = audit_result (\<lambda>_. h
     \<noteq> 0) (textBufferViewGetLineInfoDirect (tp N) h)"
  "\<And>h. textBufferViewGetLogicalLineInfoDirect (tp (audited_text N)) h = audit_result
     (\<lambda>_. h \<noteq> 0) (textBufferViewGetLogicalLineInfoDirect (tp N) h)"
  "createNativeRenderable (tp (audited_text N)) = audit_result (\<lambda>_. True)
     (createNativeRenderable (tp N))"
  "\<And>h. destroyNativeRenderable (tp (audited_text N)) h = audit (\<lambda>_. h \<noteq> 0)
     (destroyNativeRenderable (tp N) h)"
  "\<And>h k t. nativeRenderableSetMeasureTarget (tp (audited_text N)) h k t = audit_result
     (\<lambda>_. h \<noteq> 0 \<and> (k = 0 \<and> t = 0 \<or> k = 1 \<and> t \<noteq> 0))
     (nativeRenderableSetMeasureTarget (tp N) h k t)"
  by (simp_all add: audited_text_def)

section \<open>Running the stubs\<close>

text \<open>The stubs that answer with a status alone.\<close>

inductive text_call :: "'w text_api \<Rightarrow> 'w \<Rightarrow> raw_status \<Rightarrow> 'w \<Rightarrow> bool" for N where
  "opentui_raw_text_buffer_clear N h w = (st, w') \<Longrightarrow> text_call N w st w'"
| "opentui_raw_text_buffer_reset N h w = (st, w') \<Longrightarrow> text_call N w st w'"
| "wf_bigarray a \<Longrightarrow> opentui_raw_text_buffer_append N h a w = (st, w')
        \<Longrightarrow> text_call N w st w'"
| "wf_bigarray a \<Longrightarrow> opentui_raw_text_buffer_replace_mem_buffer N h i a b w = (st,
        w') \<Longrightarrow> text_call N w st w'"
| "opentui_raw_text_buffer_set_text_from_mem N h i x w = (st, w') \<Longrightarrow> text_call N w
        st w'"
| "opentui_raw_text_buffer_load_file N h v w = Some (st, w') \<Longrightarrow> text_call N w st w'"
| "opentui_raw_text_buffer_set_tab_width N h i w = (st, w') \<Longrightarrow> text_call N w st w'"
| "opentui_raw_text_buffer_clear_all_highlights N h w = (st, w') \<Longrightarrow> text_call N w st
        w'"
| "opentui_raw_text_buffer_add_highlight_by_char_range N h v w = Some (st, w') \<Longrightarrow>
        text_call N w st w'"
| "opentui_raw_text_buffer_add_highlight N h v1 v2 w = Some (st, w') \<Longrightarrow> text_call N
        w st w'"
| "opentui_raw_text_buffer_remove_highlights_by_ref N h v w = Some (st, w') \<Longrightarrow>
        text_call N w st w'"
| "opentui_raw_text_buffer_clear_line_highlights N h v w = Some (st, w') \<Longrightarrow>
        text_call N w st w'"
| "opentui_raw_text_buffer_set_default_fg N h v w = Some (st, w') \<Longrightarrow> text_call N w
        st w'"
| "opentui_raw_text_buffer_set_default_bg N h v w = Some (st, w') \<Longrightarrow> text_call N w
        st w'"
| "opentui_raw_text_buffer_set_default_attributes N h v w = Some (st, w') \<Longrightarrow>
        text_call N w st w'"
| "opentui_raw_text_buffer_reset_defaults N h w = (st, w') \<Longrightarrow> text_call N w st w'"
| "opentui_raw_text_buffer_set_syntax_style N h v w = Some (st, w') \<Longrightarrow> text_call N w
        st w'"
| "opentui_raw_text_buffer_view_set_wrap_width N h x w = (st, w') \<Longrightarrow> text_call N w
        st w'"
| "opentui_raw_text_buffer_view_set_wrap_mode N h x w = (st, w') \<Longrightarrow> text_call N w st
        w'"
| "opentui_raw_text_buffer_view_set_first_line_offset N h x w = (st, w') \<Longrightarrow>
        text_call N w st w'"
| "opentui_raw_text_buffer_view_set_selection N h x y v1 v2 w = Some (st, w') \<Longrightarrow>
        text_call N w st w'"
| "opentui_raw_text_buffer_view_update_selection N h y v1 v2 w = Some (st, w') \<Longrightarrow>
        text_call N w st w'"
| "opentui_raw_text_buffer_view_reset_selection N h w = (st, w') \<Longrightarrow> text_call N w st
        w'"
| "opentui_raw_text_buffer_view_reset_local_selection N h w = (st, w') \<Longrightarrow> text_call
        N w st w'"
| "opentui_raw_text_buffer_view_set_viewport_size N h x y w = (st, w') \<Longrightarrow> text_call
        N w st w'"
| "opentui_raw_text_buffer_view_set_viewport N h x y a b w = (st, w') \<Longrightarrow> text_call N
        w st w'"
| "opentui_raw_text_buffer_view_set_tab_indicator N h x w = (st, w') \<Longrightarrow> text_call N
        w st w'"
| "opentui_raw_text_buffer_view_set_tab_indicator_color N h v w = Some (st, w') \<Longrightarrow>
        text_call N w st w'"
| "opentui_raw_text_buffer_view_set_truncate N h b w = (st, w') \<Longrightarrow> text_call N w st
        w'"
| "opentui_raw_native_renderable_set_measure_target N h k t w = (st, w') \<Longrightarrow>
        text_call N w st w'"
| "opentui_raw_native_renderable_clear_measure_target N h w = (st, w') \<Longrightarrow> text_call
        N w st w'"

text \<open>All stubs of text_buffer_stubs.c and syntax_style_stubs.c.\<close>

inductive text_step :: "'w text_api \<Rightarrow> 'w \<times> stat_heap \<Rightarrow> 'w \<times> stat_heap \<Rightarrow> bool" for N where
  "text_call N w st w' \<Longrightarrow> text_step N (w, s) (w', s)"
| "opentui_raw_text_buffer_create N oom m w = (r, w') \<Longrightarrow> text_step N (w, s) (w', s)"
| "wf_bigarray a \<Longrightarrow> opentui_raw_text_buffer_register_mem_buffer N oom h a b w = (r,
        w') \<Longrightarrow> text_step N (w, s) (w', s)"
| "opentui_raw_syntax_style_create N oom w = (r, w') \<Longrightarrow> text_step N (w, s) (w', s)"
| "opentui_raw_syntax_style_register N oom h v1 v2 v3 v4 w = Some (r, w') \<Longrightarrow>
        text_step N (w, s) (w', s)"
| "opentui_raw_text_buffer_view_create N oom h w = (r, w') \<Longrightarrow> text_step N (w, s)
        (w', s)"
| "opentui_raw_text_buffer_view_set_local_selection N oom h v w = Some (r, w') \<Longrightarrow>
        text_step N (w, s) (w', s)"
| "opentui_raw_text_buffer_view_update_local_selection N oom h v w = Some (r, w') \<Longrightarrow>
        text_step N (w, s) (w', s)"
| "opentui_raw_text_buffer_view_get_selected_text N oom h t n w = (r, t', w') \<Longrightarrow>
        text_step N (w, s) (w', s)"
| "opentui_raw_text_buffer_view_get_virtual_line_count N oom h w = (r, w') \<Longrightarrow>
        text_step N (w, s) (w', s)"
| "opentui_raw_text_buffer_view_measure_for_dimensions N oom h x y w = (r, w') \<Longrightarrow>
        text_step N (w, s) (w', s)"
| "opentui_raw_text_buffer_view_get_line_info N oom h w = (r, w') \<Longrightarrow> text_step N (w,
        s) (w', s)"
| "opentui_raw_text_buffer_view_get_logical_line_info N oom h w = (r, w') \<Longrightarrow>
        text_step N (w, s) (w', s)"
| "opentui_raw_native_renderable_create N oom w = (r, w') \<Longrightarrow> text_step N (w, s) (w',
        s)"
| "opentui_raw_text_buffer_length N oom h w = (r, w') \<Longrightarrow> text_step N (w, s) (w', s)"
| "opentui_raw_text_buffer_byte_size N oom h w = (r, w') \<Longrightarrow> text_step N (w, s) (w', s)"
| "opentui_raw_text_buffer_line_count N oom h w = (r, w') \<Longrightarrow> text_step N (w, s) (w', s)"
| "opentui_raw_text_buffer_get_tab_width N oom h w = (r, w') \<Longrightarrow> text_step N (w, s) (w', s)"
| "opentui_raw_syntax_style_resolve N oom h v w = Some (r, w') \<Longrightarrow> text_step N (w, s) (w', s)"
| "opentui_raw_syntax_style_count N oom h w = (r, w') \<Longrightarrow> text_step N (w, s) (w', s)"
| "opentui_raw_text_buffer_view_get_selection_info N oom h w = (r, w') \<Longrightarrow>
        text_step N (w, s) (w', s)"
| "text_step N (w, s) (opentui_raw_text_buffer_destroy N h w, s)"
| "text_step N (w, s) (opentui_raw_syntax_style_destroy N h w, s)"
| "text_step N (w, s) (opentui_raw_text_buffer_view_destroy N h w, s)"
| "text_step N (w, s) (opentui_raw_native_renderable_destroy N h w, s)"
| "opentui_raw_text_buffer_set_styled_text N alloc_fails h v (w, s) = Some (r, w', s')
        \<Longrightarrow> text_step N (w, s) (w', s')"

inductive text_reachable :: "'w text_api \<Rightarrow> 'w \<Rightarrow> 'w \<times> stat_heap \<Rightarrow> bool" for N w0 where
  start: "text_reachable N w0 (w0, empty_heap)"
| step: "text_reachable N w0 s \<Longrightarrow> text_step N s s' \<Longrightarrow> text_reachable N w0 s'"

section \<open>The readers return what the library accepts\<close>

lemma read_byte_bigarray_ok:
  assumes "read_byte_bigarray a = Some (d, n)" "wf_bigarray a"
  shows "slice_ok d n"
proof -
  let ?k = "dim a ! 0"
  have "num_dims a = 1" "0 \<le> sint ?k" "unat ?k \<le> UINT32_MAX" and n: "n = ucast ?k"
    "d = (if n = 0 then None else Some (ba_data a))"
    using assms(1) by (auto simp: read_byte_bigarray_def Let_def split: if_splits)
  moreover from this have "unat (ucast ?k :: u32) = unat ?k" by (simp add: unsigned_ucast_eq take_bit_nat_eq_self)
  ultimately show ?thesis using assms(2) by (simp add: slice_ok_def wf_bigarray_def)
qed

lemma small_code_ok:
  assumes "extent x" "\<not> int b < sint x" "b \<le> 255"
  shows "unat (ucast x :: u8) \<le> b"
proof -
  have "unat x \<le> b" using unat_small [of x b] assms by (simp add: neg32_def)
  with assms(3) show ?thesis by (simp add: unsigned_ucast_eq take_bit_nat_eq_self)
qed

lemma length_cast_ok: "unat (of_nat n :: u32) \<le> n"
  by (simp add: unat_of_nat)

lemma length_argument_ok: "extent x \<Longrightarrow> \<not> n < nat (sint x) \<Longrightarrow> unat x \<le> n"
  using unat_nonneg [of x] by linarith

lemma word_le_1: "\<not> 1 < k \<longleftrightarrow> k = 0 \<or> k = (1 :: u32)"
proof -
  have "\<not> 1 < k \<longleftrightarrow> unat k \<le> 1" by (simp add: word_less_nat_alt not_less)
  also have "\<dots> \<longleftrightarrow> unat k = 0 \<or> unat k = 1" by linarith
  finally show ?thesis by (simp add: word_unat_eq_iff)
qed

lemmas text_defs =
  opentui_raw_text_buffer_clear_def
  opentui_raw_text_buffer_reset_def
  opentui_raw_text_buffer_append_def
  opentui_raw_text_buffer_replace_mem_buffer_def
  opentui_raw_text_buffer_set_text_from_mem_def
  opentui_raw_text_buffer_load_file_def
  opentui_raw_text_buffer_set_tab_width_def
  opentui_raw_text_buffer_clear_all_highlights_def
  opentui_raw_text_buffer_add_highlight_by_char_range_def
  opentui_raw_text_buffer_add_highlight_def
  opentui_raw_text_buffer_remove_highlights_by_ref_def
  opentui_raw_text_buffer_clear_line_highlights_def
  opentui_raw_text_buffer_set_default_fg_def
  opentui_raw_text_buffer_set_default_bg_def
  opentui_raw_text_buffer_set_default_attributes_def
  opentui_raw_text_buffer_reset_defaults_def
  opentui_raw_text_buffer_set_syntax_style_def
  opentui_raw_text_buffer_view_set_wrap_width_def
  opentui_raw_text_buffer_view_set_wrap_mode_def
  opentui_raw_text_buffer_view_set_first_line_offset_def
  opentui_raw_text_buffer_view_set_selection_def
  opentui_raw_text_buffer_view_update_selection_def
  opentui_raw_text_buffer_view_reset_selection_def
  opentui_raw_text_buffer_view_reset_local_selection_def
  opentui_raw_text_buffer_view_set_viewport_size_def
  opentui_raw_text_buffer_view_set_viewport_def
  opentui_raw_text_buffer_view_set_tab_indicator_def
  opentui_raw_text_buffer_view_set_tab_indicator_color_def
  opentui_raw_text_buffer_view_set_truncate_def
  opentui_raw_native_renderable_set_measure_target_def
  opentui_raw_native_renderable_clear_measure_target_def
  opentui_raw_text_buffer_create_def
  opentui_raw_text_buffer_register_mem_buffer_def
  opentui_raw_syntax_style_create_def
  opentui_raw_syntax_style_register_def
  opentui_raw_text_buffer_view_create_def
  opentui_raw_text_buffer_view_set_local_selection_def
  opentui_raw_text_buffer_view_update_local_selection_def
  opentui_raw_text_buffer_view_get_selected_text_def
  opentui_raw_text_buffer_view_get_virtual_line_count_def
  opentui_raw_text_buffer_view_measure_for_dimensions_def
  opentui_raw_text_buffer_view_get_line_info_def
  opentui_raw_text_buffer_view_get_logical_line_info_def
  opentui_raw_native_renderable_create_def
  opentui_raw_text_buffer_destroy_def
  opentui_raw_syntax_style_destroy_def
  opentui_raw_text_buffer_view_destroy_def
  opentui_raw_native_renderable_destroy_def
  opentui_raw_text_buffer_length_def
  opentui_raw_text_buffer_byte_size_def
  opentui_raw_text_buffer_line_count_def
  opentui_raw_text_buffer_get_tab_width_def
  opentui_raw_syntax_style_resolve_def
  opentui_raw_syntax_style_count_def
  opentui_raw_text_buffer_view_get_selection_info_def

lemma text_call_audited: "text_call (audited_text N) s st s' \<Longrightarrow> snd s' = snd s"
  by (erule text_call.cases; hypsubst?; auto simp: text_defs read_unfolds spec_unfolds word_le_1
      read_byte_array_status_def small_code_ok [of _ 2, simplified]
      split: if_splits option.splits sum.splits dest!: reader_ok dest: read_byte_bigarray_ok)


lemma read_styled_chunk_ok: "read_styled_chunk v = Some (Some c) \<Longrightarrow> chunk_ok c"
  by (auto simp: read_styled_chunk_def chunk_ok_def read_unfolds split: if_splits dest!: reader_ok)

lemma read_chunk_cells_ok:
  "read_chunk_cells v n = Some (Some cs) \<Longrightarrow> length cs = n \<and> (\<forall>c \<in> set cs. chunk_ok c)"
proof (induction n arbitrary: v cs)
  case (Suc n)
  then obtain c next_cell rest where "read_styled_chunk (the (field v 0)) = Some (Some c)"
    "read_chunk_cells next_cell n = Some (Some rest)" "cs = c # rest"
    by (auto simp: read_unfolds)
  with Suc.IH show ?case by (auto dest: read_styled_chunk_ok)
qed simp

lemma read_styled_chunks_spec:
  assumes "read_styled_chunks alloc_fails v h = Some (r, h1)" "heap_ok h"
  shows "heap_ok h1 \<and> (case r of
      Out_of_memory \<Rightarrow> True
    | Returns None \<Rightarrow> h_live h1 = h_live h
    | Returns (Some (bs, cs, n)) \<Rightarrow> chunks_ok cs n \<and> (\<exists>h2. free_all bs h1 = Some h2 \<and> h_live h2 = h_live h
        \<and> heap_ok h2))"
proof (cases "count_chunks v 0")
  case (Some count)
  show ?thesis
  proof (cases "count = 0")
    case False
    obtain a h3 where a: "alloc_all alloc_fails [56 * unat count, 8 * unat count, 8 * unat count] h = (a, h3)"
      by fastforce
    note alloc = alloc_all_spec [OF a assms(2)]
    show ?thesis
    proof (cases a)
      case (Returns bs)
      with alloc_free [OF _ assms(2)] a obtain h2 where "free_all bs h3 = Some h2" "h_live h2 = h_live h" "heap_ok h2"
        by blast
      then show ?thesis using assms(1) Some False a Returns alloc
        by (auto simp: read_styled_chunks_def chunks_ok_def require_eq_Some
            simp del: alloc_all.simps dest: read_chunk_cells_ok)
    qed (use assms Some False a alloc in \<open>auto simp: read_styled_chunks_def simp del: alloc_all.simps\<close>)
  qed (use assms Some in \<open>auto simp: read_styled_chunks_def chunks_ok_def\<close>)
qed (use assms in \<open>auto simp: read_styled_chunks_def\<close>)

lemma set_styled_text_audited:
  "opentui_raw_text_buffer_set_styled_text (audited_text N) alloc_fails h v (w, s) = Some (r, w', s') \<Longrightarrow>
     heap_ok s \<Longrightarrow> snd w' = snd w \<and> heap_ok s'"
  unfolding opentui_raw_text_buffer_set_styled_text_def
  by (auto simp: read_unfolds split: if_splits outcome.splits dest!: read_styled_chunks_spec)

lemma text_step_audited:
  "text_step (audited_text N) (w, s) (w', s') \<Longrightarrow> heap_ok s \<Longrightarrow> snd w' = snd w \<and> heap_ok s'"
  by (erule text_step.cases; auto simp: text_defs read_unfolds spec_unfolds
      read_byte_array_status_def small_code_ok [of _ 1, simplified] local_selection_arguments_def
      length_cast_ok length_argument_ok
      split: if_splits option.splits sum.splits prod.splits dest!: reader_ok
      dest: read_byte_bigarray_ok text_call_audited set_styled_text_audited)


lemma text_reachable_audited:
  "text_reachable (audited_text N) w0 s \<Longrightarrow> snd (fst s) = snd w0 \<and> heap_ok (snd s)"
proof (induction rule: text_reachable.induct)
  case (step s s')
  then show ?case using text_step_audited [of N "fst s" "snd s" "fst s'" "snd s'"] by simp
qed (simp add: empty_heap_def heap_ok_def)

section \<open>Which values are lists of styled chunks\<close>

text \<open>The elements of a proper list.\<close>

fun list_cells :: "value \<Rightarrow> value list option" where
  "list_cells (Long n) = (if n = 0 then Some [] else None)"
| "list_cells (Block t [x, next_cell]) =
     (if t = 0 then map_option (\<lambda>xs. x # xs) (list_cells next_cell) else None)"
| "list_cells _ = None"

definition encodes_color :: "value \<Rightarrow> color option \<Rightarrow> bool" where
  "encodes_color v c \<longleftrightarrow>
     (case c of
        None \<Rightarrow> v = Val_none
      | Some c' \<Rightarrow> color_ok c' \<and> (\<exists>t u. v = Block t [Block u (map (\<lambda>x. Long (uint x)) c')]))"

definition encodes_link :: "value \<Rightarrow> bytes option \<Rightarrow> bool" where
  "encodes_link v l \<longleftrightarrow> (case l of None \<Rightarrow> v = Val_none | Some b \<Rightarrow> \<exists>t. v = Block t [Str b])"

definition encodes_chunk :: "value \<Rightarrow> styled_chunk \<Rightarrow> bool" where
  "encodes_chunk v c \<longleftrightarrow>
     (\<exists>fg bg link. v = Block 0 [Str (c_text c), fg, bg, Int32 (c_attributes c), link]
        \<and> encodes_color fg (c_fg c) \<and> encodes_color bg (c_bg c) \<and> encodes_link link (c_link c))"

definition encodes_chunks :: "value \<Rightarrow> styled_chunk list \<Rightarrow> bool" where
  "encodes_chunks v cs \<longleftrightarrow> (\<exists>xs. list_cells v = Some xs \<and> list_all2 encodes_chunk xs cs)"

lemma read_optional_color_iff: "read_optional_color v = Some (Some c) \<longleftrightarrow> encodes_color v c"
proof (cases v)
  case (Block t vs)
  then show ?thesis
    by (cases vs; cases "tl vs")
      (auto simp: read_optional_color_def encodes_color_def bind_eq_Some_conv read_color_iff
        split: option.splits)
qed (auto simp: read_optional_color_def encodes_color_def split: option.splits)

lemma is_option_string_iff: "is_option_string v = Some (Some l) \<longleftrightarrow> encodes_link v l"
proof (cases "\<exists>t x. v = Block t [x]")
  case True
  then obtain t x where "v = Block t [x]" by blast
  then show ?thesis
    by (cases x; cases l) (simp_all add: is_option_string_def encodes_link_def is_string_value_def)
next
  case False
  have "is_option_string v = Some (Some l) \<longleftrightarrow> v = Val_none \<and> l = None"
  proof (cases v)
    case (Block t vs)
    with False have "length vs \<noteq> 1" by (cases vs) auto
    with Block show ?thesis by (simp add: is_option_string_def)
  qed (auto simp: is_option_string_def)
  with False show ?thesis by (auto simp: encodes_link_def split: option.splits)
qed

lemma length_5: "length vs = 5 \<Longrightarrow> \<exists>a b c d e. vs = [a, b, c, d, e]"
  by (auto simp: numeral_eq_Suc length_Suc_conv)

lemma read_styled_chunk_iff: "read_styled_chunk v = Some (Some c) \<longleftrightarrow> encodes_chunk v c"
proof
  assume r: "read_styled_chunk v = Some (Some c)"
  then have "has_tag 0 v" "wosize_val v = 5" by (auto simp: read_styled_chunk_def split: if_splits)
  moreover from r obtain x where "field v 0 = Some x"
    by (auto simp: read_styled_chunk_def bind_eq_Some_conv split: if_splits)
  ultimately obtain a1 a2 a3 a4 a5 where v: "v = Block 0 [a1, a2, a3, a4, a5]"
    by (cases v) (auto dest: length_5)
  from r obtain t attributes where "a1 = Str t" "a4 = Int32 attributes"
    by (cases a1; cases a4) (auto simp: v read_styled_chunk_def is_string_value_def read_unfolds split: if_splits)
  with r show "encodes_chunk v c"
    by (auto simp: v encodes_chunk_def read_styled_chunk_def is_string_value_def read_unfolds
        read_optional_color_iff is_option_string_iff)
next
  assume "encodes_chunk v c"
  then obtain fg bg link where "v = Block 0 [Str (c_text c), fg, bg, Int32 (c_attributes c), link]"
    "read_optional_color fg = Some (Some (c_fg c))" "read_optional_color bg = Some (Some (c_bg c))"
    "is_option_string link = Some (Some (c_link c))"
    unfolding encodes_chunk_def read_optional_color_iff is_option_string_iff by blast
  then show "read_styled_chunk v = Some (Some c)"
    by (simp add: read_styled_chunk_def is_string_value_def)
qed

lemma count_chunks_cells:
  "k \<le> UINT32_MAX \<Longrightarrow> count_chunks v (of_nat k) =
     (case list_cells v of
        None \<Rightarrow> None
      | Some xs \<Rightarrow> if k + length xs \<le> UINT32_MAX then Some (of_nat (k + length xs)) else None)"
proof (induction v "of_nat k :: u64" arbitrary: k rule: count_chunks.induct)
  case (1 n)
  then show ?case by (simp add: unsigned_of_nat take_bit_nat_eq_self)
next
  case (2 t x next_cell)
  have "unat (of_nat (Suc k) :: u64) = Suc k" using 2(2) by (simp only: unat_of_nat) simp
  then have u: "unat (of_nat k + 1 :: u64) = Suc k" by (simp add: add.commute)
  have k: "of_nat k + 1 > (0xffffffff :: u64) \<longleftrightarrow> \<not> Suc k \<le> UINT32_MAX"
    unfolding word_less_nat_alt u by (simp add: not_le)
  have s: "of_nat (Suc k) = (of_nat k + 1 :: u64)" by (simp add: add.commute)
  show ?case
    using 2(1) [of "Suc k"] 2(2) unfolding count_chunks.simps k s
    by (auto split: option.splits simp flip: s)
qed simp_all

lemma read_chunk_cells_iff:
  "list_cells v = Some xs \<Longrightarrow>
     read_chunk_cells v (length xs) = Some (Some cs) \<longleftrightarrow> list_all2 encodes_chunk xs cs"
proof (induction v arbitrary: xs cs rule: list_cells.induct)
  case (2 t x next_cell)
  then obtain ys where "t = 0" "list_cells next_cell = Some ys" "xs = x # ys"
    by (auto split: if_splits)
  with 2 show ?case
    by (auto simp: require_eq_Some bind_eq_Some_conv read_styled_chunk_iff list_all2_Cons1)
qed (auto split: if_splits)

lemma read_styled_chunks_exact:
  assumes "read_styled_chunks alloc_fails v h = Some (Returns r, h1)"
  shows "case r of
      None \<Rightarrow> \<not> (\<exists>cs. encodes_chunks v cs \<and> length cs \<le> UINT32_MAX)
    | Some (bs, cs, n) \<Rightarrow> encodes_chunks v cs \<and> n = of_nat (length cs)"
proof (cases "list_cells v")
  case None
  then have "count_chunks v 0 = None" using count_chunks_cells [of 0 v] by simp
  with assms None show ?thesis by (simp add: read_styled_chunks_def encodes_chunks_def)
next
  case (Some xs)
  have same: "encodes_chunks v cs \<longleftrightarrow> list_all2 encodes_chunk xs cs" for cs
    using Some by (auto simp: encodes_chunks_def)
  have len: "list_all2 encodes_chunk xs cs \<Longrightarrow> length cs = length xs" for cs
    by (simp add: list_all2_lengthD)
  have count: "count_chunks v 0 = (if length xs \<le> UINT32_MAX then Some (of_nat (length xs)) else None)"
    using count_chunks_cells [of 0 v] Some by simp
  show ?thesis
  proof (cases "length xs \<le> UINT32_MAX")
    case True
    then have n: "unat (of_nat (length xs) :: u32) = length xs" by (simp add: unat_of_nat_32)
    then have z: "(of_nat (length xs) :: u32) = 0 \<longleftrightarrow> xs = []" using unat_eq_zero by force
    show ?thesis
    proof (cases "xs = []")
      case False
      then show ?thesis
        using assms count True z read_chunk_cells_iff [OF Some]
        by (auto simp: read_styled_chunks_def n same len require_eq_Some simp del: alloc_all.simps
            split: outcome.splits prod.splits)
    next
      case True
      then have "r = Some ([], [], 0)" using assms count by (simp add: read_styled_chunks_def)
      with True same [of "[]"] show ?thesis by simp
    qed
  next
    case False
    with assms count have "r = None" by (simp add: read_styled_chunks_def)
    moreover have "\<not> (encodes_chunks v cs \<and> length cs \<le> UINT32_MAX)" for cs
      unfolding same using len [of cs] False by auto
    ultimately show ?thesis by simp
  qed
qed

section \<open>Properties\<close>

text \<open>(C4) Whatever the arguments, the order of the calls and the allocations that fail, no stub of
  text_buffer_stubs.c or syntax_style_stubs.c calls the native library outside its specification:
  no zero handle, in a getter or elsewhere; no byte range but the one of its array (a bigarray as
  OCaml makes them; the length of a style name is cut to 32 bits); no line number, mode, color or
  measure target outside its range.\<close>

theorem text_calls_in_specification:
  assumes "text_reachable (audited_text N) (w0, False) ((w, misuse'), s)"
  shows "\<not> misuse'"
  using text_reachable_audited [OF assms] by simp

text \<open>(C14) Setting styled text succeeds exactly when the argument is a proper list of well-formed
  chunks; then the library gets exactly the encoded chunks and their number. Every other
  answer leaves the buffer alone, and the arrays on the C heap are released.\<close>

theorem styled_text_exact:
  assumes "opentui_raw_text_buffer_set_styled_text N alloc_fails handle v (w, h) = Some (Returns r, w', h')"
    and "heap_ok h" "v \<noteq> Val_emptylist"
  shows "h_live h' = h_live h
    \<and> (r = Ok \<longrightarrow> handle \<noteq> 0 \<and> (\<exists>cs. encodes_chunks v cs
        \<and> w' = textBufferSetStyledText (ts N) handle cs (of_nat (length cs)) w))
    \<and> (r \<noteq> Ok \<longrightarrow> w' = w \<and> (r = Stale_handle \<and> handle = 0 \<or>
        r = Invalid_argument \<and> \<not> (\<exists>cs. encodes_chunks v cs \<and> length cs \<le> UINT32_MAX)))"
proof (cases "handle = 0")
  case False
  with assms(1,3) obtain c h1 where c: "read_styled_chunks alloc_fails v h = Some (c, h1)"
    by (auto simp: opentui_raw_text_buffer_set_styled_text_def bind_eq_Some_conv)
  moreover from this assms(1,3) False obtain o' where "c = Returns o'"
    by (cases c) (auto simp: opentui_raw_text_buffer_set_styled_text_def)
  ultimately have read: "read_styled_chunks alloc_fails v h = Some (Returns o', h1)" by simp
  note spec = read_styled_chunks_spec [OF read assms(2)] read_styled_chunks_exact [OF read]
  show ?thesis
  proof (cases o')
    case None
    with assms(1,3) False read spec show ?thesis
      by (auto simp: opentui_raw_text_buffer_set_styled_text_def)
  next
    case (Some t)
    obtain bs cs n where t: "t = (bs, cs, n)" by (cases t) auto
    with assms(1,3) False read Some spec show ?thesis
      by (auto simp: opentui_raw_text_buffer_set_styled_text_def)
  qed
qed (use assms(1) in \<open>simp add: opentui_raw_text_buffer_set_styled_text_def\<close>)

section \<open>Witnesses\<close>

text \<open>A library whose world counts the chunks it was given.\<close>

definition toy_text :: "nat text_api" where
  "toy_text = \<lparr>
    tb = \<lparr>createTextBuffer = \<lambda>m w. (1, w), destroyTextBuffer = \<lambda>h w. w, textBufferClear = \<lambda>h w. 0,
      textBufferReset = \<lambda>h w. 0, textBufferAppend = \<lambda>h d n w. w, textBufferGetByteSize = \<lambda>h w. (0, w),
      textBufferGetLength = \<lambda>h w. (0, w), textBufferGetLineCount = \<lambda>h w. (0, w),
      textBufferRegisterMemBuffer = \<lambda>h d n b w. (0, w),
      textBufferReplaceMemBuffer = \<lambda>h i d n b w. (True, w), textBufferSetTextFromMem = \<lambda>h i w. w,
      textBufferLoadFile = \<lambda>h t n w. (True, w), textBufferGetTabWidth = \<lambda>h w. (4, w),
      textBufferSetTabWidth = \<lambda>h i w. w\<rparr>,
    ts = \<lparr>textBufferSetStyledText = \<lambda>h cs n w. length cs, textBufferClearAllHighlights = \<lambda>h w. w,
      textBufferAddHighlightByCharRange = \<lambda>h x w. w, textBufferAddHighlight = \<lambda>h l x w. w,
      textBufferRemoveHighlightsByRef = \<lambda>h i w. w, textBufferClearLineHighlights = \<lambda>h l w. w,
      textBufferSetDefaultFg = \<lambda>h c w. w, textBufferSetDefaultBg = \<lambda>h c w. w,
      textBufferSetDefaultAttributes = \<lambda>h a w. w, textBufferResetDefaults = \<lambda>h w. w,
      textBufferSetSyntaxStyle = \<lambda>h k w. (True, w), createSyntaxStyle = \<lambda>w. (1, w),
      destroySyntaxStyle = \<lambda>h w. w, syntaxStyleRegister = \<lambda>h t n c d a w. (1, w),
      syntaxStyleResolveByName = \<lambda>h t n w. (1, w), syntaxStyleGetStyleCount = \<lambda>h w. (1, w)\<rparr>,
    tv = \<lparr>createTextBufferView = \<lambda>h w. (1, w), destroyTextBufferView = \<lambda>h w. w,
      textBufferViewSetWrapWidth = \<lambda>h x w. w, textBufferViewSetWrapMode = \<lambda>h m w. w,
      textBufferViewSetFirstLineOffset = \<lambda>h x w. w, textBufferViewSetSelection = \<lambda>h x y c d w. w,
      textBufferViewUpdateSelection = \<lambda>h y c d w. w, textBufferViewResetSelection = \<lambda>h w. w,
      textBufferViewGetSelectionInfo = \<lambda>h w. (0, w),
      textBufferViewSetLocalSelection = \<lambda>h x y a b c d w. (True, w),
      textBufferViewUpdateLocalSelection = \<lambda>h x y a b c d w. (True, w),
      textBufferViewResetLocalSelection = \<lambda>h w. w,
      textBufferViewGetSelectedText = \<lambda>h t n w. ((0, t), w)\<rparr>,
    tp = \<lparr>textBufferViewSetViewportSize = \<lambda>h x y w. w, textBufferViewSetViewport = \<lambda>h x y a b w. w,
      textBufferViewGetVirtualLineCount = \<lambda>h w. (0, w), textBufferViewSetTabIndicator = \<lambda>h x w. w,
      textBufferViewSetTabIndicatorColor = \<lambda>h c w. w, textBufferViewSetTruncate = \<lambda>h b w. w,
      textBufferViewMeasureForDimensions = \<lambda>h x y w. (None, w),
      textBufferViewGetLineInfoDirect = \<lambda>h w. (\<lparr>start_cols = [], width_cols = [], sources = [],
        wraps = [], width_cols_max = 0\<rparr>, w),
      textBufferViewGetLogicalLineInfoDirect = \<lambda>h w. (\<lparr>start_cols = [], width_cols = [], sources = [],
        wraps = [], width_cols_max = 0\<rparr>, w),
      createNativeRenderable = \<lambda>w. (1, w), destroyNativeRenderable = \<lambda>h w. w,
      nativeRenderableSetMeasureTarget = \<lambda>h k t w. (True, w)\<rparr>\<rparr>"

text \<open>One chunk, the letter a in red, without background and link.\<close>

definition toy_chunk_list :: "value" where
  "toy_chunk_list = Block 0 [Block 0 [Str [97], Val_some (Block 0 [Long 255, Long 0, Long 0, Long 255]),
     Val_none, Int32 1, Val_none], Val_emptylist]"

theorem text_calls_in_specification_witness:
  "\<not> snd (snd (opentui_raw_text_buffer_view_set_wrap_mode (audited_text toy_text) 1 2 (0, False)))"
proof -
  obtain st w bad where r: "opentui_raw_text_buffer_view_set_wrap_mode (audited_text toy_text) 1 2 (0, False)
      = (st, w, bad)"
    by (cases "opentui_raw_text_buffer_view_set_wrap_mode (audited_text toy_text) 1 2 (0, False)") auto
  have "text_reachable (audited_text toy_text) (0, False) ((w, bad), empty_heap)"
    by (rule text_reachable.step [OF text_reachable.start text_step.intros(1)], rule text_call.intros, rule r)
  from text_calls_in_specification [OF this] r show ?thesis by simp
qed

lemma toy_red: "read_color (Block 0 [Long 255, Long 0, Long 0, Long 255]) = Some (Some [255, 0, 0, 255])"
  by (simp add: read_color_iff color_ok_def)

lemma toy_styled:
  "\<exists>w' h'. opentui_raw_text_buffer_set_styled_text toy_text (\<lambda>_. False) 1 toy_chunk_list (0, empty_heap)
     = Some (Returns Ok, w', h')"
  by (simp add: opentui_raw_text_buffer_set_styled_text_def toy_chunk_list_def read_styled_chunks_def
      read_styled_chunk_def is_string_value_def read_optional_color_def toy_red
      is_option_string_def toy_text_def empty_heap_def caml_stat_alloc_def caml_stat_free_def)

theorem styled_text_exact_witness:
  "\<exists>h'. opentui_raw_text_buffer_set_styled_text toy_text (\<lambda>_. False) 1 toy_chunk_list (0, empty_heap)
     = Some (Returns Ok, 1, h') \<and> h_live h' = []"
proof -
  obtain w' h' where r: "opentui_raw_text_buffer_set_styled_text toy_text (\<lambda>_. False) 1 toy_chunk_list (0, empty_heap)
     = Some (Returns Ok, w', h')" using toy_styled by blast
  have "heap_ok empty_heap" "toy_chunk_list \<noteq> Val_emptylist"
    by (simp_all add: heap_ok_def empty_heap_def toy_chunk_list_def)
  from styled_text_exact [OF r this] r show ?thesis
    by (auto simp: toy_text_def empty_heap_def toy_chunk_list_def encodes_chunks_def list_all2_Cons1)
qed

end
