(* ===== verification/Wgpu_Diag.thy ===== *)
theory Wgpu_Diag
  imports Ring Values "HOL-Library.Char_ord"
begin

text \<open>
  wgpu_stubs.c, the diagnostics: a ring of 256 lines of 255 characters, written by callbacks of
  the GPU library (on any thread, under a mutex) and by the stubs, and drained by OCaml. Each
  push and each drain holds the mutex, so they are atomic. A C string is the list of its bytes
  before the terminator.
\<close>

section \<open>C strings\<close>

definition ascii :: "string \<Rightarrow> bytes" where
  "ascii = map of_char"

text \<open>What \<open>%s\<close> and strlen see of a buffer.\<close>

definition c_string :: "bytes \<Rightarrow> bytes" where
  "c_string = takeWhile (\<lambda>b. b \<noteq> 0)"

text \<open>snprintf into a buffer of \<open>n\<close> bytes: the text is cut before the terminator.\<close>

definition snprintf :: "nat \<Rightarrow> bytes \<Rightarrow> bytes" where
  "snprintf n t = take (n - 1) t"

fun decimal :: "nat \<Rightarrow> bytes" where
  "decimal n = (if n < 10 then [of_nat (48 + n)] else decimal (n div 10) @ [of_nat (48 + n mod 10)])"

declare decimal.simps [simp del]

definition decimal_int :: "int \<Rightarrow> bytes" where
  "decimal_int i = (if i < 0 then 45 # decimal (nat (- i)) else decimal (nat i))"

section \<open>Messages of the library\<close>

text \<open>WGPUStringView: None for a NULL pointer, else the bytes that can be read behind it.\<close>

record string_view =
  sv_data :: "bytes option"
  sv_length :: u64

text \<open>The bytes copied before the terminator the code writes. Reading past the end is undefined.\<close>

definition opentui_wgpu_copy_message :: "nat \<Rightarrow> string_view \<Rightarrow> bytes option" where
  "opentui_wgpu_copy_message destination_size message =
     (case sv_data message of
        None \<Rightarrow> Some []
      | Some bs \<Rightarrow>
          if sv_length message = 0 then Some []
          else do {
            measured \<leftarrow> (if sv_length message = - 1
              then (if 0 \<in> set bs then Some (length (c_string bs)) else None)
              else Some (unat (sv_length message)));
            let n = (if measured \<ge> destination_size then destination_size - 1 else measured);
            if n \<le> length bs then Some (take n bs) else None
          })"

section \<open>The ring\<close>

abbreviation OPENTUI_WGPU_DIAG_SLOTS :: nat where "OPENTUI_WGPU_DIAG_SLOTS \<equiv> 256"
abbreviation OPENTUI_WGPU_DIAG_LINE :: nat where "OPENTUI_WGPU_DIAG_LINE \<equiv> 256"

record diag_ring =
  diag_lines :: "nat \<Rightarrow> bytes"
  diag_head :: int
  diag_count :: int

definition empty_diag :: diag_ring where
  "empty_diag = \<lparr>diag_lines = (\<lambda>_. []), diag_head = 0, diag_count = 0\<rparr>"

definition opentui_wgpu_diag_push :: "bytes \<Rightarrow> diag_ring \<Rightarrow> diag_ring" where
  "opentui_wgpu_diag_push text d =
     d\<lparr>diag_lines := (diag_lines d)(nat (diag_head d) := snprintf OPENTUI_WGPU_DIAG_LINE (c_string text)),
       diag_head := (diag_head d + 1) mod int OPENTUI_WGPU_DIAG_SLOTS,
       diag_count := (if diag_count d < int OPENTUI_WGPU_DIAG_SLOTS then diag_count d + 1 else diag_count d)\<rparr>"

text \<open>The callbacks. The line is built in a buffer of 256 bytes from a message of at most 223.\<close>

definition opentui_wgpu_uncaptured_error :: "int \<Rightarrow> string_view \<Rightarrow> diag_ring \<Rightarrow> diag_ring option" where
  "opentui_wgpu_uncaptured_error type message d = do {
     message_text \<leftarrow> opentui_wgpu_copy_message (OPENTUI_WGPU_DIAG_LINE - 32) message;
     let line = snprintf OPENTUI_WGPU_DIAG_LINE
           (ascii ''uncaptured gpu error (type '' @ decimal_int type @ ascii ''): '' @ c_string message_text);
     Some (opentui_wgpu_diag_push line d)
   }"

definition opentui_wgpu_log_callback :: "int \<Rightarrow> string_view \<Rightarrow> diag_ring \<Rightarrow> diag_ring option" where
  "opentui_wgpu_log_callback level message d = do {
     message_text \<leftarrow> opentui_wgpu_copy_message (OPENTUI_WGPU_DIAG_LINE - 32) message;
     let line = snprintf OPENTUI_WGPU_DIAG_LINE
           (ascii ''wgpu['' @ decimal_int level @ ascii '']: '' @ c_string message_text);
     Some (opentui_wgpu_diag_push line d)
   }"

text \<open>The copying loop of the drain, from \<open>count\<close> on; the sum in the index is not negative.\<close>

function drain_lines :: "diag_ring \<Rightarrow> int \<Rightarrow> int \<Rightarrow> bytes list" where
  "drain_lines d count remaining =
     (if count < diag_count d \<and> remaining > 0
      then
        let index = (diag_head d - diag_count d + count + int OPENTUI_WGPU_DIAG_SLOTS)
              mod int OPENTUI_WGPU_DIAG_SLOTS in
        diag_lines d (nat index) # drain_lines d (count + 1) (remaining - 1)
      else [])"
  by pat_completeness auto
termination
  by (relation "measure (\<lambda>(d, count, remaining). nat remaining)") auto

declare drain_lines.simps [simp del]

text \<open>The part of the drain under the mutex: the lines and the ring without them.\<close>

definition take_lines :: "int \<Rightarrow> diag_ring \<Rightarrow> bytes list \<times> diag_ring" where
  "take_lines remaining d =
     (let drained = drain_lines d 0 remaining; count = int (length drained) in
      (drained,
       if count = diag_count d then d\<lparr>diag_head := 0, diag_count := 0\<rparr>
       else d\<lparr>diag_count := diag_count d - count\<rparr>))"

text \<open>
  The OCaml list is built after the mutex is released, from the last line to the first. The
  \<open>k\<close>-th allocation of the loop may raise (\<open>oom k\<close>) or collect (\<open>collects k\<close>). The C
  variables \<open>cell\<close> and \<open>list\<close> are no roots, so a collection invalidates the block they
  point to; Store_field evaluates the new value, here the allocation of the string, before it
  uses the block. A turn that uses an invalidated block is undefined: it writes to the old
  address of the cell, or stores the old address of the list in it.
\<close>

fun is_block :: "value \<Rightarrow> bool" where
  "is_block (Long n) = False"
| "is_block _ = True"

fun build_list :: "(nat \<Rightarrow> bool) \<Rightarrow> (nat \<Rightarrow> bool) \<Rightarrow> nat \<Rightarrow> bytes list \<Rightarrow> value \<Rightarrow> value outcome option" where
  "build_list oom collects k [] list = Some (Returns list)"
| "build_list oom collects k (line # lines) list =
     (if oom k \<or> oom (Suc k) then Some Out_of_memory
      else if collects k \<and> is_block list \<or> collects (Suc k) then None
      else build_list oom collects (Suc (Suc k)) lines (Block 0 [Str (c_string line), list]))"

definition opentui_wgpu_drain_diagnostics ::
  "(nat \<Rightarrow> bool) \<Rightarrow> (nat \<Rightarrow> bool) \<Rightarrow> int \<Rightarrow> diag_ring \<Rightarrow> value outcome option \<times> diag_ring" where
  "opentui_wgpu_drain_diagnostics oom collects max_value d =
     (let (drained, d1) = take_lines (to_int max_value) d in
      (build_list oom collects 0 (rev drained) (Long 0), d1))"

section \<open>The ring is a log of the most recent lines\<close>

definition diag_ok :: "diag_ring \<Rightarrow> bool" where
  "diag_ok d \<longleftrightarrow> 0 \<le> diag_head d \<and> diag_head d < int OPENTUI_WGPU_DIAG_SLOTS \<and>
     0 \<le> diag_count d \<and> diag_count d \<le> int OPENTUI_WGPU_DIAG_SLOTS"

definition pending_lines :: "diag_ring \<Rightarrow> bytes list" where
  "pending_lines d = ring_list OPENTUI_WGPU_DIAG_SLOTS (diag_lines d)
     (nat (diag_head d - diag_count d + int OPENTUI_WGPU_DIAG_SLOTS)) (nat (diag_count d))"

text \<open>What a pushed text becomes.\<close>

definition diag_line :: "bytes \<Rightarrow> bytes" where
  "diag_line t = take 255 (c_string t)"

lemma ring_list_mod: "ring_list c q (h mod c) n = ring_list c q h n"
  by (simp add: ring_list_def mod_add_left_eq)

lemma ring_list_cong: "h mod c = h' mod c \<Longrightarrow> ring_list c q h n = ring_list c q h' n"
  using ring_list_mod [of c q h n] ring_list_mod [of c q h' n] by simp

lemma ring_list_drop: "drop m (ring_list c q h n) = ring_list c q (h + m) (n - m)"
  by (rule nth_equalityI) (simp_all add: ring_list_def ac_simps less_diff_conv)

lemma push_law:
  assumes "diag_ok d"
  shows "diag_ok (opentui_wgpu_diag_push t d) \<and>
    pending_lines (opentui_wgpu_diag_push t d) = keep_last 256 (pending_lines d @ [diag_line t])"
proof -
  define h where "h = nat (diag_head d)"
  define n where "n = nat (diag_count d)"
  have d: "diag_head d = int h" "diag_count d = int n" "h < 256" "n \<le> 256"
    using assms by (auto simp: diag_ok_def h_def n_def)
  let ?q = "(diag_lines d)(h := diag_line t)" and ?h' = "(h + 1) mod 256"
  have line: "snprintf 256 (c_string t) = diag_line t" by (simp add: snprintf_def diag_line_def)
  have head: "(int h + 1) mod 256 = int ?h'" by (simp add: zmod_int add.commute)
  have before: "pending_lines d = ring_list 256 (diag_lines d) (h + 256 - n) n"
  proof -
    have "nat (int h - int n + 256) = h + 256 - n" using d(4) by arith
    then show ?thesis by (simp add: pending_lines_def d(1,2))
  qed
  have ok: "diag_ok (opentui_wgpu_diag_push t d)"
    using d by (simp add: diag_ok_def opentui_wgpu_diag_push_def)
  show ?thesis
  proof (cases "n < 256")
    case True
    have "pending_lines (opentui_wgpu_diag_push t d) = ring_list 256 ?q (?h' + 256 - Suc n) (Suc n)"
    proof -
      have "nat (255 + (int x - int n)) = 255 + x - n" for x using True by arith
      then show ?thesis using True d by (simp add: pending_lines_def opentui_wgpu_diag_push_def line head nat_add_distrib)
    qed
    also have "\<dots> = ring_list 256 ?q (h + 256 - n) (Suc n)"
    proof (rule ring_list_cong, cases "h = 255")
      case False
      then have "?h' + 256 - Suc n = h + 256 - n" using d(3) by simp
      then show "(?h' + 256 - Suc n) mod 256 = (h + 256 - n) mod 256" by simp
    next
      case h: True
      have "255 + 256 - n = 255 - n + 256" using True by simp
      then have "(255 + 256 - n) mod 256 = (255 - n) mod 256" by (simp only: mod_add_self2)
      moreover have "(255 + 1) mod 256 + 256 - Suc n = 255 - n" by simp
      ultimately show "(?h' + 256 - Suc n) mod 256 = (h + 256 - n) mod 256" unfolding h by simp
    qed
    also have "\<dots> = ring_list 256 (diag_lines d) (h + 256 - n) n @ [diag_line t]"
      using ring_list_push [OF True, of "diag_lines d" "h + 256 - n" "diag_line t"] d(3) True by simp
    finally show ?thesis using ok before True by (simp add: keep_last_all)
  next
    case False
    with d have n: "n = 256" by simp
    have "pending_lines (opentui_wgpu_diag_push t d) = ring_list 256 ?q ?h' (Suc 255)"
      using n d by (simp add: pending_lines_def opentui_wgpu_diag_push_def line head)
    also have "\<dots> = ring_list 256 (diag_lines d) ?h' 255 @ [diag_line t]"
    proof -
      have "(?h' + 255) mod 256 = h" using d(3) by (cases "h = 255") auto
      then show ?thesis using ring_list_push [of 255 256 "diag_lines d" ?h' "diag_line t"] by simp
    qed
    also have "ring_list 256 (diag_lines d) ?h' 255 = drop 1 (ring_list 256 (diag_lines d) h 256)"
      unfolding ring_list_drop by (simp add: ring_list_mod)
    finally show ?thesis using ok before n by (simp add: keep_last_def)
  qed
qed

lemma drain_lines_take:
  assumes "diag_ok d"
  shows "k \<le> nat (diag_count d) \<Longrightarrow>
    drain_lines d (int k) r = take (nat r) (drop k (pending_lines d))"
proof (induction "nat r" arbitrary: k r)
  case 0
  then show ?case by (simp add: drain_lines.simps)
next
  case (Suc m)
  define n where "n = nat (diag_count d)"
  have n: "diag_count d = int n" using assms by (simp add: diag_ok_def n_def)
  have len: "length (pending_lines d) = n" by (simp add: pending_lines_def n)
  show ?case
  proof (cases "k < n")
    case True
    have r: "0 < r" "nat r = Suc m" "m = nat (r - 1)" using Suc(2) by linarith+
    have at: "pending_lines d ! k = diag_lines d (nat ((diag_head d - diag_count d + int k + 256) mod 256))"
    proof -
      have "0 \<le> diag_head d - diag_count d + 256" using assms by (simp add: diag_ok_def)
      then have "int (nat (diag_head d - diag_count d + 256) + k) = diag_head d - diag_count d + int k + 256"
        by simp
      then have "(nat (diag_head d - diag_count d + 256) + k) mod 256
          = nat ((diag_head d - diag_count d + int k + 256) mod 256)"
        by (metis nat_int of_nat_mod of_nat_numeral)
      then show ?thesis using True by (simp add: pending_lines_def ring_list_def n)
    qed
    have "drain_lines d (int k) r = pending_lines d ! k # drain_lines d (int (Suc k)) (r - 1)"
      using True r n by (subst drain_lines.simps) (simp add: at add.commute)
    also have "\<dots> = pending_lines d ! k # take m (drop (Suc k) (pending_lines d))"
      using Suc(1) [of "r - 1" "Suc k"] r(3) True n by simp
    also have "\<dots> = take (Suc m) (drop k (pending_lines d))"
      using True len by (simp add: Cons_nth_drop_Suc [symmetric])
    finally show ?thesis using r(2) by simp
  next
    case False
    then show ?thesis using n len by (simp add: drain_lines.simps)
  qed
qed

lemma take_law:
  assumes "diag_ok d"
  shows "diag_ok (snd (take_lines r d)) \<and> fst (take_lines r d) = take (nat r) (pending_lines d) \<and>
    pending_lines (snd (take_lines r d)) = drop (nat r) (pending_lines d)"
proof -
  define n where "n = nat (diag_count d)"
  have n: "diag_count d = int n" "n \<le> 256" using assms by (auto simp: diag_ok_def n_def)
  have len: "length (pending_lines d) = n" by (simp add: pending_lines_def n)
  have l: "drain_lines d 0 r = take (nat r) (pending_lines d)"
    using drain_lines_take [OF assms, of 0 r] by simp
  show ?thesis
  proof (cases "nat r < n")
    case True
    have "0 \<le> diag_head d - diag_count d + 256" using assms by (simp add: diag_ok_def)
    then have "nat (diag_head d - int (n - nat r) + 256) = nat (diag_head d - diag_count d + 256) + nat r"
      using True n(1) by (simp add: of_nat_diff nat_eq_iff)
    then show ?thesis
      using True assms n len by (auto simp: take_lines_def l diag_ok_def pending_lines_def ring_list_drop
          of_nat_diff Let_def nat_diff_distrib')
  next
    case False
    then show ?thesis using assms len n by (simp add: take_lines_def l diag_ok_def pending_lines_def)
  qed
qed

interpretation dg: recent_log 256 diag_ok pending_lines diag_line opentui_wgpu_diag_push "\<lambda>n. take_lines (int n)"
proof
  fix d :: diag_ring and t :: bytes and n :: nat
  show "diag_ok d \<Longrightarrow> diag_ok (opentui_wgpu_diag_push t d) \<and>
      pending_lines (opentui_wgpu_diag_push t d) = keep_last 256 (pending_lines d @ [diag_line t])"
    by (rule push_law)
  show "diag_ok d \<Longrightarrow> diag_ok (snd (take_lines (int n) d)) \<and>
      fst (take_lines (int n) d) = take n (pending_lines d) \<and>
      pending_lines (snd (take_lines (int n) d)) = drop n (pending_lines d)"
    using take_law [of d "int n"] by simp
  show "diag_ok d \<Longrightarrow> length (pending_lines d) \<le> 256"
    by (auto simp: diag_ok_def pending_lines_def)
qed

end
