(* ===== verification/Wgpu_Api.thy ===== *)
theory Wgpu_Api
  imports Wgpu_Diag
begin

text \<open>
  The GPU library as wgpu_stubs.c sees it: the enumerators of its headers, the descriptors the
  stubs fill (a field the code leaves zero by memset and never sets is omitted), and one field
  per function. The functions act on the native world together with the diagnostic ring, since
  any of them may report through a callback. Objects are pointers of 64 bits, NULL is 0.
\<close>

section \<open>Enumerators\<close>

record gpu_constants =
  WGPUWaitStatus_Error :: u32
  WGPULogLevel_Warn :: u32
  WGPUTextureDimension_2D :: u32
  WGPUTextureAspect_All :: u32
  WGPUTextureFormat_RGBA8Unorm :: u32
  WGPUTextureUsage_RenderAttachment :: u64
  WGPUTextureUsage_CopySrc :: u64
  WGPUTextureUsage_CopyDst :: u64
  WGPUTextureUsage_TextureBinding :: u64
  WGPUBufferUsage_MapRead :: u64
  WGPUBufferUsage_CopyDst :: u64
  WGPUBufferUsage_Storage :: u64
  WGPUMapMode_Read :: u64
  WGPUShaderStage_Vertex :: u64
  WGPUShaderStage_Fragment :: u64
  WGPUShaderStage_Compute :: u64
  WGPUBufferUsage_Vertex :: u64
  WGPUBufferUsage_Index :: u64
  WGPUBufferUsage_Uniform :: u64
  WGPUMapAsyncStatus_Success :: u32

record gpu_binding_constants =
  WGPUBufferBindingType_Uniform :: u32
  WGPUBufferBindingType_Storage :: u32
  WGPUTextureSampleType_Float :: u32
  WGPUTextureViewDimension_2D :: u32
  WGPUSamplerBindingType_Filtering :: u32
  WGPUMipmapFilterMode_Nearest :: u32
  WGPUVertexFormat_Float32x3 :: u32
  WGPUVertexFormat_Float32x2 :: u32
  WGPUVertexStepMode_Vertex :: u32
  WGPUPrimitiveTopology_TriangleList :: u32
  WGPUFrontFace_CCW :: u32
  WGPUCullMode_Back :: u32
  WGPUCullMode_None :: u32
  WGPUColorWriteMask_All :: u64
  WGPULoadOp_Clear :: u32
  WGPUStoreOp_Store :: u32
  WGPUIndexFormat_Uint16 :: u32
  WGPU_DEPTH_SLICE_UNDEFINED :: u32
  WGPU_WHOLE_SIZE :: u64

section \<open>Descriptors\<close>

record texture_descriptor =
  td_label :: bytes
  td_usage :: u64
  td_dimension :: u32
  td_size :: "u32 \<times> u32 \<times> u32"
  td_format :: u32
  td_mip_level_count :: u32
  td_sample_count :: u32

record buffer_descriptor =
  bd_label :: bytes
  bd_usage :: u64
  bd_size :: u64
  bd_mapped_at_creation :: bool

text \<open>One side of a copy between a texture and memory.\<close>

record texel_layout =
  tl_offset :: u64
  tl_bytes_per_row :: u32
  tl_rows_per_image :: u32

record layout_entry =
  le_binding :: u32
  le_visibility :: u64
  le_buffer_type :: u32
  le_texture_sample_type :: u32
  le_texture_view_dimension :: u32
  le_sampler_type :: u32

definition zero_layout_entry :: layout_entry where
  "zero_layout_entry = \<lparr>le_binding = 0, le_visibility = 0, le_buffer_type = 0,
     le_texture_sample_type = 0, le_texture_view_dimension = 0, le_sampler_type = 0\<rparr>"

record group_entry =
  ge_binding :: u32
  ge_buffer :: u64
  ge_offset :: u64
  ge_size :: u64
  ge_texture_view :: u64
  ge_sampler :: u64

definition zero_group_entry :: group_entry where
  "zero_group_entry = \<lparr>ge_binding = 0, ge_buffer = 0, ge_offset = 0, ge_size = 0,
     ge_texture_view = 0, ge_sampler = 0\<rparr>"

text \<open>Vertex attributes are format, offset and shader location.\<close>

record render_pipeline_descriptor =
  rp_label :: bytes
  rp_layout :: u64
  rp_module :: u64
  rp_vertex_entry :: bytes
  rp_attributes :: "(u32 \<times> u64 \<times> u32) list"
  rp_array_stride :: u64
  rp_step_mode :: u32
  rp_topology :: u32
  rp_front_face :: u32
  rp_cull_mode :: u32
  rp_fragment_entry :: bytes
  rp_target_format :: u32
  rp_write_mask :: u64
  rp_sample_count :: u32
  rp_sample_mask :: u32

record sampler_descriptor =
  sd_label :: bytes
  sd_address_u :: u32
  sd_address_v :: u32
  sd_address_w :: u32
  sd_mag_filter :: u32
  sd_min_filter :: u32
  sd_mipmap_filter :: u32
  sd_lod :: "rat \<times> rat"
  sd_max_anisotropy :: u16

record render_pass_descriptor =
  pd_label :: bytes
  pd_view :: u64
  pd_depth_slice :: u32
  pd_load_op :: u32
  pd_store_op :: u32
  pd_clear :: "fp \<times> fp \<times> fp \<times> fp"

section \<open>Functions\<close>

text \<open>What a one-shot callback is called with.\<close>

record completion =
  cp_status :: i32
  cp_handle :: u64
  cp_message :: string_view

type_synonym 'w gpu = "'w \<times> diag_ring"

text \<open>
  What the library keeps to report with: the log callback, and the callback for uncaptured errors
  in the descriptor of a device.
\<close>

type_synonym diag_callback = "int \<Rightarrow> string_view \<Rightarrow> diag_ring \<Rightarrow> diag_ring option"

text \<open>
  A call that registers a callback, WaitAny and DevicePoll may fire it; then they return what it
  was called with. clock_gettime answers seconds and nanoseconds.
\<close>

record 'w gpu_device_api =
  wgpuCreateInstance :: "'w gpu \<Rightarrow> u64 \<times> 'w gpu"
  wgpuInstanceRelease :: "u64 \<Rightarrow> 'w gpu \<Rightarrow> 'w gpu"
  wgpuInstanceRequestAdapter :: "u64 \<Rightarrow> 'w gpu \<Rightarrow> (u64 \<times> completion option) \<times> 'w gpu"
  wgpuInstanceWaitAny :: "u64 \<Rightarrow> u64 \<Rightarrow> 'w gpu \<Rightarrow> (u32 \<times> completion option) \<times> 'w gpu"
  wgpuAdapterRelease :: "u64 \<Rightarrow> 'w gpu \<Rightarrow> 'w gpu"
  wgpuAdapterRequestDevice ::
    "u64 \<Rightarrow> diag_callback \<Rightarrow> 'w gpu \<Rightarrow> (u64 \<times> completion option) \<times> 'w gpu"
  wgpuDeviceRelease :: "u64 \<Rightarrow> 'w gpu \<Rightarrow> 'w gpu"
  wgpuDeviceGetQueue :: "u64 \<Rightarrow> 'w gpu \<Rightarrow> u64 \<times> 'w gpu"
  wgpuQueueRelease :: "u64 \<Rightarrow> 'w gpu \<Rightarrow> 'w gpu"
  wgpuSetLogCallback :: "diag_callback \<Rightarrow> 'w gpu \<Rightarrow> 'w gpu"
  wgpuSetLogLevel :: "u32 \<Rightarrow> 'w gpu \<Rightarrow> 'w gpu"
  wgpuDevicePoll :: "u64 \<Rightarrow> 'w gpu \<Rightarrow> completion option \<times> 'w gpu"
  clock_gettime :: "'w gpu \<Rightarrow> (int \<times> int) \<times> 'w gpu"
  usleep :: "nat \<Rightarrow> 'w gpu \<Rightarrow> 'w gpu"

text \<open>The mapped range is None for NULL, else the bytes that can be read there.\<close>

record 'w gpu_memory_api =
  wgpuDeviceCreateTexture :: "u64 \<Rightarrow> texture_descriptor \<Rightarrow> 'w gpu \<Rightarrow> u64 \<times> 'w gpu"
  wgpuTextureRelease :: "u64 \<Rightarrow> 'w gpu \<Rightarrow> 'w gpu"
  wgpuTextureCreateView :: "u64 \<Rightarrow> 'w gpu \<Rightarrow> u64 \<times> 'w gpu"
  wgpuTextureViewRelease :: "u64 \<Rightarrow> 'w gpu \<Rightarrow> 'w gpu"
  wgpuDeviceCreateBuffer :: "u64 \<Rightarrow> buffer_descriptor \<Rightarrow> 'w gpu \<Rightarrow> u64 \<times> 'w gpu"
  wgpuBufferRelease :: "u64 \<Rightarrow> 'w gpu \<Rightarrow> 'w gpu"
  wgpuBufferMapAsync :: "u64 \<Rightarrow> u64 \<Rightarrow> u64 \<Rightarrow> u64 \<Rightarrow> 'w gpu \<Rightarrow> completion option \<times> 'w gpu"
  wgpuBufferGetMappedRange :: "u64 \<Rightarrow> u64 \<Rightarrow> u64 \<Rightarrow> 'w gpu \<Rightarrow> bytes option \<times> 'w gpu"
  wgpuBufferUnmap :: "u64 \<Rightarrow> 'w gpu \<Rightarrow> 'w gpu"
  wgpuQueueWriteBuffer :: "u64 \<Rightarrow> u64 \<Rightarrow> u64 \<Rightarrow> bytes \<Rightarrow> 'w gpu \<Rightarrow> 'w gpu"
  wgpuQueueWriteTexture ::
    "u64 \<Rightarrow> u64 \<times> u32 \<Rightarrow> bytes \<Rightarrow> texel_layout \<Rightarrow> u32 \<times> u32 \<times> u32 \<Rightarrow> 'w gpu \<Rightarrow> 'w gpu"

text \<open>A texture of a copy is the texture with its aspect; a buffer comes with its layout.\<close>

record 'w gpu_command_api =
  wgpuDeviceCreateCommandEncoder :: "u64 \<Rightarrow> bytes \<Rightarrow> 'w gpu \<Rightarrow> u64 \<times> 'w gpu"
  wgpuCommandEncoderRelease :: "u64 \<Rightarrow> 'w gpu \<Rightarrow> 'w gpu"
  wgpuCommandEncoderCopyTextureToBuffer ::
    "u64 \<Rightarrow> u64 \<times> u32 \<Rightarrow> texel_layout \<times> u64 \<Rightarrow> u32 \<times> u32 \<times> u32 \<Rightarrow> 'w gpu \<Rightarrow> 'w gpu"
  wgpuCommandEncoderCopyBufferToBuffer :: "u64 \<Rightarrow> u64 \<Rightarrow> u64 \<Rightarrow> u64 \<Rightarrow> u64 \<Rightarrow> u64 \<Rightarrow> 'w gpu \<Rightarrow> 'w gpu"
  wgpuCommandEncoderFinish :: "u64 \<Rightarrow> 'w gpu \<Rightarrow> u64 \<times> 'w gpu"
  wgpuCommandBufferRelease :: "u64 \<Rightarrow> 'w gpu \<Rightarrow> 'w gpu"
  wgpuQueueSubmit :: "u64 \<Rightarrow> u64 list \<Rightarrow> 'w gpu \<Rightarrow> 'w gpu"
  wgpuCommandEncoderBeginRenderPass :: "u64 \<Rightarrow> render_pass_descriptor \<Rightarrow> 'w gpu \<Rightarrow> u64 \<times> 'w gpu"
  wgpuRenderPassEncoderSetPipeline :: "u64 \<Rightarrow> u64 \<Rightarrow> 'w gpu \<Rightarrow> 'w gpu"
  wgpuRenderPassEncoderSetBindGroup :: "u64 \<Rightarrow> u32 \<Rightarrow> u64 \<Rightarrow> 'w gpu \<Rightarrow> 'w gpu"
  wgpuRenderPassEncoderSetVertexBuffer :: "u64 \<Rightarrow> u32 \<Rightarrow> u64 \<Rightarrow> u64 \<Rightarrow> u64 \<Rightarrow> 'w gpu \<Rightarrow> 'w gpu"
  wgpuRenderPassEncoderSetIndexBuffer :: "u64 \<Rightarrow> u64 \<Rightarrow> u32 \<Rightarrow> u64 \<Rightarrow> u64 \<Rightarrow> 'w gpu \<Rightarrow> 'w gpu"
  wgpuRenderPassEncoderDrawIndexed :: "u64 \<Rightarrow> u32 \<Rightarrow> u32 \<Rightarrow> u32 \<Rightarrow> i32 \<Rightarrow> u32 \<Rightarrow> 'w gpu \<Rightarrow> 'w gpu"
  wgpuRenderPassEncoderEnd :: "u64 \<Rightarrow> 'w gpu \<Rightarrow> 'w gpu"
  wgpuRenderPassEncoderRelease :: "u64 \<Rightarrow> 'w gpu \<Rightarrow> 'w gpu"
  wgpuCommandEncoderBeginComputePass :: "u64 \<Rightarrow> bytes \<Rightarrow> 'w gpu \<Rightarrow> u64 \<times> 'w gpu"
  wgpuComputePassEncoderSetPipeline :: "u64 \<Rightarrow> u64 \<Rightarrow> 'w gpu \<Rightarrow> 'w gpu"
  wgpuComputePassEncoderSetBindGroup :: "u64 \<Rightarrow> u32 \<Rightarrow> u64 \<Rightarrow> 'w gpu \<Rightarrow> 'w gpu"
  wgpuComputePassEncoderDispatchWorkgroups :: "u64 \<Rightarrow> u32 \<Rightarrow> u32 \<Rightarrow> u32 \<Rightarrow> 'w gpu \<Rightarrow> 'w gpu"
  wgpuComputePassEncoderEnd :: "u64 \<Rightarrow> 'w gpu \<Rightarrow> 'w gpu"
  wgpuComputePassEncoderRelease :: "u64 \<Rightarrow> 'w gpu \<Rightarrow> 'w gpu"

record 'w gpu_pipeline_api =
  wgpuDeviceCreateShaderModule :: "u64 \<Rightarrow> bytes \<Rightarrow> bytes \<Rightarrow> 'w gpu \<Rightarrow> u64 \<times> 'w gpu"
  wgpuShaderModuleRelease :: "u64 \<Rightarrow> 'w gpu \<Rightarrow> 'w gpu"
  wgpuDeviceCreateBindGroupLayout :: "u64 \<Rightarrow> bytes \<Rightarrow> layout_entry list \<Rightarrow> 'w gpu \<Rightarrow> u64 \<times> 'w gpu"
  wgpuBindGroupLayoutRelease :: "u64 \<Rightarrow> 'w gpu \<Rightarrow> 'w gpu"
  wgpuDeviceCreatePipelineLayout :: "u64 \<Rightarrow> bytes \<Rightarrow> u64 list \<Rightarrow> 'w gpu \<Rightarrow> u64 \<times> 'w gpu"
  wgpuPipelineLayoutRelease :: "u64 \<Rightarrow> 'w gpu \<Rightarrow> 'w gpu"
  wgpuDeviceCreateRenderPipeline :: "u64 \<Rightarrow> render_pipeline_descriptor \<Rightarrow> 'w gpu \<Rightarrow> u64 \<times> 'w gpu"
  wgpuRenderPipelineRelease :: "u64 \<Rightarrow> 'w gpu \<Rightarrow> 'w gpu"
  wgpuDeviceCreateBindGroup :: "u64 \<Rightarrow> bytes \<Rightarrow> u64 \<Rightarrow> group_entry list \<Rightarrow> 'w gpu \<Rightarrow> u64 \<times> 'w gpu"
  wgpuBindGroupRelease :: "u64 \<Rightarrow> 'w gpu \<Rightarrow> 'w gpu"
  wgpuDeviceCreateComputePipeline :: "u64 \<Rightarrow> bytes \<Rightarrow> u64 \<Rightarrow> u64 \<Rightarrow> bytes \<Rightarrow> 'w gpu \<Rightarrow> u64 \<times> 'w gpu"
  wgpuComputePipelineRelease :: "u64 \<Rightarrow> 'w gpu \<Rightarrow> 'w gpu"
  wgpuDeviceCreateSampler :: "u64 \<Rightarrow> sampler_descriptor \<Rightarrow> 'w gpu \<Rightarrow> u64 \<times> 'w gpu"
  wgpuSamplerRelease :: "u64 \<Rightarrow> 'w gpu \<Rightarrow> 'w gpu"

record 'w gpu_api =
  gc :: gpu_constants
  gb :: gpu_binding_constants
  gd :: "'w gpu_device_api"
  gm :: "'w gpu_memory_api"
  gk :: "'w gpu_command_api"
  gp :: "'w gpu_pipeline_api"

end
