(* ===== verification/Fp64.thy ===== *)
theory Fp64
  imports Fp
begin

text \<open>
  Rounding of a sum or quotient of doubles: to nearest, ties to even, on the binary64 grid.
  The exponent range is that of doubles without the overflow, which no use of it here reaches.
\<close>

text \<open>The least power of two from \<open>2^-1074\<close> on that covers \<open>r\<close> with a 53-bit significand.\<close>

fun f64_quantum :: "nat \<Rightarrow> rat \<Rightarrow> rat \<Rightarrow> rat" where
  "f64_quantum 0 q r = q"
| "f64_quantum (Suc n) q r = (if \<bar>r\<bar> < 2 ^ 53 * q then q else f64_quantum n (2 * q) r)"

definition round_f64 :: "rat \<Rightarrow> rat" where
  "round_f64 r = (let q = f64_quantum 2045 (1 / 2 ^ 1074) r in of_int (round_even (r / q)) * q)"

lemma f64_quantum_spec:
  "\<exists>k. f64_quantum n q r = 2 ^ k * q \<and> (k = 0 \<or> 2 ^ 52 * (2 ^ k * q) \<le> \<bar>r\<bar>)"
proof (induction n arbitrary: q)
  case (Suc n)
  show ?case
  proof (cases "\<bar>r\<bar> < 2 ^ 53 * q")
    case False
    obtain k where k: "f64_quantum n (2 * q) r = 2 ^ k * (2 * q)"
      "k = 0 \<or> 2 ^ 52 * (2 ^ k * (2 * q)) \<le> \<bar>r\<bar>" using Suc by blast
    have "2 ^ 52 * (2 ^ Suc k * q) \<le> \<bar>r\<bar>" using k(2) False by (auto simp: not_less)
    with k(1) False show ?thesis by (intro exI [of _ "Suc k"]) (simp add: mult.assoc mult.left_commute)
  qed (auto intro: exI [of _ 0])
qed (auto intro: exI [of _ 0])

text \<open>Rounding does not cross an integer that a double represents exactly.\<close>

lemma round_f64_ge_int:
  fixes k :: int
  assumes "of_int k \<le> r" "\<bar>k\<bar> \<le> 2 ^ 52"
  shows "of_int k \<le> round_f64 r"
proof -
  define m :: nat where "m = 1074"
  obtain j where q: "f64_quantum 2045 (1 / 2 ^ m) r = 2 ^ j * (1 / 2 ^ m)"
    and j: "j = 0 \<or> 2 ^ 52 * (2 ^ j * (1 / 2 ^ m)) \<le> \<bar>r\<bar>" using f64_quantum_spec by blast
  let ?q = "2 ^ j * (1 / 2 ^ m) :: rat"
  have round: "round_f64 r = of_int (round_even (r / ?q)) * ?q"
    unfolding round_f64_def Let_def m_def [symmetric] q ..
  have qpos: "0 < ?q" by simp
  have scale: "of_int K * ?q \<le> round_f64 r" if "of_int K * ?q \<le> r" for K
  proof -
    have "of_int K \<le> r / ?q" using that qpos by (simp only: pos_le_divide_eq)
    then have "(of_int K :: rat) \<le> of_int (round_even (r / ?q))" using round_even_ge_int by simp
    then show ?thesis unfolding round using qpos by (intro mult_right_mono) auto
  qed
  show ?thesis
  proof (cases "j \<le> m")
    case True
    have "(2 :: rat) ^ m = 2 ^ (m - j) * 2 ^ j" using True by (simp flip: power_add)
    then have "of_int (k * 2 ^ (m - j)) * ?q = of_int k" by simp
    with scale [of "k * 2 ^ (m - j)"] assms(1) show ?thesis by simp
  next
    case False
    have "1 \<le> ?q"
    proof -
      have "(2 :: rat) ^ m \<le> 2 ^ j" using False by (intro power_increasing) auto
      then show ?thesis by simp
    qed
    then have one: "2 ^ 52 \<le> 2 ^ 52 * ?q" using mult_left_mono [of 1 ?q "2 ^ 52"] by (simp only: mult_1_right) simp
    have big: "2 ^ 52 * ?q \<le> \<bar>r\<bar>" using j False by auto
    have "(of_int (- (2 ^ 52)) :: rat) \<le> of_int k" "(of_int k :: rat) \<le> of_int (2 ^ 52)"
      unfolding of_int_le_iff using assms(2) by arith+
    then have k: "- (2 ^ 52) \<le> (of_int k :: rat)" "(of_int k :: rat) \<le> 2 ^ 52" by simp_all
    show ?thesis
    proof (cases "0 \<le> r")
      case True
      with big have "of_int (2 ^ 52) * ?q \<le> r" by simp
      from scale [OF this] one k(2) show ?thesis by simp
    next
      case False
      with big one k(1) assms(1) have "r = of_int k" "of_int (- (2 ^ 52)) * ?q = r" by simp_all
      then show ?thesis using scale [of "- (2 ^ 52)"] by simp
    qed
  qed
qed

end
