(* ===== verification/Wgpu.thy ===== *)
theory Wgpu
  imports Wgpu_Api Fp64
begin

text \<open>
  wgpu_stubs.c, first part: results, blocking requests, and the objects of a frame (instance,
  adapter, device, textures, buffers, encoders, readback). Every asynchronous request is waited
  for: a loop calls the library until the one-shot callback has filled the wait record, the
  library fails, or (for a buffer map) ten seconds have passed. The result None of a stub stands
  for a wait that never ends or a read outside a buffer. OCaml integers and records are decoded
  as the code does, by casts without tests.
\<close>

section \<open>Values and results\<close>

definition int64_field :: "value \<Rightarrow> nat \<Rightarrow> u64 option" where
  "int64_field v i = Option.bind (field v i) int64_val"

definition u32_field :: "value \<Rightarrow> nat \<Rightarrow> u32 option" where
  "u32_field v i = map_option word_of_int (Option.bind (field v i) long_val)"

definition string_field :: "value \<Rightarrow> nat \<Rightarrow> bytes option" where
  "string_field v i = Option.bind (field v i) string_val"

definition opentui_wgpu_label :: "string \<Rightarrow> bytes" where
  "opentui_wgpu_label text = ascii text"

definition opentui_wgpu_make_result :: "i32 \<Rightarrow> u64 \<Rightarrow> bytes \<Rightarrow> value" where
  "opentui_wgpu_make_result status handle message =
     Block 0 [Long (sint status), Int64 handle, Str (c_string message)]"

definition opentui_wgpu_make_handle_pair :: "bool \<Rightarrow> u64 \<Rightarrow> value" where
  "opentui_wgpu_make_handle_pair succeeded handle = Block 0 [Val_bool succeeded, Int64 handle]"

section \<open>Waiting\<close>

abbreviation OPENTUI_WGPU_WAIT_FAILURE :: i32 where "OPENTUI_WGPU_WAIT_FAILURE \<equiv> - 1"
abbreviation OPENTUI_WGPU_MAP_TIMEOUT_SECONDS :: rat where "OPENTUI_WGPU_MAP_TIMEOUT_SECONDS \<equiv> 10"

record gpu_wait =
  w_done :: bool
  w_status :: i32
  w_handle :: u64
  w_message :: bytes

definition zero_wait :: gpu_wait where
  "zero_wait = \<lparr>w_done = False, w_status = 0, w_handle = 0, w_message = []\<rparr>"

definition opentui_wgpu_adapter_callback :: "completion \<Rightarrow> gpu_wait \<Rightarrow> gpu_wait option" where
  "opentui_wgpu_adapter_callback c wait = do {
     message \<leftarrow> opentui_wgpu_copy_message 256 (cp_message c);
     Some (wait\<lparr>w_done := True, w_status := cp_status c, w_handle := cp_handle c, w_message := message\<rparr>)
   }"

definition opentui_wgpu_device_callback :: "completion \<Rightarrow> gpu_wait \<Rightarrow> gpu_wait option" where
  "opentui_wgpu_device_callback c wait = do {
     message \<leftarrow> opentui_wgpu_copy_message 256 (cp_message c);
     Some (wait\<lparr>w_done := True, w_status := cp_status c, w_handle := cp_handle c, w_message := message\<rparr>)
   }"

definition opentui_wgpu_buffer_map_callback :: "completion \<Rightarrow> gpu_wait \<Rightarrow> gpu_wait option" where
  "opentui_wgpu_buffer_map_callback c wait = do {
     message \<leftarrow> opentui_wgpu_copy_message 256 (cp_message c);
     Some (wait\<lparr>w_done := True, w_status := cp_status c, w_handle := 0, w_message := message\<rparr>)
   }"

text \<open>A call of the library that may fire the callback.\<close>

fun deliver :: "(completion \<Rightarrow> gpu_wait \<Rightarrow> gpu_wait option) \<Rightarrow> completion option \<Rightarrow> gpu_wait \<Rightarrow> gpu_wait option"
where
  "deliver callback None wait = Some wait"
| "deliver callback (Some c) wait = callback c wait"

partial_function (option) wait_loop ::
  "'w gpu_api \<Rightarrow> (completion \<Rightarrow> gpu_wait \<Rightarrow> gpu_wait option) \<Rightarrow> u64 \<Rightarrow> u64 \<Rightarrow> gpu_wait \<Rightarrow> 'w gpu
     \<Rightarrow> (gpu_wait \<times> 'w gpu) option" where
  "wait_loop N callback instance_handle future wait s =
     (if w_done wait then Some (wait, s)
      else
        let ((status, fired), s1) = wgpuInstanceWaitAny (gd N) instance_handle future s in
        Option.bind (deliver callback fired wait) (\<lambda>wait1.
          if status = WGPUWaitStatus_Error (gc N) then Some (wait1, s1)
          else wait_loop N callback instance_handle future wait1 s1))"

definition opentui_wgpu_wait_for ::
  "'w gpu_api \<Rightarrow> (completion \<Rightarrow> gpu_wait \<Rightarrow> gpu_wait option) \<Rightarrow> gpu_wait \<Rightarrow> u64 \<Rightarrow> u64 \<Rightarrow> 'w gpu
     \<Rightarrow> (gpu_wait \<times> 'w gpu) option" where
  "opentui_wgpu_wait_for N callback wait instance_handle future s = do {
     (wait1, s1) \<leftarrow> wait_loop N callback instance_handle future wait s;
     Some (if \<not> w_done wait1
       then wait1\<lparr>w_status := OPENTUI_WGPU_WAIT_FAILURE, w_handle := 0,
         w_message := snprintf 256 (ascii ''wgpuInstanceWaitAny returned without completing the operation'')\<rparr>
       else wait1, s1)
   }"

section \<open>Instance, adapter, device, queue\<close>

definition opentui_wgpu_enable_diagnostics :: "'w gpu_api \<Rightarrow> 'w gpu \<Rightarrow> 'w gpu" where
  "opentui_wgpu_enable_diagnostics N s =
     wgpuSetLogLevel (gd N) (WGPULogLevel_Warn (gc N)) (wgpuSetLogCallback (gd N) opentui_wgpu_log_callback s)"

definition opentui_wgpu_instance_create ::
  "'w gpu_api \<Rightarrow> bool \<Rightarrow> 'w gpu \<Rightarrow> value outcome \<times> 'w gpu" where
  "opentui_wgpu_instance_create N oom s =
     (let (instance_handle, s1) = wgpuCreateInstance (gd N) s in
      (allocating oom (opentui_wgpu_make_handle_pair (instance_handle \<noteq> NULL) instance_handle), s1))"

definition opentui_wgpu_instance_release :: "'w gpu_api \<Rightarrow> u64 \<Rightarrow> 'w gpu \<Rightarrow> 'w gpu" where
  "opentui_wgpu_instance_release N instance_handle s = wgpuInstanceRelease (gd N) instance_handle s"

definition opentui_wgpu_instance_request_adapter ::
  "'w gpu_api \<Rightarrow> bool \<Rightarrow> u64 \<Rightarrow> 'w gpu \<Rightarrow> (value outcome \<times> 'w gpu) option" where
  "opentui_wgpu_instance_request_adapter N oom instance_handle s =
     (let ((future, fired), s1) = wgpuInstanceRequestAdapter (gd N) instance_handle s in do {
        wait \<leftarrow> deliver opentui_wgpu_adapter_callback fired zero_wait;
        (wait1, s2) \<leftarrow> opentui_wgpu_wait_for N opentui_wgpu_adapter_callback wait instance_handle future s1;
        Some (allocating oom
          (opentui_wgpu_make_result (w_status wait1) (w_handle wait1) (w_message wait1)), s2)
      })"

definition opentui_wgpu_adapter_release :: "'w gpu_api \<Rightarrow> u64 \<Rightarrow> 'w gpu \<Rightarrow> 'w gpu" where
  "opentui_wgpu_adapter_release N adapter s = wgpuAdapterRelease (gd N) adapter s"

definition opentui_wgpu_adapter_request_device ::
  "'w gpu_api \<Rightarrow> bool \<Rightarrow> u64 \<Rightarrow> u64 \<Rightarrow> 'w gpu \<Rightarrow> (value outcome \<times> 'w gpu) option" where
  "opentui_wgpu_adapter_request_device N oom instance_handle adapter s =
     (let ((future, fired), s1) = wgpuAdapterRequestDevice (gd N) adapter
            opentui_wgpu_uncaptured_error s in do {
        wait \<leftarrow> deliver opentui_wgpu_device_callback fired zero_wait;
        (wait1, s2) \<leftarrow> opentui_wgpu_wait_for N opentui_wgpu_device_callback wait instance_handle future s1;
        Some (allocating oom
          (opentui_wgpu_make_result (w_status wait1) (w_handle wait1) (w_message wait1)), s2)
      })"

definition opentui_wgpu_device_release :: "'w gpu_api \<Rightarrow> u64 \<Rightarrow> 'w gpu \<Rightarrow> 'w gpu" where
  "opentui_wgpu_device_release N device s = wgpuDeviceRelease (gd N) device s"

definition opentui_wgpu_device_get_queue ::
  "'w gpu_api \<Rightarrow> bool \<Rightarrow> u64 \<Rightarrow> 'w gpu \<Rightarrow> value outcome \<times> 'w gpu" where
  "opentui_wgpu_device_get_queue N oom device s =
     (let (queue, s1) = wgpuDeviceGetQueue (gd N) device s in (allocating oom (Int64 queue), s1))"

definition opentui_wgpu_queue_release :: "'w gpu_api \<Rightarrow> u64 \<Rightarrow> 'w gpu \<Rightarrow> 'w gpu" where
  "opentui_wgpu_queue_release N queue s = wgpuQueueRelease (gd N) queue s"

section \<open>Textures, buffers, encoders\<close>

definition opentui_wgpu_device_create_texture ::
  "'w gpu_api \<Rightarrow> bool \<Rightarrow> u64 \<Rightarrow> value \<Rightarrow> 'w gpu \<Rightarrow> (value outcome \<times> 'w gpu) option" where
  "opentui_wgpu_device_create_texture N oom device options s = do {
     width \<leftarrow> u32_field options 0;
     height \<leftarrow> u32_field options 1;
     usage \<leftarrow> int64_field options 3;
     format \<leftarrow> u32_field options 2;
     let (texture, s1) = wgpuDeviceCreateTexture (gm N) device
           \<lparr>td_label = opentui_wgpu_label ''opentui-wgpu-render-target'', td_usage = usage,
            td_dimension = WGPUTextureDimension_2D (gc N), td_size = (width, height, 1),
            td_format = format, td_mip_level_count = 1, td_sample_count = 1\<rparr> s;
     Some (allocating oom (opentui_wgpu_make_handle_pair (texture \<noteq> NULL) texture), s1)
   }"

definition opentui_wgpu_texture_release :: "'w gpu_api \<Rightarrow> u64 \<Rightarrow> 'w gpu \<Rightarrow> 'w gpu" where
  "opentui_wgpu_texture_release N texture s = wgpuTextureRelease (gm N) texture s"

definition opentui_wgpu_texture_create_view ::
  "'w gpu_api \<Rightarrow> bool \<Rightarrow> u64 \<Rightarrow> 'w gpu \<Rightarrow> value outcome \<times> 'w gpu" where
  "opentui_wgpu_texture_create_view N oom texture s =
     (let (view, s1) = wgpuTextureCreateView (gm N) texture s in
      (allocating oom (opentui_wgpu_make_handle_pair (view \<noteq> NULL) view), s1))"

definition opentui_wgpu_texture_view_release :: "'w gpu_api \<Rightarrow> u64 \<Rightarrow> 'w gpu \<Rightarrow> 'w gpu" where
  "opentui_wgpu_texture_view_release N view s = wgpuTextureViewRelease (gm N) view s"

definition opentui_wgpu_device_create_buffer ::
  "'w gpu_api \<Rightarrow> bool \<Rightarrow> u64 \<Rightarrow> value \<Rightarrow> 'w gpu \<Rightarrow> (value outcome \<times> 'w gpu) option" where
  "opentui_wgpu_device_create_buffer N oom device options s = do {
     usage \<leftarrow> int64_field options 1;
     nbytes \<leftarrow> int64_field options 0;
     let (buffer, s1) = wgpuDeviceCreateBuffer (gm N) device
           \<lparr>bd_label = opentui_wgpu_label ''opentui-wgpu-readback'', bd_usage = usage, bd_size = nbytes,
            bd_mapped_at_creation = False\<rparr> s;
     Some (allocating oom (opentui_wgpu_make_handle_pair (buffer \<noteq> NULL) buffer), s1)
   }"

definition opentui_wgpu_buffer_release :: "'w gpu_api \<Rightarrow> u64 \<Rightarrow> 'w gpu \<Rightarrow> 'w gpu" where
  "opentui_wgpu_buffer_release N buffer s = wgpuBufferRelease (gm N) buffer s"

definition opentui_wgpu_device_create_command_encoder ::
  "'w gpu_api \<Rightarrow> bool \<Rightarrow> u64 \<Rightarrow> 'w gpu \<Rightarrow> value outcome \<times> 'w gpu" where
  "opentui_wgpu_device_create_command_encoder N oom device s =
     (let (encoder, s1) = wgpuDeviceCreateCommandEncoder (gk N) device
            (opentui_wgpu_label ''opentui-wgpu-frame-encoder'') s in
      (allocating oom (opentui_wgpu_make_handle_pair (encoder \<noteq> NULL) encoder), s1))"

definition opentui_wgpu_command_encoder_release :: "'w gpu_api \<Rightarrow> u64 \<Rightarrow> 'w gpu \<Rightarrow> 'w gpu" where
  "opentui_wgpu_command_encoder_release N encoder s = wgpuCommandEncoderRelease (gk N) encoder s"

definition opentui_wgpu_encoder_copy_texture_to_buffer ::
  "'w gpu_api \<Rightarrow> u64 \<Rightarrow> u64 \<Rightarrow> u64 \<Rightarrow> value \<Rightarrow> 'w gpu \<Rightarrow> 'w gpu option" where
  "opentui_wgpu_encoder_copy_texture_to_buffer N encoder texture buffer copy_region s = do {
     height \<leftarrow> u32_field copy_region 1;
     bytes_per_row \<leftarrow> u32_field copy_region 2;
     width \<leftarrow> u32_field copy_region 0;
     Some (wgpuCommandEncoderCopyTextureToBuffer (gk N) encoder
       (texture, WGPUTextureAspect_All (gc N))
       (\<lparr>tl_offset = 0, tl_bytes_per_row = bytes_per_row, tl_rows_per_image = height\<rparr>, buffer)
       (width, height, 1) s)
   }"

definition opentui_wgpu_command_encoder_finish ::
  "'w gpu_api \<Rightarrow> bool \<Rightarrow> u64 \<Rightarrow> 'w gpu \<Rightarrow> value outcome \<times> 'w gpu" where
  "opentui_wgpu_command_encoder_finish N oom encoder s =
     (let (command_buffer, s1) = wgpuCommandEncoderFinish (gk N) encoder s in
      (allocating oom (opentui_wgpu_make_handle_pair (command_buffer \<noteq> NULL) command_buffer), s1))"

definition opentui_wgpu_command_buffer_release :: "'w gpu_api \<Rightarrow> u64 \<Rightarrow> 'w gpu \<Rightarrow> 'w gpu" where
  "opentui_wgpu_command_buffer_release N command_buffer s =
     wgpuCommandBufferRelease (gk N) command_buffer s"

definition opentui_wgpu_queue_submit_one :: "'w gpu_api \<Rightarrow> u64 \<Rightarrow> u64 \<Rightarrow> 'w gpu \<Rightarrow> 'w gpu" where
  "opentui_wgpu_queue_submit_one N queue command s = wgpuQueueSubmit (gk N) queue [command] s"

section \<open>Readback\<close>

text \<open>The double sum \<open>(double)(now.tv_sec - start.tv_sec) + (double)(...) / 1e9\<close>.\<close>

definition elapsed_seconds :: "int \<times> int \<Rightarrow> int \<times> int \<Rightarrow> rat" where
  "elapsed_seconds start now =
     round_f64 (round_f64 (of_int (fst now - fst start))
       + round_f64 (of_int (snd now - snd start) / 1000000000))"

text \<open>\<open>%.1f\<close> of a number that is not negative: the exact value rounded to tenths, ties to even.\<close>

definition format_tenths :: "rat \<Rightarrow> bytes" where
  "format_tenths r =
     (let t = nat (round_even (r * 10)) in decimal (t div 10) @ [46] @ decimal (t mod 10))"

partial_function (option) map_loop ::
  "'w gpu_api \<Rightarrow> u64 \<Rightarrow> int \<times> int \<Rightarrow> gpu_wait \<Rightarrow> 'w gpu \<Rightarrow> (gpu_wait \<times> 'w gpu) option" where
  "map_loop N device start wait s =
     (if w_done wait then Some (wait, s)
      else
        let (fired, s1) = wgpuDevicePoll (gd N) device s in
        Option.bind (deliver opentui_wgpu_buffer_map_callback fired wait) (\<lambda>wait1.
          if w_done wait1 then Some (wait1, s1)
          else
            let (now, s2) = clock_gettime (gd N) s1; elapsed = elapsed_seconds start now in
            if elapsed \<ge> OPENTUI_WGPU_MAP_TIMEOUT_SECONDS
            then Some (wait1\<lparr>w_status := OPENTUI_WGPU_WAIT_FAILURE,
              w_message := snprintf 256
                (ascii ''buffer map timed out after '' @ format_tenths elapsed @ ascii '' seconds'')\<rparr>, s2)
            else map_loop N device start wait1 (usleep (gd N) 1000 s2)))"

definition opentui_wgpu_buffer_map_read_blocking ::
  "'w gpu_api \<Rightarrow> bool \<Rightarrow> u64 \<Rightarrow> u64 \<Rightarrow> u64 \<Rightarrow> 'w gpu \<Rightarrow> (value outcome \<times> 'w gpu) option"
where
  "opentui_wgpu_buffer_map_read_blocking N oom device buffer nbytes s =
     (let (fired, s1) = wgpuBufferMapAsync (gm N) buffer (WGPUMapMode_Read (gc N)) 0 nbytes s in do {
        wait \<leftarrow> deliver opentui_wgpu_buffer_map_callback fired zero_wait;
        let (start, s2) = clock_gettime (gd N) s1;
        (wait1, s3) \<leftarrow> map_loop N device start wait s2;
        Some (allocating oom (opentui_wgpu_make_result (w_status wait1) 0 (w_message wait1)), s3)
      })"

text \<open>
  The copy into a bigarray: the size is compared as a signed number with the length of the
  bigarray, then cast to size_t; reading or writing past an array is undefined. The second result
  is the destination after the call.
\<close>

definition opentui_wgpu_buffer_get_mapped_range_copy ::
  "'w gpu_api \<Rightarrow> u64 \<Rightarrow> u64 \<Rightarrow> u64 \<Rightarrow> byte_bigarray \<Rightarrow> 'w gpu \<Rightarrow> (int \<times> byte_bigarray \<times> 'w gpu) option"
where
  "opentui_wgpu_buffer_get_mapped_range_copy N buffer range_start nbytes destination s =
     (if sint nbytes > sint (dim destination ! 0) then Some (0, destination, s)
      else
        let (mapped, s1) = wgpuBufferGetMappedRange (gm N) buffer range_start nbytes s in
        case mapped of
          None \<Rightarrow> Some (0, destination, s1)
        | Some source \<Rightarrow>
            let n = unat nbytes in
            if n > length source \<or> n > length (ba_data destination) then None
            else Some (1, destination\<lparr>ba_data := take n source @ drop n (ba_data destination)\<rparr>, s1))"

definition opentui_wgpu_buffer_unmap :: "'w gpu_api \<Rightarrow> u64 \<Rightarrow> 'w gpu \<Rightarrow> 'w gpu" where
  "opentui_wgpu_buffer_unmap N buffer s = wgpuBufferUnmap (gm N) buffer s"

section \<open>Constants handed to OCaml\<close>

definition opentui_wgpu_texture_format_rgba8_unorm :: "'w gpu_api \<Rightarrow> value" where
  "opentui_wgpu_texture_format_rgba8_unorm N = Long (uint (WGPUTextureFormat_RGBA8Unorm (gc N)))"

definition opentui_wgpu_texture_usage_render_attachment :: "'w gpu_api \<Rightarrow> bool \<Rightarrow> value outcome" where
  "opentui_wgpu_texture_usage_render_attachment N oom =
     allocating oom (Int64 (WGPUTextureUsage_RenderAttachment (gc N)))"

definition opentui_wgpu_texture_usage_copy_source :: "'w gpu_api \<Rightarrow> bool \<Rightarrow> value outcome" where
  "opentui_wgpu_texture_usage_copy_source N oom = allocating oom (Int64 (WGPUTextureUsage_CopySrc (gc N)))"

definition opentui_wgpu_texture_usage_copy_destination :: "'w gpu_api \<Rightarrow> bool \<Rightarrow> value outcome" where
  "opentui_wgpu_texture_usage_copy_destination N oom = allocating oom (Int64 (WGPUTextureUsage_CopyDst (gc N)))"

definition opentui_wgpu_texture_usage_texture_binding :: "'w gpu_api \<Rightarrow> bool \<Rightarrow> value outcome" where
  "opentui_wgpu_texture_usage_texture_binding N oom =
     allocating oom (Int64 (WGPUTextureUsage_TextureBinding (gc N)))"

definition opentui_wgpu_buffer_usage_map_read :: "'w gpu_api \<Rightarrow> bool \<Rightarrow> value outcome" where
  "opentui_wgpu_buffer_usage_map_read N oom = allocating oom (Int64 (WGPUBufferUsage_MapRead (gc N)))"

definition opentui_wgpu_buffer_usage_copy_destination :: "'w gpu_api \<Rightarrow> bool \<Rightarrow> value outcome" where
  "opentui_wgpu_buffer_usage_copy_destination N oom = allocating oom (Int64 (WGPUBufferUsage_CopyDst (gc N)))"

definition opentui_wgpu_buffer_usage_storage :: "'w gpu_api \<Rightarrow> bool \<Rightarrow> value outcome" where
  "opentui_wgpu_buffer_usage_storage N oom = allocating oom (Int64 (WGPUBufferUsage_Storage (gc N)))"

end
