(* ===== verification/Wgpu_Draw.thy ===== *)
theory Wgpu_Draw
  imports Wgpu
begin

text \<open>
  wgpu_stubs.c, second part: shaders, layouts, pipelines, bind groups, uploads, the draw pass and
  the compute pass. A stub that creates a pipeline object also writes a diagnostic line with
  the new pointer.
\<close>

section \<open>Shaders, layouts, groups\<close>

text \<open>\<open>snprintf(d, 96, "CREATE name -> %llu", ...); opentui_wgpu_diag_push(d);\<close>\<close>

definition note_created :: "string \<Rightarrow> u64 \<Rightarrow> 'w gpu \<Rightarrow> 'w gpu" where
  "note_created name object = (\<lambda>(w, d).
     (w, opentui_wgpu_diag_push
        (snprintf 96 (ascii ''CREATE '' @ ascii name @ ascii '' -> '' @ decimal (unat object))) d))"

definition opentui_wgpu_device_create_shader_module ::
  "'w gpu_api \<Rightarrow> bool \<Rightarrow> u64 \<Rightarrow> bytes \<Rightarrow> 'w gpu \<Rightarrow> value outcome \<times> 'w gpu" where
  "opentui_wgpu_device_create_shader_module N oom device wgsl s =
     (let (shader, s1) = wgpuDeviceCreateShaderModule (gp N) device
            (opentui_wgpu_label ''opentui-wgpu-shader'') wgsl s;
          s2 = note_created ''shader'' shader s1 in
      (allocating oom (opentui_wgpu_make_handle_pair (shader \<noteq> NULL) shader), s2))"

definition opentui_wgpu_shader_module_release :: "'w gpu_api \<Rightarrow> u64 \<Rightarrow> 'w gpu \<Rightarrow> 'w gpu" where
  "opentui_wgpu_shader_module_release N shader s = wgpuShaderModuleRelease (gp N) shader s"

definition opentui_wgpu_device_create_uniform_bind_group_layout ::
  "'w gpu_api \<Rightarrow> bool \<Rightarrow> u64 \<Rightarrow> 'w gpu \<Rightarrow> value outcome \<times> 'w gpu" where
  "opentui_wgpu_device_create_uniform_bind_group_layout N oom device s =
     (let entry = zero_layout_entry\<lparr>
            le_visibility := WGPUShaderStage_Vertex (gc N) OR WGPUShaderStage_Fragment (gc N),
            le_buffer_type := WGPUBufferBindingType_Uniform (gb N)\<rparr>;
          (layout, s1) = wgpuDeviceCreateBindGroupLayout (gp N) device
            (opentui_wgpu_label ''opentui-wgpu-uniform-layout'') [entry] s;
          s2 = note_created ''bgl'' layout s1 in
      (allocating oom (opentui_wgpu_make_handle_pair (layout \<noteq> NULL) layout), s2))"

definition opentui_wgpu_bind_group_layout_release :: "'w gpu_api \<Rightarrow> u64 \<Rightarrow> 'w gpu \<Rightarrow> 'w gpu" where
  "opentui_wgpu_bind_group_layout_release N layout s = wgpuBindGroupLayoutRelease (gp N) layout s"

definition opentui_wgpu_device_create_pipeline_layout ::
  "'w gpu_api \<Rightarrow> bool \<Rightarrow> u64 \<Rightarrow> u64 \<Rightarrow> 'w gpu \<Rightarrow> value outcome \<times> 'w gpu" where
  "opentui_wgpu_device_create_pipeline_layout N oom device bind_group_layout s =
     (let (layout, s1) = wgpuDeviceCreatePipelineLayout (gp N) device
            (opentui_wgpu_label ''opentui-wgpu-pipeline-layout'') [bind_group_layout] s;
          s2 = note_created ''pl'' layout s1 in
      (allocating oom (opentui_wgpu_make_handle_pair (layout \<noteq> NULL) layout), s2))"

definition opentui_wgpu_pipeline_layout_release :: "'w gpu_api \<Rightarrow> u64 \<Rightarrow> 'w gpu \<Rightarrow> 'w gpu" where
  "opentui_wgpu_pipeline_layout_release N layout s = wgpuPipelineLayoutRelease (gp N) layout s"

text \<open>Position and normal, 24 bytes a vertex.\<close>

definition opentui_wgpu_device_create_render_pipeline ::
  "'w gpu_api \<Rightarrow> bool \<Rightarrow> u64 \<Rightarrow> value \<Rightarrow> 'w gpu \<Rightarrow> (value outcome \<times> 'w gpu) option" where
  "opentui_wgpu_device_create_render_pipeline N oom device options s = do {
     layout \<leftarrow> int64_field options 0;
     shader \<leftarrow> int64_field options 1;
     vs_name \<leftarrow> string_field options 2;
     fs_name \<leftarrow> string_field options 3;
     target_format \<leftarrow> u32_field options 4;
     let (pipeline, s1) = wgpuDeviceCreateRenderPipeline (gp N) device
           \<lparr>rp_label = opentui_wgpu_label ''opentui-wgpu-render-pipeline'', rp_layout = layout,
            rp_module = shader, rp_vertex_entry = c_string vs_name,
            rp_attributes = [(WGPUVertexFormat_Float32x3 (gb N), 0, 0),
              (WGPUVertexFormat_Float32x3 (gb N), 12, 1)],
            rp_array_stride = 24, rp_step_mode = WGPUVertexStepMode_Vertex (gb N),
            rp_topology = WGPUPrimitiveTopology_TriangleList (gb N),
            rp_front_face = WGPUFrontFace_CCW (gb N), rp_cull_mode = WGPUCullMode_Back (gb N),
            rp_fragment_entry = c_string fs_name, rp_target_format = target_format,
            rp_write_mask = WGPUColorWriteMask_All (gb N), rp_sample_count = 1,
            rp_sample_mask = 0xFFFFFFFF\<rparr> s;
     let s2 = note_created ''rp'' pipeline s1;
     Some (allocating oom (opentui_wgpu_make_handle_pair (pipeline \<noteq> NULL) pipeline), s2)
   }"

definition opentui_wgpu_render_pipeline_release :: "'w gpu_api \<Rightarrow> u64 \<Rightarrow> 'w gpu \<Rightarrow> 'w gpu" where
  "opentui_wgpu_render_pipeline_release N pipeline s = wgpuRenderPipelineRelease (gp N) pipeline s"

definition opentui_wgpu_device_create_uniform_bind_group ::
  "'w gpu_api \<Rightarrow> bool \<Rightarrow> u64 \<Rightarrow> u64 \<Rightarrow> u64 \<Rightarrow> u64 \<Rightarrow> 'w gpu \<Rightarrow> value outcome \<times> 'w gpu" where
  "opentui_wgpu_device_create_uniform_bind_group N oom device layout buffer nbytes s =
     (let entry = zero_group_entry\<lparr>ge_buffer := buffer, ge_size := nbytes\<rparr>;
          (bind_group, s1) = wgpuDeviceCreateBindGroup (gp N) device
            (opentui_wgpu_label ''opentui-wgpu-uniform-group'') layout [entry] s;
          s2 = note_created ''bg'' bind_group s1 in
      (allocating oom (opentui_wgpu_make_handle_pair (bind_group \<noteq> NULL) bind_group), s2))"

definition opentui_wgpu_bind_group_release :: "'w gpu_api \<Rightarrow> u64 \<Rightarrow> 'w gpu \<Rightarrow> 'w gpu" where
  "opentui_wgpu_bind_group_release N bind_group s = wgpuBindGroupRelease (gp N) bind_group s"

section \<open>Uploads\<close>

definition opentui_wgpu_queue_write_buffer_bytes ::
  "'w gpu_api \<Rightarrow> u64 \<Rightarrow> u64 \<Rightarrow> u64 \<Rightarrow> bytes \<Rightarrow> 'w gpu \<Rightarrow> 'w gpu" where
  "opentui_wgpu_queue_write_buffer_bytes N queue buffer position data s =
     wgpuQueueWriteBuffer (gm N) queue buffer position data s"

text \<open>The 64-bit row length is cut to the 32 bits of the layout.\<close>

definition opentui_wgpu_queue_write_texture_bytes ::
  "'w gpu_api \<Rightarrow> u64 \<Rightarrow> value \<Rightarrow> 'w gpu \<Rightarrow> 'w gpu option" where
  "opentui_wgpu_queue_write_texture_bytes N queue options s = do {
     texture \<leftarrow> int64_field options 0;
     data \<leftarrow> string_field options 1;
     bytes_per_row \<leftarrow> int64_field options 2;
     width \<leftarrow> u32_field options 3;
     height \<leftarrow> u32_field options 4;
     Some (wgpuQueueWriteTexture (gm N) queue (texture, WGPUTextureAspect_All (gc N)) data
       \<lparr>tl_offset = 0, tl_bytes_per_row = ucast bytes_per_row, tl_rows_per_image = height\<rparr>
       (width, height, 1) s)
   }"

section \<open>The draw pass\<close>

text \<open>The scan that counts the cells of the draw list, in a C int whose overflow is undefined.\<close>

fun count_draws :: "value \<Rightarrow> nat option" where
  "count_draws (Long n) = (if n = 0 then Some 0 else None)"
| "count_draws (Block t (x # rest # others)) = map_option Suc (count_draws rest)"
| "count_draws _ = None"

definition draw_one :: "'w gpu_api \<Rightarrow> u64 \<Rightarrow> value \<Rightarrow> 'w gpu \<Rightarrow> 'w gpu option" where
  "draw_one N pass draw s = do {
     pipeline \<leftarrow> int64_field draw 0;
     bind_group \<leftarrow> int64_field draw 1;
     vertices \<leftarrow> int64_field draw 2;
     vertex_size \<leftarrow> int64_field draw 3;
     indices \<leftarrow> int64_field draw 4;
     index_size \<leftarrow> int64_field draw 5;
     index_count \<leftarrow> u32_field draw 6;
     let s1 = wgpuRenderPassEncoderSetPipeline (gk N) pass pipeline s;
     let s2 = wgpuRenderPassEncoderSetBindGroup (gk N) pass 0 bind_group s1;
     let s3 = wgpuRenderPassEncoderSetVertexBuffer (gk N) pass 0 vertices 0 vertex_size s2;
     let s4 = wgpuRenderPassEncoderSetIndexBuffer (gk N) pass indices
                (WGPUIndexFormat_Uint16 (gb N)) 0 index_size s3;
     Some (wgpuRenderPassEncoderDrawIndexed (gk N) pass index_count 1 0 0 0 s4)
   }"

fun draw_all :: "'w gpu_api \<Rightarrow> u64 \<Rightarrow> value \<Rightarrow> 'w gpu \<Rightarrow> 'w gpu option" where
  "draw_all N pass (Long n) s = (if n = 0 then Some s else None)"
| "draw_all N pass (Block t (draw # rest # others)) s = Option.bind (draw_one N pass draw s) (draw_all N pass rest)"
| "draw_all N pass _ s = None"

definition double_fields :: "value \<Rightarrow> (fp \<times> fp \<times> fp \<times> fp) option" where
  "double_fields v = do {
     r \<leftarrow> Option.bind (field v 0) double_val;
     g \<leftarrow> Option.bind (field v 1) double_val;
     b \<leftarrow> Option.bind (field v 2) double_val;
     a \<leftarrow> Option.bind (field v 3) double_val;
     Some (r, g, b, a)
   }"

definition opentui_wgpu_encoder_render_draws_indexed ::
  "'w gpu_api \<Rightarrow> u64 \<Rightarrow> u64 \<Rightarrow> value \<Rightarrow> value \<Rightarrow> 'w gpu \<Rightarrow> 'w gpu option" where
  "opentui_wgpu_encoder_render_draws_indexed N encoder view clear_color draws = (\<lambda>(w, d). do {
     clear \<leftarrow> double_fields clear_color;
     draw_count \<leftarrow> count_draws draws;
     _ \<leftarrow> (if draw_count \<ge> 2147483648 then None else Some ());
     let probe = snprintf 64 (ascii ''DRAW pass draws='' @ decimal draw_count);
     let (pass, s1) = wgpuCommandEncoderBeginRenderPass (gk N) encoder
           \<lparr>pd_label = opentui_wgpu_label ''opentui-wgpu-draw-pass'', pd_view = view,
            pd_depth_slice = WGPU_DEPTH_SLICE_UNDEFINED (gb N), pd_load_op = WGPULoadOp_Clear (gb N),
            pd_store_op = WGPUStoreOp_Store (gb N), pd_clear = clear\<rparr>
           (w, opentui_wgpu_diag_push probe d);
     s2 \<leftarrow> draw_all N pass draws s1;
     Some (wgpuRenderPassEncoderRelease (gk N) pass (wgpuRenderPassEncoderEnd (gk N) pass s2))
   })"

section \<open>Supersampling\<close>

definition opentui_wgpu_device_create_compute_pipeline ::
  "'w gpu_api \<Rightarrow> bool \<Rightarrow> u64 \<Rightarrow> value \<Rightarrow> 'w gpu \<Rightarrow> (value outcome \<times> 'w gpu) option" where
  "opentui_wgpu_device_create_compute_pipeline N oom device options s = do {
     layout \<leftarrow> int64_field options 0;
     shader \<leftarrow> int64_field options 1;
     entry_name \<leftarrow> string_field options 2;
     let (pipeline, s1) = wgpuDeviceCreateComputePipeline (gp N) device
           (opentui_wgpu_label ''opentui-wgpu-compute-pipeline'') layout shader (c_string entry_name) s;
     let s2 = note_created ''cp'' pipeline s1;
     Some (allocating oom (opentui_wgpu_make_handle_pair (pipeline \<noteq> NULL) pipeline), s2)
   }"

definition opentui_wgpu_compute_pipeline_release :: "'w gpu_api \<Rightarrow> u64 \<Rightarrow> 'w gpu \<Rightarrow> 'w gpu" where
  "opentui_wgpu_compute_pipeline_release N pipeline s = wgpuComputePipelineRelease (gp N) pipeline s"

definition opentui_wgpu_device_create_supersampling_bind_group_layout ::
  "'w gpu_api \<Rightarrow> bool \<Rightarrow> u64 \<Rightarrow> 'w gpu \<Rightarrow> value outcome \<times> 'w gpu" where
  "opentui_wgpu_device_create_supersampling_bind_group_layout N oom device s =
     (let entries = [
            zero_layout_entry\<lparr>le_binding := 0, le_visibility := WGPUShaderStage_Compute (gc N),
              le_texture_sample_type := WGPUTextureSampleType_Float (gb N),
              le_texture_view_dimension := WGPUTextureViewDimension_2D (gb N)\<rparr>,
            zero_layout_entry\<lparr>le_binding := 1, le_visibility := WGPUShaderStage_Compute (gc N),
              le_buffer_type := WGPUBufferBindingType_Storage (gb N)\<rparr>,
            zero_layout_entry\<lparr>le_binding := 2, le_visibility := WGPUShaderStage_Compute (gc N),
              le_buffer_type := WGPUBufferBindingType_Uniform (gb N)\<rparr>];
          (layout, s1) = wgpuDeviceCreateBindGroupLayout (gp N) device
            (opentui_wgpu_label ''opentui-wgpu-supersampling-bgl'') entries s;
          s2 = note_created ''ssbgl'' layout s1 in
      (allocating oom (opentui_wgpu_make_handle_pair (layout \<noteq> NULL) layout), s2))"

definition opentui_wgpu_device_create_compute_bind_group ::
  "'w gpu_api \<Rightarrow> bool \<Rightarrow> u64 \<Rightarrow> value \<Rightarrow> 'w gpu \<Rightarrow> (value outcome \<times> 'w gpu) option" where
  "opentui_wgpu_device_create_compute_bind_group N oom device options s = do {
     layout \<leftarrow> int64_field options 0;
     view \<leftarrow> int64_field options 1;
     storage \<leftarrow> int64_field options 2;
     storage_size \<leftarrow> int64_field options 3;
     params \<leftarrow> int64_field options 4;
     let entries = [
           zero_group_entry\<lparr>ge_binding := 0, ge_texture_view := view\<rparr>,
           zero_group_entry\<lparr>ge_binding := 1, ge_buffer := storage, ge_size := storage_size\<rparr>,
           zero_group_entry\<lparr>ge_binding := 2, ge_buffer := params, ge_size := WGPU_WHOLE_SIZE (gb N)\<rparr>];
     let (bind_group, s1) = wgpuDeviceCreateBindGroup (gp N) device
           (opentui_wgpu_label ''opentui-wgpu-compute-group'') layout entries s;
     let s2 = note_created ''cgroup'' bind_group s1;
     Some (allocating oom (opentui_wgpu_make_handle_pair (bind_group \<noteq> NULL) bind_group), s2)
   }"

definition opentui_wgpu_encoder_dispatch_compute_to_buffer ::
  "'w gpu_api \<Rightarrow> u64 \<Rightarrow> value \<Rightarrow> 'w gpu \<Rightarrow> 'w gpu option" where
  "opentui_wgpu_encoder_dispatch_compute_to_buffer N encoder options = (\<lambda>(w, d). do {
     pipeline \<leftarrow> int64_field options 0;
     bind_group \<leftarrow> int64_field options 1;
     groups_x \<leftarrow> u32_field options 2;
     groups_y \<leftarrow> u32_field options 3;
     source \<leftarrow> int64_field options 4;
     destination \<leftarrow> int64_field options 5;
     nbytes \<leftarrow> int64_field options 6;
     let probe = snprintf 96 (ascii ''COMPUTE gx='' @ decimal (unat groups_x) @ ascii '' gy=''
           @ decimal (unat groups_y) @ ascii '' bytes='' @ decimal (unat nbytes));
     let (pass, s1) = wgpuCommandEncoderBeginComputePass (gk N) encoder
           (opentui_wgpu_label ''opentui-wgpu-compute-pass'') (w, opentui_wgpu_diag_push probe d);
     let s2 = wgpuComputePassEncoderSetPipeline (gk N) pass pipeline s1;
     let s3 = wgpuComputePassEncoderSetBindGroup (gk N) pass 0 bind_group s2;
     let s4 = wgpuComputePassEncoderDispatchWorkgroups (gk N) pass groups_x groups_y 1 s3;
     let s5 = wgpuComputePassEncoderRelease (gk N) pass (wgpuComputePassEncoderEnd (gk N) pass s4);
     Some (wgpuCommandEncoderCopyBufferToBuffer (gk N) encoder source 0 destination 0 nbytes s5)
   })"

section \<open>Textured materials\<close>

definition opentui_wgpu_device_create_sampler ::
  "'w gpu_api \<Rightarrow> bool \<Rightarrow> u64 \<Rightarrow> value \<Rightarrow> 'w gpu \<Rightarrow> (value outcome \<times> 'w gpu) option" where
  "opentui_wgpu_device_create_sampler N oom device options s = do {
     address_u \<leftarrow> u32_field options 0;
     address_v \<leftarrow> u32_field options 1;
     mag_filter \<leftarrow> u32_field options 2;
     min_filter \<leftarrow> u32_field options 3;
     let (sampler, s1) = wgpuDeviceCreateSampler (gp N) device
           \<lparr>sd_label = opentui_wgpu_label ''opentui-wgpu-sampler'', sd_address_u = address_u,
            sd_address_v = address_v, sd_address_w = address_u, sd_mag_filter = mag_filter,
            sd_min_filter = min_filter, sd_mipmap_filter = WGPUMipmapFilterMode_Nearest (gb N),
            sd_lod = (0, 32), sd_max_anisotropy = 1\<rparr> s;
     let s2 = note_created ''sampler'' sampler s1;
     Some (allocating oom (opentui_wgpu_make_handle_pair (sampler \<noteq> NULL) sampler), s2)
   }"

definition opentui_wgpu_sampler_release :: "'w gpu_api \<Rightarrow> u64 \<Rightarrow> 'w gpu \<Rightarrow> 'w gpu" where
  "opentui_wgpu_sampler_release N sampler s = wgpuSamplerRelease (gp N) sampler s"

definition opentui_wgpu_device_create_material_bind_group_layout ::
  "'w gpu_api \<Rightarrow> bool \<Rightarrow> u64 \<Rightarrow> 'w gpu \<Rightarrow> value outcome \<times> 'w gpu" where
  "opentui_wgpu_device_create_material_bind_group_layout N oom device s =
     (let entries = [
            zero_layout_entry\<lparr>le_binding := 0,
              le_visibility := WGPUShaderStage_Vertex (gc N) OR WGPUShaderStage_Fragment (gc N),
              le_buffer_type := WGPUBufferBindingType_Uniform (gb N)\<rparr>,
            zero_layout_entry\<lparr>le_binding := 1, le_visibility := WGPUShaderStage_Fragment (gc N),
              le_texture_sample_type := WGPUTextureSampleType_Float (gb N),
              le_texture_view_dimension := WGPUTextureViewDimension_2D (gb N)\<rparr>,
            zero_layout_entry\<lparr>le_binding := 2, le_visibility := WGPUShaderStage_Fragment (gc N),
              le_sampler_type := WGPUSamplerBindingType_Filtering (gb N)\<rparr>];
          (layout, s1) = wgpuDeviceCreateBindGroupLayout (gp N) device
            (opentui_wgpu_label ''opentui-wgpu-material-bgl'') entries s;
          s2 = note_created ''matbgl'' layout s1 in
      (allocating oom (opentui_wgpu_make_handle_pair (layout \<noteq> NULL) layout), s2))"

definition opentui_wgpu_device_create_material_bind_group ::
  "'w gpu_api \<Rightarrow> bool \<Rightarrow> u64 \<Rightarrow> value \<Rightarrow> 'w gpu \<Rightarrow> (value outcome \<times> 'w gpu) option" where
  "opentui_wgpu_device_create_material_bind_group N oom device options s = do {
     layout \<leftarrow> int64_field options 0;
     uniform_buffer \<leftarrow> int64_field options 1;
     uniform_size \<leftarrow> int64_field options 2;
     view \<leftarrow> int64_field options 3;
     sampler \<leftarrow> int64_field options 4;
     let entries = [
           zero_group_entry\<lparr>ge_binding := 0, ge_buffer := uniform_buffer, ge_size := uniform_size\<rparr>,
           zero_group_entry\<lparr>ge_binding := 1, ge_texture_view := view\<rparr>,
           zero_group_entry\<lparr>ge_binding := 2, ge_sampler := sampler\<rparr>];
     let (bind_group, s1) = wgpuDeviceCreateBindGroup (gp N) device
           (opentui_wgpu_label ''opentui-wgpu-material-group'') layout entries s;
     let s2 = note_created ''mgroup'' bind_group s1;
     Some (allocating oom (opentui_wgpu_make_handle_pair (bind_group \<noteq> NULL) bind_group), s2)
   }"

text \<open>Position, normal and texture coordinates, 32 bytes a vertex.\<close>

definition opentui_wgpu_device_create_textured_render_pipeline ::
  "'w gpu_api \<Rightarrow> bool \<Rightarrow> u64 \<Rightarrow> value \<Rightarrow> 'w gpu \<Rightarrow> (value outcome \<times> 'w gpu) option" where
  "opentui_wgpu_device_create_textured_render_pipeline N oom device options s = do {
     layout \<leftarrow> int64_field options 0;
     shader \<leftarrow> int64_field options 1;
     vs_name \<leftarrow> string_field options 2;
     fs_name \<leftarrow> string_field options 3;
     target_format \<leftarrow> u32_field options 4;
     let (pipeline, s1) = wgpuDeviceCreateRenderPipeline (gp N) device
           \<lparr>rp_label = opentui_wgpu_label ''opentui-wgpu-tex-pipeline'', rp_layout = layout,
            rp_module = shader, rp_vertex_entry = c_string vs_name,
            rp_attributes = [(WGPUVertexFormat_Float32x3 (gb N), 0, 0),
              (WGPUVertexFormat_Float32x3 (gb N), 12, 1), (WGPUVertexFormat_Float32x2 (gb N), 24, 2)],
            rp_array_stride = 32, rp_step_mode = WGPUVertexStepMode_Vertex (gb N),
            rp_topology = WGPUPrimitiveTopology_TriangleList (gb N),
            rp_front_face = WGPUFrontFace_CCW (gb N), rp_cull_mode = WGPUCullMode_Back (gb N),
            rp_fragment_entry = c_string fs_name, rp_target_format = target_format,
            rp_write_mask = WGPUColorWriteMask_All (gb N), rp_sample_count = 1,
            rp_sample_mask = 0xFFFFFFFF\<rparr> s;
     let s2 = note_created ''texpipeline'' pipeline s1;
     Some (allocating oom (opentui_wgpu_make_handle_pair (pipeline \<noteq> NULL) pipeline), s2)
   }"

end
