(* ===== verification/Wgpu_Probe.thy ===== *)
theory Wgpu_Probe
  imports Wgpu_Draw
begin

text \<open>
  wgpu_stubs.c, the temporary probe \<open>opentui_wgpu_debug_triangle\<close>: one red triangle drawn and
  read back on a device, entirely in C. It is straight-line code but for its wait, which has
  no time limit, and it releases none of its objects but the render pass.
\<close>

text \<open>A float in memory, little endian, from its bit pattern.\<close>

definition f32_bytes :: "u32 \<Rightarrow> bytes" where
  "f32_bytes bits = [ucast bits, ucast (drop_bit 8 bits), ucast (drop_bit 16 bits), ucast (drop_bit 24 bits)]"

abbreviation F32_zero :: u32 where "F32_zero \<equiv> 0"
abbreviation F32_one :: u32 where "F32_one \<equiv> 0x3F800000"
abbreviation F32_minus_one :: u32 where "F32_minus_one \<equiv> 0xBF800000"
abbreviation F32_three :: u32 where "F32_three \<equiv> 0x40400000"
abbreviation F32_fifth :: u32 where "F32_fifth \<equiv> 0x3E4CCCCD" \<comment> \<open>0.2f\<close>

definition probe_wgsl :: bytes where
  "probe_wgsl =
     ascii ''struct Uniforms { mvp: mat4x4<f32>, model: mat4x4<f32>, color: vec4<f32> };'' @ [10] @
     ascii ''@group(0) @binding(0) var<uniform> u : Uniforms;'' @ [10] @
     ascii ''struct VSOut { @builtin(position) pos: vec4<f32>, @location(0) n: vec3<f32> };'' @ [10] @
     ascii ''@vertex fn vs_main(@location(0) pos: vec3<f32>, @location(1) n: vec3<f32>) -> VSOut {'' @ [10] @
     ascii ''  var o: VSOut; o.pos = u.mvp * vec4<f32>(pos,1.0); o.n = n; return o; }'' @ [10] @
     ascii ''@fragment fn fs_main(i: VSOut) -> @location(0) vec4<f32> { return u.color; }'' @ [10]"

definition probe_vertices :: bytes where
  "probe_vertices = concat (map f32_bytes
     [F32_minus_one, F32_minus_one, F32_fifth, F32_zero, F32_zero, F32_zero,
      F32_three, F32_minus_one, F32_fifth, F32_zero, F32_zero, F32_zero,
      F32_minus_one, F32_three, F32_fifth, F32_zero, F32_zero, F32_zero])"

definition probe_indices :: bytes where "probe_indices = [0, 0, 1, 0, 2, 0, 0, 0]"

definition identity_matrix :: bytes where
  "identity_matrix = concat (map f32_bytes
     [F32_one, F32_zero, F32_zero, F32_zero, F32_zero, F32_one, F32_zero, F32_zero,
      F32_zero, F32_zero, F32_one, F32_zero, F32_zero, F32_zero, F32_zero, F32_one])"

definition probe_uniforms :: bytes where
  "probe_uniforms = identity_matrix @ identity_matrix
     @ concat (map f32_bytes [F32_one, F32_zero, F32_zero, F32_one]) @ replicate 16 0"

section \<open>The phases of the probe\<close>

text \<open>Shader, layouts, pipeline: the bind group layout and the pipeline.\<close>

definition probe_pipeline :: "'w gpu_api \<Rightarrow> u64 \<Rightarrow> 'w gpu \<Rightarrow> (u64 \<times> u64) \<times> 'w gpu" where
  "probe_pipeline N dev s =
     (let (sh, s1) = wgpuDeviceCreateShaderModule (gp N) dev (opentui_wgpu_label ''dbg-shader'') probe_wgsl s;
          (bgl, s2) = wgpuDeviceCreateBindGroupLayout (gp N) dev (opentui_wgpu_label ''dbg-bgl'')
            [zero_layout_entry\<lparr>le_visibility := WGPUShaderStage_Vertex (gc N) OR WGPUShaderStage_Fragment (gc N),
               le_buffer_type := WGPUBufferBindingType_Uniform (gb N)\<rparr>] s1;
          (pl, s3) = wgpuDeviceCreatePipelineLayout (gp N) dev (opentui_wgpu_label ''dbg-pl'') [bgl] s2;
          (rp, s4) = wgpuDeviceCreateRenderPipeline (gp N) dev
            \<lparr>rp_label = opentui_wgpu_label ''dbg-rp'', rp_layout = pl, rp_module = sh,
             rp_vertex_entry = ascii ''vs_main'',
             rp_attributes = [(WGPUVertexFormat_Float32x3 (gb N), 0, 0), (WGPUVertexFormat_Float32x3 (gb N), 12, 1)],
             rp_array_stride = 24, rp_step_mode = WGPUVertexStepMode_Vertex (gb N),
             rp_topology = WGPUPrimitiveTopology_TriangleList (gb N), rp_front_face = WGPUFrontFace_CCW (gb N),
             rp_cull_mode = WGPUCullMode_None (gb N), rp_fragment_entry = ascii ''fs_main'',
             rp_target_format = WGPUTextureFormat_RGBA8Unorm (gc N), rp_write_mask = WGPUColorWriteMask_All (gb N),
             rp_sample_count = 1, rp_sample_mask = 0xFFFFFFFF\<rparr> s3 in
      ((bgl, rp), s4))"

text \<open>Vertex, index and uniform buffers, filled through the queue.\<close>

definition probe_buffer :: "'w gpu_api \<Rightarrow> u64 \<Rightarrow> string \<Rightarrow> u64 \<Rightarrow> u64 \<Rightarrow> 'w gpu \<Rightarrow> u64 \<times> 'w gpu" where
  "probe_buffer N dev label usage nbytes s = wgpuDeviceCreateBuffer (gm N) dev
     \<lparr>bd_label = opentui_wgpu_label label, bd_usage = usage, bd_size = nbytes, bd_mapped_at_creation = False\<rparr> s"

definition probe_buffers :: "'w gpu_api \<Rightarrow> u64 \<Rightarrow> 'w gpu \<Rightarrow> (u64 \<times> u64 \<times> u64 \<times> u64) \<times> 'w gpu" where
  "probe_buffers N dev s =
     (let copy_dst = WGPUBufferUsage_CopyDst (gc N);
          (vb, s1) = probe_buffer N dev ''dbg-vb'' (WGPUBufferUsage_Vertex (gc N) OR copy_dst) 72 s;
          (ib, s2) = probe_buffer N dev ''dbg-ib'' (WGPUBufferUsage_Index (gc N) OR copy_dst) 8 s1;
          (ub, s3) = probe_buffer N dev ''dbg-ub'' (WGPUBufferUsage_Uniform (gc N) OR copy_dst) 160 s2;
          (queue, s4) = wgpuDeviceGetQueue (gd N) dev s3;
          s5 = wgpuQueueWriteBuffer (gm N) queue vb 0 probe_vertices s4;
          s6 = wgpuQueueWriteBuffer (gm N) queue ib 0 probe_indices s5;
          s7 = wgpuQueueWriteBuffer (gm N) queue ub 0 probe_uniforms s6 in
      ((vb, ib, ub, queue), s7))"

text \<open>The target, the bind group, and the submitted draw pass.\<close>

definition probe_draw ::
  "'w gpu_api \<Rightarrow> u64 \<Rightarrow> u64 \<times> u64 \<Rightarrow> u64 \<times> u64 \<times> u64 \<times> u64 \<Rightarrow> 'w gpu \<Rightarrow> u64 \<times> 'w gpu" where
  "probe_draw N dev = (\<lambda>(bgl, rp) (vb, ib, ub, queue) s.
     let (tex, s1) = wgpuDeviceCreateTexture (gm N) dev
           \<lparr>td_label = opentui_wgpu_label ''dbg-target'',
            td_usage = WGPUTextureUsage_RenderAttachment (gc N) OR WGPUTextureUsage_CopySrc (gc N),
            td_dimension = WGPUTextureDimension_2D (gc N), td_size = (8, 8, 1),
            td_format = WGPUTextureFormat_RGBA8Unorm (gc N), td_mip_level_count = 1, td_sample_count = 1\<rparr> s;
         (view, s2) = wgpuTextureCreateView (gm N) tex s1;
         (bg, s3) = wgpuDeviceCreateBindGroup (gp N) dev (opentui_wgpu_label ''dbg-bg'') bgl
           [zero_group_entry\<lparr>ge_buffer := ub, ge_size := 160\<rparr>] s2;
         (enc, s4) = wgpuDeviceCreateCommandEncoder (gk N) dev (opentui_wgpu_label ''dbg-enc'') s3;
         (pass, s5) = wgpuCommandEncoderBeginRenderPass (gk N) enc
           \<lparr>pd_label = opentui_wgpu_label ''dbg-pass'', pd_view = view,
            pd_depth_slice = WGPU_DEPTH_SLICE_UNDEFINED (gb N), pd_load_op = WGPULoadOp_Clear (gb N),
            pd_store_op = WGPUStoreOp_Store (gb N), pd_clear = (Fin 0, Fin 0, Fin 0, Fin 1)\<rparr> s4;
         s6 = wgpuRenderPassEncoderSetPipeline (gk N) pass rp s5;
         s7 = wgpuRenderPassEncoderSetBindGroup (gk N) pass 0 bg s6;
         s8 = wgpuRenderPassEncoderSetVertexBuffer (gk N) pass 0 vb 0 72 s7;
         s9 = wgpuRenderPassEncoderSetIndexBuffer (gk N) pass ib (WGPUIndexFormat_Uint16 (gb N)) 0 6 s8;
         s10 = wgpuRenderPassEncoderDrawIndexed (gk N) pass 3 1 0 0 0 s9;
         s11 = wgpuRenderPassEncoderRelease (gk N) pass (wgpuRenderPassEncoderEnd (gk N) pass s10);
         (cb, s12) = wgpuCommandEncoderFinish (gk N) enc s11 in
     (tex, wgpuQueueSubmit (gk N) queue [cb] s12))"

text \<open>The copy of the target into a staging buffer of eight rows of 256 bytes.\<close>

definition probe_stage :: "'w gpu_api \<Rightarrow> u64 \<Rightarrow> u64 \<Rightarrow> u64 \<Rightarrow> 'w gpu \<Rightarrow> u64 \<times> 'w gpu" where
  "probe_stage N dev queue tex s =
     (let (stage, s1) = probe_buffer N dev ''dbg-readback''
            (WGPUBufferUsage_MapRead (gc N) OR WGPUBufferUsage_CopyDst (gc N)) 2048 s;
          (enc2, s2) = wgpuDeviceCreateCommandEncoder (gk N) dev (opentui_wgpu_label ''dbg-copy-enc'') s1;
          s3 = wgpuCommandEncoderCopyTextureToBuffer (gk N) enc2 (tex, WGPUTextureAspect_All (gc N))
            (\<lparr>tl_offset = 0, tl_bytes_per_row = 256, tl_rows_per_image = 8\<rparr>, stage) (8, 8, 1) s2;
          (cb2, s4) = wgpuCommandEncoderFinish (gk N) enc2 s3 in
      (stage, wgpuQueueSubmit (gk N) queue [cb2] s4))"

partial_function (option) probe_loop ::
  "'w gpu_api \<Rightarrow> u64 \<Rightarrow> gpu_wait \<Rightarrow> 'w gpu \<Rightarrow> (gpu_wait \<times> 'w gpu) option" where
  "probe_loop N dev mw s =
     (if w_done mw then Some (mw, s)
      else
        let (fired, s1) = wgpuDevicePoll (gd N) dev s in
        Option.bind (deliver opentui_wgpu_buffer_map_callback fired mw) (\<lambda>mw1.
          probe_loop N dev mw1 (if w_done mw1 then s1 else usleep (gd N) 1000 s1)))"

text \<open>The center pixel is at row 4, column 4. A NULL range is dereferenced without a test.\<close>

definition probe_result :: "'w gpu_api \<Rightarrow> u64 \<Rightarrow> gpu_wait \<Rightarrow> 'w gpu \<Rightarrow> (value \<times> 'w gpu) option" where
  "probe_result N stage mw s =
     (if w_status mw = WGPUMapAsyncStatus_Success (gc N)
      then
        let (mapped, (w, d)) = wgpuBufferGetMappedRange (gm N) stage 0 2048 s in
        Option.bind mapped (\<lambda>px.
          if length px < 1044 then None
          else
            let line = snprintf 128 (ascii ''DBG-C center r='' @ decimal (unat (px ! 1040)) @ ascii '' g=''
                  @ decimal (unat (px ! 1041)) @ ascii '' b='' @ decimal (unat (px ! 1042)) @ ascii '' a=''
                  @ decimal (unat (px ! 1043)) @ ascii '' (map status ''
                  @ decimal_int (sint (WGPUMapAsyncStatus_Success (gc N))) @ ascii '')'') in
            Some (Long (int (unat (px ! 1040))),
              wgpuBufferUnmap (gm N) stage (w, opentui_wgpu_diag_push line d)))
      else
        let (w, d) = s; line = snprintf 128 (ascii ''DBG-C map status='' @ decimal_int (sint (w_status mw))) in
        Some (Long (- 2), (w, opentui_wgpu_diag_push line d)))"

definition opentui_wgpu_debug_triangle :: "'w gpu_api \<Rightarrow> u64 \<Rightarrow> 'w gpu \<Rightarrow> (value \<times> 'w gpu) option" where
  "opentui_wgpu_debug_triangle N dev s =
     (let (layouts, s1) = probe_pipeline N dev s;
          ((vb, ib, ub, queue), s2) = probe_buffers N dev s1;
          (tex, s3) = probe_draw N dev layouts (vb, ib, ub, queue) s2;
          (stage, s4) = probe_stage N dev queue tex s3;
          (fired, s5) = wgpuBufferMapAsync (gm N) stage (WGPUMapMode_Read (gc N)) 0 2048 s4 in do {
        mw \<leftarrow> deliver opentui_wgpu_buffer_map_callback fired zero_wait;
        (mw1, s6) \<leftarrow> probe_loop N dev mw s5;
        probe_result N stage mw1 s6
      })"

lemma probe_sizes: "length probe_vertices = 72" "length probe_indices = 8" "length probe_uniforms = 160"
  by (simp_all add: probe_vertices_def probe_indices_def probe_uniforms_def identity_matrix_def f32_bytes_def)

text \<open>A map that fails is answered with -2, and nothing is unmapped.\<close>

lemma probe_map_failed:
  "w_status mw \<noteq> WGPUMapAsyncStatus_Success (gc N) \<Longrightarrow>
     \<exists>line. probe_result N stage mw (w, d) = Some (Long (- 2), (w, opentui_wgpu_diag_push line d))"
  by (auto simp: probe_result_def)

end
