(* ===== verification/Ocaml_Types.thy ===== *)
theory Ocaml_Types
  imports Values
begin

text \<open>
  The OCaml types under which the stubs are declared, and the values that OCaml passes under a
  type. OCaml does not check a declaration against the C code: a stub reads an argument by its
  own tests and positions, and OCaml reads the result in the same way.
\<close>

datatype ocaml_type =
  T_int | T_int32 | T_int64 | T_float | T_string | T_bool | T_floatarray | T_tuple "ocaml_type list"
| T_option ocaml_type | T_array ocaml_type | T_list ocaml_type

text \<open>The representation of a list whose elements satisfy a test.\<close>

fun all_cells :: "(value \<Rightarrow> bool) \<Rightarrow> value \<Rightarrow> bool" where
  "all_cells p (Long n) = (n = 0)"
| "all_cells p (Block t [x, rest]) = (t = 0 \<and> p x \<and> all_cells p rest)"
| "all_cells p _ = False"

text \<open>bytes is represented as string, an empty array as a block without fields;
  sizes fit the header of a block.\<close>

fun has_type :: "ocaml_type \<Rightarrow> value \<Rightarrow> bool" and has_types :: "ocaml_type list \<Rightarrow> value list \<Rightarrow> bool" where
  "has_type T_int v = is_long v"
| "has_type T_int32 v = (int32_val v \<noteq> None)"
| "has_type T_int64 v = (int64_val v \<noteq> None)"
| "has_type T_float v = (double_val v \<noteq> None)"
| "has_type T_string v = (string_val v \<noteq> None)"
| "has_type T_bool v = (v = Long 0 \<or> v = Long 1)"
| "has_type T_floatarray v = (case v of Double_array xs \<Rightarrow> xs \<noteq> [] \<and> length xs < 2 ^ 54 | _ \<Rightarrow> v = Block 0 [])"
| "has_type (T_tuple ts) v = (case v of Block t vs \<Rightarrow> t = 0 \<and> has_types ts vs | _ \<Rightarrow> False)"
| "has_type (T_option t) v = (case v of Long n \<Rightarrow> n = 0 | Block b vs \<Rightarrow> b = 0 \<and> (\<exists>x. vs = [x] \<and> has_type t x) | _ \<Rightarrow> False)"
| "has_type (T_array t) v = (case v of Block b vs \<Rightarrow> b = 0 \<and> list_all (has_type t) vs | _ \<Rightarrow> False)"
| "has_type (T_list t) v = all_cells (has_type t) v"
| "has_types [] vs = (vs = [])"
| "has_types (t # ts) vs = (case vs of [] \<Rightarrow> False | v # vs' \<Rightarrow> has_type t v \<and> has_types ts vs')"

lemma has_types_Cons:
  "has_types (t # ts) vs \<longleftrightarrow> (\<exists>v vs'. vs = v # vs' \<and> has_type t v \<and> has_types ts vs')"
  by (cases vs) auto

lemma has_type_tuple:
  "has_type (T_tuple ts) v \<longleftrightarrow> (\<exists>vs. v = Block 0 vs \<and> has_types ts vs)"
  by (cases v) auto

lemma has_type_option:
  "has_type (T_option t) v \<longleftrightarrow> v = Long 0 \<or> (\<exists>x. v = Block 0 [x] \<and> has_type t x)"
  by (cases v) auto

lemma has_type_array:
  "has_type (T_array t) v \<longleftrightarrow> (\<exists>vs. v = Block 0 vs \<and> (\<forall>x \<in> set vs. has_type t x))"
  by (cases v) (auto simp: list_all_iff)

lemma has_type_floatarray:
  "has_type T_floatarray v \<longleftrightarrow> v = Block 0 [] \<or> (\<exists>xs. v = Double_array xs \<and> xs \<noteq> [] \<and> length xs < 2 ^ 54)"
  by (cases v) auto

lemma is_long_ex: "is_long v \<longleftrightarrow> (\<exists>n. v = Long n)"
  by (cases v) auto

lemma val_ex:
  "(\<exists>y. int32_val v = Some y) \<longleftrightarrow> (\<exists>x. v = Int32 x)"
  "(\<exists>y. int64_val v = Some y) \<longleftrightarrow> (\<exists>x. v = Int64 x)"
  "(\<exists>y. double_val v = Some y) \<longleftrightarrow> (\<exists>x. v = Double x)"
  "(\<exists>y. string_val v = Some y) \<longleftrightarrow> (\<exists>x. v = Str x)"
  by (cases v; simp)+

lemmas typed_values = has_type_tuple has_types_Cons has_type_option has_type_array has_type_floatarray
  is_long_ex val_ex

declare has_type.simps(7-10) [simp del] has_types.simps(2) [simp del]

end
