(* ===== verification/Wgpu_Types.thy ===== *)
theory Wgpu_Types
  imports Wgpu_Probe Ocaml_Types
begin

text \<open>
  The OCaml types under which native.ml declares the stubs of wgpu_stubs.c. OCaml does not check
  a declaration against the stub: the stub reads a tuple by position and tag, and OCaml reads the
  result in the same way.
\<close>

section \<open>The declarations of native.ml\<close>

text \<open>Every token type is an int64.\<close>

definition creation :: ocaml_type where "creation = T_tuple [T_bool, T_int64]"
definition request :: ocaml_type where "request = T_tuple [T_int, T_int64, T_string]"
definition texture_options :: ocaml_type where "texture_options = T_tuple [T_int, T_int, T_int, T_int64]"
definition buffer_options :: ocaml_type where "buffer_options = T_tuple [T_int64, T_int64]"
definition clear_color :: ocaml_type where "clear_color = T_tuple [T_float, T_float, T_float, T_float]"
definition copy_region :: ocaml_type where "copy_region = T_tuple [T_int, T_int, T_int]"
definition map_result :: ocaml_type where "map_result = T_tuple [T_int, T_string]"
definition pipeline_options :: ocaml_type where
  "pipeline_options = T_tuple [T_int64, T_int64, T_string, T_string, T_int]"
definition write_texture_options :: ocaml_type where
  "write_texture_options = T_tuple [T_int64, T_string, T_int64, T_int, T_int]"
definition draw_call :: ocaml_type where
  "draw_call = T_tuple [T_int64, T_int64, T_int64, T_int64, T_int64, T_int64, T_int]"
definition compute_pipeline_options :: ocaml_type where
  "compute_pipeline_options = T_tuple [T_int64, T_int64, T_string]"
definition compute_bind_group_options :: ocaml_type where
  "compute_bind_group_options = T_tuple [T_int64, T_int64, T_int64, T_int64, T_int64]"
definition compute_dispatch_options :: ocaml_type where
  "compute_dispatch_options = T_tuple [T_int64, T_int64, T_int, T_int, T_int64, T_int64, T_int64]"
definition sampler_options :: ocaml_type where "sampler_options = T_tuple [T_int, T_int, T_int, T_int]"
definition material_bind_group_options :: ocaml_type where
  "material_bind_group_options = T_tuple [T_int64, T_int64, T_int64, T_int64, T_int64]"
definition textured_pipeline_options :: ocaml_type where
  "textured_pipeline_options = T_tuple [T_int64, T_int64, T_string, T_string, T_int]"

lemmas declared_types =
  creation_def request_def texture_options_def buffer_options_def clear_color_def copy_region_def
  map_result_def pipeline_options_def write_texture_options_def draw_call_def
  compute_pipeline_options_def compute_bind_group_options_def compute_dispatch_options_def
  sampler_options_def material_bind_group_options_def textured_pipeline_options_def

lemmas typed_fields = declared_types typed_values int64_field_def u32_field_def string_field_def double_fields_def

section \<open>Typed results\<close>

text \<open>A stub is defined and what it returns has a type.\<close>

definition makes :: "ocaml_type \<Rightarrow> (value outcome \<times> 's) option \<Rightarrow> bool" where
  "makes t result \<longleftrightarrow> (\<exists>r s. result = Some (r, s) \<and> (\<forall>v. r = Returns v \<longrightarrow> has_type t v))"

lemma makes_Some [simp]: "makes t (Some (r, s)) \<longleftrightarrow> (\<forall>v. r = Returns v \<longrightarrow> has_type t v)"
  by (simp add: makes_def)

lemma allocating_returns: "allocating oom r = Returns v \<longleftrightarrow> \<not> oom \<and> v = r"
  by (cases oom) auto

lemma handle_pair_typed: "has_type creation (opentui_wgpu_make_handle_pair b h)"
  by (simp add: opentui_wgpu_make_handle_pair_def typed_fields)

lemma result_typed: "has_type request (opentui_wgpu_make_result status handle message)"
  by (simp add: opentui_wgpu_make_result_def typed_fields)

text \<open>The three fields of a result are not a pair, and its second field is not a string.\<close>

lemma result_not_pair: "\<not> has_type map_result (opentui_wgpu_make_result status handle message)"
  by (simp add: opentui_wgpu_make_result_def typed_fields)

lemma typed_creations:
  "makes creation (Some (opentui_wgpu_instance_create N oom s))"
  "makes creation (Some (opentui_wgpu_texture_create_view N oom texture s))"
  "makes creation (Some (opentui_wgpu_device_create_command_encoder N oom device s))"
  "makes creation (Some (opentui_wgpu_command_encoder_finish N oom encoder s))"
  "makes creation (Some (opentui_wgpu_device_create_shader_module N oom device wgsl s))"
  "makes creation (Some (opentui_wgpu_device_create_uniform_bind_group N oom device layout buffer nbytes s))"
  by (auto simp: opentui_wgpu_instance_create_def opentui_wgpu_texture_create_view_def
      opentui_wgpu_device_create_command_encoder_def opentui_wgpu_command_encoder_finish_def
      opentui_wgpu_device_create_shader_module_def opentui_wgpu_device_create_uniform_bind_group_def
      handle_pair_typed allocating_returns Let_def split: prod.splits)

lemma typed_layouts:
  "makes creation (Some (opentui_wgpu_device_create_uniform_bind_group_layout N oom device s))"
  "makes creation (Some (opentui_wgpu_device_create_pipeline_layout N oom device layout s))"
  "makes creation (Some (opentui_wgpu_device_create_supersampling_bind_group_layout N oom device s))"
  "makes creation (Some (opentui_wgpu_device_create_material_bind_group_layout N oom device s))"
  by (auto simp: opentui_wgpu_device_create_uniform_bind_group_layout_def
      opentui_wgpu_device_create_pipeline_layout_def
      opentui_wgpu_device_create_supersampling_bind_group_layout_def
      opentui_wgpu_device_create_material_bind_group_layout_def
      handle_pair_typed allocating_returns Let_def split: prod.splits)

lemma typed_constants:
  "has_type T_int (opentui_wgpu_texture_format_rgba8_unorm N)"
  "makes T_int64 (Some (opentui_wgpu_texture_usage_render_attachment N oom, ()))"
  "makes T_int64 (Some (opentui_wgpu_texture_usage_copy_source N oom, ()))"
  "makes T_int64 (Some (opentui_wgpu_texture_usage_copy_destination N oom, ()))"
  "makes T_int64 (Some (opentui_wgpu_texture_usage_texture_binding N oom, ()))"
  "makes T_int64 (Some (opentui_wgpu_buffer_usage_map_read N oom, ()))"
  "makes T_int64 (Some (opentui_wgpu_buffer_usage_copy_destination N oom, ()))"
  "makes T_int64 (Some (opentui_wgpu_buffer_usage_storage N oom, ()))"
  by (auto simp: opentui_wgpu_texture_format_rgba8_unorm_def opentui_wgpu_texture_usage_render_attachment_def
      opentui_wgpu_texture_usage_copy_source_def opentui_wgpu_texture_usage_copy_destination_def
      opentui_wgpu_texture_usage_texture_binding_def opentui_wgpu_buffer_usage_map_read_def
      opentui_wgpu_buffer_usage_copy_destination_def opentui_wgpu_buffer_usage_storage_def
      allocating_returns)

lemma typed_queue: "makes T_int64 (Some (opentui_wgpu_device_get_queue N oom device s))"
  by (auto simp: opentui_wgpu_device_get_queue_def allocating_returns Let_def split: prod.splits)

lemma typed_probe: "opentui_wgpu_debug_triangle N device s = Some (r, s') \<Longrightarrow> has_type T_int r"
  by (auto simp: opentui_wgpu_debug_triangle_def probe_result_def Let_def
      split: prod.splits Option.bind_splits if_splits)

lemma typed_requests:
  "opentui_wgpu_instance_request_adapter N oom i s = Some x \<Longrightarrow>
     makes request (opentui_wgpu_instance_request_adapter N oom i s)"
  "opentui_wgpu_adapter_request_device N oom i a s = Some x \<Longrightarrow>
     makes request (opentui_wgpu_adapter_request_device N oom i a s)"
  by (auto simp: opentui_wgpu_instance_request_adapter_def allocating_returns
      opentui_wgpu_adapter_request_device_def result_typed split: prod.splits Option.bind_splits)

lemma map_result_misdeclared:
  "opentui_wgpu_buffer_map_read_blocking N oom device buffer nbytes s = Some (Returns r, s') \<Longrightarrow>
     \<not> has_type map_result r \<and> field r 1 = Some (Int64 0)"
  by (auto simp: allocating_returns opentui_wgpu_buffer_map_read_blocking_def result_not_pair
      opentui_wgpu_make_result_def typed_fields split: prod.splits Option.bind_splits)

section \<open>Typed arguments\<close>

lemma create_typed:
  "has_type texture_options v \<Longrightarrow> makes creation (opentui_wgpu_device_create_texture N oom device v s)"
  "has_type buffer_options v \<Longrightarrow> makes creation (opentui_wgpu_device_create_buffer N oom device v s)"
  "has_type pipeline_options v \<Longrightarrow> makes creation (opentui_wgpu_device_create_render_pipeline N oom device v s)"
  "has_type textured_pipeline_options v \<Longrightarrow>
     makes creation (opentui_wgpu_device_create_textured_render_pipeline N oom device v s)"
  "has_type compute_pipeline_options v \<Longrightarrow>
     makes creation (opentui_wgpu_device_create_compute_pipeline N oom device v s)"
  "has_type compute_bind_group_options v \<Longrightarrow>
     makes creation (opentui_wgpu_device_create_compute_bind_group N oom device v s)"
  "has_type sampler_options v \<Longrightarrow> makes creation (opentui_wgpu_device_create_sampler N oom device v s)"
  "has_type material_bind_group_options v \<Longrightarrow>
     makes creation (opentui_wgpu_device_create_material_bind_group N oom device v s)"
  by (auto simp: opentui_wgpu_make_handle_pair_def allocating_returns typed_fields opentui_wgpu_device_create_texture_def
      opentui_wgpu_device_create_buffer_def opentui_wgpu_device_create_render_pipeline_def
      opentui_wgpu_device_create_textured_render_pipeline_def
      opentui_wgpu_device_create_compute_pipeline_def opentui_wgpu_device_create_compute_bind_group_def
      opentui_wgpu_device_create_sampler_def opentui_wgpu_device_create_material_bind_group_def
      Let_def case_prod_beta)

lemma transfer_typed:
  "has_type copy_region v \<Longrightarrow> opentui_wgpu_encoder_copy_texture_to_buffer N encoder texture buffer v s \<noteq> None"
  "has_type write_texture_options v \<Longrightarrow> opentui_wgpu_queue_write_texture_bytes N queue v s \<noteq> None"
  "has_type compute_dispatch_options v \<Longrightarrow> opentui_wgpu_encoder_dispatch_compute_to_buffer N encoder v s \<noteq> None"
  by (auto simp: typed_fields opentui_wgpu_encoder_copy_texture_to_buffer_def
      opentui_wgpu_queue_write_texture_bytes_def opentui_wgpu_encoder_dispatch_compute_to_buffer_def
      Let_def case_prod_beta)

lemma draw_one_typed: "has_type draw_call v \<Longrightarrow> draw_one N pass v s \<noteq> None"
  by (auto simp: typed_fields draw_one_def)

lemma all_cells_Cons: "all_cells p (Block t (x # rest # others)) \<longleftrightarrow> t = 0 \<and> p x \<and> all_cells p rest \<and> others = []"
  by (cases others) auto

lemma draws_typed:
  "all_cells (has_type draw_call) v \<Longrightarrow> draw_all N pass v s \<noteq> None \<and> count_draws v \<noteq> None"
proof (induction v arbitrary: s rule: count_draws.induct)
  case (2 t x rest others)
  then have "has_type draw_call x" "all_cells (has_type draw_call) rest" "others = []"
    by (simp_all add: all_cells_Cons)
  then show ?case using 2(1) draw_one_typed [of x N pass s]
    by (cases "draw_one N pass x s") (simp_all del: split_paired_Ex split_paired_All)
qed simp_all

lemma render_draws_typed:
  assumes "has_type clear_color c" "has_type (T_list draw_call) v" "the (count_draws v) < 2147483648"
  shows "opentui_wgpu_encoder_render_draws_indexed N encoder view c v s \<noteq> None"
proof -
  obtain clear where clear: "double_fields c = Some clear"
    using assms(1) by (auto simp: typed_fields)
  have v: "draw_all N pass v s1 \<noteq> None" "count_draws v \<noteq> None" for pass s1
    using assms(2) draws_typed [of v] unfolding has_type.simps by blast+
  obtain n where n: "count_draws v = Some n" "n < 2147483648" using v(2) assms(3) by auto
  obtain w d where s: "s = (w, d)" by (cases s)
  obtain f where f: "draw_all N pass v s1 = Some (f pass s1)" for pass s1
    by (rule that [of "\<lambda>pass s1. the (draw_all N pass v s1)"]) (simp add: v(1))
  show ?thesis using n
    by (simp add: s f clear opentui_wgpu_encoder_render_draws_indexed_def Let_def case_prod_beta)
qed

end
