(* ===== verification/Wgpu_Props.thy ===== *)
theory Wgpu_Props
  imports Wgpu_Types
begin

text \<open>
  Properties of the GPU bindings: the diagnostic ring is an atomic log of the most recent 256
  lines, the blocking map returns in time whatever the GPU does, the copy of a mapped range
  stays inside both buffers, the draw pass issues the draws of its list in order, and the stubs
  agree with the types under which OCaml declares them, with one exception.
\<close>

section \<open>Diagnostics\<close>

text \<open>The OCaml list of a drain.\<close>

fun strings_of :: "value \<Rightarrow> bytes list option" where
  "strings_of (Long n) = (if n = 0 then Some [] else None)"
| "strings_of (Block t [Str l, rest]) = map_option (\<lambda>ls. l # ls) (strings_of rest)"
| "strings_of _ = None"

text \<open>What the loop has built after some of the reversed lines, and when it gets through them.\<close>

definition cells_of :: "bytes list \<Rightarrow> value \<Rightarrow> value" where
  "cells_of = fold (\<lambda>line list. Block 0 [Str (c_string line), list])"

lemma strings_of_cells:
  "strings_of (cells_of ls v) = map_option (\<lambda>xs. map c_string (rev ls) @ xs) (strings_of v)"
  proof (induction ls arbitrary: v)
  case Nil
  then show ?case by (cases "strings_of v") (simp_all add: cells_of_def)
next
  case (Cons l ls)
  then show ?case by (cases "strings_of v") (simp_all add: cells_of_def)
qed

lemma wf_cells_of: "wf_value v \<Longrightarrow> wf_value (cells_of ls v)"
  by (induction ls arbitrary: v) (simp_all add: cells_of_def)

definition undisturbed :: "(nat \<Rightarrow> bool) \<Rightarrow> (nat \<Rightarrow> bool) \<Rightarrow> nat \<Rightarrow> nat \<Rightarrow> bool \<Rightarrow> bool" where
  "undisturbed oom collects k n first \<longleftrightarrow> (\<forall>j < 2 * n. \<not> oom (k + j) \<and> (collects (k + j) \<longrightarrow> j = 0 \<and> first))"

lemma undisturbed_0 [simp]: "undisturbed oom collects k 0 first"
  by (simp add: undisturbed_def)

lemma undisturbed_Suc:
  "undisturbed oom collects k (Suc n) first \<longleftrightarrow>
     \<not> oom k \<and> \<not> oom (Suc k) \<and> (collects k \<longrightarrow> first) \<and> \<not> collects (Suc k) \<and> undisturbed oom collects (Suc (Suc k)) n False"
proof -
  have "(\<forall>j < 2 * Suc n. P j) \<longleftrightarrow> P 0 \<and> P (Suc 0) \<and> (\<forall>j < 2 * n. P (Suc (Suc j)))" for P
    by (simp add: All_less_Suc2)
  then show ?thesis unfolding undisturbed_def by auto
qed

lemma build_list_cases:
  "build_list oom collects k ls v =
     (if undisturbed oom collects k (length ls) (\<not> is_block v) then Some (Returns (cells_of ls v))
      else if \<exists>i < length ls. undisturbed oom collects k i (\<not> is_block v) \<and> (oom (k + 2 * i) \<or> oom (Suc (k + 2 * i)))
      then Some Out_of_memory else None)"
proof (induction ls arbitrary: k v)
  case Nil
  then show ?case by (simp add: cells_of_def)
next
  case (Cons l ls)
  have ex: "(\<exists>i < Suc n. P i) \<longleftrightarrow> P 0 \<or> (\<exists>i < n. P (Suc i))" for n and P :: "nat \<Rightarrow> bool"
    by (auto simp: less_Suc_eq_0_disj)
  show ?case
    by (auto simp: Cons ex undisturbed_Suc cells_of_def)
qed

text \<open>Lines as they are stored: at most 255 bytes, no terminator inside.\<close>

definition clean_line :: "bytes \<Rightarrow> bool" where
  "clean_line l \<longleftrightarrow> length l \<le> 255 \<and> 0 \<notin> set l"

lemma c_string_clean: "0 \<notin> set (c_string l)"
  unfolding c_string_def by (auto dest: set_takeWhileD)

lemma c_string_id: "0 \<notin> set l \<Longrightarrow> c_string l = l"
  unfolding c_string_def by (induction l) auto

lemma diag_line_clean: "clean_line (diag_line t)"
  using c_string_clean [of t] by (auto simp: clean_line_def diag_line_def dest: in_set_takeD)

text \<open>The state of the ring in every run: every pending line is clean.\<close>

definition diag_inv :: "diag_ring \<Rightarrow> bool" where
  "diag_inv d \<longleftrightarrow> diag_ok d \<and> (\<forall>l \<in> set (pending_lines d). clean_line l)"

lemma empty_diag_inv: "diag_inv empty_diag"
  by (simp add: diag_inv_def diag_ok_def empty_diag_def pending_lines_def)

lemma pending_empty [simp]: "pending_lines empty_diag = []"
  by (simp add: empty_diag_def pending_lines_def)

lemma set_keep_last: "set (keep_last n xs) \<subseteq> set xs"
  by (simp add: keep_last_def set_drop_subset)

lemma diag_inv_push: "diag_inv d \<Longrightarrow> diag_inv (opentui_wgpu_diag_push t d)"
  using dg.write_law [of d t] set_keep_last [of 256 "pending_lines d @ [diag_line t]"] diag_line_clean [of t]
  by (auto simp: diag_inv_def)

lemma diag_inv_take: "diag_inv d \<Longrightarrow> diag_inv (snd (take_lines r d))"
  using take_law [of d r] by (auto simp: diag_inv_def dest: in_set_dropD)

lemma clean_map_id: "\<forall>l \<in> set ls. clean_line l \<Longrightarrow> map c_string ls = ls"
  by (induction ls) (auto simp: clean_line_def c_string_id)

text \<open>Numbers are printed with the digits they have.\<close>

fun read_decimal :: "nat \<Rightarrow> bytes \<Rightarrow> nat" where
  "read_decimal n [] = n"
| "read_decimal n (b # bs) = read_decimal (10 * n + (unat b - 48)) bs"

lemma read_decimal_append: "read_decimal n (xs @ ys) = read_decimal (read_decimal n xs) ys"
  by (induction xs arbitrary: n) simp_all

lemma read_decimal_decimal: "read_decimal 0 (decimal n) = n"
proof (induction n rule: decimal.induct)
  case (1 n)
  have digit: "unat (of_nat (48 + k) :: 8 word) = 48 + k" if "k < 10" for k
    using that by (simp only: unsigned_of_nat) (simp add: take_bit_nat_eq_self)
  show ?case
  proof (cases "n < 10")
    case True
    then show ?thesis using digit [of n] by (simp add: decimal.simps [of n])
  next
    case False
    then show ?thesis using 1 digit [of "n mod 10"]
      by (simp add: decimal.simps [of n] read_decimal_append)
  qed
qed

text \<open>
  (C10) The diagnostic ring refines a list of the most recent 256 lines. Take any interleaving of
  pushes (from the stubs or from callbacks of the library, on any thread) and of reads of a
  drain. The lines that the reads return, and the lines that are still pending, are those of
  the list that drops its oldest line when a push makes it longer than 256. So the lines come
  out in the order they were pushed, none twice, each cut to 255 characters; and no line is
  lost while at most 256 are pending and pushed.
\<close>

theorem diagnostics_refine_log:
  assumes "diag_inv d" "log_run opentui_wgpu_diag_push (\<lambda>n. take_lines (int n)) ops d = (out, d')"
  shows "log_run (\<lambda>t xs. keep_last 256 (xs @ [diag_line t])) (\<lambda>n xs. (take n xs, drop n xs)) ops
      (pending_lines d) = (out, pending_lines d')
    \<and> subseq (out @ pending_lines d') (pending_lines d @ map diag_line (written ops))
    \<and> (length (pending_lines d) + length (written ops) \<le> 256 \<longrightarrow>
         out @ pending_lines d' = pending_lines d @ map diag_line (written ops))
    \<and> (\<forall>l \<in> set (out @ pending_lines d'). clean_line l)"
proof -
  have ok: "diag_ok d" using assms(1) by (simp add: diag_inv_def)
  note run = dg.run_law [OF ok assms(2)] dg.run_refines [OF ok assms(2)]
  have "clean_line l" if "l \<in> set (out @ pending_lines d')" for l
  proof -
    from run have "subseq (out @ pending_lines d') (pending_lines d @ map diag_line (written ops))" by blast
    then have "l \<in> set (pending_lines d @ map diag_line (written ops))"
      using that by (rule list_emb_set) simp
    then show ?thesis using assms(1) diag_line_clean by (auto simp: diag_inv_def)
  qed
  then show ?thesis using run by blast
qed

lemma diagnostics_refine_log_witness:
  "log_run (\<lambda>t xs. keep_last 256 (xs @ [diag_line t])) (\<lambda>n xs. (take n xs, drop n xs))
      [Write [65, 0, 66], Write [67], Read 1, Write [68]] []
    = ([[65]], pending_lines (snd (log_run opentui_wgpu_diag_push (\<lambda>n. take_lines (int n))
        [Write [65, 0, 66], Write [67], Read 1, Write [68]] empty_diag)))"
proof -
  let ?ops = "[Write [65, 0, 66], Write [67], Read 1, Write [68]] :: bytes log_op list"
  obtain out d' where run: "log_run opentui_wgpu_diag_push (\<lambda>n. take_lines (int n)) ?ops empty_diag = (out, d')"
    by fastforce
  note R = diagnostics_refine_log [OF empty_diag_inv run]
  moreover have "out = [[65]]"
    using R by (simp add: keep_last_def diag_line_def c_string_def)
  ultimately show ?thesis unfolding run by simp
qed

text \<open>
  (C35) What a drain does, collections included. It always removes the oldest \<open>max\<close> pending
  lines from the ring (none when \<open>max\<close>, as a C int, is not positive). It returns exactly when
  no allocation of the list raises and none but the first collects; then the result is a
  well-formed OCaml list of these lines in order, each at most 255 characters without a NUL.
  It raises exactly when an allocation raises before a collection has done harm, and then the
  lines are lost. In every other case a collection has invalidated a block that the loop uses.
\<close>

theorem drain_diagnostics_exact:
  assumes "diag_inv d" "opentui_wgpu_drain_diagnostics oom collects max_value d = (r, d')"
  defines "ls \<equiv> take (nat (to_int max_value)) (pending_lines d)"
  shows "diag_inv d' \<and> pending_lines d' = drop (nat (to_int max_value)) (pending_lines d)
    \<and> ((\<exists>v. r = Some (Returns v)) \<longleftrightarrow> (\<forall>k < 2 * length ls. \<not> oom k \<and> (k = 0 \<or> \<not> collects k)))
    \<and> (\<forall>v. r = Some (Returns v) \<longrightarrow> wf_value v \<and> strings_of v = Some ls \<and> (\<forall>l \<in> set ls. clean_line l))
    \<and> (r = Some Out_of_memory \<longleftrightarrow> (\<exists>i < length ls. (oom (2 * i) \<or> oom (2 * i + 1))
         \<and> (\<forall>k < 2 * i. \<not> oom k \<and> (k = 0 \<or> \<not> collects k))))"
proof -
  have lines: "fst (take_lines (to_int max_value) d) = ls" and d': "d' = snd (take_lines (to_int max_value) d)"
    and pending: "pending_lines d' = drop (nat (to_int max_value)) (pending_lines d)"
    using assms take_law [of d "to_int max_value"]
    by (auto simp: opentui_wgpu_drain_diagnostics_def diag_inv_def split: prod.splits)
  have clean: "\<forall>l \<in> set ls. clean_line l"
    using assms(1) by (auto simp: diag_inv_def ls_def dest: in_set_takeD)
  have r: "r = build_list oom collects 0 (rev ls) (Long 0)"
    using assms(2) lines by (auto simp: opentui_wgpu_drain_diagnostics_def split: prod.splits)
  have free: "undisturbed oom collects 0 n True \<longleftrightarrow> (\<forall>k < 2 * n. \<not> oom k \<and> (k = 0 \<or> \<not> collects k))" for n
    by (auto simp: undisturbed_def)
  have v: "wf_value (cells_of (rev ls) (Long 0))" "strings_of (cells_of (rev ls) (Long 0)) = Some ls"
    using wf_cells_of [of "Long 0" "rev ls"] by (simp_all add: strings_of_cells clean_map_id [OF clean])
  have "\<not> (undisturbed oom collects 0 (length ls) True \<and>
      (\<exists>i < length ls. undisturbed oom collects 0 i True \<and> (oom (2 * i) \<or> oom (Suc (2 * i)))))"
    by (auto simp: undisturbed_def dest!: spec)
  then show ?thesis
    unfolding r build_list_cases length_rev is_block.simps free [symmetric]
    using diag_inv_take [OF assms(1)] pending clean v by (auto simp: d')
qed

text \<open>One line: a collection when its cell is allocated is harmless, one when its string is
  allocated is not.\<close>

lemma drain_diagnostics_exact_witness:
  "let d = opentui_wgpu_diag_push [72, 105] empty_diag in
   (\<exists>v d'. opentui_wgpu_drain_diagnostics (\<lambda>_. False) (\<lambda>k. k = 0) 16 d = (Some (Returns v), d')
      \<and> strings_of v = Some [[72, 105]] \<and> pending_lines d' = [])
   \<and> (\<exists>d'. opentui_wgpu_drain_diagnostics (\<lambda>_. False) (\<lambda>k. k = 1) 16 d = (None, d') \<and> pending_lines d' = [])"
proof -
  let ?d = "opentui_wgpu_diag_push [72, 105] empty_diag"
  have p: "pending_lines ?d = [[72, 105]]"
    using dg.write_law [of empty_diag "[72, 105]"] empty_diag_inv
    by (simp add: diag_inv_def keep_last_def diag_line_def c_string_def)
  have n: "nat (to_int 16) = 16" by (simp add: to_int_small)
  obtain r d' where r: "opentui_wgpu_drain_diagnostics (\<lambda>_. False) (\<lambda>k. k = 0) 16 ?d = (r, d')" by fastforce
  obtain s e' where s: "opentui_wgpu_drain_diagnostics (\<lambda>_. False) (\<lambda>k. k = 1) 16 ?d = (s, e')" by fastforce
  note inv = diag_inv_push [OF empty_diag_inv]
  have "\<not> (\<exists>v. s = Some (Returns v))" "s \<noteq> Some Out_of_memory" "pending_lines e' = []"
    using drain_diagnostics_exact [OF inv s] by (auto simp: p n)
  then have s': "s = None" by (metis option.exhaust outcome.exhaust)
  show ?thesis
    using drain_diagnostics_exact [OF inv r] r s \<open>pending_lines e' = []\<close> unfolding s'
    by (auto simp: p n)
qed

section \<open>Waiting for a buffer map\<close>

text \<open>
  The documented behaviour of the clock (CLOCK_MONOTONIC in nanoseconds, \<open>now\<close>) and of usleep,
  which sleeps at least as long as it is asked to; and messages that can be read.
\<close>

definition nanoseconds :: "int \<times> int \<Rightarrow> int" where
  "nanoseconds t = fst t * 1000000000 + snd t"

definition valid_time :: "int \<times> int \<Rightarrow> bool" where
  "valid_time t \<longleftrightarrow> 0 \<le> snd t \<and> snd t < 1000000000"

definition monotonic_clock :: "'w gpu_api \<Rightarrow> ('w gpu \<Rightarrow> int) \<Rightarrow> bool" where
  "monotonic_clock N now \<longleftrightarrow>
     (\<forall>s. valid_time (fst (clock_gettime (gd N) s)) \<and> now s \<le> nanoseconds (fst (clock_gettime (gd N) s)) \<and>
        nanoseconds (fst (clock_gettime (gd N) s)) \<le> now (snd (clock_gettime (gd N) s))) \<and>
     (\<forall>device s. now s \<le> now (snd (wgpuDevicePoll (gd N) device s))) \<and>
     (\<forall>s. now s + 1000000 \<le> now (usleep (gd N) 1000 s))"

definition readable :: "completion option \<Rightarrow> bool" where
  "readable fired \<longleftrightarrow> (\<forall>c. fired = Some c \<longrightarrow> opentui_wgpu_copy_message 256 (cp_message c) \<noteq> None)"

definition readable_maps :: "'w gpu_api \<Rightarrow> bool" where
  "readable_maps N \<longleftrightarrow> (\<forall>device s. readable (fst (wgpuDevicePoll (gd N) device s))) \<and>
     (\<forall>b m i n s. readable (fst (wgpuBufferMapAsync (gm N) b m i n s)))"

text \<open>The state after \<open>k\<close> rounds of the loop in which the callback did not fire.\<close>

fun after_rounds :: "'w gpu_api \<Rightarrow> u64 \<Rightarrow> nat \<Rightarrow> 'w gpu \<Rightarrow> 'w gpu" where
  "after_rounds N device 0 s = s"
| "after_rounds N device (Suc k) s = after_rounds N device k
     (usleep (gd N) 1000 (snd (clock_gettime (gd N) (snd (wgpuDevicePoll (gd N) device s)))))"

text \<open>How the loop ends in round \<open>k\<close>: the callback fires, or the clock shows ten seconds.\<close>

definition map_ends ::
  "'w gpu_api \<Rightarrow> u64 \<Rightarrow> int \<times> int \<Rightarrow> 'w gpu \<Rightarrow> nat \<Rightarrow> i32 \<Rightarrow> 'w gpu \<Rightarrow> bool" where
  "map_ends N device start s k status s' \<longleftrightarrow>
     (\<forall>j < k. fst (wgpuDevicePoll (gd N) device (after_rounds N device j s)) = None) \<and>
     (case wgpuDevicePoll (gd N) device (after_rounds N device k s) of
        (Some c, s1) \<Rightarrow> status = cp_status c \<and> s' = s1
      | (None, s1) \<Rightarrow> status = OPENTUI_WGPU_WAIT_FAILURE \<and> s' = snd (clock_gettime (gd N) s1) \<and>
          10 \<le> elapsed_seconds start (fst (clock_gettime (gd N) s1)))"

lemma elapsed_after_11:
  assumes "valid_time start" "valid_time t" "nanoseconds start + 11000000000 \<le> nanoseconds t"
  shows "10 \<le> elapsed_seconds start t"
proof -
  have bounds: "- 1000000000 < snd t - snd start" "snd t - snd start < 1000000000"
    using assms(1,2) by (auto simp: valid_time_def)
  with assms(3) have "11 \<le> fst t - fst start" by (simp add: nanoseconds_def)
  then have "of_int 11 \<le> (of_int (fst t - fst start) :: rat)" by (simp only: of_int_le_iff)
  then have seconds: "of_int 11 \<le> round_f64 (of_int (fst t - fst start))" by (rule round_f64_ge_int) simp
  have "of_int (- 1000000000) \<le> (of_int (snd t - snd start) :: rat)"
    using bounds(1) by (simp only: of_int_le_iff)
  then have "of_int (- 1) \<le> (of_int (snd t - snd start) / 1000000000 :: rat)" by (simp add: divide_simps)
  then have fraction: "of_int (- 1) \<le> round_f64 (of_int (snd t - snd start) / 1000000000)"
    by (rule round_f64_ge_int) simp
  have "of_int 10 \<le> round_f64 (of_int (fst t - fst start))
      + round_f64 (of_int (snd t - snd start) / 1000000000)"
    using seconds fraction by simp
  then have "of_int 10 \<le> elapsed_seconds start t"
    unfolding elapsed_seconds_def by (rule round_f64_ge_int) simp
  then show ?thesis by simp
qed

lemma map_loop_round:
  assumes "\<not> w_done wait" "wgpuDevicePoll (gd N) device s = (None, s1)" "clock_gettime (gd N) s1 = (t, s2)"
  shows "map_loop N device start wait s =
    (if elapsed_seconds start t \<ge> 10
     then Some (wait\<lparr>w_status := OPENTUI_WGPU_WAIT_FAILURE, w_message := snprintf 256
       (ascii ''buffer map timed out after '' @ format_tenths (elapsed_seconds start t) @ ascii '' seconds'')\<rparr>, s2)
     else map_loop N device start wait (usleep (gd N) 1000 s2))"
  using assms by (subst map_loop.simps) (simp add: Let_def)

lemma map_loop_fires:
  assumes "\<not> w_done wait" "wgpuDevicePoll (gd N) device s = (Some c, s1)"
    "opentui_wgpu_copy_message 256 (cp_message c) = Some m"
  shows "map_loop N device start wait s =
    Some (wait\<lparr>w_done := True, w_status := cp_status c, w_handle := 0, w_message := m\<rparr>, s1)"
  using assms by (subst map_loop.simps) (simp add: opentui_wgpu_buffer_map_callback_def)

lemma map_ends_Suc:
  assumes "wgpuDevicePoll (gd N) device s = (None, s1)" "clock_gettime (gd N) s1 = (t, s2)"
    "map_ends N device start (usleep (gd N) 1000 s2) k status s'"
  shows "map_ends N device start s (Suc k) status s'"
  using assms by (auto simp: map_ends_def less_Suc_eq_0_disj)

lemma map_loop_returns:
  assumes clock: "monotonic_clock N now" and maps: "readable_maps N" and start: "valid_time start"
    and wait: "\<not> w_done wait"
  shows "i \<le> 11000 \<Longrightarrow> nanoseconds start + int i * 1000000 \<le> now s \<Longrightarrow>
    \<exists>k wait' s'. map_loop N device start wait s = Some (wait', s') \<and> i + k \<le> 11000 \<and>
      map_ends N device start s k (w_status wait') s'"
proof (induction "11000 - i" arbitrary: i s rule: less_induct)
  case less
  obtain fired s1 where poll: "wgpuDevicePoll (gd N) device s = (fired, s1)" by (rule prod.exhaust)
  show ?case
  proof (cases fired)
    case (Some c)
    have "readable fired" using maps poll by (metis readable_maps_def fst_conv)
    then obtain m where m: "opentui_wgpu_copy_message 256 (cp_message c) = Some m"
      using Some by (auto simp: readable_def)
    note L = map_loop_fires [OF wait poll [unfolded Some] m, of start]
    have "map_ends N device start s 0 (cp_status c) s1" using poll Some by (simp add: map_ends_def)
    then show ?thesis using L less.prems(1) by (intro exI [of _ 0] exI [of _ s1]) auto
  next
    case None
    obtain t s2 where t: "clock_gettime (gd N) s1 = (t, s2)" by (rule prod.exhaust)
    note L = map_loop_round [OF wait poll [unfolded None] t, of start]
    have "now s \<le> now s1" using clock poll by (metis monotonic_clock_def snd_conv)
    moreover have "now s1 \<le> nanoseconds t" "nanoseconds t \<le> now s2" "valid_time t"
      using clock t unfolding monotonic_clock_def by (metis fst_conv snd_conv)+
    moreover have "now s2 + 1000000 \<le> now (usleep (gd N) 1000 s2)"
      using clock unfolding monotonic_clock_def by blast
    ultimately have times: "now s \<le> nanoseconds t" "now s + 1000000 \<le> now (usleep (gd N) 1000 s2)" "valid_time t"
      by linarith+
    show ?thesis
    proof (cases "elapsed_seconds start t \<ge> 10")
      case True
      then have "map_ends N device start s 0 OPENTUI_WGPU_WAIT_FAILURE s2"
        using poll None t by (simp add: map_ends_def)
      then show ?thesis using L True less.prems(1) by (intro exI [of _ 0] exI [of _ s2]) auto
    next
      case False
      then have "\<not> nanoseconds start + 11000000000 \<le> nanoseconds t"
        using elapsed_after_11 [OF start times(3)] by blast
      then have i: "i < 11000" using less.prems times(1) by auto
      then have "nanoseconds start + int (Suc i) * 1000000 \<le> now (usleep (gd N) 1000 s2)"
        using less.prems(2) times(2) by simp
      moreover have "11000 - Suc i < 11000 - i" "Suc i \<le> 11000" using i by simp_all
      ultimately obtain k wait' s' where
        "map_loop N device start wait (usleep (gd N) 1000 s2) = Some (wait', s')" "Suc i + k \<le> 11000"
        "map_ends N device start (usleep (gd N) 1000 s2) k (w_status wait') s'"
        using less.hyps by blast
      then show ?thesis using L False map_ends_Suc [OF poll [unfolded None] t]
        by (intro exI [of _ "Suc k"] exI [of _ wait'] exI [of _ s']) auto
    qed
  qed
qed

text \<open>
  (C11) The blocking map returns, whatever the GPU does. If the clock is monotonic and usleep
  sleeps, the loop polls at most 11001 times. When the registration itself fired the callback,
  or a poll did, the result is the status of the callback, and no poll came after it. Otherwise
  the result is the status -1, and then ten seconds have passed on the clock.
\<close>

theorem map_read_returns:
  assumes "monotonic_clock N now" "readable_maps N"
    "wgpuBufferMapAsync (gm N) buffer (WGPUMapMode_Read (gc N)) 0 nbytes s = (fired, s1)"
    "clock_gettime (gd N) s1 = (start, s2)"
  shows "\<exists>status message s'.
    opentui_wgpu_buffer_map_read_blocking N oom device buffer nbytes s
      = Some (allocating oom (Block 0 [Long (sint status), Int64 0, Str message]), s') \<and>
    (case fired of
       Some c \<Rightarrow> status = cp_status c \<and> s' = s2
     | None \<Rightarrow> \<exists>k \<le> 11000. map_ends N device start s2 k status s')"
proof (cases fired)
  case (Some c)
  have "readable fired" using assms(2,3) by (metis readable_maps_def fst_conv)
  then obtain m where "opentui_wgpu_copy_message 256 (cp_message c) = Some m"
    using Some by (auto simp: readable_def)
  then show ?thesis using Some assms(3,4)
    by (auto simp: opentui_wgpu_buffer_map_read_blocking_def opentui_wgpu_buffer_map_callback_def
        opentui_wgpu_make_result_def map_loop.simps)
next
  case None
  have start: "valid_time start" "nanoseconds start \<le> now s2"
    using assms(1,4) unfolding monotonic_clock_def by (metis fst_conv snd_conv)+
  have "\<not> w_done zero_wait" by (simp add: zero_wait_def)
  from map_loop_returns [OF assms(1,2) start(1) this, of 0 s2 device] start(2)
  obtain k wait s' where "map_loop N device start zero_wait s2 = Some (wait, s')" "k \<le> 11000"
    "map_ends N device start s2 k (w_status wait) s'" by auto
  then show ?thesis using None assms(3,4)
    by (auto simp: opentui_wgpu_buffer_map_read_blocking_def opentui_wgpu_make_result_def)
qed

section \<open>The draw pass\<close>

text \<open>A proper draw list, decoded: pipeline, bind group, vertices, indices, count.\<close>

type_synonym draw_operands = "u64 \<times> u64 \<times> (u64 \<times> u64) \<times> (u64 \<times> u64) \<times> u32"

definition draw_of :: "value \<Rightarrow> draw_operands option" where
  "draw_of v = do {
     pipeline \<leftarrow> int64_field v 0;
     bind_group \<leftarrow> int64_field v 1;
     vertices \<leftarrow> int64_field v 2;
     vertex_size \<leftarrow> int64_field v 3;
     indices \<leftarrow> int64_field v 4;
     index_size \<leftarrow> int64_field v 5;
     index_count \<leftarrow> u32_field v 6;
     Some (pipeline, bind_group, (vertices, vertex_size), (indices, index_size), index_count)
   }"

fun draws_of :: "value \<Rightarrow> draw_operands list option" where
  "draws_of (Long n) = (if n = 0 then Some [] else None)"
| "draws_of (Block t (v # rest # others)) = do { c \<leftarrow> draw_of v; cs \<leftarrow> draws_of rest; Some (c # cs) }"
| "draws_of _ = None"

text \<open>The five native calls of a draw.\<close>

definition issue :: "'w gpu_api \<Rightarrow> u64 \<Rightarrow> draw_operands \<Rightarrow> 'w gpu \<Rightarrow> 'w gpu" where
  "issue N pass = (\<lambda>(pipeline, bind_group, (vertices, vertex_size), (indices, index_size), index_count).
     wgpuRenderPassEncoderDrawIndexed (gk N) pass index_count 1 0 0 0
     \<circ> wgpuRenderPassEncoderSetIndexBuffer (gk N) pass indices (WGPUIndexFormat_Uint16 (gb N)) 0 index_size
     \<circ> wgpuRenderPassEncoderSetVertexBuffer (gk N) pass 0 vertices 0 vertex_size
     \<circ> wgpuRenderPassEncoderSetBindGroup (gk N) pass 0 bind_group
     \<circ> wgpuRenderPassEncoderSetPipeline (gk N) pass pipeline)"

lemma draw_one_issue: "draw_one N pass v s = map_option (\<lambda>c. issue N pass c s) (draw_of v)"
  by (simp add: draw_one_def draw_of_def issue_def Let_def split: Option.bind_split)

lemma draw_all_issue: "draw_all N pass v s = map_option (\<lambda>cs. fold (issue N pass) cs s) (draws_of v)"
  by (induction v arbitrary: s rule: draws_of.induct)
    (simp_all add: draw_one_issue split: Option.bind_split option.splits)

lemma count_draws_length: "draws_of v = Some cs \<Longrightarrow> count_draws v = Some (length cs)"
  by (induction v arbitrary: cs rule: draws_of.induct) (auto split: if_splits Option.bind_splits)

lemma length_decimal: "n < 10 ^ Suc k \<Longrightarrow> length (decimal n) \<le> Suc k"
proof (induction k arbitrary: n)
  case (Suc k)
  then have "n div 10 < 10 ^ Suc k" by (simp add: div_less_iff_less_mult)
  with Suc.IH show ?case by (cases "n < 10") (simp_all add: decimal.simps [of n])
qed (simp add: decimal.simps)

text \<open>
  (C34) The draw pass reads its list exactly. If the clear color is four doubles and the list is a
  proper list of draws (fewer than \<open>2 ^ 31\<close>), then the pass is begun once, after a diagnostic line
  with the number of draws; each draw issues its five calls with its own operands, in the order
  of the list; then the pass is ended and released. On any other value the stub reads outside a
  block.
\<close>

theorem render_draws_exact:
  assumes "double_fields color = Some clear"
  shows "opentui_wgpu_encoder_render_draws_indexed N encoder view color draws (w, d) =
    (case draws_of draws of
       None \<Rightarrow> None
     | Some cs \<Rightarrow>
         if length cs \<ge> 2147483648 then None
         else
           let line = ascii ''DRAW pass draws='' @ decimal (length cs);
               (pass, s1) = wgpuCommandEncoderBeginRenderPass (gk N) encoder
                 \<lparr>pd_label = ascii ''opentui-wgpu-draw-pass'', pd_view = view,
                  pd_depth_slice = WGPU_DEPTH_SLICE_UNDEFINED (gb N), pd_load_op = WGPULoadOp_Clear (gb N),
                  pd_store_op = WGPUStoreOp_Store (gb N), pd_clear = clear\<rparr>
                 (w, opentui_wgpu_diag_push line d) in
           Some (wgpuRenderPassEncoderRelease (gk N) pass (wgpuRenderPassEncoderEnd (gk N) pass
             (fold (issue N pass) cs s1))))
    \<and> read_decimal 0 (decimal (length (the (draws_of draws)))) = length (the (draws_of draws))"
proof (cases "draws_of draws")
  case None
  then show ?thesis using assms
    by (simp add: opentui_wgpu_encoder_render_draws_indexed_def draw_all_issue read_decimal_decimal Let_def
        split: Option.bind_split prod.splits)
next
  case (Some cs)
  have "length (decimal (length cs)) \<le> Suc 9" if "length cs < 2147483648"
    using that by (intro length_decimal) simp
  then have cut: "snprintf 64 (ascii ''DRAW pass draws='' @ decimal (length cs))
      = ascii ''DRAW pass draws='' @ decimal (length cs)" if "length cs < 2147483648"
    using that by (simp add: snprintf_def ascii_def)
  show ?thesis using assms Some
    by (simp add: opentui_wgpu_encoder_render_draws_indexed_def draw_all_issue read_decimal_decimal
        count_draws_length cut opentui_wgpu_label_def Let_def case_prod_beta)
qed

section \<open>The mapped range\<close>

lemma sint_64:
  "sint (x :: 64 word) = (if unat x < 2 ^ 63 then int (unat x) else int (unat x) - 2 ^ 64)"
proof -
  have s: "sint x = (uint x + 2 ^ 63) mod 2 ^ 64 - 2 ^ 63"
    by (simp add: sint_uint signed_take_bit_eq_take_bit_shift take_bit_eq_mod)
  have u: "0 \<le> uint x" "uint x < 2 ^ 64" using unsigned_less [of x, where ?'a = int] by simp_all
  show ?thesis
  proof (cases "unat x < 2 ^ 63")
    case True
    then have "uint x < 2 ^ 63" by (metis of_nat_less_iff of_nat_numeral of_nat_power of_nat_unat)
    then have "(uint x + 2 ^ 63) mod 2 ^ 64 = uint x + 2 ^ 63" using u by (intro mod_pos_pos_trivial) auto
    then show ?thesis using s True by simp
  next
    case False
    then have "int (2 ^ 63) \<le> int (unat x)" by (simp only: of_nat_le_iff not_less)
    then have "2 ^ 63 \<le> uint x" by simp
    then have "(uint x + 2 ^ 63 - 2 ^ 64) mod 2 ^ 64 = uint x + 2 ^ 63 - 2 ^ 64"
      using u by (intro mod_pos_pos_trivial) auto
    then have "(uint x + 2 ^ 63) mod 2 ^ 64 = uint x - 2 ^ 63" unfolding minus_mod_self2 by simp
    then show ?thesis using s False by simp
  qed
qed

lemma sint_64_cases:
  obtains n where "unat (x :: 64 word) = n" "n < 2 ^ 64"
    "sint x = (if n < 2 ^ 63 then int n else int n - 2 ^ 64)"
  using sint_64 [of x] unsigned_less [of x, where ?'a = nat] by (simp add: that)

text \<open>The signed comparison of the stub, on a bigarray of one dimension.\<close>

lemma bigarray_length:
  assumes "wf_bigarray a" "num_dims a = 1"
  shows "sint (dim a ! 0) = int (length (ba_data a))" "length (ba_data a) < 2 ^ 63" "length (dim a) = 1"
proof -
  from assms show l: "length (dim a) = 1" by (simp add: wf_bigarray_def)
  then have "dim a ! 0 \<in> set (dim a)" by simp
  with assms have "0 \<le> sint (dim a ! 0)" "unat (dim a ! 0) = length (ba_data a)"
    by (auto simp: wf_bigarray_def)
  then show "sint (dim a ! 0) = int (length (ba_data a))" "length (ba_data a) < 2 ^ 63"
    using sint_64 [of "dim a ! 0"] unsigned_less [of "dim a ! 0", where ?'a = nat]
    by (auto split: if_splits)
qed

text \<open>
  (C33) The copy of a mapped range. The destination is a one-dimensional bigarray as OCaml
  makes them, and the library gives NULL or as many bytes as it was asked for. A size above
  that of the destination is refused before the library is called. Otherwise a mapped range
  replaces the first bytes of the destination, and only them; without one the destination is
  unchanged. A negative size passes the test: the stub is undefined if the library maps it.
\<close>

theorem mapped_copy_exact:
  assumes "wf_bigarray destination" "num_dims destination = 1"
    "wgpuBufferGetMappedRange (gm N) buffer range_start nbytes s = (mapped, s1)"
    "\<forall>bs. mapped = Some bs \<longrightarrow> length bs = unat nbytes"
  shows "opentui_wgpu_buffer_get_mapped_range_copy N buffer range_start nbytes destination s =
    (if sint nbytes > int (length (ba_data destination)) then Some (0, destination, s)
     else case mapped of
       None \<Rightarrow> Some (0, destination, s1)
     | Some bs \<Rightarrow>
         if sint nbytes < 0 then None
         else Some (1, destination\<lparr>ba_data := bs @ drop (length bs) (ba_data destination)\<rparr>, s1))
    \<and> (\<forall>r destination' s'. opentui_wgpu_buffer_get_mapped_range_copy N buffer range_start nbytes destination s
        = Some (r, destination', s') \<longrightarrow> wf_bigarray destination' \<and> num_dims destination' = 1)"
    (is "?stub = ?result \<and> _")
proof -
  note D = bigarray_length [OF assms(1,2)]
  have exact: "?stub = ?result"
  proof (cases mapped)
    case (Some bs)
    obtain n where n: "unat nbytes = n" "n < 2 ^ 64"
      "sint nbytes = (if n < 2 ^ 63 then int n else int n - 2 ^ 64)" by (rule sint_64_cases)
    then have "length bs = n" using assms(4) Some by simp
    then show ?thesis using Some assms(3) D(1,2) n
      by (auto simp: opentui_wgpu_buffer_get_mapped_range_copy_def Let_def split: if_splits)
  qed (use assms(3) D(1) in \<open>simp add: opentui_wgpu_buffer_get_mapped_range_copy_def\<close>)
  have "wf_bigarray (destination\<lparr>ba_data := bs @ drop (length bs) (ba_data destination)\<rparr>)"
    if "mapped = Some bs" "\<not> sint nbytes > int (length (ba_data destination))" "\<not> sint nbytes < 0" for bs
  proof -
    obtain n where n: "unat nbytes = n" "n < 2 ^ 64"
      "sint nbytes = (if n < 2 ^ 63 then int n else int n - 2 ^ 64)" by (rule sint_64_cases)
    then have "length bs \<le> length (ba_data destination)" using that assms(4) by (auto split: if_splits)
    then show ?thesis using assms(1,2) by (auto simp: wf_bigarray_def)
  qed
  then show ?thesis unfolding exact using assms(1,2) by (auto split: if_splits option.splits)
qed

section \<open>The types of the declarations\<close>

lemma strings_typed: "has_type (T_list T_string) (cells_of ls (Long 0))"
proof -
  have "all_cells (has_type T_string) v \<Longrightarrow> all_cells (has_type T_string) (cells_of ls v)" for v
    by (induction ls arbitrary: v) (simp_all add: cells_of_def)
  then show ?thesis by simp
qed

lemma typed_drain:
  "opentui_wgpu_drain_diagnostics oom_at collects max_value d = (Some (Returns r), d') \<Longrightarrow>
     has_type (T_list T_string) r"
  using strings_typed
  by (auto simp: opentui_wgpu_drain_diagnostics_def build_list_cases split: prod.splits if_splits)

text \<open>
  (C22) The stubs against the declarations of native.ml. An argument of the declared tuple type is
  decoded without a read outside a block, by every stub that takes one; for the draw pass this
  needs fewer than \<open>2 ^ 31\<close> draws, which the C int counts. Every result that is allocated, and the
  answers of the format constant and of the debug triangle, have the declared type. Only the
  blocking map differs: it is declared as a status and a message, but the stub returns a
  triple, whose second field, read as the message, is the number 0 in a custom block and not a
  string. (Stubs that return unit return no value in the model, and the copy of a mapped range
  returns a number by its type.)
\<close>

theorem declared_types_agree:
  "(has_type texture_options v \<longrightarrow> makes creation (opentui_wgpu_device_create_texture N oom device v s)) \<and>
   (has_type buffer_options v \<longrightarrow> makes creation (opentui_wgpu_device_create_buffer N oom device v s)) \<and>
   (has_type pipeline_options v \<longrightarrow> makes creation (opentui_wgpu_device_create_render_pipeline N oom device v s)) \<and>
   (has_type textured_pipeline_options v \<longrightarrow>
      makes creation (opentui_wgpu_device_create_textured_render_pipeline N oom device v s)) \<and>
   (has_type compute_pipeline_options v \<longrightarrow>
      makes creation (opentui_wgpu_device_create_compute_pipeline N oom device v s)) \<and>
   (has_type compute_bind_group_options v \<longrightarrow>
      makes creation (opentui_wgpu_device_create_compute_bind_group N oom device v s)) \<and>
   (has_type sampler_options v \<longrightarrow> makes creation (opentui_wgpu_device_create_sampler N oom device v s)) \<and>
   (has_type material_bind_group_options v \<longrightarrow>
      makes creation (opentui_wgpu_device_create_material_bind_group N oom device v s)) \<and>
   (has_type copy_region v \<longrightarrow>
      opentui_wgpu_encoder_copy_texture_to_buffer N encoder texture buffer v s \<noteq> None) \<and>
   (has_type write_texture_options v \<longrightarrow> opentui_wgpu_queue_write_texture_bytes N queue v s \<noteq> None) \<and>
   (has_type compute_dispatch_options v \<longrightarrow>
      opentui_wgpu_encoder_dispatch_compute_to_buffer N encoder v s \<noteq> None) \<and>
   (has_type clear_color c \<and> has_type (T_list draw_call) v \<and> the (count_draws v) < 2147483648 \<longrightarrow>
      opentui_wgpu_encoder_render_draws_indexed N encoder view c v s \<noteq> None) \<and>
   makes creation (Some (opentui_wgpu_instance_create N oom s)) \<and>
   makes creation (Some (opentui_wgpu_texture_create_view N oom texture s)) \<and>
   makes creation (Some (opentui_wgpu_device_create_command_encoder N oom device s)) \<and>
   makes creation (Some (opentui_wgpu_command_encoder_finish N oom encoder s)) \<and>
   makes creation (Some (opentui_wgpu_device_create_shader_module N oom device wgsl s)) \<and>
   makes creation (Some (opentui_wgpu_device_create_uniform_bind_group N oom device layout buffer nbytes s)) \<and>
   makes creation (Some (opentui_wgpu_device_create_uniform_bind_group_layout N oom device s)) \<and>
   makes creation (Some (opentui_wgpu_device_create_pipeline_layout N oom device layout s)) \<and>
   makes creation (Some (opentui_wgpu_device_create_supersampling_bind_group_layout N oom device s)) \<and>
   makes creation (Some (opentui_wgpu_device_create_material_bind_group_layout N oom device s)) \<and>
   makes T_int64 (Some (opentui_wgpu_device_get_queue N oom device s)) \<and>
   has_type T_int (opentui_wgpu_texture_format_rgba8_unorm N) \<and>
   makes T_int64 (Some (opentui_wgpu_texture_usage_render_attachment N oom, ())) \<and>
   makes T_int64 (Some (opentui_wgpu_texture_usage_copy_source N oom, ())) \<and>
   makes T_int64 (Some (opentui_wgpu_texture_usage_copy_destination N oom, ())) \<and>
   makes T_int64 (Some (opentui_wgpu_texture_usage_texture_binding N oom, ())) \<and>
   makes T_int64 (Some (opentui_wgpu_buffer_usage_map_read N oom, ())) \<and>
   makes T_int64 (Some (opentui_wgpu_buffer_usage_copy_destination N oom, ())) \<and>
   makes T_int64 (Some (opentui_wgpu_buffer_usage_storage N oom, ())) \<and>
   (\<forall>r s'. opentui_wgpu_debug_triangle N device s = Some (r, s') \<longrightarrow> has_type T_int r) \<and>
   (\<forall>r d d'. opentui_wgpu_drain_diagnostics oom_at collects max_value d = (Some (Returns r), d') \<longrightarrow>
      has_type (T_list T_string) r) \<and>
   (\<forall>x. opentui_wgpu_instance_request_adapter N oom instance_handle s = Some x \<longrightarrow>
      makes request (opentui_wgpu_instance_request_adapter N oom instance_handle s)) \<and>
   (\<forall>x. opentui_wgpu_adapter_request_device N oom instance_handle adapter s = Some x \<longrightarrow>
      makes request (opentui_wgpu_adapter_request_device N oom instance_handle adapter s)) \<and>
   (\<forall>r s'. opentui_wgpu_buffer_map_read_blocking N oom device buffer nbytes s = Some (Returns r, s') \<longrightarrow>
      \<not> has_type map_result r \<and> field r 1 = Some (Int64 0))"
  by (intro conjI impI allI; (elim conjE)?;
    (rule create_typed transfer_typed render_draws_typed typed_creations typed_layouts typed_queue
      typed_constants typed_probe typed_drain typed_requests
      map_result_misdeclared [THEN conjunct1] map_result_misdeclared [THEN conjunct2]; assumption?))

section \<open>A concrete library\<close>

text \<open>A library whose world is a clock and the objects it was given, for the instances below.\<close>

type_synonym toy_world = "int \<times> u64 list"

definition record_object :: "u64 \<Rightarrow> toy_world gpu \<Rightarrow> toy_world gpu" where
  "record_object x = (\<lambda>((t, xs), d). ((t, xs @ [x]), d))"

definition sleep_for :: "nat \<Rightarrow> toy_world gpu \<Rightarrow> toy_world gpu" where
  "sleep_for us = (\<lambda>((t, xs), d). ((t + 1000 * int us, xs), d))"

definition read_clock :: "toy_world gpu \<Rightarrow> (int \<times> int) \<times> toy_world gpu" where
  "read_clock s = ((fst (fst s) div 1000000000, fst (fst s) mod 1000000000), s)"

definition idle_device :: "toy_world gpu_device_api" where
  "idle_device = \<lparr>wgpuCreateInstance = Pair 1, wgpuInstanceRelease = (\<lambda>_ s. s),
     wgpuInstanceRequestAdapter = (\<lambda>_. Pair (1, None)), wgpuInstanceWaitAny = (\<lambda>_ _. Pair (1, None)),
     wgpuAdapterRelease = (\<lambda>_ s. s), wgpuAdapterRequestDevice = (\<lambda>_ _. Pair (1, None)),
     wgpuDeviceRelease = (\<lambda>_ s. s), wgpuDeviceGetQueue = (\<lambda>_. Pair 1), wgpuQueueRelease = (\<lambda>_ s. s),
     wgpuSetLogCallback = (\<lambda>_ s. s), wgpuSetLogLevel = (\<lambda>_ s. s), wgpuDevicePoll = (\<lambda>_. Pair None),
     clock_gettime = read_clock, usleep = sleep_for\<rparr>"

definition idle_memory :: "toy_world gpu_memory_api" where
  "idle_memory = \<lparr>wgpuDeviceCreateTexture = (\<lambda>_ _. Pair 1), wgpuTextureRelease = (\<lambda>_ s. s),
     wgpuTextureCreateView = (\<lambda>_. Pair 1), wgpuTextureViewRelease = (\<lambda>_ s. s),
     wgpuDeviceCreateBuffer = (\<lambda>_ _. Pair 1), wgpuBufferRelease = (\<lambda>_ s. s),
     wgpuBufferMapAsync = (\<lambda>_ _ _ _. Pair None),
     wgpuBufferGetMappedRange = (\<lambda>_ _ n. Pair (Some (replicate (unat n) 7))),
     wgpuBufferUnmap = (\<lambda>_ s. s), wgpuQueueWriteBuffer = (\<lambda>_ _ _ _ s. s),
     wgpuQueueWriteTexture = (\<lambda>_ _ _ _ _ s. s)\<rparr>"

definition idle_command :: "toy_world gpu_command_api" where
  "idle_command = \<lparr>wgpuDeviceCreateCommandEncoder = (\<lambda>_ _. Pair 1), wgpuCommandEncoderRelease = (\<lambda>_ s. s),
     wgpuCommandEncoderCopyTextureToBuffer = (\<lambda>_ _ _ _ s. s),
     wgpuCommandEncoderCopyBufferToBuffer = (\<lambda>_ _ _ _ _ _ s. s),
     wgpuCommandEncoderFinish = (\<lambda>_. Pair 1), wgpuCommandBufferRelease = (\<lambda>_ s. s),
     wgpuQueueSubmit = (\<lambda>_ _ s. s), wgpuCommandEncoderBeginRenderPass = (\<lambda>_ _. Pair 9),
     wgpuRenderPassEncoderSetPipeline = (\<lambda>_ x. record_object x),
     wgpuRenderPassEncoderSetBindGroup = (\<lambda>_ _ x. record_object x),
     wgpuRenderPassEncoderSetVertexBuffer = (\<lambda>_ _ x _ _. record_object x),
     wgpuRenderPassEncoderSetIndexBuffer = (\<lambda>_ x _ _ _. record_object x),
     wgpuRenderPassEncoderDrawIndexed = (\<lambda>_ n _ _ _ _. record_object (ucast n)),
     wgpuRenderPassEncoderEnd = (\<lambda>_ s. s), wgpuRenderPassEncoderRelease = (\<lambda>_ s. s),
     wgpuCommandEncoderBeginComputePass = (\<lambda>_ _. Pair 1),
     wgpuComputePassEncoderSetPipeline = (\<lambda>_ _ s. s), wgpuComputePassEncoderSetBindGroup = (\<lambda>_ _ _ s. s),
     wgpuComputePassEncoderDispatchWorkgroups = (\<lambda>_ _ _ _ s. s),
     wgpuComputePassEncoderEnd = (\<lambda>_ s. s), wgpuComputePassEncoderRelease = (\<lambda>_ s. s)\<rparr>"

definition idle_pipeline :: "toy_world gpu_pipeline_api" where
  "idle_pipeline = \<lparr>wgpuDeviceCreateShaderModule = (\<lambda>_ _ _. Pair 1), wgpuShaderModuleRelease = (\<lambda>_ s. s),
     wgpuDeviceCreateBindGroupLayout = (\<lambda>_ _ _. Pair 1), wgpuBindGroupLayoutRelease = (\<lambda>_ s. s),
     wgpuDeviceCreatePipelineLayout = (\<lambda>_ _ _. Pair 1), wgpuPipelineLayoutRelease = (\<lambda>_ s. s),
     wgpuDeviceCreateRenderPipeline = (\<lambda>_ _. Pair 1), wgpuRenderPipelineRelease = (\<lambda>_ s. s),
     wgpuDeviceCreateBindGroup = (\<lambda>_ _ _ _. Pair 1), wgpuBindGroupRelease = (\<lambda>_ s. s),
     wgpuDeviceCreateComputePipeline = (\<lambda>_ _ _ _ _. Pair 1), wgpuComputePipelineRelease = (\<lambda>_ s. s),
     wgpuDeviceCreateSampler = (\<lambda>_ _. Pair 1), wgpuSamplerRelease = (\<lambda>_ s. s)\<rparr>"

definition toy_constants :: gpu_constants where
  "toy_constants = \<lparr>WGPUWaitStatus_Error = 3, WGPULogLevel_Warn = 2, WGPUTextureDimension_2D = 2,
     WGPUTextureAspect_All = 1, WGPUTextureFormat_RGBA8Unorm = 18, WGPUTextureUsage_RenderAttachment = 16,
     WGPUTextureUsage_CopySrc = 1, WGPUTextureUsage_CopyDst = 2, WGPUTextureUsage_TextureBinding = 4,
     WGPUBufferUsage_MapRead = 1, WGPUBufferUsage_CopyDst = 8, WGPUBufferUsage_Storage = 128,
     WGPUMapMode_Read = 1, WGPUShaderStage_Vertex = 1, WGPUShaderStage_Fragment = 2,
     WGPUShaderStage_Compute = 4, WGPUBufferUsage_Vertex = 32, WGPUBufferUsage_Index = 16,
     WGPUBufferUsage_Uniform = 64, WGPUMapAsyncStatus_Success = 1\<rparr>"

definition toy_binding_constants :: gpu_binding_constants where
  "toy_binding_constants = \<lparr>WGPUBufferBindingType_Uniform = 2, WGPUBufferBindingType_Storage = 3,
     WGPUTextureSampleType_Float = 2, WGPUTextureViewDimension_2D = 2, WGPUSamplerBindingType_Filtering = 2,
     WGPUMipmapFilterMode_Nearest = 1, WGPUVertexFormat_Float32x3 = 30, WGPUVertexFormat_Float32x2 = 29,
     WGPUVertexStepMode_Vertex = 2, WGPUPrimitiveTopology_TriangleList = 4, WGPUFrontFace_CCW = 1,
     WGPUCullMode_Back = 3, WGPUCullMode_None = 1, WGPUColorWriteMask_All = 15, WGPULoadOp_Clear = 2,
     WGPUStoreOp_Store = 1, WGPUIndexFormat_Uint16 = 1, WGPU_DEPTH_SLICE_UNDEFINED = - 1,
     WGPU_WHOLE_SIZE = - 1\<rparr>"

definition toy_gpu :: "toy_world gpu_api" where
  "toy_gpu = \<lparr>gc = toy_constants, gb = toy_binding_constants, gd = idle_device, gm = idle_memory,
     gk = idle_command, gp = idle_pipeline\<rparr>"

lemmas toy_defs = toy_gpu_def idle_device_def idle_memory_def idle_command_def toy_constants_def

lemma toy_clock: "monotonic_clock toy_gpu (\<lambda>s. fst (fst s))"
  by (auto simp: monotonic_clock_def toy_defs valid_time_def nanoseconds_def read_clock_def sleep_for_def)

lemma toy_readable: "readable_maps toy_gpu"
  by (simp add: readable_maps_def readable_def toy_defs)

lemma map_read_returns_witness:
  "\<exists>message s'. opentui_wgpu_buffer_map_read_blocking toy_gpu False 1 2 4 ((0, []), empty_diag)
     = Some (Returns (Block 0 [Long (- 1), Int64 0, Str message]), s')"
proof -
  have "wgpuBufferMapAsync (gm toy_gpu) 2 (WGPUMapMode_Read (gc toy_gpu)) 0 4 ((0, []), empty_diag)
      = (None, ((0, []), empty_diag))"
    "clock_gettime (gd toy_gpu) ((0, []), empty_diag) = ((0, 0), ((0, []), empty_diag))"
    by (simp_all add: toy_defs read_clock_def)
  from map_read_returns [OF toy_clock toy_readable this, of False 1] obtain status message s' k where
    r: "opentui_wgpu_buffer_map_read_blocking toy_gpu False 1 2 4 ((0, []), empty_diag)
      = Some (Returns (Block 0 [Long (sint status), Int64 0, Str message]), s')"
    and ends: "map_ends toy_gpu 1 (0, 0) ((0, []), empty_diag) k status s'" by auto
  have "status = - 1" using ends by (simp add: map_ends_def toy_defs)
  with r show ?thesis by auto
qed

lemma render_draws_exact_witness:
  "\<exists>d. opentui_wgpu_encoder_render_draws_indexed toy_gpu 1 2
     (Block 0 (replicate 4 (Double (Fin 1))))
     (Block 0 [Block 0 [Int64 10, Int64 11, Int64 12, Int64 96, Int64 13, Int64 6, Long 3],
        Block 0 [Block 0 [Int64 20, Int64 21, Int64 22, Int64 96, Int64 23, Int64 6, Long 6], Long 0]])
     ((0, []), empty_diag) = Some ((0, [10, 11, 12, 13, 3, 20, 21, 22, 23, 6]), d)"
proof -
  let ?ds = "Block 0 [Block 0 [Int64 10, Int64 11, Int64 12, Int64 96, Int64 13, Int64 6, Long 3],
        Block 0 [Block 0 [Int64 20, Int64 21, Int64 22, Int64 96, Int64 23, Int64 6, Long 6], Long 0]]"
  have "double_fields (Block 0 (replicate 4 (Double (Fin 1)))) = Some (Fin 1, Fin 1, Fin 1, Fin 1)"
    by (simp add: double_fields_def)
  note R = render_draws_exact [OF this, of toy_gpu 1 2 ?ds "(0, [])" empty_diag]
  have "draws_of ?ds = Some [(10, 11, (12, 96), (13, 6), 3), (20, 21, (22, 96), (23, 6), 6)]"
    by (simp add: draw_of_def int64_field_def u32_field_def)
  then show ?thesis using R by (simp add: issue_def toy_defs record_object_def)
qed

lemma mapped_copy_exact_witness:
  "opentui_wgpu_buffer_get_mapped_range_copy toy_gpu 1 0 2
     \<lparr>num_dims = 1, dim = [4], ba_data = [0, 0, 0, 0]\<rparr> ((0, []), empty_diag)
   = Some (1, \<lparr>num_dims = 1, dim = [4], ba_data = [7, 7, 0, 0]\<rparr>, ((0, []), empty_diag))"
proof -
  let ?a = "\<lparr>num_dims = 1, dim = [4], ba_data = [0, 0, 0, 0]\<rparr> :: byte_bigarray"
  have two: "unat (2 :: u64) = 2" "replicate 2 (7 :: u8) = [7, 7]"
    by (simp, simp only: numeral_2_eq_2 replicate.simps)
  have "wf_bigarray ?a" "num_dims ?a = 1" by (simp_all add: wf_bigarray_def)
  moreover have "wgpuBufferGetMappedRange (gm toy_gpu) 1 0 2 ((0, []), empty_diag)
      = (Some [7, 7], ((0, []), empty_diag))"
    by (simp only: toy_defs two gpu_api.simps gpu_memory_api.simps)
  ultimately show ?thesis using mapped_copy_exact [of ?a toy_gpu 1 0 2 "((0, []), empty_diag)"] by simp
qed

lemma declared_types_agree_witness:
  "makes creation (opentui_wgpu_device_create_texture toy_gpu False 1
     (Block 0 [Long 80, Long 24, Long 18, Int64 17]) ((0, []), empty_diag))"
proof -
  have "has_type texture_options (Block 0 [Long 80, Long 24, Long 18, Int64 17])"
    by (simp add: typed_fields)
  then show ?thesis
    using declared_types_agree [where N = toy_gpu and v = "Block 0 [Long 80, Long 24, Long 18, Int64 17]"
      and oom = False and device = 1 and s = "((0, []), empty_diag)"] by blast
qed

end
