(* ===== verification/Raw_Results.thy ===== *)
theory Raw_Results
  imports Ocaml_Types Span_Feed Yoga
begin

text \<open>
  The results of the feed, layout and text stubs as OCaml values. A stub is modelled by its status
  and its payload; here is the block that its result function builds from them, which OCaml reads by
  the type native.ml declares for the stub.
\<close>

section \<open>The result functions\<close>

definition make_status_handle :: "raw_status \<Rightarrow> u32 \<Rightarrow> value" where
  "make_status_handle status handle = Block 0 [Long (status_code status), Int32 handle]"

definition make_status_reservation :: "raw_status \<Rightarrow> u32 \<Rightarrow> u32 \<Rightarrow> value \<Rightarrow> value" where
  "make_status_reservation status token capacity contents =
     (if status = Ok
      then Block 0 [Long (status_code status), Block 0 [Block 0 [Int32 token, Int32 capacity, contents]]]
      else Block 0 [Long (status_code status), Val_none])"

definition make_status_stats :: "raw_status \<Rightarrow> span_feed_stats \<Rightarrow> value" where
  "make_status_stats status stats =
     (let stats_option =
        if status = Ok
        then Block 0 [Block 0 [Int64 (bytes_written stats), Int64 (spans_committed stats),
                               Int32 (chunks stats), Int32 (pending_spans stats)]]
        else Val_none in
      Block 0 [Long (status_code status), stats_option])"

definition make_status_span :: "raw_status \<Rightarrow> value \<Rightarrow> value" where
  "make_status_span status span_option = Block 0 [Long (status_code status), span_option]"

definition make_status_int32 :: "raw_status \<Rightarrow> i32 \<Rightarrow> value" where
  "make_status_int32 status result_value = Block 0 [Long (status_code status), Int32 result_value]"

definition make_status_bool :: "raw_status \<Rightarrow> bool \<Rightarrow> value" where
  "make_status_bool status result_value = Block 0 [Long (status_code status), Val_bool result_value]"

definition make_status_layout :: "raw_status \<Rightarrow> yoga_layout \<Rightarrow> value" where
  "make_status_layout status layout =
     (let layout_option =
        if status = Ok
        then Block 0 [Block 0 [Double (left layout), Double (top layout), Double (right layout),
                               Double (bottom layout), Double (width layout), Double (height layout)]]
        else Val_none in
      Block 0 [Long (status_code status), layout_option])"

definition make_status_measure :: "raw_status \<Rightarrow> u32 \<Rightarrow> u32 \<Rightarrow> value" where
  "make_status_measure status line_count width_cols_max =
     Block 0 [Long (status_code status), Int32 line_count, Int32 width_cols_max]"

section \<open>Their declared types\<close>

definition reservation_result_type :: ocaml_type where
  "reservation_result_type = T_tuple [T_int, T_option (T_tuple [T_int32, T_int32, T_string])]"
definition stats_result_type :: ocaml_type where
  "stats_result_type = T_tuple [T_int, T_option (T_tuple [T_int64, T_int64, T_int32, T_int32])]"
definition span_result_type :: ocaml_type where
  "span_result_type = T_tuple [T_int, T_option (T_tuple [T_string, T_int32])]"
definition layout_result_type :: ocaml_type where
  "layout_result_type =
     T_tuple [T_int, T_option (T_tuple [T_float, T_float, T_float, T_float, T_float, T_float])]"

lemmas result_defs = Val_bool_def make_status_handle_def make_status_reservation_def make_status_stats_def
  make_status_span_def make_status_int32_def make_status_bool_def make_status_layout_def
  make_status_measure_def reservation_result_type_def stats_result_type_def span_result_type_def
  layout_result_type_def

lemma results_typed:
  "has_type (T_tuple [T_int, T_int32]) (make_status_handle st handle)"
  "has_type T_string contents \<Longrightarrow> has_type reservation_result_type (make_status_reservation st token cap contents)"
  "has_type stats_result_type (make_status_stats st stats)"
  "has_type (T_option (T_tuple [T_string, T_int32])) sp \<Longrightarrow> has_type span_result_type (make_status_span st sp)"
  "has_type (T_tuple [T_int, T_int32]) (make_status_int32 st i)"
  "has_type (T_tuple [T_int, T_bool]) (make_status_bool st b)"
  "has_type layout_result_type (make_status_layout st layout)"
  "has_type (T_tuple [T_int, T_int32, T_int32]) (make_status_measure st lines cols)"
  by (auto simp: result_defs typed_values Let_def)

section \<open>The payload and the status agree\<close>

text \<open>The result functions choose between Some and None by the status alone. The stubs pass them
  a payload exactly when the status is Ok, so OCaml sees the payload of the stub.\<close>

definition option_value :: "('a \<Rightarrow> value) \<Rightarrow> 'a option \<Rightarrow> value" where
  "option_value f r = (case r of None \<Rightarrow> Val_none | Some x \<Rightarrow> Block 0 [f x])"

lemma reserve_payload:
  "opentui_raw_span_feed_reserve N oom feed m s = (Returns (st, r), s') \<Longrightarrow> r \<noteq> None \<longleftrightarrow> st = Ok"
  by (auto simp: opentui_raw_span_feed_reserve_def Let_def allocating_def split: if_splits option.splits prod.splits)

lemma stats_payload:
  "opentui_raw_span_feed_stats N oom feed s = (Returns (st, r), s') \<Longrightarrow> r \<noteq> None \<longleftrightarrow> st = Ok"
  by (auto simp: opentui_raw_span_feed_stats_def Let_def allocating_def split: if_splits option.splits prod.splits)

lemma layout_payload:
  "opentui_raw_yoga_node_layout Y oom node ys = Returns (st, r) \<Longrightarrow> r \<noteq> None \<longleftrightarrow> st = Ok"
  by (auto simp: opentui_raw_yoga_node_layout_def allocating_def split: if_splits option.splits)

lemma option_value_ok:
  "r \<noteq> None \<longleftrightarrow> st = Ok \<Longrightarrow> (\<And>x. r = Some x \<Longrightarrow> f x = p) \<Longrightarrow>
     option_value f r = (if st = Ok then Block 0 [p] else Val_none)"
  by (cases r) (auto simp: option_value_def)

lemma reservation_represented:
  assumes "opentui_raw_span_feed_reserve N oom feed m s = (Returns (st, r), s')"
    and "\<And>token cap n. r = Some (token, cap, n) \<Longrightarrow> t = token \<and> c = cap"
  shows "make_status_reservation st t c contents = Block 0 [Long (status_code st),
    option_value (\<lambda>(token, cap, n). Block 0 [Int32 token, Int32 cap, contents]) r]"
  using assms(2) by (subst option_value_ok [OF reserve_payload [OF assms(1)]])
    (auto simp: make_status_reservation_def)

lemma stats_represented:
  assumes "opentui_raw_span_feed_stats N oom feed s = (Returns (st, r), s')"
    and "\<And>x. r = Some x \<Longrightarrow> stats = x"
  shows "make_status_stats st stats = Block 0 [Long (status_code st),
    option_value (\<lambda>x. Block 0 [Int64 (bytes_written x), Int64 (spans_committed x),
      Int32 (chunks x), Int32 (pending_spans x)]) r]"
  using assms(2) by (subst option_value_ok [OF stats_payload [OF assms(1)]])
    (auto simp: make_status_stats_def Let_def)

lemma layout_represented:
  assumes "opentui_raw_yoga_node_layout Y oom node ys = Returns (st, r)"
    and "\<And>x. r = Some x \<Longrightarrow> layout = x"
  shows "make_status_layout st layout = Block 0 [Long (status_code st),
    option_value (\<lambda>x. Block 0 [Double (left x), Double (top x), Double (right x), Double (bottom x),
      Double (width x), Double (height x)]) r]"
  using assms(2) by (subst option_value_ok [OF layout_payload [OF assms(1)]])
    (auto simp: make_status_layout_def Let_def)

end
