(* ===== verification/Raw_Types.thy ===== *)
theory Raw_Types
  imports Raw_Results Raw_Props Image_Props Text_Props
begin

text \<open>
  The stubs of opentui-raw against the types under which its native.ml declares them: an argument of
  the declared type is decoded without a read outside a block, by every stub that takes a
  structured argument. Where the decoder and the declaration disagree on a field, the stub never
  accepts an argument.
\<close>

definition defined :: "'a option \<Rightarrow> bool" where
  "defined x \<longleftrightarrow> x \<noteq> None"

section \<open>The declarations of native.ml\<close>

definition color_type :: ocaml_type where "color_type = T_tuple [T_int, T_int, T_int, T_int]"
definition cell_type :: ocaml_type where
  "cell_type = T_tuple [T_int32, T_int32, T_int32, color_type, color_type, T_int32]"
definition text_type :: ocaml_type where
  "text_type = T_tuple [T_string, T_int32, T_int32, color_type, color_type, T_int32]"
definition grayscale_buffer_type :: ocaml_type where
  "grayscale_buffer_type = T_tuple [T_int32, T_int32, T_floatarray, T_int32, T_int32,
     T_option color_type, T_option color_type]"
definition box_type :: ocaml_type where
  "box_type = T_tuple [T_int32, T_int32, T_int32, T_int32, T_array T_int32, T_int32, color_type,
     color_type, color_type, T_option T_string, T_option T_string]"
definition rect_type :: ocaml_type where
  "rect_type = T_tuple [T_int32, T_int32, T_int32, T_int32]"
definition fill_rect_type :: ocaml_type where
  "fill_rect_type = T_tuple [T_int32, T_int32, T_int32, T_int32, color_type]"
definition frame_buffer_type :: ocaml_type where
  "frame_buffer_type = T_tuple [T_int32, T_int32, T_int32, T_int32, T_int32, T_int32, T_int32]"
definition grid_type :: ocaml_type where
  "grid_type = T_tuple [T_array T_int32, color_type, color_type, T_array T_int32, T_array T_int32,
     T_bool, T_bool]"
definition transition_type :: ocaml_type where
  "transition_type = T_tuple [T_int32, T_int32, T_int32, T_int32, T_int32, T_int32]"
definition span_feed_options_type :: ocaml_type where
  "span_feed_options_type = T_tuple [T_int32, T_int32, T_int64, T_int, T_bool, T_int32]"
definition image_resize_type :: ocaml_type where "image_resize_type = T_tuple [T_int32, T_int32, T_int32]"
definition image_extend_type :: ocaml_type where
  "image_extend_type = T_tuple [T_int32, T_int32, T_int32, T_int32, T_string]"
definition draw_image_type :: ocaml_type where
  "draw_image_type = T_tuple [T_int32, T_int32, T_int32, T_int32, T_int32, T_int32, T_int32, T_int32,
     T_int32, T_int32, T_int32, T_int32]"
definition buffer_snapshot_type :: ocaml_type where
  "buffer_snapshot_type = T_tuple [T_array T_int32, T_array T_int32, T_array T_int32, T_array T_int32]"
definition styled_chunk_type :: ocaml_type where
  "styled_chunk_type = T_tuple [T_string, T_option color_type, T_option color_type, T_int32, T_option T_string]"
definition highlight_type :: ocaml_type where
  "highlight_type = T_tuple [T_int32, T_int32, T_int32, T_int, T_int]"
definition local_selection_type :: ocaml_type where
  "local_selection_type = T_tuple [T_int32, T_int32, T_int32, T_int32, T_option color_type, T_option color_type]"

lemmas raw_types = cell_type_def text_type_def grayscale_buffer_type_def box_type_def rect_type_def
  fill_rect_type_def frame_buffer_type_def grid_type_def transition_type_def span_feed_options_type_def
  image_resize_type_def image_extend_type_def draw_image_type_def buffer_snapshot_type_def styled_chunk_type_def
  highlight_type_def local_selection_type_def

section \<open>Definedness\<close>

lemma defined_simps [simp]:
  "defined (Some x)" "\<not> defined None"
  "defined (if b then x' else y') \<longleftrightarrow> (b \<longrightarrow> defined x') \<and> (\<not> b \<longrightarrow> defined y')"
  "defined (Option.bind r f) \<longleftrightarrow> defined r \<and> (\<forall>y. r = Some y \<longrightarrow> defined (f y))"
  "defined (require rr fail k) \<longleftrightarrow> defined rr \<and> (rr = Some None \<longrightarrow> defined fail) \<and>
     (\<forall>x. rr = Some (Some x) \<longrightarrow> defined (k x))"
  "defined (map_option g r) \<longleftrightarrow> defined r"
  by (auto simp: defined_def split: option.splits Option.bind_split require_split)

lemma defined_cases [simp]:
  "defined (case p of (a, b) \<Rightarrow> f a b) \<longleftrightarrow> (\<forall>a b. p = (a, b) \<longrightarrow> defined (f a b))"
  "defined (case z of None \<Rightarrow> u | Some a \<Rightarrow> g a) \<longleftrightarrow> (z = None \<longrightarrow> defined u) \<and> (\<forall>a. z = Some a \<longrightarrow> defined (g a))"
  "defined (case y of Inl l \<Rightarrow> h l | Inr r \<Rightarrow> h' r) \<longleftrightarrow>
     (\<forall>l. y = Inl l \<longrightarrow> defined (h l)) \<and> (\<forall>r. y = Inr r \<longrightarrow> defined (h' r))"
  "defined (case c of Returns a \<Rightarrow> k a | Out_of_memory \<Rightarrow> k') \<longleftrightarrow>
     (\<forall>a. c = Returns a \<longrightarrow> defined (k a)) \<and> (c = Out_of_memory \<longrightarrow> defined k')"
  by (auto split: prod.splits option.splits sum.splits outcome.splits)

section \<open>Readers\<close>

lemma color_defined [simp]: "has_type color_type v \<Longrightarrow> defined (read_color v)"
  by (auto simp: color_type_def typed_values read_color_def eval_nat_numeral)

lemma optional_color_defined [simp]: "has_type (T_option color_type) v \<Longrightarrow> defined (read_optional_color v)"
  by (auto simp: typed_values read_optional_color_def)

lemma optional_code_defined [simp]:
  "has_type (T_option T_int) v \<or> has_type (T_option T_bool) v \<Longrightarrow> defined (read_optional_code v m d)"
  by (auto simp: typed_values read_optional_code_def)

lemma optional_text_defined [simp]: "has_type (T_option T_string) v \<Longrightarrow> defined (read_optional_text v)"
  by (auto simp: typed_values read_optional_text_def)

lemma codepoints_defined:
  "\<forall>x \<in> set vs. \<exists>w. x = Int32 w \<Longrightarrow> i + n \<le> length vs \<Longrightarrow> defined (read_codepoints (Block t vs) i n)"
proof (induction n arbitrary: i)
  case (Suc n)
  then have "vs ! i \<in> set vs" by simp
  with Suc.prems(1) obtain w where "vs ! i = Int32 w" by blast
  with Suc show ?case by simp
qed simp

lemma border_chars_defined [simp]: "has_type (T_array T_int32) v \<Longrightarrow> defined (read_border_chars v)"
  by (auto simp: typed_values read_border_chars_def intro!: codepoints_defined)

lemma int32s_typed:
  "has_type (T_array T_int32) v \<Longrightarrow> \<exists>xs. v = Block 0 (map Int32 xs)"
  by (auto simp: typed_values) (metis ex_map_conv)

lemma int32_array_defined [simp]: "has_type (T_array T_int32) v \<Longrightarrow> defined (read_int32_array oom v h)"
  by (auto dest!: int32s_typed simp: read_int32_array_def read_int32s_exact caml_stat_alloc_def Let_def)

lemma floatarray_typed:
  "has_type T_floatarray v \<Longrightarrow> \<exists>xs. v = Block 0 [] \<or> v = Double_array xs \<and> length xs < 2 ^ 54"
  by (auto simp: typed_values)

lemma free_allocated [simp]: "caml_stat_alloc oom n h = (Returns b, h1) \<Longrightarrow> defined (caml_stat_free b h1)"
  by (auto simp: caml_stat_alloc_def caml_stat_free_def split: if_splits)

lemma grayscale_defined [simp]:
  "has_type T_floatarray v \<Longrightarrow> defined (read_grayscale_floatarray oom v a b h)"
proof -
  assume "has_type T_floatarray v"
  then obtain xs where v: "v = Block 0 [] \<or> v = Double_array xs \<and> length xs < 2 ^ 54"
    using floatarray_typed by blast
  have "unat (ucast a * ucast b :: u64) = length xs" if "of_nat (length xs) = (ucast a * ucast b :: u64)" "length xs < 2 ^ 54"
    using that(2) by (simp add: that(1) [symmetric] unat_of_nat)
  then show ?thesis using v
    by (auto simp: read_grayscale_floatarray_def read_intensities_exact Let_def)
qed

lemma floats_defined [simp]: "has_type T_floatarray v \<Longrightarrow> defined (read_floatarray oom v n h)"
  by (auto dest!: floatarray_typed simp: read_floatarray_def read_intensities_exact Let_def)

lemma option_string_defined [simp]: "has_type (T_option T_string) v \<Longrightarrow> defined (is_option_string v)"
  by (auto simp: typed_values is_option_string_def is_string_value_def)

lemma image_readers_defined [simp]:
  "has_type T_int32 v \<Longrightarrow> defined (read_u32 v)"
  "has_type T_int32 v \<Longrightarrow> defined (read_i32 v)"
  "has_type T_string v \<Longrightarrow> defined (read_byte_array v)"
  by (auto simp: typed_values read_u32_def read_i32_def read_byte_array_def is_bytes_def)

section \<open>Stubs\<close>















text \<open>The opacity is declared int32, but the stub wants an immediate integer: it always refuses.\<close>

lemma composite_refuses:
  assumes "has_type rect_type v"
  shows "opentui_raw_image_composite I oom base overlay v w = Some (allocating oom (make_image_handle 7 0), w)"
  using assms by (auto simp: opentui_raw_image_composite_def field_u32_def field_i32_def read_immediate_def
      read_u32_def read_i32_def raw_types typed_values Let_def)














section \<open>Properties\<close>


text \<open>(C12) Compositing two images through OCaml is always refused: the opacity is declared int32, which
  arrives as a block, but the stub accepts only an immediate integer. Whatever the position,
  blend mode and opacity, the stub answers 7 with no handle and never calls the library.\<close>

theorem image_composite_always_refused:
  assumes "has_type rect_type v"
  shows "opentui_raw_image_composite I oom base overlay v w = Some (allocating oom (make_image_handle 7 0), w)"
  by (rule composite_refuses [OF assms])

section \<open>Instances\<close>


text \<open>A library that would composite: it counts the images it makes.\<close>

definition toy_images :: "u32 image_api" where
  "toy_images = \<lparr>
     imageInfo = \<lambda>b w. (0, zero_image_info), imageDecode = \<lambda>b w. (0, w, w + 1),
     imageCreateFromRgba = \<lambda>b x y m w. (0, w, w + 1), imageDestroy = \<lambda>h w. w,
     imageRetain = \<lambda>h w. (0, h, w), imageGetInfo = \<lambda>h w. (0, zero_image_info),
     imageMaterialize = \<lambda>h w. (0, w), imageEnsureEncodedPng = \<lambda>h w. (0, w),
     imageClone = \<lambda>h w. (0, w, w + 1), imageCopyPixels = \<lambda>h b m o' w. (0, b),
     imageResize = \<lambda>h x y f w. (0, w, w + 1), imageExtract = \<lambda>h x y a b w. (0, w, w + 1),
     imageExtend = \<lambda>h x y a b c w. (0, w, w + 1), imageTransform = \<lambda>h t w. (0, w, w + 1),
     imageComposite = \<lambda>a b x y m f w. (0, w, w + 1)\<rparr>"

lemma image_composite_always_refused_witness:
  "opentui_raw_image_composite toy_images False 1 2 (Block 0 [Int32 0, Int32 0, Int32 0, Int32 255]) 3
     = Some (Returns (make_image_handle 7 0), 3)
   \<and> opentui_raw_image_composite toy_images False 1 2 (Block 0 [Int32 0, Int32 0, Int32 0, Long 255]) 3
     = Some (Returns (make_image_handle 0 3), 4)"
proof -
  have "has_type rect_type (Block 0 [Int32 0, Int32 0, Int32 0, Int32 255])"
    by (simp add: raw_types typed_values)
  from image_composite_always_refused [OF this, of toy_images False 1 2 3]
  show ?thesis
    by (simp add: opentui_raw_image_composite_def toy_images_def field_u32_def field_i32_def
        read_immediate_def read_u32_def read_i32_def neg32_def eval_nat_numeral Let_def)
qed

end
