(* ===== verification/Reader_Copies.thy ===== *)
theory Reader_Copies
  imports Raw_Results Text_Buffer
begin

text \<open>
  Every C file of opentui-raw has static copies of the small functions it needs. Here are the
  copies as each file writes them, and that they agree: the models of the stubs use one of them.
\<close>

section \<open>Readers\<close>

text \<open>text_buffer_stubs.c and syntax_style_stubs.c test for None by its value and then for a block;
  raw_stubs.c (\<open>Values\<close>) tests for an immediate value first.\<close>

definition text_read_color :: "value \<Rightarrow> color option option" where
  "text_read_color color =
     (if \<not> is_block color \<or> wosize_val color \<noteq> 4 then Some None else read_channels color 0 4)"

definition text_read_optional_color :: "value \<Rightarrow> color option option option" where
  "text_read_optional_color color_option =
     (if color_option = Val_none then Some (Some None)
      else if \<not> is_block color_option \<or> wosize_val color_option \<noteq> 1 then Some None
      else do {
        inner \<leftarrow> field color_option 0;
        c \<leftarrow> text_read_color inner;
        Some (map_option Some c)
      })"

definition style_read_color :: "value \<Rightarrow> color option option" where
  "style_read_color color =
     (if \<not> is_block color \<or> wosize_val color \<noteq> 4 then Some None else read_channels color 0 4)"

definition style_read_optional_color :: "value \<Rightarrow> color option option option" where
  "style_read_optional_color color_option =
     (if color_option = Val_none then Some (Some None)
      else if \<not> is_block color_option \<or> wosize_val color_option \<noteq> 1 then Some None
      else do {
        inner \<leftarrow> field color_option 0;
        c \<leftarrow> style_read_color inner;
        Some (map_option Some c)
      })"

definition style_is_string_value :: "value \<Rightarrow> bool" where
  "style_is_string_value value_to_check \<longleftrightarrow> is_block value_to_check \<and> has_tag String_tag value_to_check"

lemma read_color_copies: "text_read_color = read_color" "style_read_color = read_color"
  by (auto simp: fun_eq_iff text_read_color_def style_read_color_def read_color_def has_size_def)

lemma read_optional_color_copies:
  "text_read_optional_color = read_optional_color" "style_read_optional_color = read_optional_color"
  by (auto simp: fun_eq_iff text_read_optional_color_def style_read_optional_color_def read_optional_color_def
      read_color_copies is_long_ex split: if_splits)

section \<open>Result functions\<close>

definition raw_make_status_handle :: "raw_status \<Rightarrow> handle \<Rightarrow> value" where
  "raw_make_status_handle status handle = Block 0 [Long (status_code status), Int32 handle]"

definition raw_make_status_bool :: "raw_status \<Rightarrow> bool \<Rightarrow> value" where
  "raw_make_status_bool status flag = Block 0 [Long (status_code status), Val_bool flag]"

definition text_make_status_handle :: "raw_status \<Rightarrow> handle \<Rightarrow> value" where
  "text_make_status_handle status handle = Block 0 [Long (status_code status), Int32 handle]"

definition text_make_status_int32 :: "raw_status \<Rightarrow> i32 \<Rightarrow> value" where
  "text_make_status_int32 status result_value = Block 0 [Long (status_code status), Int32 result_value]"

definition text_make_status_bool :: "raw_status \<Rightarrow> bool \<Rightarrow> value" where
  "text_make_status_bool status result_value = Block 0 [Long (status_code status), Val_bool result_value]"

definition yoga_make_status_handle :: "raw_status \<Rightarrow> u32 \<Rightarrow> value" where
  "yoga_make_status_handle status handle = Block 0 [Long (status_code status), Int32 handle]"

definition style_make_status_handle :: "raw_status \<Rightarrow> handle \<Rightarrow> value" where
  "style_make_status_handle status handle = Block 0 [Long (status_code status), Int32 handle]"

definition style_make_status_int32 :: "raw_status \<Rightarrow> u32 \<Rightarrow> value" where
  "style_make_status_int32 status result_value = Block 0 [Long (status_code status), Int32 result_value]"

lemma make_status_copies:
  "raw_make_status_handle = make_status_handle" "text_make_status_handle = make_status_handle"
  "yoga_make_status_handle = make_status_handle" "style_make_status_handle = make_status_handle"
  "text_make_status_int32 = make_status_int32" "style_make_status_int32 = make_status_int32"
  "raw_make_status_bool = make_status_bool" "text_make_status_bool = make_status_bool"
  by (simp_all add: fun_eq_iff result_defs raw_make_status_handle_def text_make_status_handle_def
      yoga_make_status_handle_def style_make_status_handle_def text_make_status_int32_def
      style_make_status_int32_def raw_make_status_bool_def text_make_status_bool_def)

end
