(* ===== verification/Yoga_Claims.thy ===== *)
theory Yoga_Claims
  imports Yoga_Props
begin

text \<open>
  The claim of a native renderable on a layout node. The renderable of the text stubs keeps the
  native pointer of its node and is called back from layout, so the node must outlive the claim.
  Whatever stub runs, with whatever arguments, a claimed node stays alive under the same handle
  and with the same native pointer; only the release stub, called on that node, ends the claim.
\<close>

definition claimed :: "yoga_table \<Rightarrow> u32 \<Rightarrow> ptr \<Rightarrow> bool" where
  "claimed t h p \<longleftrightarrow> (\<exists>i. yoga_node_from_handle t h = Some i \<and> native_renderable_attached (t i) \<and> y_node (t i) = p)"

text \<open>A step keeps the slot of a node; with its flag, except for a release.\<close>

definition keeps_slot :: "yoga_table \<Rightarrow> yoga_table \<Rightarrow> nat \<Rightarrow> bool" where
  "keeps_slot t t' i \<longleftrightarrow> y_alive (t' i) = y_alive (t i) \<and> y_generation (t' i) = y_generation (t i)
     \<and> y_node (t' i) = y_node (t i)"

definition keeps_claim :: "yoga_table \<Rightarrow> yoga_table \<Rightarrow> nat \<Rightarrow> bool" where
  "keeps_claim t t' i \<longleftrightarrow> keeps_slot t t' i \<and> native_renderable_attached (t' i)"

lemma keeps_claim_refl [simp]: "native_renderable_attached (t i) \<Longrightarrow> keeps_claim t t i"
  by (simp add: keeps_claim_def keeps_slot_def)

lemma keeps_slot_resolves:
  "keeps_slot t t' i \<Longrightarrow> yoga_node_from_handle t h = Some i \<Longrightarrow> yoga_node_from_handle t' h = Some i"
  by (auto simp: keeps_slot_def yn.resolve_iff)

lemma create_keeps_claim:
  assumes "opentui_raw_yoga_node_create N oom s = Some (r, s')"
    and "native_renderable_attached (yoga_nodes s i)" "y_alive (yoga_nodes s i)"
  shows "keeps_claim (yoga_nodes s) (yoga_nodes s') i"
proof -
  obtain h k t where a: "yoga_allocate_node () (yoga_nodes s) = (h, k, t)" by (rule prod_cases3)
  show ?thesis
  proof (cases "h = 0")
    case False
    then have "scan_free (\<lambda>i. y_alive (yoga_nodes s i)) 1 YOGA_NODE_CAPACITY = Some k"
      and t: "t = (yoga_nodes s)(k := t k)" and hk: "h = yoga_handle (of_nat k) (y_generation (t k))"
      using a by (auto simp: yoga_allocate_node_def Let_def split: option.splits)
    then have k: "k \<noteq> i" "k \<noteq> 0" "k < YOGA_NODE_CAPACITY" using scan_free_Some assms(3) by fastforce+
    have same: "t' i = yoga_nodes s i \<Longrightarrow> keeps_claim (yoga_nodes s) t' i" for t'
      using assms(2) by (simp add: keeps_claim_def keeps_slot_def)
    have "unat (yoga_slot_index h) = k" using k hk
      by (simp add: yoga_token slot_of_make YOGA_NODE_CAPACITY_def)
    moreover have "t i = yoga_nodes s i" using t k by (metis fun_upd_other)
    ultimately show ?thesis
      using assms(1) False k
      by (auto simp: opentui_raw_yoga_node_create_def a yoga_release_node_def yoga_release_slot_def Let_def
          split: if_splits prod.splits intro!: same)
  qed (use assms a in \<open>auto simp: opentui_raw_yoga_node_create_def\<close>)
qed

lemma free_keeps_claim:
  assumes "opentui_raw_yoga_node_free N h s = Some (r, s')"
    and "native_renderable_attached (yoga_nodes s i)" "y_alive (yoga_nodes s i)"
  shows "keeps_claim (yoga_nodes s) (yoga_nodes s') i"
proof (cases "yoga_node_from_handle (yoga_nodes s) h")
  case (Some k)
  then have k: "unat (yoga_slot_index h) = k" by (auto simp: yn.resolve_iff yoga_token)
  then show ?thesis using assms Some
    by (auto simp: opentui_raw_yoga_node_free_def yoga_release_node_def yoga_release_slot_def
        keeps_claim_def keeps_slot_def Let_def split: if_splits)
qed (use assms in \<open>auto simp: opentui_raw_yoga_node_free_def\<close>)

lemma free_recursive_keeps_claim:
  assumes "forest_ok (yoga_nodes s)" "opentui_raw_yoga_node_free_recursive N h s = Some (r, s')"
    and "native_renderable_attached (yoga_nodes s i)" "y_alive (yoga_nodes s i)"
  shows "keeps_claim (yoga_nodes s) (yoga_nodes s') i"
proof (cases "yoga_node_from_handle (yoga_nodes s) h")
  case (Some k)
  note native = subtree_native_spec [OF assms(1) Some] and rel = release_subtree_spec [OF assms(1) Some]
  show ?thesis using assms(2-4) Some
    by (auto simp: opentui_raw_yoga_node_free_recursive_def native rel release_set_def
        keeps_claim_def keeps_slot_def Let_def split: if_splits)
qed (use assms in \<open>auto simp: opentui_raw_yoga_node_free_recursive_def\<close>)

lemma tree_stubs_keep_claim:
  assumes "native_renderable_attached (yoga_nodes s i)"
  shows "opentui_raw_yoga_node_insert_child N p c n s = Some (st, s') \<Longrightarrow> keeps_claim (yoga_nodes s) (yoga_nodes s') i"
    "opentui_raw_yoga_node_remove_child N p c s = (st, s') \<Longrightarrow> keeps_claim (yoga_nodes s) (yoga_nodes s') i"
    "opentui_raw_yoga_node_move_child N p c n s = (st, s') \<Longrightarrow> keeps_claim (yoga_nodes s) (yoga_nodes s') i"
    "opentui_raw_yoga_node_claim_native_renderable h s = (st, s') \<Longrightarrow> keeps_claim (yoga_nodes s) (yoga_nodes s') i"
    "opentui_raw_yoga_node_set_native_measure_attached h b s = (st, s') \<Longrightarrow>
       keeps_claim (yoga_nodes s) (yoga_nodes s') i"
    "opentui_raw_yoga_node_release_native_renderable h s = (st, s') \<Longrightarrow> keeps_slot (yoga_nodes s) (yoga_nodes s') i"
  using assms
  by (auto simp: opentui_raw_yoga_node_insert_child_def opentui_raw_yoga_node_remove_child_def
      opentui_raw_yoga_node_move_child_def opentui_raw_yoga_node_claim_native_renderable_def
      opentui_raw_yoga_node_set_native_measure_attached_def opentui_raw_yoga_node_release_native_renderable_def
      keeps_claim_def keeps_slot_def Let_def bind_eq_Some_conv split: if_splits option.splits)

text \<open>The other stubs do not write the node table.\<close>

lemma call_stubs_keep_table:
  "opentui_raw_yoga_node_calculate N h x y d s = (st, s') \<Longrightarrow> yoga_nodes s' = yoga_nodes s"
  "opentui_raw_yoga_node_mark_dirty N h s = (st, s') \<Longrightarrow> yoga_nodes s' = yoga_nodes s"
  "opentui_raw_yoga_node_mark_layout_seen N h s = (st, s') \<Longrightarrow> yoga_nodes s' = yoga_nodes s"
  "opentui_raw_yoga_node_style_set_value N h k e u v s = (st, s') \<Longrightarrow> yoga_nodes s' = yoga_nodes s"
  "opentui_raw_yoga_node_style_set_enum N h k e s = (st, s') \<Longrightarrow> yoga_nodes s' = yoga_nodes s"
  "opentui_raw_yoga_node_style_set_float N h k v s = (st, s') \<Longrightarrow> yoga_nodes s' = yoga_nodes s"
  "opentui_raw_yoga_node_style_set_border N h k v s = (st, s') \<Longrightarrow> yoga_nodes s' = yoga_nodes s"
  "opentui_raw_native_renderable_attach_yoga_node N q h s = (st, s') \<Longrightarrow> yoga_nodes s' = yoga_nodes s"
  "yoga_nodes (opentui_raw_yoga_node_set_measure_func N h b s) = yoga_nodes s"
  "yoga_nodes (opentui_raw_yoga_node_unset_measure_func N h s) = yoga_nodes s"
  "yoga_nodes (opentui_raw_yoga_set_measure_callback N f s) = yoga_nodes s"
  "yoga_nodes (opentui_raw_yoga_clear_measure_callback N s) = yoga_nodes s"
  by (auto simp: opentui_raw_yoga_node_calculate_def opentui_raw_yoga_node_mark_dirty_def
      opentui_raw_yoga_node_mark_layout_seen_def opentui_raw_yoga_node_style_set_value_def
      opentui_raw_yoga_node_style_set_enum_def opentui_raw_yoga_node_style_set_float_def
      opentui_raw_yoga_node_style_set_border_def opentui_raw_native_renderable_attach_yoga_node_def
      opentui_raw_yoga_node_set_measure_func_def opentui_raw_yoga_node_unset_measure_func_def
      opentui_raw_yoga_set_measure_callback_def opentui_raw_yoga_clear_measure_callback_def
      with_node_def Let_def split: if_splits option.splits prod.splits)

lemma release_other_keeps:
  assumes "opentui_raw_yoga_node_release_native_renderable g s = (st, s')"
    and "yoga_node_from_handle (yoga_nodes s) h = Some i" "native_renderable_attached (yoga_nodes s i)"
  shows "keeps_claim (yoga_nodes s) (yoga_nodes s') i \<or> g = h \<and> st = Ok"
proof (cases "yoga_node_from_handle (yoga_nodes s) g")
  case (Some k)
  show ?thesis
  proof (cases "k = i")
    case True
    then have "g = h" using resolves_handle [OF Some] resolves_handle [OF assms(2)] by simp
    then show ?thesis using assms(1) Some by (simp add: opentui_raw_yoga_node_release_native_renderable_def)
  next
    case False
    then show ?thesis using assms Some
      by (auto simp: opentui_raw_yoga_node_release_native_renderable_def keeps_claim_def keeps_slot_def)
  qed
qed (use assms in \<open>auto simp: opentui_raw_yoga_node_release_native_renderable_def\<close>)

lemma step_keeps_claim:
  assumes "yoga_step N c s s'" "forest_ok (yoga_nodes s)"
    and "yoga_node_from_handle (yoga_nodes s) h = Some i" "native_renderable_attached (yoga_nodes s i)"
  shows "keeps_claim (yoga_nodes s) (yoga_nodes s') i
    \<or> keeps_slot (yoga_nodes s) (yoga_nodes s') i \<and> opentui_raw_yoga_node_release_native_renderable h s = (Ok, s')"
proof -
  note alive = resolves_alive [OF assms(3)]
  note kept = create_keeps_claim [OF _ assms(4) alive] free_keeps_claim [OF _ assms(4) alive]
    free_recursive_keeps_claim [OF assms(2) _ assms(4) alive] tree_stubs_keep_claim(1-5) [where i = i, OF assms(4)]
  note same = keeps_claim_refl [where t = "yoga_nodes s" and i = i, OF assms(4)]
  show ?thesis using assms(1)
  proof cases
    case (16 g st)
    then show ?thesis
      using release_other_keeps [OF 16(2) assms(3,4)] tree_stubs_keep_claim(6) [where i = i, OF assms(4) 16(2)] by blast
  qed (use kept call_stubs_keep_table same in \<open>metis (no_types)\<close>)+
qed

text \<open>(C9) A node claimed by a native renderable outlives the claim. Whatever stub runs next, with
  whatever arguments, the handle still names the node, and the claim ends only through a
  release called with that handle; the library still has the node, unless the call broke the
  measure contract, after which Yoga promises nothing.\<close>

theorem claimed_node_survives:
  assumes "yoga_protocol N Q" "Q (\<lambda>_. None) w0" "yoga_reachable N w0 s"
    and "claimed (yoga_nodes s) h p" "yoga_step N c s s'"
  shows "(claimed (yoga_nodes s') h p \<or> opentui_raw_yoga_node_release_native_renderable h s = (Ok, s'))
    \<and> (\<exists>i. yoga_node_from_handle (yoga_nodes s') h = Some i \<and> y_node (yoga_nodes s' i) = p)
    \<and> (measure_contract N c s \<longrightarrow> (\<exists>K. Q K (yoga_world s') \<and> p \<in> dom K))"
proof -
  obtain i where i: "yoga_node_from_handle (yoga_nodes s) h = Some i"
    "native_renderable_attached (yoga_nodes s i)" "y_node (yoga_nodes s i) = p"
    using assms(4) by (auto simp: claimed_def)
  have good: "yoga_good Q s" by (rule yoga_reachable_good [OF assms(1-3)])
  then have "forest_ok (yoga_nodes s)" by (simp add: yoga_good_def)
  note step = step_keeps_claim [OF assms(5) this i(1,2)]
  then have slot: "keeps_slot (yoga_nodes s) (yoga_nodes s') i" by (auto simp: keeps_claim_def)
  note i' = keeps_slot_resolves [OF slot i(1)]
  have p: "y_node (yoga_nodes s' i) = p" using slot i(3) by (simp add: keeps_slot_def)
  have "\<exists>K. Q K (yoga_world s') \<and> p \<in> dom K" if "measure_contract N c s"
  proof -
    from yoga_step_good [OF assms(1) that assms(5) good] obtain K where
      K: "agrees (yoga_nodes s') K" "Q K (yoga_world s')" by (auto simp: yoga_good_def)
    from agreesD(2) [OF K(1) resolves_alive [OF i']] p K(2) show ?thesis by blast
  qed
  then show ?thesis using step i' p by (auto simp: claimed_def keeps_claim_def)
qed

section \<open>An instance\<close>

text \<open>The child of the two-node tree is claimed; then its parent is freed with its subtree.\<close>

definition toy_claimed :: "toy_world yoga_state" where
  "toy_claimed = snd (opentui_raw_yoga_node_claim_native_renderable 65538 toy_linked)"

lemma claimed_node_survives_witness:
  "\<exists>r s'. opentui_raw_yoga_node_free_recursive toy_yoga 65537 toy_claimed = Some (r, s')
     \<and> (\<exists>i. yoga_node_from_handle (yoga_nodes s') 65538 = Some i \<and> y_node (yoga_nodes s' i) = 16)"
proof -
  have look: "yoga_node_from_handle (yoga_nodes toy_linked) 65538 = Some 2" by (simp add: toy_linked_def toy_lookups)
  have "yoga_step toy_yoga (Claim_native_renderable 65538) toy_linked toy_claimed"
    unfolding toy_claimed_def by (rule yoga_step.intros(15) [OF prod.collapse [symmetric]])
  then have reach: "yoga_reachable toy_yoga (\<lambda>_. None, {}) toy_claimed"
    by (rule yoga_reachable.step [OF toy_linked_reachable, rotated]) (simp add: measure_contract_def)
  have "\<not> native_renderable_attached (yoga_nodes toy_linked 2)" and node: "y_node (yoga_nodes toy_linked 2) = 16"
    by (simp_all add: toy_linked_def toy_two_def toy_node_def)
  then have slot: "yoga_nodes toy_claimed 2 = (yoga_nodes toy_linked 2)\<lparr>native_renderable_attached := True\<rparr>"
    unfolding toy_claimed_def opentui_raw_yoga_node_claim_native_renderable_def look by simp
  then have "yoga_node_from_handle (yoga_nodes toy_claimed) 65538 = Some 2"
    using keeps_slot_resolves [OF _ look] by (simp add: keeps_slot_def)
  then have "claimed (yoga_nodes toy_claimed) 65538 16" using node by (simp add: claimed_def slot)
  note survives = claimed_node_survives [OF toy_yoga_protocol toy_tree_start reach this]
  obtain r s' where "opentui_raw_yoga_node_free_recursive toy_yoga 65537 toy_claimed = Some (r, s')"
    using free_recursive_good [OF toy_yoga_protocol yoga_reachable_good [OF toy_yoga_protocol toy_tree_start reach]]
    by blast
  with survives [OF yoga_step.intros(3) [OF this]] show ?thesis by blast
qed

end
