(* ===== verification/Abi_Layout.thy ===== *)
theory Abi_Layout
  imports Prelude
begin

text \<open>
  C types and their layout, as far as opentui_abi.h uses them: natural alignment on a target with
  8-byte pointers, the one for which the assertions of the header are written. A struct is placed
  field by field, each at the next multiple of its alignment, and padded to its own alignment.
  Objects are stored little-endian; the padding holds whatever was there.
\<close>

section \<open>Types\<close>

text \<open>\<open>C_ptr True\<close> points to const, None is void; \<open>C_fn\<close> is a pointer to a function.\<close>

datatype c_type =
  C_bool | C_u8 | C_u16 | C_u32 | C_u64 | C_i32 | C_float | C_double | C_size | C_uintptr
| C_ptr bool "c_type option"
| C_fn "c_type option" "c_type list"
| C_struct string "(string \<times> c_type) list"

type_synonym c_fields = "(string \<times> c_type) list"

abbreviation "ptr_to t \<equiv> C_ptr False (Some t)"
abbreviation "const_ptr t \<equiv> C_ptr True (Some t)"
abbreviation "void_ptr \<equiv> C_ptr False None"
abbreviation "const_void_ptr \<equiv> C_ptr True None"

section \<open>Layout\<close>

fun align_of :: "c_type \<Rightarrow> nat" and fields_align :: "c_fields \<Rightarrow> nat" where
  "align_of C_bool = 1"
| "align_of C_u8 = 1"
| "align_of C_u16 = 2"
| "align_of C_u32 = 4"
| "align_of C_u64 = 8"
| "align_of C_i32 = 4"
| "align_of C_float = 4"
| "align_of C_double = 8"
| "align_of C_size = 8"
| "align_of C_uintptr = 8"
| "align_of (C_ptr c t) = 8"
| "align_of (C_fn r ps) = 8"
| "align_of (C_struct n fs) = fields_align fs"
| "fields_align [] = 1"
| "fields_align ((f, t) # fs) = max (align_of t) (fields_align fs)"

text \<open>The next multiple of an alignment.\<close>

definition round_up :: "nat \<Rightarrow> nat \<Rightarrow> nat" where
  "round_up n a = (n + a - 1) div a * a"

fun size_of :: "c_type \<Rightarrow> nat" and fields_end :: "nat \<Rightarrow> c_fields \<Rightarrow> nat" where
  "size_of C_bool = 1"
| "size_of C_u8 = 1"
| "size_of C_u16 = 2"
| "size_of C_u32 = 4"
| "size_of C_u64 = 8"
| "size_of C_i32 = 4"
| "size_of C_float = 4"
| "size_of C_double = 8"
| "size_of C_size = 8"
| "size_of C_uintptr = 8"
| "size_of (C_ptr c t) = 8"
| "size_of (C_fn r ps) = 8"
| "size_of (C_struct n fs) = round_up (fields_end 0 fs) (fields_align fs)"
| "fields_end off [] = off"
| "fields_end off ((f, t) # fs) = fields_end (round_up off (align_of t) + size_of t) fs"

text \<open>The offsets of the fields, placed from \<open>off\<close> on.\<close>

fun field_offsets :: "nat \<Rightarrow> c_fields \<Rightarrow> nat list" where
  "field_offsets off [] = []"
| "field_offsets off ((f, t) # fs) =
     round_up off (align_of t) # field_offsets (round_up off (align_of t) + size_of t) fs"

definition offset_of :: "c_type \<Rightarrow> string \<Rightarrow> nat option" where
  "offset_of t f = (case t of
      C_struct n fs \<Rightarrow> map_of (zip (map fst fs) (field_offsets 0 fs)) f
    | _ \<Rightarrow> None)"

section \<open>The layout is sound\<close>

lemma round_up_le: "0 < a \<Longrightarrow> n \<le> round_up n a"
proof -
  assume "0 < a"
  then have "(n + a - 1) mod a \<le> a - 1" using mod_less_divisor [of a "n + a - 1"] by linarith
  then show ?thesis using div_mult_mod_eq [of "n + a - 1" a] \<open>0 < a\<close> unfolding round_up_def by linarith
qed

lemma round_up_less: "0 < a \<Longrightarrow> round_up n a < n + a"
  using div_mult_mod_eq [of "n + a - 1" a] unfolding round_up_def by linarith

lemma dvd_round_up [simp]: "a dvd round_up n a"
  by (simp add: round_up_def)

lemma align_pos [simp]: "0 < align_of t" "0 < fields_align fs"
  by (induction t and fs rule: align_of_fields_align.induct) auto

lemma fields_end_ge: "off \<le> fields_end off fs"
proof (induction fs arbitrary: off)
  case (Cons x fs)
  obtain f t where x: "x = (f, t)" by (cases x)
  have "off \<le> round_up off (align_of t) + size_of t"
    using round_up_le [of "align_of t" off] by simp
  also have "\<dots> \<le> fields_end (round_up off (align_of t) + size_of t) fs" by (rule Cons.IH)
  finally show ?case by (simp add: x)
qed simp

lemma length_field_offsets [simp]: "length (field_offsets off fs) = length fs"
  by (induction fs arbitrary: off) auto

text \<open>Fields come in order, aligned, without overlap, and end inside the struct.\<close>

lemma field_offsets_placed:
  "i < length fs \<Longrightarrow>
     off \<le> field_offsets off fs ! i \<and> align_of (snd (fs ! i)) dvd field_offsets off fs ! i \<and>
     field_offsets off fs ! i + size_of (snd (fs ! i)) \<le> fields_end off fs"
proof (induction fs arbitrary: off i)
  case (Cons x fs)
  obtain f t where x: "x = (f, t)" by (cases x)
  define at where "at = round_up off (align_of t) + size_of t"
  have le: "off \<le> round_up off (align_of t)" using round_up_le [of "align_of t" off] by simp
  show ?case
  proof (cases i)
    case 0
    then show ?thesis using le fields_end_ge [of at fs] by (simp add: x at_def)
  next
    case (Suc j)
    then show ?thesis using Cons.IH [of j at] Cons.prems le by (auto simp: x at_def)
  qed
qed simp

lemma field_offsets_ordered:
  "j < i \<Longrightarrow> i < length fs \<Longrightarrow>
     field_offsets off fs ! j + size_of (snd (fs ! j)) \<le> field_offsets off fs ! i"
proof (induction fs arbitrary: off i j)
  case (Cons x fs)
  obtain f t where x: "x = (f, t)" by (cases x)
  from Cons.prems obtain k where i: "i = Suc k" by (cases i) auto
  show ?case
  proof (cases j)
    case 0
    then show ?thesis
      using field_offsets_placed [of k fs "round_up off (align_of t) + size_of t"] Cons.prems i by (simp add: x)
  next
    case (Suc m)
    then show ?thesis using Cons.IH [of m k] Cons.prems i by (simp add: x)
  qed
qed simp

lemma offset_of_nth:
  assumes "distinct (map fst fs)" "i < length fs"
  shows "offset_of (C_struct n fs) (fst (fs ! i)) = Some (field_offsets 0 fs ! i)"
proof -
  have "(fst (fs ! i), field_offsets 0 fs ! i) \<in> set (zip (map fst fs) (field_offsets 0 fs))"
    using assms(2) by (auto simp: set_zip intro!: exI [of _ i])
  then show ?thesis using assms(1) by (simp add: offset_of_def)
qed

section \<open>Objects as bytes\<close>

fun le_bytes :: "nat \<Rightarrow> nat \<Rightarrow> u8 list" where
  "le_bytes 0 x = []"
| "le_bytes (Suc n) x = of_nat x # le_bytes n (x div 256)"

fun le_nat :: "u8 list \<Rightarrow> nat" where
  "le_nat [] = 0"
| "le_nat (b # bs) = unat b + 256 * le_nat bs"

lemma length_le_bytes [simp]: "length (le_bytes n x) = n"
  by (induction n arbitrary: x) auto

lemma le_nat_le_bytes: "le_nat (le_bytes n x) = x mod 256 ^ n"
  by (induction n arbitrary: x) (simp_all add: unat_of_nat mod_mult2_eq)

text \<open>Storing the fields one by one into the bytes of a struct, and loading one of them.\<close>

definition store :: "nat \<Rightarrow> u8 list \<Rightarrow> u8 list \<Rightarrow> u8 list" where
  "store off xs bs = take off bs @ xs @ drop (off + length xs) bs"

definition load_field :: "nat \<Rightarrow> nat \<Rightarrow> u8 list \<Rightarrow> nat" where
  "load_field off n bs = le_nat (take n (drop off bs))"

fun store_fields :: "nat \<Rightarrow> c_fields \<Rightarrow> nat list \<Rightarrow> u8 list \<Rightarrow> u8 list" where
  "store_fields off ((f, t) # fs) (x # xs) bs =
     (let at = round_up off (align_of t) in
      store_fields (at + size_of t) fs xs (store at (le_bytes (size_of t) x) bs))"
| "store_fields off fs xs bs = bs"

lemma length_store [simp]: "off + length xs \<le> length bs \<Longrightarrow> length (store off xs bs) = length bs"
  by (simp add: store_def)

lemma load_store_same:
  "off + n \<le> length bs \<Longrightarrow> load_field off n (store off (le_bytes n x) bs) = x mod 256 ^ n"
  by (simp add: load_field_def store_def le_nat_le_bytes)

lemma load_store_before:
  "a + n \<le> off \<Longrightarrow> off \<le> length bs \<Longrightarrow> load_field a n (store off xs bs) = load_field a n bs"
  by (simp add: load_field_def store_def drop_take)

lemma length_store_fields:
  "fields_end off fs \<le> length bs \<Longrightarrow> length (store_fields off fs xs bs) = length bs"
proof (induction off fs xs bs rule: store_fields.induct)
  case (1 off f t fs x xs bs)
  have "round_up off (align_of t) + size_of t \<le> length bs"
    using 1 fields_end_ge [of "round_up off (align_of t) + size_of t" fs] by simp
  with 1 show ?case by (simp add: Let_def)
qed auto

lemma load_store_fields_before:
  "a + n \<le> off \<Longrightarrow> fields_end off fs \<le> length bs \<Longrightarrow>
     load_field a n (store_fields off fs xs bs) = load_field a n bs"
proof (induction off fs xs bs rule: store_fields.induct)
  case (1 off f t fs x xs bs)
  define at where "at = round_up off (align_of t)"
  have at: "off \<le> at" using round_up_le [of "align_of t" off] by (simp add: at_def)
  have fit: "at + size_of t \<le> length bs"
    using 1(3) fields_end_ge [of "at + size_of t" fs] by (simp add: at_def)
  have "load_field a n (store_fields (at + size_of t) fs xs (store at (le_bytes (size_of t) x) bs))
      = load_field a n (store at (le_bytes (size_of t) x) bs)"
    using 1 at fit by (simp add: at_def [symmetric] del: store_fields.simps)
  also have "\<dots> = load_field a n bs" using 1(2) at fit by (intro load_store_before) auto
  finally show ?case by (simp add: at_def Let_def)
qed auto

lemma load_store_fields:
  "length xs = length fs \<Longrightarrow> i < length fs \<Longrightarrow> fields_end off fs \<le> length bs \<Longrightarrow>
     load_field (field_offsets off fs ! i) (size_of (snd (fs ! i))) (store_fields off fs xs bs)
       = xs ! i mod 256 ^ size_of (snd (fs ! i))"
proof (induction off fs xs bs arbitrary: i rule: store_fields.induct)
  case (1 off f t fs x xs bs)
  define at where "at = round_up off (align_of t)"
  have fit: "at + size_of t \<le> length bs"
    using 1(4) fields_end_ge [of "at + size_of t" fs] by (simp add: at_def)
  show ?case
  proof (cases i)
    case 0
    have "load_field at (size_of t) (store_fields (at + size_of t) fs xs (store at (le_bytes (size_of t) x) bs))
        = x mod 256 ^ size_of t"
      using 1(4) fit by (subst load_store_fields_before) (simp_all add: at_def load_store_same)
    then show ?thesis using 0 by (simp add: at_def Let_def)
  next
    case (Suc j)
    then show ?thesis using 1 fit by (simp add: at_def Let_def)
  qed
qed auto

end
