(* ===== verification/Abi.thy ===== *)
theory Abi
  imports Abi_Layout Native_Api
begin

text \<open>
  opentui_abi.h: the structs that the stubs and the library exchange, the prototypes of the
  library, the function pointer types beside them, and the static assertions that compare the
  prototypes with these types and the layouts with the numbers the library was built with.
\<close>

section \<open>Types\<close>

abbreviation "native_handle \<equiv> C_u32"
abbreviation "event_callback \<equiv> C_fn None [const_ptr C_u8, C_u32, const_ptr C_u8, C_u32]"
abbreviation "span_feed_callback \<equiv> C_fn None [C_uintptr, C_u32, C_uintptr, C_u64]"

section \<open>Structs\<close>

definition abi_build_options :: c_type where
  "abi_build_options = C_struct ''build_options'' [
     (''gpa_safe_stats'', C_bool), (''gpa_memory_limit_tracking'', C_bool)]"

definition abi_allocator_stats :: c_type where
  "abi_allocator_stats = C_struct ''allocator_stats'' [
     (''total_requested_bytes'', C_u64), (''active_allocations'', C_u64),
     (''small_allocations'', C_u64), (''large_allocations'', C_u64),
     (''requested_bytes_valid'', C_bool)]"

definition abi_render_stats :: c_type where
  "abi_render_stats = C_struct ''render_stats'' [
     (''last_frame_time'', C_double), (''average_frame_time'', C_double),
     (''render_time'', C_double), (''stdout_write_time'', C_double), (''frame_count'', C_u64),
     (''cells_updated'', C_u32), (''average_cells_updated'', C_u32),
     (''render_time_valid'', C_bool), (''stdout_write_time_valid'', C_bool)]"

definition abi_cursor_style_options :: c_type where
  "abi_cursor_style_options = C_struct ''cursor_style_options'' [
     (''style'', C_u8), (''blinking'', C_u8), (''color'', const_ptr C_u16), (''cursor'', C_u8)]"

definition abi_cursor_state :: c_type where
  "abi_cursor_state = C_struct ''cursor_state'' [
     (''x'', C_u32), (''y'', C_u32), (''visible'', C_bool), (''style'', C_u8),
     (''blinking'', C_bool), (''r'', C_float), (''g'', C_float), (''b'', C_float), (''a'', C_float)]"

definition abi_yoga_layout :: c_type where
  "abi_yoga_layout = C_struct ''yoga_layout'' [
     (''left'', C_float), (''top'', C_float), (''right'', C_float), (''bottom'', C_float),
     (''width'', C_float), (''height'', C_float)]"

definition abi_measure_result :: c_type where
  "abi_measure_result = C_struct ''measure_result'' [
     (''line_count'', C_u32), (''width_cols_max'', C_u32)]"

definition abi_line_info :: c_type where
  "abi_line_info = C_struct ''line_info'' [
     (''start_cols_ptr'', const_ptr C_u32), (''start_cols_len'', C_u32),
     (''width_cols_ptr'', const_ptr C_u32), (''width_cols_len'', C_u32),
     (''sources_ptr'', const_ptr C_u32), (''sources_len'', C_u32), (''wraps_ptr'', const_ptr C_u32),
     (''wraps_len'', C_u32), (''width_cols_max'', C_u32)]"

definition abi_styled_chunk :: c_type where
  "abi_styled_chunk = C_struct ''styled_chunk'' [
     (''text_ptr'', const_ptr C_u8), (''text_len'', C_size), (''fg_ptr'', const_ptr C_u16),
     (''bg_ptr'', const_ptr C_u16), (''attributes'', C_u32), (''link_ptr'', const_ptr C_u8),
     (''link_len'', C_size)]"

definition abi_highlight :: c_type where
  "abi_highlight = C_struct ''highlight'' [
     (''start'', C_u32), (''end'', C_u32), (''style_id'', C_u32), (''priority'', C_u8),
     (''hl_ref'', C_u16)]"

definition abi_capabilities :: c_type where
  "abi_capabilities = C_struct ''capabilities'' [
     (''kitty_keyboard'', C_bool), (''kitty_graphics'', C_bool), (''rgb'', C_bool),
     (''ansi256'', C_bool), (''unicode'', C_u8), (''sgr_pixels'', C_bool),
     (''color_scheme_updates'', C_bool), (''explicit_width'', C_bool), (''scaled_text'', C_bool),
     (''sixel'', C_bool), (''focus_tracking'', C_bool), (''sync'', C_bool),
     (''bracketed_paste'', C_bool), (''hyperlinks'', C_bool), (''osc52'', C_bool),
     (''notifications'', C_bool), (''explicit_cursor_positioning'', C_bool), (''remote'', C_bool),
     (''multiplexer'', C_u8), (''image_protocol'', C_u8), (''term_name_ptr'', const_ptr C_u8),
     (''term_name_len'', C_size), (''term_version_ptr'', const_ptr C_u8),
     (''term_version_len'', C_size), (''term_from_xtversion'', C_bool), (''osc52_support'', C_u8)]"

definition abi_span_feed_options :: c_type where
  "abi_span_feed_options = C_struct ''span_feed_options'' [
     (''chunk_size'', C_u32), (''initial_chunks'', C_u32), (''max_bytes'', C_u64),
     (''growth_policy'', C_u8), (''auto_commit_on_full'', C_u8), (''span_queue_capacity'', C_u32)]"

definition abi_span_feed_stats :: c_type where
  "abi_span_feed_stats = C_struct ''span_feed_stats'' [
     (''bytes_written'', C_u64), (''spans_committed'', C_u64), (''chunks'', C_u32),
     (''pending_spans'', C_u32)]"

definition abi_span_info :: c_type where
  "abi_span_info = C_struct ''span_info'' [
     (''chunk_ptr'', C_uintptr), (''offset'', C_u32), (''len'', C_u32), (''chunk_index'', C_u32),
     (''reserved'', C_u32)]"

definition abi_reserve_info :: c_type where
  "abi_reserve_info = C_struct ''reserve_info'' [
     (''ptr'', C_uintptr), (''len'', C_u32), (''reserved'', C_u32)]"

definition abi_grid_draw_options :: c_type where
  "abi_grid_draw_options = C_struct ''grid_draw_options'' [
     (''draw_inner'', C_bool), (''draw_outer'', C_bool)]"

definition abi_image_info :: c_type where
  "abi_image_info = C_struct ''image_info'' [
     (''width'', C_u32), (''height'', C_u32), (''source_width'', C_u32), (''source_height'', C_u32),
     (''format'', C_u32), (''color_status'', C_u32), (''orientation'', C_u32),
     (''has_alpha'', C_u32)]"

definition abi_image_draw_options :: c_type where
  "abi_image_draw_options = C_struct ''image_draw_options'' [
     (''x'', C_i32), (''y'', C_i32), (''width'', C_u32), (''height'', C_u32),
     (''pixel_width'', C_u32), (''pixel_height'', C_u32), (''source_x'', C_u32),
     (''source_y'', C_u32), (''source_width'', C_u32), (''source_height'', C_u32),
     (''protocol'', C_u32)]"

definition header_structs :: "c_type list" where
  "header_structs = [
     abi_build_options, abi_allocator_stats, abi_render_stats, abi_cursor_style_options,
     abi_cursor_state, abi_yoga_layout, abi_measure_result, abi_line_info, abi_styled_chunk,
     abi_highlight, abi_capabilities, abi_span_feed_options, abi_span_feed_stats, abi_span_info,
     abi_reserve_info, abi_grid_draw_options, abi_image_info, abi_image_draw_options]"

lemmas struct_defs = abi_build_options_def abi_allocator_stats_def abi_render_stats_def abi_cursor_style_options_def
  abi_cursor_state_def abi_yoga_layout_def abi_measure_result_def abi_line_info_def
  abi_styled_chunk_def abi_highlight_def abi_capabilities_def abi_span_feed_options_def
  abi_span_feed_stats_def abi_span_info_def abi_reserve_info_def abi_grid_draw_options_def
  abi_image_info_def abi_image_draw_options_def

section \<open>Prototypes\<close>

definition renderer_functions :: "(string \<times> c_type) list" where
  "renderer_functions = [
     (''createEventSink'', C_fn (Some native_handle) [event_callback]),
     (''destroyEventSink'', C_fn None [native_handle]),
     (''createEditBuffer'', C_fn (Some native_handle) [C_u8, native_handle]),
     (''destroyEditBuffer'', C_fn None [native_handle]),
     (''editBufferInsertText'', C_fn None [native_handle, const_ptr C_u8, C_u32]),
     (''createRenderer'', C_fn (Some native_handle) [C_u32, C_u32, C_u8, C_u8, void_ptr]),
     (''setUseThread'', C_fn None [native_handle, C_bool]),
     (''resizeRenderer'', C_fn None [native_handle, C_u32, C_u32]),
     (''writeOut'', C_fn None [native_handle, const_ptr C_u8, C_u32]),
     (''queryTerminalCapabilities'', C_fn None [native_handle]),
     (''triggerNotification'', C_fn (Some C_bool) [native_handle, const_ptr C_u8, C_u32, const_ptr
         C_u8, C_u32]),
     (''setBackgroundColor'', C_fn None [native_handle, const_ptr C_u16]),
     (''setCursorPosition'', C_fn None [native_handle, C_i32, C_i32, C_bool]),
     (''setCursorColor'', C_fn None [native_handle, const_ptr C_u16]),
     (''setCursorStyleOptions'', C_fn None [native_handle, const_ptr abi_cursor_style_options]),
     (''getCursorState'', C_fn None [native_handle, ptr_to abi_cursor_state]),
     (''destroyRenderer'', C_fn None [native_handle]),
     (''getCurrentBuffer'', C_fn (Some native_handle) [native_handle]),
     (''getNextBuffer'', C_fn (Some native_handle) [native_handle]),
     (''render'', C_fn (Some C_u8) [native_handle, C_bool]),
     (''setRenderOffset'', C_fn None [native_handle, C_u32]),
     (''resetSplitScrollback'', C_fn (Some C_u32) [native_handle, C_u32, C_u32]),
     (''syncSplitScrollback'', C_fn (Some C_u32) [native_handle, C_u32]),
     (''getSplitOutputOffset'', C_fn (Some C_u32) [native_handle, C_u32]),
     (''setPendingSplitFooterTransition'', C_fn None [native_handle, C_u8, C_u32, C_u32, C_u32,
         C_u32, C_u32]),
     (''clearPendingSplitFooterTransition'', C_fn None [native_handle]),
     (''repaintSplitFooter'', C_fn (Some C_u64) [native_handle, C_u32, C_bool]),
     (''commitSplitFooterSnapshot'', C_fn (Some C_u64) [native_handle, native_handle, C_u32,
         C_bool, C_bool, C_u32, C_bool, C_bool, C_bool]),
     (''addToHitGrid'', C_fn None [native_handle, C_i32, C_i32, C_u32, C_u32, C_u32]),
     (''clearCurrentHitGrid'', C_fn None [native_handle]),
     (''hitGridPushScissorRect'', C_fn None [native_handle, C_i32, C_i32, C_u32, C_u32]),
     (''hitGridPopScissorRect'', C_fn None [native_handle]),
     (''hitGridClearScissorRects'', C_fn None [native_handle]),
     (''addToCurrentHitGridClipped'', C_fn None [native_handle, C_i32, C_i32, C_u32, C_u32,
         C_u32]),
     (''checkHit'', C_fn (Some C_u32) [native_handle, C_u32, C_u32]),
     (''getHitGridDirty'', C_fn (Some C_bool) [native_handle]),
     (''clearNextHitGrid'', C_fn None [native_handle])]"

definition buffer_functions :: "(string \<times> c_type) list" where
  "buffer_functions = [
     (''getBufferWidth'', C_fn (Some C_u32) [native_handle]),
     (''getBufferHeight'', C_fn (Some C_u32) [native_handle]),
     (''createOptimizedBuffer'', C_fn (Some native_handle) [C_u32, C_u32, C_bool, C_u8, const_ptr
         C_u8, C_u32]),
     (''destroyOptimizedBuffer'', C_fn None [native_handle]),
     (''destroyFrameBuffer'', C_fn None [native_handle]),
     (''drawFrameBuffer'', C_fn None [native_handle, C_i32, C_i32, native_handle, C_u32, C_u32,
         C_u32, C_u32]),
     (''bufferClear'', C_fn None [native_handle, const_ptr C_u16]),
     (''bufferWriteResolvedChars'', C_fn (Some C_u32) [native_handle, ptr_to C_u8, C_u32,
         C_bool]),
     (''bufferDrawText'', C_fn None [native_handle, const_ptr C_u8, C_u32, C_u32, C_u32, const_ptr
         C_u16, const_ptr C_u16, C_u32]),
     (''bufferSetCell'', C_fn None [native_handle, C_u32, C_u32, C_u32, const_ptr C_u16, const_ptr
         C_u16, C_u32]),
     (''bufferSetCellWithAlphaBlending'', C_fn None [native_handle, C_u32, C_u32, C_u32, const_ptr
         C_u16, const_ptr C_u16, C_u32]),
     (''bufferFillRect'', C_fn None [native_handle, C_u32, C_u32, C_u32, C_u32, const_ptr C_u16]),
     (''bufferResize'', C_fn None [native_handle, C_u32, C_u32]),
     (''bufferDrawGrayscaleBuffer'', C_fn None [native_handle, C_i32, C_i32, const_ptr C_float,
         C_u32, C_u32, const_ptr C_u16, const_ptr C_u16]),
     (''bufferDrawGrayscaleBufferSupersampled'', C_fn None [native_handle, C_i32, C_i32, const_ptr
         C_float, C_u32, C_u32, const_ptr C_u16, const_ptr C_u16])]"

definition draw_functions :: "(string \<times> c_type) list" where
  "draw_functions = [
     (''bufferDrawGrid'', C_fn None [native_handle, const_ptr C_u32, const_ptr C_u16, const_ptr
         C_u16, const_ptr C_i32, C_u32, const_ptr C_i32, C_u32, const_ptr abi_grid_draw_options]),
     (''bufferDrawBox'', C_fn None [native_handle, C_i32, C_i32, C_u32, C_u32, const_ptr C_u32,
         C_u32, const_ptr C_u16, const_ptr C_u16, const_ptr C_u16, const_ptr C_u8, C_u32,
         const_ptr C_u8, C_u32]),
     (''bufferDrawTextBufferView'', C_fn None [native_handle, native_handle, C_i32, C_i32]),
     (''bufferDrawImage'', C_fn (Some C_u8) [native_handle, native_handle, const_ptr
         abi_image_draw_options]),
     (''bufferColorMatrix'', C_fn None [native_handle, const_ptr C_float, const_ptr C_float,
         C_u32, C_float, C_u8]),
     (''bufferColorMatrixUniform'', C_fn None [native_handle, const_ptr C_float, C_float, C_u8]),
     (''bufferPushScissorRect'', C_fn None [native_handle, C_i32, C_i32, C_u32, C_u32]),
     (''bufferPopScissorRect'', C_fn None [native_handle]),
     (''bufferClearScissorRects'', C_fn None [native_handle]),
     (''bufferPushOpacity'', C_fn None [native_handle, C_float]),
     (''bufferPopOpacity'', C_fn None [native_handle]),
     (''bufferGetCurrentOpacity'', C_fn (Some C_float) [native_handle]),
     (''bufferClearOpacity'', C_fn None [native_handle]),
     (''bufferGetCharPtr'', C_fn (Some (ptr_to C_u32)) [native_handle]),
     (''bufferGetFgPtr'', C_fn (Some (ptr_to C_u16)) [native_handle]),
     (''bufferGetBgPtr'', C_fn (Some (ptr_to C_u16)) [native_handle]),
     (''bufferGetAttributesPtr'', C_fn (Some (ptr_to C_u32)) [native_handle])]"

definition image_functions :: "(string \<times> c_type) list" where
  "image_functions = [
     (''imageInfo'', C_fn (Some C_u32) [const_ptr C_u8, C_u32, ptr_to abi_image_info]),
     (''imageDecode'', C_fn (Some C_u32) [const_ptr C_u8, C_u32, ptr_to native_handle]),
     (''imageCreateFromRgba'', C_fn (Some C_u32) [const_ptr C_u8, C_u64, C_u32, C_u32, C_u32,
         ptr_to native_handle]),
     (''imageDestroy'', C_fn None [native_handle]),
     (''imageRetain'', C_fn (Some C_u32) [native_handle, ptr_to native_handle]),
     (''imageGetInfo'', C_fn (Some C_u32) [native_handle, ptr_to abi_image_info]),
     (''imageGetPixelsPtr'', C_fn (Some (ptr_to C_u8)) [native_handle]),
     (''imageMaterialize'', C_fn (Some C_u32) [native_handle]),
     (''imageEnsureEncodedPng'', C_fn (Some C_u32) [native_handle]),
     (''imageClone'', C_fn (Some C_u32) [native_handle, ptr_to native_handle]),
     (''imageCopyPixels'', C_fn (Some C_u32) [native_handle, ptr_to C_u8, C_u64, C_u32, C_u8]),
     (''imageResize'', C_fn (Some C_u32) [native_handle, C_u32, C_u32, C_u32, ptr_to
         native_handle]),
     (''imageExtract'', C_fn (Some C_u32) [native_handle, C_u32, C_u32, C_u32, C_u32, ptr_to
         native_handle]),
     (''imageExtend'', C_fn (Some C_u32) [native_handle, C_u32, C_u32, C_u32, C_u32, const_ptr
         C_u8, ptr_to native_handle]),
     (''imageTransform'', C_fn (Some C_u32) [native_handle, C_u32, ptr_to native_handle]),
     (''imageComposite'', C_fn (Some C_u32) [native_handle, native_handle, C_i32, C_i32, C_u32,
         C_u8, ptr_to native_handle]),
     (''getRenderStats'', C_fn None [native_handle, ptr_to abi_render_stats]),
     (''getAllocatorStats'', C_fn None [ptr_to abi_allocator_stats])]"

definition yoga_functions :: "(string \<times> c_type) list" where
  "yoga_functions = [
     (''yogaConfigCreate'', C_fn (Some void_ptr) []),
     (''yogaConfigFree'', C_fn None [void_ptr]),
     (''yogaNodeCreateForOpenTUI'', C_fn (Some void_ptr) []),
     (''yogaNodeFree'', C_fn None [void_ptr]),
     (''yogaNodeFreeRecursive'', C_fn None [void_ptr]),
     (''yogaNodeInsertChild'', C_fn None [void_ptr, void_ptr, C_u32]),
     (''yogaNodeRemoveChild'', C_fn None [void_ptr, void_ptr]),
     (''yogaNodeGetChildCount'', C_fn (Some C_u32) [const_void_ptr]),
     (''yogaNodeCalculateLayout'', C_fn None [void_ptr, C_float, C_float, C_u32]),
     (''yogaNodeIsDirty'', C_fn (Some C_bool) [const_void_ptr]),
     (''yogaNodeMarkDirty'', C_fn None [void_ptr]),
     (''yogaNodeGetHasNewLayout'', C_fn (Some C_bool) [const_void_ptr]),
     (''yogaNodeSetHasNewLayout'', C_fn None [void_ptr, C_bool]),
     (''yogaNodeGetComputedLayout'', C_fn None [const_void_ptr, ptr_to abi_yoga_layout]),
     (''yogaNodeStyleSetValue'', C_fn None [void_ptr, C_u32, C_u32, C_u32, C_float]),
     (''yogaNodeStyleSetEnum'', C_fn None [void_ptr, C_u32, C_u32]),
     (''yogaNodeStyleSetFloat'', C_fn None [void_ptr, C_u32, C_float]),
     (''yogaNodeStyleSetBorder'', C_fn None [void_ptr, C_u32, C_float]),
     (''yogaNodeSetMeasureFunc'', C_fn None [void_ptr, C_bool]),
     (''yogaNodeUnsetMeasureFunc'', C_fn None [void_ptr]),
     (''yogaNodeHasMeasureFunc'', C_fn (Some C_bool) [const_void_ptr]),
     (''yogaSetMeasureCallback'', C_fn None [const_void_ptr]),
     (''yogaStoreMeasureResult'', C_fn None [C_float, C_float]),
     (''createNativeRenderable'', C_fn (Some native_handle) []),
     (''destroyNativeRenderable'', C_fn None [native_handle]),
     (''nativeRenderableAttachYogaNode'', C_fn (Some C_bool) [native_handle, void_ptr]),
     (''nativeRenderableSetMeasureTarget'', C_fn (Some C_bool) [native_handle, C_u32,
         native_handle])]"

definition text_functions :: "(string \<times> c_type) list" where
  "text_functions = [
     (''createTextBuffer'', C_fn (Some native_handle) [C_u8]),
     (''destroyTextBuffer'', C_fn None [native_handle]),
     (''textBufferGetLength'', C_fn (Some C_u32) [native_handle]),
     (''textBufferGetByteSize'', C_fn (Some C_u32) [native_handle]),
     (''textBufferGetLineCount'', C_fn (Some C_u32) [native_handle]),
     (''textBufferGetTabWidth'', C_fn (Some C_u8) [native_handle]),
     (''textBufferReset'', C_fn None [native_handle]),
     (''textBufferClear'', C_fn None [native_handle]),
     (''textBufferLoadFile'', C_fn (Some C_bool) [native_handle, const_ptr C_u8, C_u32]),
     (''textBufferSetTabWidth'', C_fn None [native_handle, C_u8]),
     (''textBufferSetDefaultFg'', C_fn None [native_handle, const_ptr C_u16]),
     (''textBufferSetDefaultBg'', C_fn None [native_handle, const_ptr C_u16]),
     (''textBufferSetDefaultAttributes'', C_fn None [native_handle, const_ptr C_u32]),
     (''textBufferResetDefaults'', C_fn None [native_handle]),
     (''textBufferSetStyledText'', C_fn None [native_handle, const_ptr abi_styled_chunk, C_u32]),
     (''textBufferClearAllHighlights'', C_fn None [native_handle]),
     (''textBufferAddHighlightByCharRange'', C_fn None [native_handle, const_ptr abi_highlight]),
     (''textBufferAddHighlight'', C_fn None [native_handle, C_u32, const_ptr abi_highlight]),
     (''textBufferRemoveHighlightsByRef'', C_fn None [native_handle, C_u16]),
     (''textBufferClearLineHighlights'', C_fn None [native_handle, C_u32]),
     (''textBufferSetSyntaxStyle'', C_fn (Some C_bool) [native_handle, native_handle]),
     (''textBufferAppend'', C_fn None [native_handle, const_ptr C_u8, C_u32]),
     (''textBufferRegisterMemBuffer'', C_fn (Some C_u16) [native_handle, const_ptr C_u8, C_u32,
         C_bool]),
     (''textBufferReplaceMemBuffer'', C_fn (Some C_bool) [native_handle, C_u8, const_ptr C_u8,
         C_u32, C_bool]),
     (''textBufferSetTextFromMem'', C_fn None [native_handle, C_u8])]"

definition view_functions :: "(string \<times> c_type) list" where
  "view_functions = [
     (''createTextBufferView'', C_fn (Some native_handle) [native_handle]),
     (''destroyTextBufferView'', C_fn None [native_handle]),
     (''textBufferViewSetWrapWidth'', C_fn None [native_handle, C_u32]),
     (''textBufferViewSetWrapMode'', C_fn None [native_handle, C_u8]),
     (''textBufferViewSetFirstLineOffset'', C_fn None [native_handle, C_u32]),
     (''textBufferViewSetSelection'', C_fn None [native_handle, C_u32, C_u32, const_ptr C_u16,
         const_ptr C_u16]),
     (''textBufferViewUpdateSelection'', C_fn None [native_handle, C_u32, const_ptr C_u16,
         const_ptr C_u16]),
     (''textBufferViewResetSelection'', C_fn None [native_handle]),
     (''textBufferViewGetSelectionInfo'', C_fn (Some C_u64) [native_handle]),
     (''textBufferViewSetLocalSelection'', C_fn (Some C_bool) [native_handle, C_i32, C_i32, C_i32,
         C_i32, const_ptr C_u16, const_ptr C_u16]),
     (''textBufferViewUpdateLocalSelection'', C_fn (Some C_bool) [native_handle, C_i32, C_i32,
         C_i32, C_i32, const_ptr C_u16, const_ptr C_u16]),
     (''textBufferViewResetLocalSelection'', C_fn None [native_handle]),
     (''textBufferViewGetSelectedText'', C_fn (Some C_u32) [native_handle, ptr_to C_u8, C_u32]),
     (''textBufferViewSetViewportSize'', C_fn None [native_handle, C_u32, C_u32]),
     (''textBufferViewSetViewport'', C_fn None [native_handle, C_u32, C_u32, C_u32, C_u32]),
     (''textBufferViewGetVirtualLineCount'', C_fn (Some C_u32) [native_handle]),
     (''textBufferViewSetTabIndicator'', C_fn None [native_handle, C_u32]),
     (''textBufferViewSetTabIndicatorColor'', C_fn None [native_handle, const_ptr C_u16]),
     (''textBufferViewSetTruncate'', C_fn None [native_handle, C_bool]),
     (''textBufferViewMeasureForDimensions'', C_fn (Some C_bool) [native_handle, C_u32, C_u32,
         ptr_to abi_measure_result]),
     (''textBufferViewGetLineInfoDirect'', C_fn None [native_handle, ptr_to abi_line_info]),
     (''textBufferViewGetLogicalLineInfoDirect'', C_fn None [native_handle, ptr_to abi_line_info])]"

definition style_functions :: "(string \<times> c_type) list" where
  "style_functions = [
     (''createSyntaxStyle'', C_fn (Some native_handle) []),
     (''destroySyntaxStyle'', C_fn None [native_handle]),
     (''syntaxStyleRegister'', C_fn (Some C_u32) [native_handle, const_ptr C_u8, C_u32, const_ptr
         C_u16, const_ptr C_u16, C_u32]),
     (''syntaxStyleResolveByName'', C_fn (Some C_u32) [native_handle, const_ptr C_u8, C_u32]),
     (''syntaxStyleGetStyleCount'', C_fn (Some C_u32) [native_handle]),
     (''linkAlloc'', C_fn (Some C_u32) [const_ptr C_u8, C_u32]),
     (''linkGetUrl'', C_fn (Some C_u32) [C_u32, ptr_to C_u8, C_u32]),
     (''attributesWithLink'', C_fn (Some C_u32) [C_u32, C_u32]),
     (''attributesGetLinkId'', C_fn (Some C_u32) [C_u32]),
     (''getTerminalCapabilities'', C_fn None [native_handle, ptr_to abi_capabilities]),
     (''processCapabilityResponse'', C_fn None [native_handle, const_ptr C_u8, C_u32])]"

definition feed_functions :: "(string \<times> c_type) list" where
  "feed_functions = [
     (''createNativeSpanFeed'', C_fn (Some void_ptr) [const_ptr abi_span_feed_options]),
     (''attachNativeSpanFeed'', C_fn (Some C_i32) [void_ptr]),
     (''streamClose'', C_fn (Some C_i32) [void_ptr]),
     (''destroyNativeSpanFeed'', C_fn None [void_ptr]),
     (''streamWrite'', C_fn (Some C_i32) [void_ptr, const_ptr C_u8, C_u32]),
     (''streamCommit'', C_fn (Some C_i32) [void_ptr]),
     (''streamReserve'', C_fn (Some C_i32) [void_ptr, C_u32, ptr_to abi_reserve_info]),
     (''streamCommitReserved'', C_fn (Some C_i32) [void_ptr, C_u32]),
     (''streamCancelReserved'', C_fn (Some C_i32) [void_ptr]),
     (''streamSetOptions'', C_fn (Some C_i32) [void_ptr, const_ptr abi_span_feed_options]),
     (''streamGetStats'', C_fn (Some C_i32) [void_ptr, ptr_to abi_span_feed_stats]),
     (''streamDrainSpans'', C_fn (Some C_u32) [void_ptr, ptr_to abi_span_info, C_u32]),
     (''streamMarkSpanConsumed'', C_fn (Some C_i32) [void_ptr, const_ptr abi_span_info]),
     (''streamSetCallback'', C_fn None [void_ptr, span_feed_callback])]"

definition header_functions :: "(string \<times> c_type) list" where
  "header_functions = renderer_functions @ buffer_functions @ draw_functions @ image_functions @ yoga_functions @
     text_functions @ view_functions @ style_functions @ feed_functions"

section \<open>Function pointer types\<close>

definition renderer_fn_types :: "(string \<times> c_type) list" where
  "renderer_fn_types = [
     (''opentui_create_event_sink_fn'', C_fn (Some native_handle) [event_callback]),
     (''opentui_destroy_event_sink_fn'', C_fn None [native_handle]),
     (''opentui_create_edit_buffer_fn'', C_fn (Some native_handle) [C_u8, native_handle]),
     (''opentui_destroy_edit_buffer_fn'', C_fn None [native_handle]),
     (''opentui_edit_buffer_insert_text_fn'', C_fn None [native_handle, const_ptr C_u8, C_u32]),
     (''opentui_create_renderer_fn'', C_fn (Some native_handle) [C_u32, C_u32, C_u8, C_u8,
         void_ptr]),
     (''opentui_set_use_thread_fn'', C_fn None [native_handle, C_bool]),
     (''opentui_resize_renderer_fn'', C_fn None [native_handle, C_u32, C_u32]),
     (''opentui_write_out_fn'', C_fn None [native_handle, const_ptr C_u8, C_u32]),
     (''opentui_query_terminal_capabilities_fn'', C_fn None [native_handle]),
     (''opentui_trigger_notification_fn'', C_fn (Some C_bool) [native_handle, const_ptr C_u8,
         C_u32, const_ptr C_u8, C_u32]),
     (''opentui_set_background_color_fn'', C_fn None [native_handle, const_ptr C_u16]),
     (''opentui_set_cursor_position_fn'', C_fn None [native_handle, C_i32, C_i32, C_bool]),
     (''opentui_set_cursor_color_fn'', C_fn None [native_handle, const_ptr C_u16]),
     (''opentui_set_cursor_style_options_fn'', C_fn None [native_handle, const_ptr
         abi_cursor_style_options]),
     (''opentui_get_cursor_state_fn'', C_fn None [native_handle, ptr_to abi_cursor_state]),
     (''opentui_destroy_renderer_fn'', C_fn None [native_handle]),
     (''opentui_get_buffer_fn'', C_fn (Some native_handle) [native_handle]),
     (''opentui_render_fn'', C_fn (Some C_u8) [native_handle, C_bool]),
     (''opentui_hit_grid_rect_fn'', C_fn None [native_handle, C_i32, C_i32, C_u32, C_u32, C_u32]),
     (''opentui_hit_grid_scissor_fn'', C_fn None [native_handle, C_i32, C_i32, C_u32, C_u32]),
     (''opentui_hit_grid_clear_fn'', C_fn None [native_handle]),
     (''opentui_check_hit_fn'', C_fn (Some C_u32) [native_handle, C_u32, C_u32]),
     (''opentui_get_hit_grid_dirty_fn'', C_fn (Some C_bool) [native_handle]),
     (''opentui_get_buffer_dimension_fn'', C_fn (Some C_u32) [native_handle]),
     (''opentui_create_optimized_buffer_fn'', C_fn (Some native_handle) [C_u32, C_u32, C_bool,
         C_u8, const_ptr C_u8, C_u32]),
     (''opentui_destroy_optimized_buffer_fn'', C_fn None [native_handle]),
     (''opentui_draw_frame_buffer_fn'', C_fn None [native_handle, C_i32, C_i32, native_handle,
         C_u32, C_u32, C_u32, C_u32]),
     (''opentui_buffer_clear_fn'', C_fn None [native_handle, const_ptr C_u16]),
     (''opentui_buffer_write_fn'', C_fn (Some C_u32) [native_handle, ptr_to C_u8, C_u32, C_bool]),
     (''opentui_buffer_draw_text_fn'', C_fn None [native_handle, const_ptr C_u8, C_u32, C_u32,
         C_u32, const_ptr C_u16, const_ptr C_u16, C_u32]),
     (''opentui_buffer_draw_box_fn'', C_fn None [native_handle, C_i32, C_i32, C_u32, C_u32,
         const_ptr C_u32, C_u32, const_ptr C_u16, const_ptr C_u16, const_ptr C_u16, const_ptr
         C_u8, C_u32, const_ptr C_u8, C_u32]),
     (''opentui_buffer_set_cell_fn'', C_fn None [native_handle, C_u32, C_u32, C_u32, const_ptr
         C_u16, const_ptr C_u16, C_u32]),
     (''opentui_buffer_set_cell_with_alpha_blending_fn'', C_fn None [native_handle, C_u32, C_u32,
         C_u32, const_ptr C_u16, const_ptr C_u16, C_u32]),
     (''opentui_buffer_fill_rect_fn'', C_fn None [native_handle, C_u32, C_u32, C_u32, C_u32,
         const_ptr C_u16]),
     (''opentui_buffer_resize_fn'', C_fn None [native_handle, C_u32, C_u32]),
     (''opentui_buffer_draw_grayscale_buffer_fn'', C_fn None [native_handle, C_i32, C_i32,
         const_ptr C_float, C_u32, C_u32, const_ptr C_u16, const_ptr C_u16]),
     (''opentui_buffer_draw_grayscale_buffer_supersampled_fn'', C_fn None [native_handle, C_i32,
         C_i32, const_ptr C_float, C_u32, C_u32, const_ptr C_u16, const_ptr C_u16]),
     (''opentui_buffer_draw_grid_fn'', C_fn None [native_handle, const_ptr C_u32, const_ptr C_u16,
         const_ptr C_u16, const_ptr C_i32, C_u32, const_ptr C_i32, C_u32, const_ptr
         abi_grid_draw_options]),
     (''opentui_buffer_draw_text_buffer_view_fn'', C_fn None [native_handle, native_handle, C_i32,
         C_i32]),
     (''opentui_buffer_draw_image_fn'', C_fn (Some C_u8) [native_handle, native_handle, const_ptr
         abi_image_draw_options]),
     (''opentui_buffer_color_matrix_fn'', C_fn None [native_handle, const_ptr C_float, const_ptr
         C_float, C_u32, C_float, C_u8]),
     (''opentui_buffer_color_matrix_uniform_fn'', C_fn None [native_handle, const_ptr C_float,
         C_float, C_u8]),
     (''opentui_buffer_push_scissor_rect_fn'', C_fn None [native_handle, C_i32, C_i32, C_u32,
         C_u32]),
     (''opentui_buffer_pop_scissor_rect_fn'', C_fn None [native_handle]),
     (''opentui_buffer_clear_scissor_rects_fn'', C_fn None [native_handle]),
     (''opentui_buffer_push_opacity_fn'', C_fn None [native_handle, C_float]),
     (''opentui_buffer_pop_opacity_fn'', C_fn None [native_handle]),
     (''opentui_buffer_get_current_opacity_fn'', C_fn (Some C_float) [native_handle]),
     (''opentui_buffer_clear_opacity_fn'', C_fn None [native_handle])]"

definition yoga_fn_types :: "(string \<times> c_type) list" where
  "yoga_fn_types = [
     (''opentui_image_info_fn'', C_fn (Some C_u32) [const_ptr C_u8, C_u32, ptr_to
         abi_image_info]),
     (''opentui_image_decode_fn'', C_fn (Some C_u32) [const_ptr C_u8, C_u32, ptr_to
         native_handle]),
     (''opentui_image_create_from_rgba_fn'', C_fn (Some C_u32) [const_ptr C_u8, C_u64, C_u32,
         C_u32, C_u32, ptr_to native_handle]),
     (''opentui_image_destroy_fn'', C_fn None [native_handle]),
     (''opentui_image_retain_fn'', C_fn (Some C_u32) [native_handle, ptr_to native_handle]),
     (''opentui_image_get_info_fn'', C_fn (Some C_u32) [native_handle, ptr_to abi_image_info]),
     (''opentui_image_get_pixels_ptr_fn'', C_fn (Some (ptr_to C_u8)) [native_handle]),
     (''opentui_image_materialize_fn'', C_fn (Some C_u32) [native_handle]),
     (''opentui_image_ensure_encoded_png_fn'', C_fn (Some C_u32) [native_handle]),
     (''opentui_image_clone_fn'', C_fn (Some C_u32) [native_handle, ptr_to native_handle]),
     (''opentui_image_copy_pixels_fn'', C_fn (Some C_u32) [native_handle, ptr_to C_u8, C_u64,
         C_u32, C_u8]),
     (''opentui_image_resize_fn'', C_fn (Some C_u32) [native_handle, C_u32, C_u32, C_u32, ptr_to
         native_handle]),
     (''opentui_image_extract_fn'', C_fn (Some C_u32) [native_handle, C_u32, C_u32, C_u32, C_u32,
         ptr_to native_handle]),
     (''opentui_image_extend_fn'', C_fn (Some C_u32) [native_handle, C_u32, C_u32, C_u32, C_u32,
         const_ptr C_u8, ptr_to native_handle]),
     (''opentui_image_transform_fn'', C_fn (Some C_u32) [native_handle, C_u32, ptr_to
         native_handle]),
     (''opentui_image_composite_fn'', C_fn (Some C_u32) [native_handle, native_handle, C_i32,
         C_i32, C_u32, C_u8, ptr_to native_handle]),
     (''opentui_get_render_stats_fn'', C_fn None [native_handle, ptr_to abi_render_stats]),
     (''opentui_get_allocator_stats_fn'', C_fn None [ptr_to abi_allocator_stats]),
     (''opentui_yoga_config_create_fn'', C_fn (Some void_ptr) []),
     (''opentui_yoga_config_free_fn'', C_fn None [void_ptr]),
     (''opentui_yoga_node_create_for_opentui_fn'', C_fn (Some void_ptr) []),
     (''opentui_yoga_node_free_fn'', C_fn None [void_ptr]),
     (''opentui_yoga_node_free_recursive_fn'', C_fn None [void_ptr]),
     (''opentui_yoga_node_insert_child_fn'', C_fn None [void_ptr, void_ptr, C_u32]),
     (''opentui_yoga_node_remove_child_fn'', C_fn None [void_ptr, void_ptr]),
     (''opentui_yoga_node_get_child_count_fn'', C_fn (Some C_u32) [const_void_ptr]),
     (''opentui_yoga_node_calculate_layout_fn'', C_fn None [void_ptr, C_float, C_float, C_u32]),
     (''opentui_yoga_node_is_dirty_fn'', C_fn (Some C_bool) [const_void_ptr]),
     (''opentui_yoga_node_mark_dirty_fn'', C_fn None [void_ptr]),
     (''opentui_yoga_node_get_has_new_layout_fn'', C_fn (Some C_bool) [const_void_ptr]),
     (''opentui_yoga_node_set_has_new_layout_fn'', C_fn None [void_ptr, C_bool]),
     (''opentui_yoga_node_get_computed_layout_fn'', C_fn None [const_void_ptr, ptr_to
         abi_yoga_layout]),
     (''opentui_yoga_node_style_set_value_fn'', C_fn None [void_ptr, C_u32, C_u32, C_u32,
         C_float]),
     (''opentui_yoga_node_style_set_enum_fn'', C_fn None [void_ptr, C_u32, C_u32]),
     (''opentui_yoga_node_style_set_float_fn'', C_fn None [void_ptr, C_u32, C_float]),
     (''opentui_yoga_node_style_set_border_fn'', C_fn None [void_ptr, C_u32, C_float]),
     (''opentui_yoga_node_set_measure_func_fn'', C_fn None [void_ptr, C_bool]),
     (''opentui_yoga_node_unset_measure_func_fn'', C_fn None [void_ptr]),
     (''opentui_yoga_node_has_measure_func_fn'', C_fn (Some C_bool) [const_void_ptr]),
     (''opentui_yoga_set_measure_callback_fn'', C_fn None [const_void_ptr]),
     (''opentui_yoga_store_measure_result_fn'', C_fn None [C_float, C_float]),
     (''opentui_create_native_renderable_fn'', C_fn (Some native_handle) []),
     (''opentui_destroy_native_renderable_fn'', C_fn None [native_handle]),
     (''opentui_native_renderable_attach_yoga_node_fn'', C_fn (Some C_bool) [native_handle,
         void_ptr]),
     (''opentui_native_renderable_set_measure_target_fn'', C_fn (Some C_bool) [native_handle,
         C_u32, native_handle])]"

definition text_fn_types :: "(string \<times> c_type) list" where
  "text_fn_types = [
     (''opentui_create_text_buffer_fn'', C_fn (Some native_handle) [C_u8]),
     (''opentui_destroy_text_buffer_fn'', C_fn None [native_handle]),
     (''opentui_text_buffer_get_length_fn'', C_fn (Some C_u32) [native_handle]),
     (''opentui_text_buffer_get_byte_size_fn'', C_fn (Some C_u32) [native_handle]),
     (''opentui_text_buffer_get_line_count_fn'', C_fn (Some C_u32) [native_handle]),
     (''opentui_text_buffer_get_tab_width_fn'', C_fn (Some C_u8) [native_handle]),
     (''opentui_text_buffer_reset_fn'', C_fn None [native_handle]),
     (''opentui_text_buffer_clear_fn'', C_fn None [native_handle]),
     (''opentui_text_buffer_load_file_fn'', C_fn (Some C_bool) [native_handle, const_ptr C_u8,
         C_u32]),
     (''opentui_text_buffer_set_tab_width_fn'', C_fn None [native_handle, C_u8]),
     (''opentui_text_buffer_append_fn'', C_fn None [native_handle, const_ptr C_u8, C_u32]),
     (''opentui_text_buffer_register_mem_buffer_fn'', C_fn (Some C_u16) [native_handle, const_ptr
         C_u8, C_u32, C_bool]),
     (''opentui_text_buffer_replace_mem_buffer_fn'', C_fn (Some C_bool) [native_handle, C_u8,
         const_ptr C_u8, C_u32, C_bool]),
     (''opentui_text_buffer_set_text_from_mem_fn'', C_fn None [native_handle, C_u8]),
     (''opentui_text_buffer_set_default_fg_fn'', C_fn None [native_handle, const_ptr C_u16]),
     (''opentui_text_buffer_set_default_bg_fn'', C_fn None [native_handle, const_ptr C_u16]),
     (''opentui_text_buffer_set_default_attributes_fn'', C_fn None [native_handle, const_ptr
         C_u32]),
     (''opentui_text_buffer_reset_defaults_fn'', C_fn None [native_handle]),
     (''opentui_text_buffer_set_styled_text_fn'', C_fn None [native_handle, const_ptr
         abi_styled_chunk, C_u32]),
     (''opentui_text_buffer_clear_all_highlights_fn'', C_fn None [native_handle]),
     (''opentui_text_buffer_add_highlight_by_char_range_fn'', C_fn None [native_handle, const_ptr
         abi_highlight]),
     (''opentui_text_buffer_add_highlight_fn'', C_fn None [native_handle, C_u32, const_ptr
         abi_highlight]),
     (''opentui_text_buffer_remove_highlights_by_ref_fn'', C_fn None [native_handle, C_u16]),
     (''opentui_text_buffer_clear_line_highlights_fn'', C_fn None [native_handle, C_u32]),
     (''opentui_text_buffer_set_syntax_style_fn'', C_fn (Some C_bool) [native_handle,
         native_handle]),
     (''opentui_create_syntax_style_fn'', C_fn (Some native_handle) []),
     (''opentui_destroy_syntax_style_fn'', C_fn None [native_handle]),
     (''opentui_syntax_style_register_fn'', C_fn (Some C_u32) [native_handle, const_ptr C_u8,
         C_u32, const_ptr C_u16, const_ptr C_u16, C_u32]),
     (''opentui_syntax_style_resolve_fn'', C_fn (Some C_u32) [native_handle, const_ptr C_u8,
         C_u32]),
     (''opentui_syntax_style_count_fn'', C_fn (Some C_u32) [native_handle]),
     (''opentui_create_text_buffer_view_fn'', C_fn (Some native_handle) [native_handle]),
     (''opentui_destroy_text_buffer_view_fn'', C_fn None [native_handle]),
     (''opentui_text_buffer_view_set_wrap_width_fn'', C_fn None [native_handle, C_u32]),
     (''opentui_text_buffer_view_set_wrap_mode_fn'', C_fn None [native_handle, C_u8]),
     (''opentui_text_buffer_view_set_first_line_offset_fn'', C_fn None [native_handle, C_u32]),
     (''opentui_text_buffer_view_set_selection_fn'', C_fn None [native_handle, C_u32, C_u32,
         const_ptr C_u16, const_ptr C_u16]),
     (''opentui_text_buffer_view_update_selection_fn'', C_fn None [native_handle, C_u32, const_ptr
         C_u16, const_ptr C_u16]),
     (''opentui_text_buffer_view_reset_selection_fn'', C_fn None [native_handle]),
     (''opentui_text_buffer_view_get_selection_info_fn'', C_fn (Some C_u64) [native_handle]),
     (''opentui_text_buffer_view_set_local_selection_fn'', C_fn (Some C_bool) [native_handle,
         C_i32, C_i32, C_i32, C_i32, const_ptr C_u16, const_ptr C_u16]),
     (''opentui_text_buffer_view_update_local_selection_fn'', C_fn (Some C_bool) [native_handle,
         C_i32, C_i32, C_i32, C_i32, const_ptr C_u16, const_ptr C_u16]),
     (''opentui_text_buffer_view_reset_local_selection_fn'', C_fn None [native_handle]),
     (''opentui_text_buffer_view_get_selected_text_fn'', C_fn (Some C_u32) [native_handle, ptr_to
         C_u8, C_u32]),
     (''opentui_text_buffer_view_set_viewport_size_fn'', C_fn None [native_handle, C_u32, C_u32]),
     (''opentui_text_buffer_view_set_viewport_fn'', C_fn None [native_handle, C_u32, C_u32, C_u32,
         C_u32]),
     (''opentui_text_buffer_view_get_virtual_line_count_fn'', C_fn (Some C_u32) [native_handle]),
     (''opentui_text_buffer_view_set_tab_indicator_fn'', C_fn None [native_handle, C_u32]),
     (''opentui_text_buffer_view_set_tab_indicator_color_fn'', C_fn None [native_handle, const_ptr
         C_u16]),
     (''opentui_text_buffer_view_set_truncate_fn'', C_fn None [native_handle, C_bool]),
     (''opentui_text_buffer_view_measure_for_dimensions_fn'', C_fn (Some C_bool) [native_handle,
         C_u32, C_u32, ptr_to abi_measure_result]),
     (''opentui_text_buffer_view_get_line_info_direct_fn'', C_fn None [native_handle, ptr_to
         abi_line_info]),
     (''opentui_text_buffer_view_get_logical_line_info_direct_fn'', C_fn None [native_handle,
         ptr_to abi_line_info]),
     (''opentui_get_terminal_capabilities_fn'', C_fn None [native_handle, ptr_to
         abi_capabilities]),
     (''opentui_process_capability_response_fn'', C_fn None [native_handle, const_ptr C_u8,
         C_u32]),
     (''opentui_create_native_span_feed_fn'', C_fn (Some void_ptr) [const_ptr
         abi_span_feed_options]),
     (''opentui_span_feed_status_fn'', C_fn (Some C_i32) [void_ptr]),
     (''opentui_destroy_native_span_feed_fn'', C_fn None [void_ptr]),
     (''opentui_span_feed_write_fn'', C_fn (Some C_i32) [void_ptr, const_ptr C_u8, C_u32]),
     (''opentui_span_feed_reserve_fn'', C_fn (Some C_i32) [void_ptr, C_u32, ptr_to
         abi_reserve_info]),
     (''opentui_span_feed_commit_reserved_fn'', C_fn (Some C_i32) [void_ptr, C_u32]),
     (''opentui_span_feed_options_fn'', C_fn (Some C_i32) [void_ptr, const_ptr
         abi_span_feed_options]),
     (''opentui_span_feed_stats_fn'', C_fn (Some C_i32) [void_ptr, ptr_to abi_span_feed_stats]),
     (''opentui_span_feed_drain_fn'', C_fn (Some C_u32) [void_ptr, ptr_to abi_span_info, C_u32]),
     (''opentui_span_feed_consume_fn'', C_fn (Some C_i32) [void_ptr, const_ptr abi_span_info]),
     (''opentui_span_feed_callback_fn'', C_fn None [void_ptr, span_feed_callback])]"

definition header_fn_types :: "(string \<times> c_type) list" where
  "header_fn_types = renderer_fn_types @ yoga_fn_types @ text_fn_types"

section \<open>Static assertions\<close>

datatype abi_assertion =
  Size_is c_type nat
| Offset_is c_type string nat
| Same_size c_type c_type
| Status_is render_status nat

fun assertion_holds :: "abi_assertion \<Rightarrow> bool" where
  "assertion_holds (Size_is t n) = (size_of t = n)"
| "assertion_holds (Offset_is t f n) = (offset_of t f = Some n)"
| "assertion_holds (Same_size t u) = (size_of t = size_of u)"
| "assertion_holds (Status_is s n) = (render_status_code s = n)"

definition layout_assertions :: "abi_assertion list" where
  "layout_assertions = [
     Size_is native_handle 4,
     Size_is C_bool 1,
     Size_is abi_build_options 2,
     Size_is abi_allocator_stats 40,
     Size_is abi_render_stats 56,
     Size_is abi_cursor_style_options 24,
     Offset_is abi_cursor_style_options ''color'' 8,
     Offset_is abi_cursor_style_options ''cursor'' 16,
     Size_is abi_cursor_state 28,
     Offset_is abi_cursor_state ''y'' 4,
     Offset_is abi_cursor_state ''visible'' 8,
     Offset_is abi_cursor_state ''style'' 9,
     Offset_is abi_cursor_state ''blinking'' 10,
     Offset_is abi_cursor_state ''r'' 12,
     Offset_is abi_cursor_state ''g'' 16,
     Offset_is abi_cursor_state ''b'' 20,
     Offset_is abi_cursor_state ''a'' 24,
     Size_is abi_yoga_layout 24,
     Size_is abi_measure_result 8,
     Size_is abi_styled_chunk 56,
     Offset_is abi_styled_chunk ''text_len'' 8,
     Offset_is abi_styled_chunk ''fg_ptr'' 16,
     Offset_is abi_styled_chunk ''bg_ptr'' 24,
     Offset_is abi_styled_chunk ''attributes'' 32,
     Offset_is abi_styled_chunk ''link_ptr'' 40,
     Size_is abi_grid_draw_options 2,
     Size_is abi_image_info 32,
     Size_is abi_image_draw_options 44,
     Offset_is abi_image_draw_options ''y'' 4,
     Offset_is abi_image_draw_options ''width'' 8,
     Offset_is abi_image_draw_options ''pixel_width'' 16,
     Offset_is abi_image_draw_options ''source_x'' 24,
     Offset_is abi_image_draw_options ''source_width'' 32,
     Offset_is abi_image_draw_options ''protocol'' 40,
     Offset_is abi_measure_result ''width_cols_max'' 4,
     Offset_is abi_yoga_layout ''top'' 4,
     Offset_is abi_yoga_layout ''right'' 8,
     Offset_is abi_yoga_layout ''bottom'' 12,
     Offset_is abi_yoga_layout ''width'' 16,
     Offset_is abi_yoga_layout ''height'' 20,
     Size_is abi_capabilities 64,
     Offset_is abi_capabilities ''term_name_ptr'' 24,
     Offset_is abi_capabilities ''term_name_len'' 32,
     Offset_is abi_capabilities ''term_version_ptr'' 40,
     Offset_is abi_capabilities ''term_version_len'' 48,
     Offset_is abi_capabilities ''term_from_xtversion'' 56,
     Offset_is abi_capabilities ''osc52_support'' 57,
     Offset_is abi_allocator_stats ''active_allocations'' 8,
     Offset_is abi_allocator_stats ''small_allocations'' 16,
     Offset_is abi_allocator_stats ''large_allocations'' 24,
     Offset_is abi_allocator_stats ''requested_bytes_valid'' 32,
     Offset_is abi_render_stats ''average_frame_time'' 8,
     Offset_is abi_render_stats ''render_time'' 16,
     Offset_is abi_render_stats ''stdout_write_time'' 24,
     Offset_is abi_render_stats ''frame_count'' 32,
     Offset_is abi_render_stats ''cells_updated'' 40,
     Offset_is abi_render_stats ''average_cells_updated'' 44,
     Offset_is abi_render_stats ''render_time_valid'' 48,
     Offset_is abi_render_stats ''stdout_write_time_valid'' 49,
     Same_size C_uintptr void_ptr,
     Size_is abi_span_feed_options 24,
     Offset_is abi_span_feed_options ''initial_chunks'' 4,
     Offset_is abi_span_feed_options ''max_bytes'' 8,
     Offset_is abi_span_feed_options ''growth_policy'' 16,
     Offset_is abi_span_feed_options ''auto_commit_on_full'' 17,
     Offset_is abi_span_feed_options ''span_queue_capacity'' 20,
     Size_is abi_span_feed_stats 24,
     Offset_is abi_span_feed_stats ''spans_committed'' 8,
     Offset_is abi_span_feed_stats ''chunks'' 16,
     Offset_is abi_span_feed_stats ''pending_spans'' 20,
     Size_is abi_span_info 24,
     Offset_is abi_span_info ''offset'' 8,
     Offset_is abi_span_info ''len'' 12,
     Offset_is abi_span_info ''chunk_index'' 16,
     Offset_is abi_span_info ''reserved'' 20,
     Size_is abi_reserve_info 16,
     Offset_is abi_reserve_info ''len'' 8,
     Offset_is abi_reserve_info ''reserved'' 12]"

definition status_assertions :: "abi_assertion list" where
  "status_assertions = [
     Status_is Rendered 0,
     Status_is Skipped 1,
     Status_is Failed 2]"

text \<open>\<open>_Generic(&f, t: 1, default: 0)\<close>: the type of the function is the pointer type.\<close>

definition prototype_agrees :: "string \<times> string \<Rightarrow> bool" where
  "prototype_agrees = (\<lambda>(f, t). map_of header_functions f \<noteq> None \<and>
     map_of header_functions f = map_of header_fn_types t)"

definition renderer_prototypes :: "(string \<times> string) list" where
  "renderer_prototypes = [
     (''createEventSink'', ''opentui_create_event_sink_fn''),
     (''destroyEventSink'', ''opentui_destroy_event_sink_fn''),
     (''createEditBuffer'', ''opentui_create_edit_buffer_fn''),
     (''destroyEditBuffer'', ''opentui_destroy_edit_buffer_fn''),
     (''editBufferInsertText'', ''opentui_edit_buffer_insert_text_fn''),
     (''createRenderer'', ''opentui_create_renderer_fn''),
     (''setUseThread'', ''opentui_set_use_thread_fn''),
     (''resizeRenderer'', ''opentui_resize_renderer_fn''),
     (''writeOut'', ''opentui_write_out_fn''),
     (''queryTerminalCapabilities'', ''opentui_query_terminal_capabilities_fn''),
     (''triggerNotification'', ''opentui_trigger_notification_fn''),
     (''setBackgroundColor'', ''opentui_set_background_color_fn''),
     (''setCursorPosition'', ''opentui_set_cursor_position_fn''),
     (''setCursorColor'', ''opentui_set_cursor_color_fn''),
     (''setCursorStyleOptions'', ''opentui_set_cursor_style_options_fn''),
     (''getCursorState'', ''opentui_get_cursor_state_fn''),
     (''destroyRenderer'', ''opentui_destroy_renderer_fn''),
     (''getCurrentBuffer'', ''opentui_get_buffer_fn''),
     (''getNextBuffer'', ''opentui_get_buffer_fn''),
     (''render'', ''opentui_render_fn''),
     (''addToHitGrid'', ''opentui_hit_grid_rect_fn''),
     (''clearCurrentHitGrid'', ''opentui_hit_grid_clear_fn''),
     (''hitGridPushScissorRect'', ''opentui_hit_grid_scissor_fn''),
     (''hitGridPopScissorRect'', ''opentui_hit_grid_clear_fn''),
     (''hitGridClearScissorRects'', ''opentui_hit_grid_clear_fn''),
     (''addToCurrentHitGridClipped'', ''opentui_hit_grid_rect_fn''),
     (''checkHit'', ''opentui_check_hit_fn''),
     (''getHitGridDirty'', ''opentui_get_hit_grid_dirty_fn''),
     (''clearNextHitGrid'', ''opentui_hit_grid_clear_fn''),
     (''getBufferWidth'', ''opentui_get_buffer_dimension_fn''),
     (''getBufferHeight'', ''opentui_get_buffer_dimension_fn''),
     (''createOptimizedBuffer'', ''opentui_create_optimized_buffer_fn''),
     (''destroyOptimizedBuffer'', ''opentui_destroy_optimized_buffer_fn''),
     (''destroyFrameBuffer'', ''opentui_destroy_optimized_buffer_fn''),
     (''drawFrameBuffer'', ''opentui_draw_frame_buffer_fn''),
     (''bufferClear'', ''opentui_buffer_clear_fn''),
     (''bufferWriteResolvedChars'', ''opentui_buffer_write_fn''),
     (''bufferDrawText'', ''opentui_buffer_draw_text_fn''),
     (''bufferDrawBox'', ''opentui_buffer_draw_box_fn''),
     (''bufferSetCell'', ''opentui_buffer_set_cell_fn''),
     (''bufferSetCellWithAlphaBlending'', ''opentui_buffer_set_cell_with_alpha_blending_fn''),
     (''bufferFillRect'', ''opentui_buffer_fill_rect_fn''),
     (''bufferResize'', ''opentui_buffer_resize_fn''),
     (''bufferDrawGrayscaleBuffer'', ''opentui_buffer_draw_grayscale_buffer_fn''),
     (''bufferDrawGrayscaleBufferSupersampled'',
         ''opentui_buffer_draw_grayscale_buffer_supersampled_fn''),
     (''bufferDrawGrid'', ''opentui_buffer_draw_grid_fn''),
     (''bufferDrawTextBufferView'', ''opentui_buffer_draw_text_buffer_view_fn''),
     (''bufferDrawImage'', ''opentui_buffer_draw_image_fn''),
     (''bufferColorMatrix'', ''opentui_buffer_color_matrix_fn''),
     (''bufferColorMatrixUniform'', ''opentui_buffer_color_matrix_uniform_fn''),
     (''bufferPushScissorRect'', ''opentui_buffer_push_scissor_rect_fn''),
     (''bufferPopScissorRect'', ''opentui_buffer_pop_scissor_rect_fn''),
     (''bufferClearScissorRects'', ''opentui_buffer_clear_scissor_rects_fn''),
     (''bufferPushOpacity'', ''opentui_buffer_push_opacity_fn''),
     (''bufferPopOpacity'', ''opentui_buffer_pop_opacity_fn''),
     (''bufferGetCurrentOpacity'', ''opentui_buffer_get_current_opacity_fn''),
     (''bufferClearOpacity'', ''opentui_buffer_clear_opacity_fn''),
     (''imageInfo'', ''opentui_image_info_fn''),
     (''imageDecode'', ''opentui_image_decode_fn''),
     (''imageCreateFromRgba'', ''opentui_image_create_from_rgba_fn''),
     (''imageDestroy'', ''opentui_image_destroy_fn''),
     (''imageRetain'', ''opentui_image_retain_fn''),
     (''imageGetInfo'', ''opentui_image_get_info_fn''),
     (''imageGetPixelsPtr'', ''opentui_image_get_pixels_ptr_fn''),
     (''imageMaterialize'', ''opentui_image_materialize_fn''),
     (''imageEnsureEncodedPng'', ''opentui_image_ensure_encoded_png_fn''),
     (''imageClone'', ''opentui_image_clone_fn''),
     (''imageCopyPixels'', ''opentui_image_copy_pixels_fn''),
     (''imageResize'', ''opentui_image_resize_fn''),
     (''imageExtract'', ''opentui_image_extract_fn''),
     (''imageExtend'', ''opentui_image_extend_fn''),
     (''imageTransform'', ''opentui_image_transform_fn''),
     (''imageComposite'', ''opentui_image_composite_fn''),
     (''getRenderStats'', ''opentui_get_render_stats_fn''),
     (''getAllocatorStats'', ''opentui_get_allocator_stats_fn''),
     (''yogaConfigCreate'', ''opentui_yoga_config_create_fn''),
     (''yogaConfigFree'', ''opentui_yoga_config_free_fn''),
     (''yogaNodeCreateForOpenTUI'', ''opentui_yoga_node_create_for_opentui_fn''),
     (''yogaNodeFree'', ''opentui_yoga_node_free_fn''),
     (''yogaNodeFreeRecursive'', ''opentui_yoga_node_free_recursive_fn''),
     (''yogaNodeInsertChild'', ''opentui_yoga_node_insert_child_fn''),
     (''yogaNodeRemoveChild'', ''opentui_yoga_node_remove_child_fn''),
     (''yogaNodeGetChildCount'', ''opentui_yoga_node_get_child_count_fn''),
     (''yogaNodeCalculateLayout'', ''opentui_yoga_node_calculate_layout_fn''),
     (''yogaNodeIsDirty'', ''opentui_yoga_node_is_dirty_fn''),
     (''yogaNodeMarkDirty'', ''opentui_yoga_node_mark_dirty_fn''),
     (''yogaNodeGetHasNewLayout'', ''opentui_yoga_node_get_has_new_layout_fn''),
     (''yogaNodeSetHasNewLayout'', ''opentui_yoga_node_set_has_new_layout_fn''),
     (''yogaNodeGetComputedLayout'', ''opentui_yoga_node_get_computed_layout_fn''),
     (''yogaNodeStyleSetValue'', ''opentui_yoga_node_style_set_value_fn''),
     (''yogaNodeStyleSetEnum'', ''opentui_yoga_node_style_set_enum_fn''),
     (''yogaNodeStyleSetFloat'', ''opentui_yoga_node_style_set_float_fn''),
     (''yogaNodeStyleSetBorder'', ''opentui_yoga_node_style_set_border_fn''),
     (''yogaNodeSetMeasureFunc'', ''opentui_yoga_node_set_measure_func_fn''),
     (''yogaNodeUnsetMeasureFunc'', ''opentui_yoga_node_unset_measure_func_fn''),
     (''yogaNodeHasMeasureFunc'', ''opentui_yoga_node_has_measure_func_fn''),
     (''yogaSetMeasureCallback'', ''opentui_yoga_set_measure_callback_fn''),
     (''yogaStoreMeasureResult'', ''opentui_yoga_store_measure_result_fn'')]"

definition text_prototypes :: "(string \<times> string) list" where
  "text_prototypes = [
     (''createNativeRenderable'', ''opentui_create_native_renderable_fn''),
     (''destroyNativeRenderable'', ''opentui_destroy_native_renderable_fn''),
     (''nativeRenderableAttachYogaNode'', ''opentui_native_renderable_attach_yoga_node_fn''),
     (''nativeRenderableSetMeasureTarget'', ''opentui_native_renderable_set_measure_target_fn''),
     (''createTextBuffer'', ''opentui_create_text_buffer_fn''),
     (''destroyTextBuffer'', ''opentui_destroy_text_buffer_fn''),
     (''textBufferGetLength'', ''opentui_text_buffer_get_length_fn''),
     (''textBufferGetByteSize'', ''opentui_text_buffer_get_byte_size_fn''),
     (''textBufferGetLineCount'', ''opentui_text_buffer_get_line_count_fn''),
     (''textBufferGetTabWidth'', ''opentui_text_buffer_get_tab_width_fn''),
     (''textBufferReset'', ''opentui_text_buffer_reset_fn''),
     (''textBufferClear'', ''opentui_text_buffer_clear_fn''),
     (''textBufferLoadFile'', ''opentui_text_buffer_load_file_fn''),
     (''textBufferSetTabWidth'', ''opentui_text_buffer_set_tab_width_fn''),
     (''textBufferAppend'', ''opentui_text_buffer_append_fn''),
     (''textBufferRegisterMemBuffer'', ''opentui_text_buffer_register_mem_buffer_fn''),
     (''textBufferReplaceMemBuffer'', ''opentui_text_buffer_replace_mem_buffer_fn''),
     (''textBufferSetTextFromMem'', ''opentui_text_buffer_set_text_from_mem_fn''),
     (''textBufferSetDefaultFg'', ''opentui_text_buffer_set_default_fg_fn''),
     (''textBufferSetDefaultBg'', ''opentui_text_buffer_set_default_bg_fn''),
     (''textBufferSetDefaultAttributes'', ''opentui_text_buffer_set_default_attributes_fn''),
     (''textBufferResetDefaults'', ''opentui_text_buffer_reset_defaults_fn''),
     (''textBufferSetStyledText'', ''opentui_text_buffer_set_styled_text_fn''),
     (''textBufferClearAllHighlights'', ''opentui_text_buffer_clear_all_highlights_fn''),
     (''textBufferAddHighlightByCharRange'',
         ''opentui_text_buffer_add_highlight_by_char_range_fn''),
     (''textBufferAddHighlight'', ''opentui_text_buffer_add_highlight_fn''),
     (''textBufferRemoveHighlightsByRef'', ''opentui_text_buffer_remove_highlights_by_ref_fn''),
     (''textBufferClearLineHighlights'', ''opentui_text_buffer_clear_line_highlights_fn''),
     (''textBufferSetSyntaxStyle'', ''opentui_text_buffer_set_syntax_style_fn''),
     (''createSyntaxStyle'', ''opentui_create_syntax_style_fn''),
     (''destroySyntaxStyle'', ''opentui_destroy_syntax_style_fn''),
     (''syntaxStyleRegister'', ''opentui_syntax_style_register_fn''),
     (''syntaxStyleResolveByName'', ''opentui_syntax_style_resolve_fn''),
     (''syntaxStyleGetStyleCount'', ''opentui_syntax_style_count_fn''),
     (''createTextBufferView'', ''opentui_create_text_buffer_view_fn''),
     (''destroyTextBufferView'', ''opentui_destroy_text_buffer_view_fn''),
     (''textBufferViewSetWrapWidth'', ''opentui_text_buffer_view_set_wrap_width_fn''),
     (''textBufferViewSetWrapMode'', ''opentui_text_buffer_view_set_wrap_mode_fn''),
     (''textBufferViewSetFirstLineOffset'',
         ''opentui_text_buffer_view_set_first_line_offset_fn''),
     (''textBufferViewSetSelection'', ''opentui_text_buffer_view_set_selection_fn''),
     (''textBufferViewUpdateSelection'', ''opentui_text_buffer_view_update_selection_fn''),
     (''textBufferViewResetSelection'', ''opentui_text_buffer_view_reset_selection_fn''),
     (''textBufferViewGetSelectionInfo'', ''opentui_text_buffer_view_get_selection_info_fn''),
     (''textBufferViewSetLocalSelection'', ''opentui_text_buffer_view_set_local_selection_fn''),
     (''textBufferViewUpdateLocalSelection'',
         ''opentui_text_buffer_view_update_local_selection_fn''),
     (''textBufferViewResetLocalSelection'',
         ''opentui_text_buffer_view_reset_local_selection_fn''),
     (''textBufferViewGetSelectedText'', ''opentui_text_buffer_view_get_selected_text_fn''),
     (''textBufferViewSetViewportSize'', ''opentui_text_buffer_view_set_viewport_size_fn''),
     (''textBufferViewSetViewport'', ''opentui_text_buffer_view_set_viewport_fn''),
     (''textBufferViewGetVirtualLineCount'',
         ''opentui_text_buffer_view_get_virtual_line_count_fn''),
     (''textBufferViewSetTabIndicator'', ''opentui_text_buffer_view_set_tab_indicator_fn''),
     (''textBufferViewSetTabIndicatorColor'',
         ''opentui_text_buffer_view_set_tab_indicator_color_fn''),
     (''textBufferViewSetTruncate'', ''opentui_text_buffer_view_set_truncate_fn''),
     (''textBufferViewMeasureForDimensions'',
         ''opentui_text_buffer_view_measure_for_dimensions_fn''),
     (''textBufferViewGetLineInfoDirect'', ''opentui_text_buffer_view_get_line_info_direct_fn''),
     (''textBufferViewGetLogicalLineInfoDirect'',
         ''opentui_text_buffer_view_get_logical_line_info_direct_fn''),
     (''getTerminalCapabilities'', ''opentui_get_terminal_capabilities_fn''),
     (''processCapabilityResponse'', ''opentui_process_capability_response_fn''),
     (''createNativeSpanFeed'', ''opentui_create_native_span_feed_fn''),
     (''attachNativeSpanFeed'', ''opentui_span_feed_status_fn''),
     (''streamClose'', ''opentui_span_feed_status_fn''),
     (''destroyNativeSpanFeed'', ''opentui_destroy_native_span_feed_fn''),
     (''streamWrite'', ''opentui_span_feed_write_fn''),
     (''streamCommit'', ''opentui_span_feed_status_fn''),
     (''streamReserve'', ''opentui_span_feed_reserve_fn''),
     (''streamCommitReserved'', ''opentui_span_feed_commit_reserved_fn''),
     (''streamCancelReserved'', ''opentui_span_feed_status_fn''),
     (''streamSetOptions'', ''opentui_span_feed_options_fn''),
     (''streamGetStats'', ''opentui_span_feed_stats_fn''),
     (''streamDrainSpans'', ''opentui_span_feed_drain_fn''),
     (''streamMarkSpanConsumed'', ''opentui_span_feed_consume_fn''),
     (''streamSetCallback'', ''opentui_span_feed_callback_fn'')]"

end
