(* ===== verification/Abi_Props.thy ===== *)
theory Abi_Props
  imports Abi
begin

text \<open>
  The static assertions of opentui_abi.h hold, for the layout of Abi_Layout and the prototypes of
  Abi; every struct of the header carries its fields intact between the stubs and the library.
\<close>

lemmas layout_simps = struct_defs offset_of_def round_up_def

lemma layout_holds: "list_all assertion_holds (layout_assertions @ status_assertions)"
  by (simp add: layout_assertions_def status_assertions_def layout_simps)

section \<open>Looking up prototypes\<close>

text \<open>The tables are long lists of strings. A lookup is rewritten at its head: the rest of the table,
  and the rest of two strings after their first difference, is never visited.\<close>

fun same_string :: "string \<Rightarrow> string \<Rightarrow> bool" where
  "same_string (c # cs) (d # ds) = (if c = d then same_string cs ds else False)"
| "same_string [] [] = True"
| "same_string cs ds = False"

lemma same_string_iff [simp]: "same_string cs ds \<longleftrightarrow> cs = ds"
  by (induction cs ds rule: same_string.induct) auto

lemma lookup_step:
  "map_of ((k', v) # xs) k = (if same_string k' k then Some v else map_of xs k)"
  "map_of (((k', v) # xs) @ ys) k = (if same_string k' k then Some v else map_of (xs @ ys) k)"
  "map_of ([] @ ys) k = map_of ys k"
  by simp_all

lemma some_found: "(Some x \<noteq> None) = True"
  by simp

lemma map_of_head_cong: "map_of xs k = map_of xs k" and same_string_cong: "same_string cs ds = same_string cs ds"
  by (rule refl)+

lemmas table_heads =
  arg_cong [OF header_functions_def, of "\<lambda>xs. map_of xs k" for k]
  arg_cong [OF header_fn_types_def, of "\<lambda>xs. map_of xs k" for k]
  arg_cong [OF feed_functions_def, of "\<lambda>xs. map_of xs k" for k]
  arg_cong [OF text_fn_types_def, of "\<lambda>xs. map_of xs k" for k]
  arg_cong [OF renderer_functions_def, of "\<lambda>xs. map_of (xs @ ys) k" for ys k]
  arg_cong [OF buffer_functions_def, of "\<lambda>xs. map_of (xs @ ys) k" for ys k]
  arg_cong [OF draw_functions_def, of "\<lambda>xs. map_of (xs @ ys) k" for ys k]
  arg_cong [OF image_functions_def, of "\<lambda>xs. map_of (xs @ ys) k" for ys k]
  arg_cong [OF yoga_functions_def, of "\<lambda>xs. map_of (xs @ ys) k" for ys k]
  arg_cong [OF text_functions_def, of "\<lambda>xs. map_of (xs @ ys) k" for ys k]
  arg_cong [OF view_functions_def, of "\<lambda>xs. map_of (xs @ ys) k" for ys k]
  arg_cong [OF style_functions_def, of "\<lambda>xs. map_of (xs @ ys) k" for ys k]
  arg_cong [OF renderer_fn_types_def, of "\<lambda>xs. map_of (xs @ ys) k" for ys k]
  arg_cong [OF yoga_fn_types_def, of "\<lambda>xs. map_of (xs @ ys) k" for ys k]

lemmas function_tables = header_functions_def renderer_functions_def buffer_functions_def
  draw_functions_def image_functions_def yoga_functions_def text_functions_def view_functions_def
  style_functions_def feed_functions_def

lemmas lookup_simps = prototype_agrees_def table_heads lookup_step some_found same_string.simps prod.case
  char.inject if_True if_False simp_thms

lemma list_allI: "list_all P []" "P x \<Longrightarrow> list_all P xs \<Longrightarrow> list_all P (x # xs)"
  by simp_all

lemma renderer_prototypes_agree: "list_all prototype_agrees renderer_prototypes"
  unfolding renderer_prototypes_def
  by (intro list_allI; simp only: lookup_simps cong: map_of_head_cong same_string_cong if_weak_cong)

lemma text_prototypes_agree: "list_all prototype_agrees text_prototypes"
  unfolding text_prototypes_def
  by (intro list_allI; simp only: lookup_simps cong: map_of_head_cong same_string_cong if_weak_cong)

section \<open>Functions without an assertion\<close>

definition unchecked_functions :: "string list" where
  "unchecked_functions = [
     ''setRenderOffset'', ''resetSplitScrollback'', ''syncSplitScrollback'',
     ''getSplitOutputOffset'', ''setPendingSplitFooterTransition'',
     ''clearPendingSplitFooterTransition'', ''repaintSplitFooter'',
     ''commitSplitFooterSnapshot'', ''bufferGetCharPtr'', ''bufferGetFgPtr'',
     ''bufferGetBgPtr'', ''bufferGetAttributesPtr'', ''linkAlloc'', ''linkGetUrl'',
     ''attributesWithLink'', ''attributesGetLinkId'']"

primrec mentions :: "string list \<Rightarrow> string \<Rightarrow> bool" where
  "mentions [] f = False"
| "mentions (x # xs) f = (if same_string x f then True else mentions xs f)"

lemma mentions_iff: "mentions xs f \<longleftrightarrow> f \<in> set xs"
  by (induction xs) auto

definition checked :: "string \<Rightarrow> bool" where
  "checked f \<longleftrightarrow> map_of (renderer_prototypes @ text_prototypes) f \<noteq> None"

definition checked_or_listed :: "string \<Rightarrow> bool" where
  "checked_or_listed f \<longleftrightarrow> checked f = (\<not> mentions unchecked_functions f)"

lemmas checked_simps = checked_or_listed_def checked_def unchecked_functions_def lookup_step some_found same_string.simps
  arg_cong [OF renderer_prototypes_def, of "\<lambda>xs. map_of (xs @ ys) k" for ys k]
  arg_cong [OF text_prototypes_def, of "\<lambda>xs. map_of xs k" for k]
  map_of.simps(1) mentions.simps char.inject if_True if_False simp_thms option.distinct

lemma checked_tables:
  "list_all (\<lambda>x. checked_or_listed (fst x)) header_functions"
  unfolding function_tables append_Cons append_Nil
  by (intro list_allI; simp only: fst_conv checked_simps cong: map_of_head_cong same_string_cong if_weak_cong)

lemma unchecked_exact:
  "f \<in> fst ` set header_functions \<Longrightarrow> checked f \<longleftrightarrow> f \<notin> set unchecked_functions"
  using checked_tables by (auto simp: list_all_iff checked_or_listed_def mentions_iff)

lemma unchecked_declared: "list_all (\<lambda>f. map_of header_functions f \<noteq> None) unchecked_functions"
  unfolding unchecked_functions_def
  by (intro list_allI; simp only: lookup_simps cong: map_of_head_cong same_string_cong if_weak_cong)

lemma unchecked_subset: "set unchecked_functions \<subseteq> fst ` set header_functions"
proof
  fix f assume "f \<in> set unchecked_functions"
  then obtain t where "map_of header_functions f = Some t"
    using unchecked_declared by (auto simp: list_all_iff)
  then show "f \<in> fst ` set header_functions" by (rule map_of_SomeD [THEN image_eqI [rotated]]) simp
qed

lemma complement_exact: "(\<And>x. x \<in> A \<Longrightarrow> P x \<longleftrightarrow> x \<notin> U) \<Longrightarrow> U \<subseteq> A \<Longrightarrow> {x \<in> A. \<not> P x} = U"
  by blast

section \<open>Struct layouts\<close>

definition fields_of :: "c_type \<Rightarrow> c_fields" where
  "fields_of t = (case t of C_struct n fs \<Rightarrow> fs | _ \<Rightarrow> [])"

lemma header_struct_fields:
  "t \<in> set header_structs \<Longrightarrow> \<exists>n. t = C_struct n (fields_of t) \<and> distinct (map fst (fields_of t))"
  by (auto simp: header_structs_def struct_defs fields_of_def)

lemma header_struct_offset:
  assumes "t \<in> set header_structs" "i < length (fields_of t)"
  shows "offset_of t (fst (fields_of t ! i)) = Some (field_offsets 0 (fields_of t) ! i)"
  using header_struct_fields [OF assms(1)] offset_of_nth assms(2) by metis

lemma header_struct_size:
  assumes "t \<in> set header_structs"
  shows "fields_end 0 (fields_of t) \<le> size_of t"
proof -
  obtain n where "t = C_struct n (fields_of t)" using header_struct_fields [OF assms] by blast
  then show ?thesis using round_up_le [of "fields_align (fields_of t)"] by (metis align_pos(2) size_of.simps(13))
qed

section \<open>Properties\<close>

text \<open>Every static assertion of opentui_abi.h holds: the sizes and offsets of the structs are the
  numbers of the header, and every function has the type its assertion names. The assertions
  leave out exactly the sixteen functions of \<open>unchecked_functions\<close>.\<close>

theorem abi_assertions_hold:
  "list_all assertion_holds (layout_assertions @ status_assertions) \<and>
   list_all prototype_agrees (renderer_prototypes @ text_prototypes) \<and>
   {f \<in> fst ` set header_functions. \<not> checked f} = set unchecked_functions"
  using layout_holds renderer_prototypes_agree text_prototypes_agree
    complement_exact [OF unchecked_exact unchecked_subset] by simp

text \<open>A struct of the header carries its fields between the stubs and the library: every field lies
  aligned inside the struct at the offset of the layout (the one the assertions name, where they
  name one), apart from every other field, and after all fields are stored into any memory of that size each is loaded back unchanged.\<close>

lemma struct_fields_roundtrip:
  assumes "t \<in> set header_structs" "i < length (fields_of t)"
    and "length xs = length (fields_of t)" "length bs = size_of t"
    and "xs ! i < 256 ^ size_of (snd (fields_of t ! i))"
  shows "\<exists>off. offset_of t (fst (fields_of t ! i)) = Some off
    \<and> align_of (snd (fields_of t ! i)) dvd off \<and> off + size_of (snd (fields_of t ! i)) \<le> size_of t
    \<and> (\<forall>j < i. field_offsets 0 (fields_of t) ! j + size_of (snd (fields_of t ! j)) \<le> off)
    \<and> load_field off (size_of (snd (fields_of t ! i))) (store_fields 0 (fields_of t) xs bs) = xs ! i"
proof -
  note fit = header_struct_size [OF assms(1)]
  note placed = field_offsets_placed [OF assms(2), of 0]
  have "load_field (field_offsets 0 (fields_of t) ! i) (size_of (snd (fields_of t ! i)))
      (store_fields 0 (fields_of t) xs bs) = xs ! i"
    using load_store_fields [OF assms(3,2), of 0 bs] fit assms(4,5) by simp
  then show ?thesis
    using header_struct_offset [OF assms(1,2)] placed fit field_offsets_ordered [OF _ assms(2), of _ 0] by auto
qed

end
